(* ===== verification/VcpuPrelude.thy ===== *)
theory VcpuPrelude
  imports Main "HOL-Library.Word"
begin

text \<open>
  Shared ground of the development: the machine integer types of the Rust code, the result type
  that gives every return, error, panic and processor fault of the code a value, the sequencing of
  fallible stateful code (Rust's \<open>?\<close> operator, blocks of statements, \<open>unwrap\<close>), the bit
  accessors of the \<open>bit_field\<close> crate as documented by that crate, and the generic lemmas and fact
  collections the components use.
\<close>

unbundle bit_operations_syntax

section \<open>Machine integers\<close>

type_synonym u8 = "8 word"
type_synonym u16 = "16 word"
type_synonym u32 = "32 word"
type_synonym u64 = "64 word"
type_synonym usize = "64 word"

section \<open>Results\<close>

text \<open>
  \<open>AxError\<close> holds the error kinds the code returns (\<open>axerrno\<close>); \<open>OtherAxError\<close> stands for any kind
  that only external code can produce. A computation returns (\<open>Ok\<close>), fails with an error that
  \<open>?\<close> propagates (\<open>Err\<close>), panics (\<open>panic!\<close>, \<open>unwrap\<close>, \<open>expect\<close>, \<open>unreachable!\<close>, an index out of
  range, a checked overflow), or executes an instruction that the processor rejects with an
  exception (\<open>Fault\<close>: an access to an MSR or XCR the processor does not have).
\<close>

datatype AxError =
    InvalidInput
  | Unsupported
  | BadState
  | ResourceBusy
  | NoMemory
  | OtherAxError string

datatype 'a res = Ok 'a | Err AxError | Panic string | Fault

type_synonym ('s, 'a) prog = "'s \<Rightarrow> 'a res \<times> 's"

definition return :: "'a \<Rightarrow> ('s, 'a) prog" where
  "return x s = (Ok x, s)"

definition raise :: "AxError \<Rightarrow> ('s, 'a) prog" where
  "raise e s = (Err e, s)"

definition panic :: "string \<Rightarrow> ('s, 'a) prog" where
  "panic msg s = (Panic msg, s)"

definition gets :: "('s \<Rightarrow> 'a) \<Rightarrow> ('s, 'a) prog" where
  "gets f s = (Ok (f s), s)"

definition modify :: "('s \<Rightarrow> 's) \<Rightarrow> ('s, unit) prog" where
  "modify f s = (Ok (), f s)"

definition bind :: "('s, 'a) prog \<Rightarrow> ('a \<Rightarrow> ('s, 'b) prog) \<Rightarrow> ('s, 'b) prog" where
  "bind p k s =
     (case p s of
        (Ok x, s') \<Rightarrow> k x s'
      | (Err e, s') \<Rightarrow> (Err e, s')
      | (Panic msg, s') \<Rightarrow> (Panic msg, s')
      | (Fault, s') \<Rightarrow> (Fault, s'))"

text \<open>A block of statements \<open>p1?; p2?; ...\<close>.\<close>

primrec block :: "('s, unit) prog list \<Rightarrow> ('s, unit) prog" where
  "block [] = return ()"
| "block (p # ps) = bind p (\<lambda>_. block ps)"

text \<open>\<open>unwrap\<close> and \<open>expect\<close>: an error becomes a panic.\<close>

definition unwrap :: "('s, 'a) prog \<Rightarrow> ('s, 'a) prog" where
  "unwrap p s = (case p s of (Err e, s') \<Rightarrow> (Panic ''unwrap'', s') | r \<Rightarrow> r)"

text \<open>A result computed without touching the state.\<close>

definition lift :: "'a res \<Rightarrow> ('s, 'a) prog" where
  "lift r s = (r, s)"

text \<open>
  Running a computation on a part of the state: \<open>get\<close> selects the part and \<open>upd\<close> is the record
  update function of that part.
\<close>

definition zoom :: "('s \<Rightarrow> 'p) \<Rightarrow> (('p \<Rightarrow> 'p) \<Rightarrow> 's \<Rightarrow> 's) \<Rightarrow> ('p, 'a) prog \<Rightarrow> ('s, 'a) prog" where
  "zoom get upd p s = (case p (get s) of (r, x) \<Rightarrow> (r, upd (\<lambda>_. x) s))"

text \<open>
  Rust integer addition: with \<open>overflow_checks\<close> (the debug profile) an overflow panics, without
  them (the release profile) it wraps around.
\<close>

definition add_usize :: "bool \<Rightarrow> usize \<Rightarrow> usize \<Rightarrow> usize res" where
  "add_usize overflow_checks a b =
     (if overflow_checks \<and> 2 ^ 64 \<le> unat a + unat b then Panic ''attempt to add with overflow''
      else Ok (a + b))"

definition add_u32 :: "bool \<Rightarrow> u32 \<Rightarrow> u32 \<Rightarrow> u32 res" where
  "add_u32 overflow_checks a b =
     (if overflow_checks \<and> 2 ^ 32 \<le> unat a + unat b then Panic ''attempt to add with overflow''
      else Ok (a + b))"

section \<open>Bit accessors\<close>

text \<open>
  The \<open>bit_field\<close> crate: \<open>get_bit\<close>, \<open>get_bits(lo..hi)\<close>, \<open>set_bit\<close> and \<open>set_bits(lo..hi)\<close>, the
  last of which panics when the value does not fit the range.
\<close>

definition get_bit :: "'a::len word \<Rightarrow> nat \<Rightarrow> bool" where
  "get_bit w n = bit w n"

definition get_bits :: "'a::len word \<Rightarrow> nat \<Rightarrow> nat \<Rightarrow> 'a word" where
  "get_bits w lo hi = drop_bit lo w AND mask (hi - lo)"

definition set_bit_to :: "'a::len word \<Rightarrow> nat \<Rightarrow> bool \<Rightarrow> 'a word" where
  "set_bit_to w n b = (if b then w OR push_bit n 1 else w AND NOT (push_bit n 1))"

definition set_bits_to :: "'a::len word \<Rightarrow> nat \<Rightarrow> nat \<Rightarrow> 'a word \<Rightarrow> 'a word res" where
  "set_bits_to w lo hi v =
     (if v AND mask (hi - lo) = v
      then Ok ((w AND NOT (push_bit lo (mask (hi - lo)))) OR push_bit lo v)
      else Panic ''value does not fit into bit range'')"

text \<open>Little-endian access to a \<open>u32\<close> through a byte pointer.\<close>

definition read_u32_le :: "u8 list \<Rightarrow> u32" where
  "read_u32_le bs =
     ucast (bs ! 0) OR push_bit 8 (ucast (bs ! 1)) OR
     push_bit 16 (ucast (bs ! 2)) OR push_bit 24 (ucast (bs ! 3))"

definition write_u32_le :: "u32 \<Rightarrow> u8 list \<Rightarrow> u8 list" where
  "write_u32_le v bs =
     bs[0 := ucast v, 1 := ucast (drop_bit 8 v), 2 := ucast (drop_bit 16 v),
        3 := ucast (drop_bit 24 v)]"

section \<open>Fact collections\<close>

named_theorems prog_simps \<open>running the sequencing combinators\<close>
named_theorems prog_elims \<open>taking a successful run apart\<close>
named_theorems wbits \<open>bits of the words the code builds\<close>

lemmas prog_defs = return_def raise_def panic_def gets_def modify_def lift_def zoom_def

lemmas [prog_simps] = return_def raise_def panic_def gets_def modify_def lift_def

lemma bind_simps [prog_simps]:
  "p s = (Ok x, s') \<Longrightarrow> bind p k s = k x s'"
  "p s = (Err e, s') \<Longrightarrow> bind p k s = (Err e, s')"
  "p s = (Panic msg, s') \<Longrightarrow> bind p k s = (Panic msg, s')"
  "p s = (Fault, s') \<Longrightarrow> bind p k s = (Fault, s')"
  by (simp_all add: bind_def)

lemma bind_return [simp]: "bind (return x) k = k x"
  by (rule ext) (simp add: bind_def return_def)

lemma bind_raise [simp]: "bind (raise e) k = raise e"
  by (rule ext) (simp add: bind_def raise_def)

lemma bind_panic [simp]: "bind (panic msg) k = panic msg"
  by (rule ext) (simp add: bind_def panic_def)

lemma bind_gets [simp]: "bind (gets f) k s = k (f s) s"
  by (simp add: bind_def gets_def)

lemma bind_modify [simp]: "bind (modify f) k s = k () (f s)"
  by (simp add: bind_def modify_def)

lemma bind_assoc: "bind (bind p k) h = bind p (\<lambda>x. bind (k x) h)"
  by (rule ext) (auto simp: bind_def split: prod.split res.split)

lemma bind_Ok_iff [prog_elims]:
  "bind p k s = (Ok y, t) \<longleftrightarrow> (\<exists>x s'. p s = (Ok x, s') \<and> k x s' = (Ok y, t))"
  by (auto simp: bind_def split: prod.splits res.splits)

lemma bind_cong_run: "p s = q s \<Longrightarrow> bind p k s = bind q k s"
  by (simp add: bind_def)

lemma unwrap_Ok_iff [prog_elims]: "unwrap p s = (Ok y, t) \<longleftrightarrow> p s = (Ok y, t)"
  by (auto simp: unwrap_def split: prod.splits res.splits)

lemma unwrap_simps [prog_simps]:
  "p s = (Ok x, s') \<Longrightarrow> unwrap p s = (Ok x, s')"
  "p s = (Err e, s') \<Longrightarrow> unwrap p s = (Panic ''unwrap'', s')"
  "p s = (Panic msg, s') \<Longrightarrow> unwrap p s = (Panic msg, s')"
  "p s = (Fault, s') \<Longrightarrow> unwrap p s = (Fault, s')"
  by (simp_all add: unwrap_def)

lemma block_append: "block (ps @ qs) = bind (block ps) (\<lambda>_. block qs)"
  by (induction ps) (simp_all add: bind_assoc)

lemma unwrap_never_Err: "fst (unwrap p s) \<noteq> Err e"
  by (auto simp: unwrap_def split: prod.splits res.splits)

section \<open>Lemmas on bits\<close>

lemma get_bits_take_drop: "get_bits w lo hi = take_bit (hi - lo) (drop_bit lo w)"
  by (simp add: get_bits_def take_bit_eq_mask)

lemma bit_get_bits [wbits]:
  "bit (get_bits w lo hi) n \<longleftrightarrow> n < hi - lo \<and> bit w (lo + n)"
  by (auto simp: get_bits_take_drop bit_simps)

lemma bit_set_bit_to [wbits]:
  "bit (set_bit_to (w :: 'a::len word) n b) k \<longleftrightarrow>
     (if k = n \<and> n < LENGTH('a) then b else bit w k)"
  by (auto simp: set_bit_to_def bit_simps dest: bit_imp_le_length)

lemma get_bits_less: "hi - lo < LENGTH('a) \<Longrightarrow> unat (get_bits (w :: 'a::len word) lo hi) < 2 ^ (hi - lo)"
  by (simp add: get_bits_take_drop unsigned_take_bit_eq take_bit_nat_less_exp)

lemma ucast_up_down [simp]:
  "LENGTH('a) \<le> LENGTH('b) \<Longrightarrow> ucast (ucast (v :: 'a::len word) :: 'b::len word) = v"
  by (rule bit_word_eqI) (auto simp: bit_simps)

lemma word_and_eq_self_iff:
  fixes a b :: "'a::len word"
  shows "a AND b = a \<longleftrightarrow> (\<forall>n < LENGTH('a). bit a n \<longrightarrow> bit b n)"
  by (auto simp: bit_eq_iff bit_simps dest: bit_imp_le_length)

lemma word_and_eq_0_iff:
  fixes a b :: "'a::len word"
  shows "a AND b = 0 \<longleftrightarrow> (\<forall>n < LENGTH('a). \<not> (bit a n \<and> bit b n))"
  by (auto simp: bit_eq_iff bit_simps dest: bit_imp_le_length)

end
