(* ===== verification/VmxDefinitions.thy ===== *)
theory VmxDefinitions
  imports VcpuPrelude
begin

text \<open>
  \<open>src/vmx/definitions.rs\<close>: the VM-instruction error numbers and their messages, the basic exit reasons
  and the interruption types. The two enums are generated in the source by \<open>numeric_enum!\<close>, which gives
  each variant its number and a \<open>try_from\<close> on numbers; \<open>numeric_try_from\<close> is that conversion. The
  locale \<open>numeric_enum\<close> states the contract of such an enum and is interpreted on each of them (and in
  later theories on the other numbered enums of the code).
\<close>

section \<open>Numbered enums\<close>

definition numeric_try_from :: "'e list \<Rightarrow> ('e \<Rightarrow> 'n) \<Rightarrow> 'n \<Rightarrow> 'e option" where
  "numeric_try_from variants number n = find (\<lambda>e. number e = n) variants"

section \<open>VM-instruction errors\<close>

datatype VmxInstructionError = VmxInstructionError u32

primrec as_str :: "VmxInstructionError \<Rightarrow> string" where
  "as_str (VmxInstructionError n) =
     (if n = 0 then ''OK''
      else if n = 1 then ''VMCALL executed in VMX root operation''
      else if n = 2 then ''VMCLEAR with invalid physical address''
      else if n = 3 then ''VMCLEAR with VMXON pointer''
      else if n = 4 then ''VMLAUNCH with non-clear VMCS''
      else if n = 5 then ''VMRESUME with non-launched VMCS''
      else if n = 6 then ''VMRESUME after VMXOFF (VMXOFF and VMXON between VMLAUNCH and VMRESUME)''
      else if n = 7 then ''VM entry with invalid control field(s)''
      else if n = 8 then ''VM entry with invalid host-state field(s)''
      else if n = 9 then ''VMPTRLD with invalid physical address''
      else if n = 10 then ''VMPTRLD with VMXON pointer''
      else if n = 11 then ''VMPTRLD with incorrect VMCS revision identifier''
      else if n = 12 then ''VMREAD/VMWRITE from/to unsupported VMCS component''
      else if n = 13 then ''VMWRITE to read-only VMCS component''
      else if n = 15 then ''VMXON executed in VMX root operation''
      else if n = 16 then ''VM entry with invalid executive-VMCS pointer''
      else if n = 17 then ''VM entry with non-launched executive VMCS''
      else if n = 18 then ''VM entry with executive-VMCS pointer not VMXON pointer (when attempting to deactivate the dual-monitor treatment of SMIs and SMM)''
      else if n = 19 then ''VMCALL with non-clear VMCS (when attempting to activate the dual-monitor treatment of SMIs and SMM)''
      else if n = 20 then ''VMCALL with invalid VM-exit control fields''
      else if n = 22 then ''VMCALL with incorrect MSEG revision identifier (when attempting to activate the dual-monitor treatment of SMIs and SMM)''
      else if n = 23 then ''VMXOFF under dual-monitor treatment of SMIs and SMM''
      else if n = 24 then ''VMCALL with invalid SMM-monitor features (when attempting to activate the dual-monitor treatment of SMIs and SMM)''
      else if n = 25 then ''VM entry with invalid VM-execution control fields in executive VMCS (when attempting to return from SMM)''
      else if n = 26 then ''VM entry with events blocked by MOV SS''
      else if n = 28 then ''Invalid operand to INVEPT/INVVPID''
      else ''[INVALID]'')"

definition VmxInstructionError_from :: "u32 \<Rightarrow> VmxInstructionError" where
  "VmxInstructionError_from value = VmxInstructionError value"

text \<open>
  The \<open>Debug\<close> output. An unsigned integer prints as its decimal digits, a string in quotation marks; no message
  of \<open>as_str\<close> has a character that the format would escape.
\<close>

fun decimal :: "nat \<Rightarrow> string" where
  "decimal n = (if n < 10 then [char_of (48 + n)] else decimal (n div 10) @ [char_of (48 + n mod 10)])"

primrec VmxInstructionError_fmt :: "VmxInstructionError \<Rightarrow> string" where
  "VmxInstructionError_fmt (VmxInstructionError n) =
     ''VmxInstructionError('' @ decimal (unat n) @ '', '' @ CHR 0x22 # as_str (VmxInstructionError n) @ [CHR 0x22, CHR '')'']"

declare decimal.simps [simp del]

section \<open>Basic exit reasons\<close>

datatype (plugins only: code) VmxExitReason =
    EXCEPTION_NMI | EXTERNAL_INTERRUPT | TRIPLE_FAULT | INIT | SIPI | SMI | OTHER_SMI
    | INTERRUPT_WINDOW | NMI_WINDOW | TASK_SWITCH | CPUID | GETSEC | HLT | INVD | INVLPG | RDPMC
    | RDTSC | RSM | VMCALL | VMCLEAR | VMLAUNCH | VMPTRLD | VMPTRST | VMREAD | VMRESUME | VMWRITE
    | VMOFF | VMON | CR_ACCESS | DR_ACCESS | IO_INSTRUCTION | MSR_READ | MSR_WRITE
    | INVALID_GUEST_STATE | MSR_LOAD_FAIL | MWAIT_INSTRUCTION | MONITOR_TRAP_FLAG
    | MONITOR_INSTRUCTION | PAUSE_INSTRUCTION | MCE_DURING_VMENTRY | TPR_BELOW_THRESHOLD
    | APIC_ACCESS | VIRTUALIZED_EOI | GDTR_IDTR | LDTR_TR | EPT_VIOLATION | EPT_MISCONFIG
    | INVEPT | RDTSCP | PREEMPTION_TIMER | INVVPID | WBINVD | XSETBV | APIC_WRITE | RDRAND
    | INVPCID | VMFUNC | ENCLS | RDSEED | PML_FULL | XSAVES | XRSTORS | PCONFIG | SPP_EVENT
    | UMWAIT | TPAUSE | LOADIWKEY

primrec VmxExitReason_number :: "VmxExitReason \<Rightarrow> u32" where
  "VmxExitReason_number EXCEPTION_NMI = 0"
| "VmxExitReason_number EXTERNAL_INTERRUPT = 1"
| "VmxExitReason_number TRIPLE_FAULT = 2"
| "VmxExitReason_number INIT = 3"
| "VmxExitReason_number SIPI = 4"
| "VmxExitReason_number SMI = 5"
| "VmxExitReason_number OTHER_SMI = 6"
| "VmxExitReason_number INTERRUPT_WINDOW = 7"
| "VmxExitReason_number NMI_WINDOW = 8"
| "VmxExitReason_number TASK_SWITCH = 9"
| "VmxExitReason_number CPUID = 10"
| "VmxExitReason_number GETSEC = 11"
| "VmxExitReason_number HLT = 12"
| "VmxExitReason_number INVD = 13"
| "VmxExitReason_number INVLPG = 14"
| "VmxExitReason_number RDPMC = 15"
| "VmxExitReason_number RDTSC = 16"
| "VmxExitReason_number RSM = 17"
| "VmxExitReason_number VMCALL = 18"
| "VmxExitReason_number VMCLEAR = 19"
| "VmxExitReason_number VMLAUNCH = 20"
| "VmxExitReason_number VMPTRLD = 21"
| "VmxExitReason_number VMPTRST = 22"
| "VmxExitReason_number VMREAD = 23"
| "VmxExitReason_number VMRESUME = 24"
| "VmxExitReason_number VMWRITE = 25"
| "VmxExitReason_number VMOFF = 26"
| "VmxExitReason_number VMON = 27"
| "VmxExitReason_number CR_ACCESS = 28"
| "VmxExitReason_number DR_ACCESS = 29"
| "VmxExitReason_number IO_INSTRUCTION = 30"
| "VmxExitReason_number MSR_READ = 31"
| "VmxExitReason_number MSR_WRITE = 32"
| "VmxExitReason_number INVALID_GUEST_STATE = 33"
| "VmxExitReason_number MSR_LOAD_FAIL = 34"
| "VmxExitReason_number MWAIT_INSTRUCTION = 36"
| "VmxExitReason_number MONITOR_TRAP_FLAG = 37"
| "VmxExitReason_number MONITOR_INSTRUCTION = 39"
| "VmxExitReason_number PAUSE_INSTRUCTION = 40"
| "VmxExitReason_number MCE_DURING_VMENTRY = 41"
| "VmxExitReason_number TPR_BELOW_THRESHOLD = 43"
| "VmxExitReason_number APIC_ACCESS = 44"
| "VmxExitReason_number VIRTUALIZED_EOI = 45"
| "VmxExitReason_number GDTR_IDTR = 46"
| "VmxExitReason_number LDTR_TR = 47"
| "VmxExitReason_number EPT_VIOLATION = 48"
| "VmxExitReason_number EPT_MISCONFIG = 49"
| "VmxExitReason_number INVEPT = 50"
| "VmxExitReason_number RDTSCP = 51"
| "VmxExitReason_number PREEMPTION_TIMER = 52"
| "VmxExitReason_number INVVPID = 53"
| "VmxExitReason_number WBINVD = 54"
| "VmxExitReason_number XSETBV = 55"
| "VmxExitReason_number APIC_WRITE = 56"
| "VmxExitReason_number RDRAND = 57"
| "VmxExitReason_number INVPCID = 58"
| "VmxExitReason_number VMFUNC = 59"
| "VmxExitReason_number ENCLS = 60"
| "VmxExitReason_number RDSEED = 61"
| "VmxExitReason_number PML_FULL = 62"
| "VmxExitReason_number XSAVES = 63"
| "VmxExitReason_number XRSTORS = 64"
| "VmxExitReason_number PCONFIG = 65"
| "VmxExitReason_number SPP_EVENT = 66"
| "VmxExitReason_number UMWAIT = 67"
| "VmxExitReason_number TPAUSE = 68"
| "VmxExitReason_number LOADIWKEY = 69"

definition VmxExitReason_variants :: "VmxExitReason list" where
  "VmxExitReason_variants =
     [EXCEPTION_NMI, EXTERNAL_INTERRUPT, TRIPLE_FAULT, INIT, SIPI, SMI, OTHER_SMI,
     INTERRUPT_WINDOW, NMI_WINDOW, TASK_SWITCH, CPUID, GETSEC, HLT, INVD, INVLPG, RDPMC, RDTSC,
     RSM, VMCALL, VMCLEAR, VMLAUNCH, VMPTRLD, VMPTRST, VMREAD, VMRESUME, VMWRITE, VMOFF, VMON,
     CR_ACCESS, DR_ACCESS, IO_INSTRUCTION, MSR_READ, MSR_WRITE, INVALID_GUEST_STATE,
     MSR_LOAD_FAIL, MWAIT_INSTRUCTION, MONITOR_TRAP_FLAG, MONITOR_INSTRUCTION, PAUSE_INSTRUCTION,
     MCE_DURING_VMENTRY, TPR_BELOW_THRESHOLD, APIC_ACCESS, VIRTUALIZED_EOI, GDTR_IDTR, LDTR_TR,
     EPT_VIOLATION, EPT_MISCONFIG, INVEPT, RDTSCP, PREEMPTION_TIMER, INVVPID, WBINVD, XSETBV,
     APIC_WRITE, RDRAND, INVPCID, VMFUNC, ENCLS, RDSEED, PML_FULL, XSAVES, XRSTORS, PCONFIG,
     SPP_EVENT, UMWAIT, TPAUSE, LOADIWKEY]"

definition VmxExitReason_try_from :: "u32 \<Rightarrow> VmxExitReason option" where
  "VmxExitReason_try_from = numeric_try_from VmxExitReason_variants VmxExitReason_number"

section \<open>Interruption types\<close>

datatype VmxInterruptionType =
    External | Reserved | NMI | HardException | SoftIntr | PrivSoftException | SoftException
    | Other

primrec VmxInterruptionType_number :: "VmxInterruptionType \<Rightarrow> u8" where
  "VmxInterruptionType_number External = 0"
| "VmxInterruptionType_number Reserved = 1"
| "VmxInterruptionType_number NMI = 2"
| "VmxInterruptionType_number HardException = 3"
| "VmxInterruptionType_number SoftIntr = 4"
| "VmxInterruptionType_number PrivSoftException = 5"
| "VmxInterruptionType_number SoftException = 6"
| "VmxInterruptionType_number Other = 7"

definition VmxInterruptionType_variants :: "VmxInterruptionType list" where
  "VmxInterruptionType_variants =
     [External, Reserved, NMI, HardException, SoftIntr, PrivSoftException, SoftException, Other]"

definition VmxInterruptionType_try_from :: "u8 \<Rightarrow> VmxInterruptionType option" where
  "VmxInterruptionType_try_from =
     numeric_try_from VmxInterruptionType_variants VmxInterruptionType_number"

text \<open>
  The vectors the source names through \<open>x86::irq\<close>; the numbers are those of the architecture.
\<close>

abbreviation (input) DEBUG_VECTOR :: u8 where "DEBUG_VECTOR \<equiv> 1"
abbreviation (input) NONMASKABLE_INTERRUPT_VECTOR :: u8 where "NONMASKABLE_INTERRUPT_VECTOR \<equiv> 2"
abbreviation (input) BREAKPOINT_VECTOR :: u8 where "BREAKPOINT_VECTOR \<equiv> 3"
abbreviation (input) OVERFLOW_VECTOR :: u8 where "OVERFLOW_VECTOR \<equiv> 4"
abbreviation (input) DOUBLE_FAULT_VECTOR :: u8 where "DOUBLE_FAULT_VECTOR \<equiv> 8"
abbreviation (input) INVALID_TSS_VECTOR :: u8 where "INVALID_TSS_VECTOR \<equiv> 10"
abbreviation (input) SEGMENT_NOT_PRESENT_VECTOR :: u8 where "SEGMENT_NOT_PRESENT_VECTOR \<equiv> 11"
abbreviation (input) STACK_SEGEMENT_FAULT_VECTOR :: u8 where "STACK_SEGEMENT_FAULT_VECTOR \<equiv> 12"
abbreviation (input) GENERAL_PROTECTION_FAULT_VECTOR :: u8 where "GENERAL_PROTECTION_FAULT_VECTOR \<equiv> 13"
abbreviation (input) PAGE_FAULT_VECTOR :: u8 where "PAGE_FAULT_VECTOR \<equiv> 14"
abbreviation (input) ALIGNMENT_CHECK_VECTOR :: u8 where "ALIGNMENT_CHECK_VECTOR \<equiv> 17"
abbreviation (input) VIRTUALIZATION_VECTOR :: u8 where "VIRTUALIZATION_VECTOR \<equiv> 20"

definition vector_has_error_code :: "u8 \<Rightarrow> bool" where
  "vector_has_error_code vector \<longleftrightarrow>
     vector = DOUBLE_FAULT_VECTOR \<or> vector = INVALID_TSS_VECTOR \<or>
     vector = SEGMENT_NOT_PRESENT_VECTOR \<or> vector = STACK_SEGEMENT_FAULT_VECTOR \<or>
     vector = GENERAL_PROTECTION_FAULT_VECTOR \<or> vector = PAGE_FAULT_VECTOR \<or>
     vector = ALIGNMENT_CHECK_VECTOR"

definition from_vector :: "u8 \<Rightarrow> VmxInterruptionType" where
  "from_vector vector =
     (if vector = DEBUG_VECTOR then PrivSoftException
      else if vector = NONMASKABLE_INTERRUPT_VECTOR then NMI
      else if vector = BREAKPOINT_VECTOR \<or> vector = OVERFLOW_VECTOR then SoftException
      else if vector \<le> VIRTUALIZATION_VECTOR then HardException
      else if 32 \<le> vector then External
      else Other)"

definition is_soft :: "VmxInterruptionType \<Rightarrow> bool" where
  "is_soft t \<longleftrightarrow> t = SoftIntr \<or> t = SoftException \<or> t = PrivSoftException"

section \<open>What a numbered enum promises\<close>

locale numeric_enum =
  fixes number :: "'e \<Rightarrow> 'n"
    and try_from :: "'n \<Rightarrow> 'e option"
  assumes try_from_number: "try_from (number e) = Some e"
    and number_try_from: "try_from n = Some e \<Longrightarrow> number e = n"
begin

lemma number_inj: "inj number"
  by (rule injI) (metis option.inject try_from_number)

lemma number_eq_iff: "number a = number b \<longleftrightarrow> a = b"
  using number_inj by (auto dest: injD)

lemma try_from_Some_iff: "try_from n = Some e \<longleftrightarrow> n = number e"
  using try_from_number number_try_from by auto

lemma try_from_None_iff: "try_from n = None \<longleftrightarrow> n \<notin> range number"
  by (metis not_None_eq rangeE rangeI try_from_Some_iff)

end

lemma numeric_enumI:
  assumes "distinct (map number variants)" "set variants = UNIV"
  shows "numeric_enum number (numeric_try_from variants number)"
proof
  fix e
  have "e \<in> set variants" using assms(2) by simp
  then show "numeric_try_from variants number (number e) = Some e"
    using assms(1) unfolding numeric_try_from_def
    by (induction variants) (auto simp: image_iff)
next
  fix n e
  assume "numeric_try_from variants number n = Some e"
  then show "number e = n" by (auto simp: numeric_try_from_def find_Some_iff)
qed

lemma VmxExitReason_variants_UNIV: "set VmxExitReason_variants = UNIV"
proof (rule UNIV_eq_I [symmetric])
  fix e show "e \<in> set VmxExitReason_variants"
    by (cases e) (simp_all add: VmxExitReason_variants_def)
qed

lemma VmxInterruptionType_variants_UNIV: "set VmxInterruptionType_variants = UNIV"
proof (rule UNIV_eq_I [symmetric])
  fix e show "e \<in> set VmxInterruptionType_variants"
    by (cases e) (simp_all add: VmxInterruptionType_variants_def)
qed

interpretation exit_reasons: numeric_enum VmxExitReason_number VmxExitReason_try_from
  unfolding VmxExitReason_try_from_def
  by (rule numeric_enumI [OF _ VmxExitReason_variants_UNIV])
    (simp add: VmxExitReason_variants_def)

interpretation int_types: numeric_enum VmxInterruptionType_number VmxInterruptionType_try_from
  unfolding VmxInterruptionType_try_from_def
  by (rule numeric_enumI [OF _ VmxInterruptionType_variants_UNIV])
    (simp add: VmxInterruptionType_variants_def)

lemmas VmxExitReason_number_inject [simp] = exit_reasons.number_eq_iff
lemmas VmxInterruptionType_number_inject [simp] = int_types.number_eq_iff

instantiation VmxInterruptionType :: enum
begin

definition enum_VmxInterruptionType :: "VmxInterruptionType list" where
  "enum_VmxInterruptionType = VmxInterruptionType_variants"

definition enum_all_VmxInterruptionType :: "(VmxInterruptionType \<Rightarrow> bool) \<Rightarrow> bool" where
  "enum_all_VmxInterruptionType P = list_all P VmxInterruptionType_variants"

definition enum_ex_VmxInterruptionType :: "(VmxInterruptionType \<Rightarrow> bool) \<Rightarrow> bool" where
  "enum_ex_VmxInterruptionType P = list_ex P VmxInterruptionType_variants"

instance
  by standard
    (simp_all only: enum_VmxInterruptionType_def enum_all_VmxInterruptionType_def
      enum_ex_VmxInterruptionType_def VmxInterruptionType_variants_UNIV list_all_iff list_ex_iff,
     simp_all add: VmxInterruptionType_variants_def)

end

section \<open>Interruption types fit their field\<close>

lemma VmxInterruptionType_number_less: "VmxInterruptionType_number t < 8"
  by (cases t) simp_all

lemma vector_has_error_code_exception: "vector_has_error_code v \<Longrightarrow> from_vector v = HardException"
  by (auto simp: vector_has_error_code_def from_vector_def)

lemma is_soft_from_vector: "is_soft (from_vector v) \<longleftrightarrow> v = 1 \<or> v = 3 \<or> v = 4"
  by (auto simp: is_soft_def from_vector_def)

lemma as_str_defined_iff:
  "as_str (VmxInstructionError n) = ''[INVALID]'' \<longleftrightarrow> n = 14 \<or> n = 21 \<or> n = 27 \<or> 28 < n"
proof -
  have "n \<in> {0, 1, 2, 3, 4, 5, 6, 7, 8, 9, 10, 11, 12, 13, 14, 15, 16, 17, 18, 19, 20, 21, 22, 23,
      24, 25, 26, 27, 28} \<or> 28 < n"
    by (simp add: word_less_nat_alt word_unat_eq_iff) arith
  then show ?thesis by (auto simp: word_less_nat_alt)
qed

text \<open>The number that is printed can be read back, so that different errors print differently.\<close>

definition digits_value :: "string \<Rightarrow> nat" where
  "digits_value ds = foldl (\<lambda>n d. 10 * n + (of_char d - 48)) 0 ds"

lemma decimal_value [simp]: "digits_value (decimal n) = n"
  by (induction n rule: decimal.induct) (subst decimal.simps, simp add: digits_value_def)

lemma decimal_digit: "d \<in> set (decimal n) \<Longrightarrow> d \<noteq> CHR '',''"
proof (induction n rule: decimal.induct)
  case (1 n)
  have sep: "char_of (48 + k) \<noteq> CHR '',''" if "k < 10" for k :: nat
  proof
    assume "char_of (48 + k) = CHR '',''"
    then have "(of_char (char_of (48 + k) :: char) :: nat) = 44" by simp
    then show False using that by (simp add: of_char_of)
  qed
  have "set (decimal n) =
      (if n < 10 then {char_of (48 + n)} else insert (char_of (48 + n mod 10)) (set (decimal (n div 10))))"
    by (subst decimal.simps) simp
  then show ?case using 1 sep [of n] sep [of "n mod 10"] by (auto split: if_splits)
qed

lemma VmxInstructionError_fmt_inj: "inj VmxInstructionError_fmt"
proof (rule injI)
  fix e e' assume eq: "VmxInstructionError_fmt e = VmxInstructionError_fmt e'"
  obtain n n' where [simp]: "e = VmxInstructionError n" "e' = VmxInstructionError n'" by (cases e; cases e') blast
  have digits: "takeWhile (\<lambda>c. c \<noteq> CHR '','') (decimal k @ '', '' @ r) = decimal k" for k r
    by (simp add: takeWhile_append decimal_digit)
  from eq have "decimal (unat n) @ '', '' @ CHR 0x22 # as_str e @ [CHR 0x22, CHR '')''] =
      decimal (unat n') @ '', '' @ CHR 0x22 # as_str e' @ [CHR 0x22, CHR '')'']"
    by (simp del: as_str.simps)
  then have "decimal (unat n) = decimal (unat n')" using digits by metis
  then show "e = e'" using decimal_value by (metis \<open>e = _\<close> \<open>e' = _\<close> word_unat_eq_iff)
qed

end
