(* ===== verification/Registers.thy ===== *)
theory Registers
  imports VcpuPrelude
begin

text \<open>
  The general-purpose registers: \<open>src/regs/mod.rs\<close> (the struct and the register names),
  \<open>src/regs/accessors.rs\<close> (access by index, the sub-register getters and setters that the macro
  \<open>define_reg_getter_setters\<close> generates, \<open>get_edx_eax\<close>) and \<open>src/regs/diff.rs\<close> (the comparison of
  two register files). The locale \<open>indexed_file\<close> states what an indexed register file promises and
  \<open>subreg\<close>/\<open>subreg_merge\<close> what a sub-register promises; both are interpreted on the definitions below.
\<close>

section \<open>The register file\<close>

record GeneralRegisters =
  rax :: u64
  rcx :: u64
  rdx :: u64
  rbx :: u64
  unused_rsp :: u64
  rbp :: u64
  rsi :: u64
  rdi :: u64
  r8 :: u64
  r9 :: u64
  r10 :: u64
  r11 :: u64
  r12 :: u64
  r13 :: u64
  r14 :: u64
  r15 :: u64

definition GeneralRegisters_default :: GeneralRegisters where
  "GeneralRegisters_default =
     \<lparr>rax = 0, rcx = 0, rdx = 0, rbx = 0, unused_rsp = 0, rbp = 0, rsi = 0, rdi = 0,
      r8 = 0, r9 = 0, r10 = 0, r11 = 0, r12 = 0, r13 = 0, r14 = 0, r15 = 0\<rparr>"

definition REGISTER_NAMES :: "string list" where
  "REGISTER_NAMES =
     [''rax'', ''rcx'', ''rdx'', ''rbx'', ''rsp'', ''rbp'', ''rsi'', ''rdi'', ''r8'', ''r9'',
      ''r10'', ''r11'', ''r12'', ''r13'', ''r14'', ''r15'']"

definition register_name :: "u8 \<Rightarrow> string res" where
  "register_name index =
     (if unat index < length REGISTER_NAMES then Ok (REGISTER_NAMES ! unat index)
      else Panic ''index out of bounds'')"

section \<open>Access by index\<close>

definition get_reg_of_index :: "GeneralRegisters \<Rightarrow> u8 \<Rightarrow> u64 res" where
  "get_reg_of_index r index =
     (if index = 0 then Ok (rax r)
      else if index = 1 then Ok (rcx r)
      else if index = 2 then Ok (rdx r)
      else if index = 3 then Ok (rbx r)
      else if index = 5 then Ok (rbp r)
      else if index = 6 then Ok (rsi r)
      else if index = 7 then Ok (rdi r)
      else if index = 8 then Ok (r8 r)
      else if index = 9 then Ok (r9 r)
      else if index = 10 then Ok (r10 r)
      else if index = 11 then Ok (r11 r)
      else if index = 12 then Ok (r12 r)
      else if index = 13 then Ok (r13 r)
      else if index = 14 then Ok (r14 r)
      else if index = 15 then Ok (r15 r)
      else Panic ''Illegal index of GeneralRegisters'')"

definition set_reg_of_index :: "GeneralRegisters \<Rightarrow> u8 \<Rightarrow> u64 \<Rightarrow> GeneralRegisters res" where
  "set_reg_of_index r index v =
     (if index = 0 then Ok (r\<lparr>rax := v\<rparr>)
      else if index = 1 then Ok (r\<lparr>rcx := v\<rparr>)
      else if index = 2 then Ok (r\<lparr>rdx := v\<rparr>)
      else if index = 3 then Ok (r\<lparr>rbx := v\<rparr>)
      else if index = 5 then Ok (r\<lparr>rbp := v\<rparr>)
      else if index = 6 then Ok (r\<lparr>rsi := v\<rparr>)
      else if index = 7 then Ok (r\<lparr>rdi := v\<rparr>)
      else if index = 8 then Ok (r\<lparr>r8 := v\<rparr>)
      else if index = 9 then Ok (r\<lparr>r9 := v\<rparr>)
      else if index = 10 then Ok (r\<lparr>r10 := v\<rparr>)
      else if index = 11 then Ok (r\<lparr>r11 := v\<rparr>)
      else if index = 12 then Ok (r\<lparr>r12 := v\<rparr>)
      else if index = 13 then Ok (r\<lparr>r13 := v\<rparr>)
      else if index = 14 then Ok (r\<lparr>r14 := v\<rparr>)
      else if index = 15 then Ok (r\<lparr>r15 := v\<rparr>)
      else Panic ''Illegal index of GeneralRegisters'')"

text \<open>The indices the two functions accept, in the words of their documentation.\<close>

definition reg_index_ok :: "u8 \<Rightarrow> bool" where
  "reg_index_ok index \<longleftrightarrow> index < 16 \<and> index \<noteq> 4"

section \<open>Sub-registers\<close>

text \<open>
  \<open>Gpr\<close> names the fields the macro is instantiated for (its \<open>$from\<close> argument). \<open>reg_getter\<close> and
  \<open>reg_setter\<close> are the bodies of \<open>__impl_getter\<close> and \<open>__impl_setter\<close>; the four instantiations of the
  macro follow, with the type, the bit range and the \<open>clear_other_bits\<close> flag of the source.
\<close>

datatype Gpr = RAX | RCX | RDX | RBX | RBP | RSI | RDI | R8 | R9 | R10 | R11 | R12 | R13 | R14 | R15

fun reg_field :: "Gpr \<Rightarrow> GeneralRegisters \<Rightarrow> u64" where
  "reg_field RAX = rax" | "reg_field RCX = rcx" | "reg_field RDX = rdx" | "reg_field RBX = rbx"
| "reg_field RBP = rbp" | "reg_field RSI = rsi" | "reg_field RDI = rdi" | "reg_field R8 = r8"
| "reg_field R9 = r9" | "reg_field R10 = r10" | "reg_field R11 = r11" | "reg_field R12 = r12"
| "reg_field R13 = r13" | "reg_field R14 = r14" | "reg_field R15 = r15"

fun reg_field_update :: "Gpr \<Rightarrow> (u64 \<Rightarrow> u64) \<Rightarrow> GeneralRegisters \<Rightarrow> GeneralRegisters" where
  "reg_field_update RAX = rax_update" | "reg_field_update RCX = rcx_update"
| "reg_field_update RDX = rdx_update" | "reg_field_update RBX = rbx_update"
| "reg_field_update RBP = rbp_update" | "reg_field_update RSI = rsi_update"
| "reg_field_update RDI = rdi_update" | "reg_field_update R8 = r8_update"
| "reg_field_update R9 = r9_update" | "reg_field_update R10 = r10_update"
| "reg_field_update R11 = r11_update" | "reg_field_update R12 = r12_update"
| "reg_field_update R13 = r13_update" | "reg_field_update R14 = r14_update"
| "reg_field_update R15 = r15_update"

definition reg_getter :: "nat \<Rightarrow> nat \<Rightarrow> u64 \<Rightarrow> u64" where
  "reg_getter bits_start bits_end from_reg =
     (let MASK = push_bit (bits_end - bits_start) 1 - 1
      in drop_bit bits_start from_reg AND MASK)"

definition reg_setter :: "bool \<Rightarrow> nat \<Rightarrow> nat \<Rightarrow> u64 \<Rightarrow> u64 \<Rightarrow> u64" where
  "reg_setter clear_other_bits bits_start bits_end from_reg v =
     (if clear_other_bits then push_bit bits_start v
      else let MASK = push_bit bits_start (push_bit (bits_end - bits_start) 1 - 1)
           in (from_reg AND NOT MASK) OR push_bit bits_start v)"

definition reg32 :: "Gpr \<Rightarrow> GeneralRegisters \<Rightarrow> u32" where
  "reg32 g r = ucast (reg_getter 0 32 (reg_field g r))"

definition set_reg32 :: "Gpr \<Rightarrow> u32 \<Rightarrow> GeneralRegisters \<Rightarrow> GeneralRegisters" where
  "set_reg32 g v = reg_field_update g (\<lambda>x. reg_setter True 0 32 x (ucast v))"

definition reg16 :: "Gpr \<Rightarrow> GeneralRegisters \<Rightarrow> u16" where
  "reg16 g r = ucast (reg_getter 0 16 (reg_field g r))"

definition set_reg16 :: "Gpr \<Rightarrow> u16 \<Rightarrow> GeneralRegisters \<Rightarrow> GeneralRegisters" where
  "set_reg16 g v = reg_field_update g (\<lambda>x. reg_setter False 0 16 x (ucast v))"

definition reg8 :: "Gpr \<Rightarrow> GeneralRegisters \<Rightarrow> u8" where
  "reg8 g r = ucast (reg_getter 0 8 (reg_field g r))"

definition set_reg8 :: "Gpr \<Rightarrow> u8 \<Rightarrow> GeneralRegisters \<Rightarrow> GeneralRegisters" where
  "set_reg8 g v = reg_field_update g (\<lambda>x. reg_setter False 0 8 x (ucast v))"

text \<open>The source generates the high-byte accessors for \<open>rax\<close>, \<open>rcx\<close>, \<open>rdx\<close> and \<open>rbx\<close> only.\<close>

definition reg8h :: "Gpr \<Rightarrow> GeneralRegisters \<Rightarrow> u8" where
  "reg8h g r = ucast (reg_getter 8 16 (reg_field g r))"

definition set_reg8h :: "Gpr \<Rightarrow> u8 \<Rightarrow> GeneralRegisters \<Rightarrow> GeneralRegisters" where
  "set_reg8h g v = reg_field_update g (\<lambda>x. reg_setter False 8 16 x (ucast v))"

definition get_edx_eax :: "GeneralRegisters \<Rightarrow> u64" where
  "get_edx_eax r = push_bit 32 (ucast (reg32 RDX r)) OR ucast (reg32 RAX r)"

section \<open>Register differences\<close>

record GeneralRegistersDiff =
  old_regs :: GeneralRegisters
  new_regs :: GeneralRegisters

definition INDEX_RANGE :: "u8 list" where
  "INDEX_RANGE = map of_nat [0..<16]"

definition RSP_INDEX :: u8 where
  "RSP_INDEX = 4"

definition diff_new :: "GeneralRegisters \<Rightarrow> GeneralRegisters \<Rightarrow> GeneralRegistersDiff" where
  "diff_new old new = \<lparr>old_regs = old, new_regs = new\<rparr>"

definition is_same :: "GeneralRegistersDiff \<Rightarrow> bool" where
  "is_same d \<longleftrightarrow> old_regs d = new_regs d"

text \<open>
  The loop of \<open>GeneralRegistersDiff::fmt\<close>: the fields it prints, each a register name with the old and
  the new value.
\<close>

fun diff_fields :: "GeneralRegistersDiff \<Rightarrow> u8 list \<Rightarrow> (string \<times> u64 \<times> u64) list res" where
  "diff_fields d [] = Ok []"
| "diff_fields d (i # is) =
     (if i = RSP_INDEX then diff_fields d is
      else case get_reg_of_index (old_regs d) i of
          Ok old \<Rightarrow>
            (case get_reg_of_index (new_regs d) i of
               Ok new \<Rightarrow>
                 (if old \<noteq> new
                  then case register_name i of
                      Ok name \<Rightarrow>
                        (case diff_fields d is of Ok fs \<Rightarrow> Ok ((name, old, new) # fs) | e \<Rightarrow> e)
                    | Err e \<Rightarrow> Err e | Panic msg \<Rightarrow> Panic msg | Fault \<Rightarrow> Fault
                  else diff_fields d is)
             | Err e \<Rightarrow> Err e | Panic msg \<Rightarrow> Panic msg | Fault \<Rightarrow> Fault)
        | Err e \<Rightarrow> Err e | Panic msg \<Rightarrow> Panic msg | Fault \<Rightarrow> Fault)"

definition diff_fmt :: "GeneralRegistersDiff \<Rightarrow> (string \<times> u64 \<times> u64) list res" where
  "diff_fmt d = diff_fields d INDEX_RANGE"

section \<open>What an indexed register file promises\<close>

locale indexed_file =
  fixes get_at :: "'f \<Rightarrow> 'i \<Rightarrow> 'v res"
    and set_at :: "'f \<Rightarrow> 'i \<Rightarrow> 'v \<Rightarrow> 'f res"
    and valid :: "'i \<Rightarrow> bool"
  assumes get_valid: "valid i \<Longrightarrow> \<exists>v. get_at f i = Ok v"
    and get_invalid: "\<not> valid i \<Longrightarrow> \<exists>msg. get_at f i = Panic msg"
    and set_valid: "valid i \<Longrightarrow> \<exists>f'. set_at f i v = Ok f'"
    and set_invalid: "\<not> valid i \<Longrightarrow> \<exists>msg. set_at f i v = Panic msg"
    and get_set: "valid i \<Longrightarrow> set_at f i v = Ok f' \<Longrightarrow>
      get_at f' j = (if j = i then Ok v else get_at f j)"
begin

lemma set_Ok_valid: "set_at f i v = Ok f' \<Longrightarrow> valid i"
  using set_invalid [of i f v] by auto

lemma get_Ok_valid: "get_at f i = Ok v \<Longrightarrow> valid i"
  using get_invalid [of i f] by auto

text \<open>Storing a list of entries, in order, stopping at the first failure.\<close>

primrec set_many :: "'f \<Rightarrow> ('i \<times> 'v) list \<Rightarrow> 'f res" where
  "set_many f [] = Ok f"
| "set_many f (e # es) =
     (case set_at f (fst e) (snd e) of
        Ok f' \<Rightarrow> set_many f' es
      | Err x \<Rightarrow> Err x | Panic msg \<Rightarrow> Panic msg | Fault \<Rightarrow> Fault)"

lemma set_many_total:
  "\<forall>e \<in> set es. valid (fst e) \<Longrightarrow> \<exists>f'. set_many f es = Ok f'"
proof (induction es arbitrary: f)
  case (Cons e es)
  from Cons.prems obtain f1 where "set_at f (fst e) (snd e) = Ok f1"
    using set_valid [of "fst e" f "snd e"] by auto
  with Cons show ?case by auto
qed simp

lemma get_set_many:
  "set_many f es = Ok f' \<Longrightarrow> distinct (map fst es) \<Longrightarrow>
   get_at f' j = (case map_of es j of Some v \<Rightarrow> Ok v | None \<Rightarrow> get_at f j)"
proof (induction es arbitrary: f)
  case (Cons e es)
  from Cons.prems(1) obtain f1 where f1: "set_at f (fst e) (snd e) = Ok f1"
    and rest: "set_many f1 es = Ok f'"
    by (auto split: res.splits)
  have ih: "get_at f' j = (case map_of es j of Some v \<Rightarrow> Ok v | None \<Rightarrow> get_at f1 j)"
    using Cons.IH [OF rest] Cons.prems(2) by simp
  have "map_of es (fst e) = None"
    using Cons.prems(2) by (simp add: map_of_eq_None_iff)
  with ih get_set [OF set_Ok_valid [OF f1] f1, of j] show ?case
    by (cases e) (auto split: option.splits)
qed simp

end

section \<open>What a sub-register promises\<close>

text \<open>
  \<open>getter\<close> and \<open>setter\<close> act on the full register; \<open>keep\<close> masks the bits a write leaves alone. A
  sub-register that merges also leaves the register as it is when its own value is written back.
\<close>

locale subreg =
  fixes getter :: "u64 \<Rightarrow> 'w::len word"
    and setter :: "u64 \<Rightarrow> 'w word \<Rightarrow> u64"
    and keep :: u64
  assumes get_set: "getter (setter x v) = v"
    and set_keep: "setter x v AND keep = x AND keep"
    and set_indep: "x AND keep = y AND keep \<Longrightarrow> setter x v = setter y v"
begin

lemma set_set: "setter (setter x v) w = setter x w"
  by (rule set_indep) (rule set_keep)

lemma set_inject: "setter x v = setter x w \<longleftrightarrow> v = w"
  by (metis get_set)

end

locale subreg_merge = subreg +
  assumes set_get: "setter x (getter x) = x"
begin

lemma set_same_iff: "setter x v = x \<longleftrightarrow> v = getter x"
  by (metis get_set set_get)

end

section \<open>The laws hold\<close>

lemma reg_field_laws [simp]:
  "reg_field g (reg_field_update g f r) = f (reg_field g r)"
  "unused_rsp (reg_field_update g f r) = unused_rsp r"
  by (cases g; simp)+

lemma reg_field_update_other [simp]:
  "g \<noteq> h \<Longrightarrow> reg_field h (reg_field_update g f r) = reg_field h r"
  by (cases g; cases h; simp)

lemma reg_field_ext:
  "(\<And>g. reg_field g r = reg_field g r') \<Longrightarrow> unused_rsp r = unused_rsp r' \<Longrightarrow> r = r'"
  using reg_field.simps by (metis (full_types) GeneralRegisters.equality unit.exhaust)

text \<open>Both index functions read the register encoding of the instruction set.\<close>

definition gpr_of_index :: "u8 \<Rightarrow> Gpr option" where
  "gpr_of_index i =
     (if i = 0 then Some RAX else if i = 1 then Some RCX else if i = 2 then Some RDX
      else if i = 3 then Some RBX else if i = 5 then Some RBP else if i = 6 then Some RSI
      else if i = 7 then Some RDI else if i = 8 then Some R8 else if i = 9 then Some R9
      else if i = 10 then Some R10 else if i = 11 then Some R11 else if i = 12 then Some R12
      else if i = 13 then Some R13 else if i = 14 then Some R14 else if i = 15 then Some R15
      else None)"

fun index_of_gpr :: "Gpr \<Rightarrow> u8" where
  "index_of_gpr RAX = 0" | "index_of_gpr RCX = 1" | "index_of_gpr RDX = 2" | "index_of_gpr RBX = 3"
| "index_of_gpr RBP = 5" | "index_of_gpr RSI = 6" | "index_of_gpr RDI = 7" | "index_of_gpr R8 = 8"
| "index_of_gpr R9 = 9" | "index_of_gpr R10 = 10" | "index_of_gpr R11 = 11"
| "index_of_gpr R12 = 12" | "index_of_gpr R13 = 13" | "index_of_gpr R14 = 14"
| "index_of_gpr R15 = 15"

lemma gpr_of_index_of_gpr [simp]: "gpr_of_index (index_of_gpr g) = Some g"
  by (cases g) (simp_all add: gpr_of_index_def)

lemma gpr_of_index_Some: "gpr_of_index i = Some g \<Longrightarrow> i = index_of_gpr g"
  by (simp add: gpr_of_index_def split: if_splits)

lemma index_of_gpr_inject [simp]: "index_of_gpr g = index_of_gpr h \<longleftrightarrow> g = h"
  by (metis gpr_of_index_of_gpr option.inject)

lemma get_reg_of_index_eq:
  "get_reg_of_index r i =
     (case gpr_of_index i of
        Some g \<Rightarrow> Ok (reg_field g r)
      | None \<Rightarrow> Panic ''Illegal index of GeneralRegisters'')"
  by (simp add: get_reg_of_index_def gpr_of_index_def)

lemma set_reg_of_index_eq:
  "set_reg_of_index r i v =
     (case gpr_of_index i of
        Some g \<Rightarrow> Ok (reg_field_update g (\<lambda>_. v) r)
      | None \<Rightarrow> Panic ''Illegal index of GeneralRegisters'')"
  by (simp add: set_reg_of_index_def gpr_of_index_def)

lemma u8_below_16:
  fixes i :: u8
  assumes "i < 16"
  shows "i \<in> {0, 1, 2, 3, 4, 5, 6, 7, 8, 9, 10, 11, 12, 13, 14, 15}"
  using assms by (simp add: word_less_nat_alt word_unat_eq_iff) arith

lemma reg_index_ok_iff: "reg_index_ok i \<longleftrightarrow> (\<exists>g. gpr_of_index i = Some g)"
proof
  assume "reg_index_ok i"
  then show "\<exists>g. gpr_of_index i = Some g"
    using u8_below_16 [of i] by (auto simp: reg_index_ok_def gpr_of_index_def)
next
  assume "\<exists>g. gpr_of_index i = Some g"
  then obtain g where "i = index_of_gpr g" by (auto dest: gpr_of_index_Some)
  then show "reg_index_ok i" by (cases g) (simp_all add: reg_index_ok_def)
qed

interpretation regs_file: indexed_file get_reg_of_index set_reg_of_index reg_index_ok
  by unfold_locales
    (auto simp: get_reg_of_index_eq set_reg_of_index_eq reg_index_ok_iff
      dest!: gpr_of_index_Some split: option.splits)

lemma reg_getter_mask: "reg_getter lo hi x = get_bits x lo hi"
  by (simp add: reg_getter_def get_bits_def mask_eq_exp_minus_1 push_bit_eq_mult)

lemma reg_setter_mask:
  "reg_setter False lo hi x v = (x AND NOT (push_bit lo (mask (hi - lo)))) OR push_bit lo v"
  by (simp add: reg_setter_def mask_eq_exp_minus_1 push_bit_eq_mult)

lemma reg_setter_clear: "reg_setter True lo hi x v = push_bit lo v"
  by (simp add: reg_setter_def)

lemmas subreg_bits = reg_getter_mask reg_setter_mask reg_setter_clear get_bits_def

interpretation dword: subreg
  "\<lambda>x. ucast (reg_getter 0 32 x) :: u32" "\<lambda>x v. reg_setter True 0 32 x (ucast v)" 0
  by unfold_locales
    (simp_all add: subreg_bits, rule bit_word_eqI, simp add: bit_simps)

interpretation lword: subreg_merge
  "\<lambda>x. ucast (reg_getter 0 16 x) :: u16" "\<lambda>x v. reg_setter False 0 16 x (ucast v)"
  "NOT (mask 16)"
proof unfold_locales
  fix x y :: u64 and v :: u16
  show "ucast (reg_getter 0 16 (reg_setter False 0 16 x (ucast v))) = v"
    by (rule bit_word_eqI) (auto simp: subreg_bits bit_simps dest: bit_imp_le_length)
  show "reg_setter False 0 16 x (ucast v) AND NOT (mask 16) = x AND NOT (mask 16)"
    by (rule bit_word_eqI) (auto simp: subreg_bits bit_simps dest: bit_imp_le_length)
  show "reg_setter False 0 16 x (ucast v) = reg_setter False 0 16 y (ucast v)"
    if "x AND NOT (mask 16) = y AND NOT (mask 16)"
    using that by (simp add: subreg_bits)
  show "reg_setter False 0 16 x (ucast (ucast (reg_getter 0 16 x) :: u16)) = x"
    by (rule bit_word_eqI) (auto simp: subreg_bits bit_simps dest: bit_imp_le_length)
qed

interpretation lbyte: subreg_merge
  "\<lambda>x. ucast (reg_getter 0 8 x) :: u8" "\<lambda>x v. reg_setter False 0 8 x (ucast v)"
  "NOT (mask 8)"
proof unfold_locales
  fix x y :: u64 and v :: u8
  show "ucast (reg_getter 0 8 (reg_setter False 0 8 x (ucast v))) = v"
    by (rule bit_word_eqI) (auto simp: subreg_bits bit_simps dest: bit_imp_le_length)
  show "reg_setter False 0 8 x (ucast v) AND NOT (mask 8) = x AND NOT (mask 8)"
    by (rule bit_word_eqI) (auto simp: subreg_bits bit_simps dest: bit_imp_le_length)
  show "reg_setter False 0 8 x (ucast v) = reg_setter False 0 8 y (ucast v)"
    if "x AND NOT (mask 8) = y AND NOT (mask 8)"
    using that by (simp add: subreg_bits)
  show "reg_setter False 0 8 x (ucast (ucast (reg_getter 0 8 x) :: u8)) = x"
    by (rule bit_word_eqI) (auto simp: subreg_bits bit_simps dest: bit_imp_le_length)
qed

interpretation hbyte: subreg_merge
  "\<lambda>x. ucast (reg_getter 8 16 x) :: u8" "\<lambda>x v. reg_setter False 8 16 x (ucast v)"
  "NOT (push_bit 8 (mask 8))"
proof unfold_locales
  fix x y :: u64 and v :: u8
  show "ucast (reg_getter 8 16 (reg_setter False 8 16 x (ucast v))) = v"
    by (rule bit_word_eqI) (auto simp: subreg_bits bit_simps dest: bit_imp_le_length)
  show "reg_setter False 8 16 x (ucast v) AND NOT (push_bit 8 (mask 8)) =
      x AND NOT (push_bit 8 (mask 8))"
    by (rule bit_word_eqI) (auto simp: subreg_bits bit_simps dest: bit_imp_le_length)
  show "reg_setter False 8 16 x (ucast v) = reg_setter False 8 16 y (ucast v)"
    if "x AND NOT (push_bit 8 (mask 8)) = y AND NOT (push_bit 8 (mask 8))"
    using that by (simp add: subreg_bits)
  show "reg_setter False 8 16 x (ucast (ucast (reg_getter 8 16 x) :: u8)) = x"
    by (rule bit_word_eqI) (auto simp: subreg_bits bit_simps dest: bit_imp_le_length)
qed

section \<open>Register differences: what is printed\<close>

lemma diff_fields_eq:
  "set idx \<subseteq> {i. i < 16} \<Longrightarrow>
   diff_fields d idx = Ok
     [(REGISTER_NAMES ! unat i, reg_field g (old_regs d), reg_field g (new_regs d)).
        i \<leftarrow> idx, g \<leftarrow> (case gpr_of_index i of None \<Rightarrow> [] | Some g \<Rightarrow> [g]),
        reg_field g (old_regs d) \<noteq> reg_field g (new_regs d)]"
proof (induction idx)
  case (Cons i idx)
  have "unat i < 16" using Cons.prems by (simp add: word_less_nat_alt)
  then have name: "register_name i = Ok (REGISTER_NAMES ! unat i)"
    by (simp add: register_name_def REGISTER_NAMES_def)
  show ?case
  proof (cases "i = RSP_INDEX")
    case True
    then have "gpr_of_index i = None" by (simp add: RSP_INDEX_def gpr_of_index_def)
    with Cons True show ?thesis by simp
  next
    case False
    then have "reg_index_ok i" using Cons.prems by (simp add: reg_index_ok_def RSP_INDEX_def)
    then obtain g where "gpr_of_index i = Some g" by (auto simp: reg_index_ok_iff)
    with Cons False name show ?thesis by (simp add: get_reg_of_index_eq)
  qed
qed simp

lemma INDEX_RANGE_set: "set INDEX_RANGE = {i. i < 16}"
proof -
  have "\<exists>n \<in> {0..<16}. i = word_of_nat n" if "i < 16" for i :: u8
    using that by (intro bexI [of _ "unat i"]) (simp_all add: word_less_nat_alt)
  then show ?thesis
    by (auto simp: INDEX_RANGE_def word_less_nat_alt unat_of_nat)
qed

lemma index_of_gpr_less: "index_of_gpr g < 16"
  by (cases g) simp_all

abbreviation diff_list :: "GeneralRegisters \<Rightarrow> GeneralRegisters \<Rightarrow> (string \<times> u64 \<times> u64) list" where
  "diff_list a b \<equiv>
     [(REGISTER_NAMES ! unat i, reg_field g a, reg_field g b).
        i \<leftarrow> INDEX_RANGE, g \<leftarrow> (case gpr_of_index i of None \<Rightarrow> [] | Some g \<Rightarrow> [g]),
        reg_field g a \<noteq> reg_field g b]"

lemma diff_fmt_eq: "diff_fmt (diff_new a b) = Ok (diff_list a b)"
  using diff_fields_eq [of INDEX_RANGE "diff_new a b"]
  by (simp add: diff_fmt_def diff_new_def INDEX_RANGE_set cong: if_cong)

lemma set_diff_list:
  "set (diff_list a b) =
     {(REGISTER_NAMES ! unat (index_of_gpr g), reg_field g a, reg_field g b) | g.
        reg_field g a \<noteq> reg_field g b}" (is "?L = ?R")
proof (intro equalityI subsetI)
  fix x assume "x \<in> ?L"
  then show "x \<in> ?R" by (auto split: option.splits if_splits dest!: gpr_of_index_Some [OF sym])
next
  fix x assume "x \<in> ?R"
  then obtain g where g: "x = (REGISTER_NAMES ! unat (index_of_gpr g), reg_field g a, reg_field g b)"
    "reg_field g a \<noteq> reg_field g b" by blast
  have "index_of_gpr g \<in> set INDEX_RANGE" by (simp add: INDEX_RANGE_set index_of_gpr_less)
  with g show "x \<in> ?L" by (auto intro!: bexI [of _ "index_of_gpr g"])
qed

lemma reg_field_unused_rsp [simp]: "reg_field g (r\<lparr>unused_rsp := u\<rparr>) = reg_field g r"
  by (cases g) simp_all

lemma regs_agree_iff:
  "(\<forall>g. reg_field g a = reg_field g b) \<longleftrightarrow> a\<lparr>unused_rsp := unused_rsp b\<rparr> = b"
proof
  assume "\<forall>g. reg_field g a = reg_field g b"
  then show "a\<lparr>unused_rsp := unused_rsp b\<rparr> = b" by (intro reg_field_ext) simp_all
next
  assume "a\<lparr>unused_rsp := unused_rsp b\<rparr> = b"
  then show "\<forall>g. reg_field g a = reg_field g b" by (metis reg_field_unused_rsp)
qed

section \<open>Properties\<close>

text \<open>
  C37. Access by index: for every index the documentation admits (0 to 15 without 4) a write
  succeeds, is read back at that index, leaves every other index and the unused \<open>rsp\<close> slot alone; at
  every other index both the read and the write panic.
\<close>

theorem set_reg_of_index_spec:
  "if reg_index_ok i
   then \<exists>r'. set_reg_of_index r i v = Ok r' \<and> unused_rsp r' = unused_rsp r \<and>
          (\<forall>j. get_reg_of_index r' j = (if j = i then Ok v else get_reg_of_index r j))
   else (\<exists>msg. set_reg_of_index r i v = Panic msg) \<and> (\<exists>msg. get_reg_of_index r i = Panic msg)"
proof (cases "reg_index_ok i")
  case True
  obtain r' where r': "set_reg_of_index r i v = Ok r'"
    using regs_file.set_valid [OF True] by blast
  moreover have "unused_rsp r' = unused_rsp r"
    using r' by (auto simp: set_reg_of_index_eq split: option.splits)
  ultimately show ?thesis using True regs_file.get_set [OF True r'] by auto
next
  case False
  then show ?thesis using regs_file.set_invalid regs_file.get_invalid by simp
qed

text \<open>
  Sub-register writes follow the x86-64 rules: a 32-bit write zero-extends into the full
  register, a 16-bit, low-byte or high-byte write replaces exactly its own bits, and no write touches
  another register.
\<close>

theorem subregister_write_spec:
  "reg_field h (set_reg32 g d r) = (if h = g then ucast d else reg_field h r) \<and>
   reg_field h (set_reg16 g w r) =
     (if h = g then (reg_field h r AND NOT (mask 16)) OR ucast w else reg_field h r) \<and>
   reg_field h (set_reg8 g b r) =
     (if h = g then (reg_field h r AND NOT (mask 8)) OR ucast b else reg_field h r) \<and>
   reg_field h (set_reg8h g b r) =
     (if h = g then (reg_field h r AND NOT (push_bit 8 (mask 8))) OR push_bit 8 (ucast b)
      else reg_field h r)"
  by (auto simp: set_reg32_def set_reg16_def set_reg8_def set_reg8h_def
      reg_setter_mask reg_setter_clear)

text \<open>
  C38. Sub-register round trips: what was written to \<open>eax\<close>, \<open>ax\<close>, \<open>al\<close> or \<open>ah\<close> (and their
  counterparts) is read back; the high-byte and low-byte accessors of one register do not disturb
  each other; and \<open>edx:eax\<close> is the concatenation of the two halves.
\<close>

theorem subregister_roundtrip:
  "reg32 g (set_reg32 g d r) = d \<and> reg16 g (set_reg16 g w r) = w \<and>
   reg8 g (set_reg8 g b r) = b \<and> reg8h g (set_reg8h g b r) = b \<and>
   reg8 g (set_reg8h g b r) = reg8 g r \<and> reg8h g (set_reg8 g b r) = reg8h g r \<and>
   get_edx_eax (set_reg32 RDX hi (set_reg32 RAX lo r)) = word_cat hi lo"
proof (intro conjI)
  show "reg32 g (set_reg32 g d r) = d" "reg16 g (set_reg16 g w r) = w"
    "reg8 g (set_reg8 g b r) = b" "reg8h g (set_reg8h g b r) = b"
    by (simp_all add: reg32_def set_reg32_def reg16_def set_reg16_def reg8_def set_reg8_def
        reg8h_def set_reg8h_def dword.get_set lword.get_set lbyte.get_set hbyte.get_set)
  show "reg8 g (set_reg8h g b r) = reg8 g r" "reg8h g (set_reg8 g b r) = reg8h g r"
    by (rule bit_word_eqI; auto simp: reg8_def reg8h_def set_reg8_def set_reg8h_def subreg_bits
        bit_simps dest: bit_imp_le_length)+
  show "get_edx_eax (set_reg32 RDX hi (set_reg32 RAX lo r)) = word_cat hi lo"
    by (rule bit_word_eqI)
      (auto simp: get_edx_eax_def reg32_def set_reg32_def subreg_bits bit_simps
        dest: bit_imp_le_length)
qed

text \<open>
  The difference printer never panics, prints nothing for two files exactly when they agree up to
  the unused \<open>rsp\<close> slot, and prints every changed register with its name, old and new value; so
  \<open>is_same\<close> implies an empty difference.
\<close>

theorem diff_fmt_spec:
  "\<exists>fs. diff_fmt (diff_new a b) = Ok fs \<and>
     set fs = {(REGISTER_NAMES ! unat (index_of_gpr g), reg_field g a, reg_field g b) | g.
                 reg_field g a \<noteq> reg_field g b} \<and>
     (fs = [] \<longleftrightarrow> a\<lparr>unused_rsp := unused_rsp b\<rparr> = b) \<and>
     (is_same (diff_new a b) \<longleftrightarrow> fs = [] \<and> unused_rsp a = unused_rsp b)"
proof -
  have "diff_list a b = [] \<longleftrightarrow> (\<forall>g. reg_field g a = reg_field g b)"
    unfolding set_empty [symmetric] set_diff_list by blast
  then have "diff_list a b = [] \<longleftrightarrow> a\<lparr>unused_rsp := unused_rsp b\<rparr> = b"
    by (simp only: regs_agree_iff)
  moreover have "a = b \<longleftrightarrow> a\<lparr>unused_rsp := unused_rsp b\<rparr> = b \<and> unused_rsp a = unused_rsp b"
    by (metis (full_types) regs_agree_iff reg_field_ext)
  ultimately show ?thesis
    using diff_fmt_eq [of a b] set_diff_list [of a b]
    by (intro exI [of _ "diff_list a b"]) (simp only: is_same_def diff_new_def
        GeneralRegistersDiff.select_convs simp_thms)
qed

end
