(* ===== verification/WorldSwitch.thy ===== *)
theory WorldSwitch
  imports Registers
begin

text \<open>
  The assembly of the world switch: the macros \<open>save_regs_to_stack\<close> and \<open>restore_regs_from_stack\<close> of
  \<open>src/regs/mod.rs\<close>, and \<open>vmx_entry_with\<close>, \<open>vmx_launch\<close>, \<open>vmx_resume\<close> and \<open>vmx_exit\<close> of
  \<open>src/vmx/vcpu.rs\<close>, as instruction lists run on a register file, a stack pointer and a memory of
  8-byte slots (every access of the code is to an 8-byte slot at a multiple of 8 from the base of the
  vCPU structure or of the host stack). The VM-entry instruction itself, the guest and the VM exit are
  the parameter \<open>enter\<close>: the processor state right after the exit, when the stack pointer holds the
  host RSP of the VMCS, or \<open>None\<close> when the instruction fails and falls through to the jump.
\<close>

section \<open>The processor as the assembly sees it\<close>

record cpu =
  gprs :: "Gpr \<Rightarrow> u64"
  rsp :: u64
  rip :: u64
  mem :: "u64 \<Rightarrow> u64"

datatype asm =
    PUSH Gpr
  | POP Gpr
  | SUB_RSP u64
  | ADD_RSP u64
  | MOV_MEM_RDI_RSP u64 \<comment> \<open>mov [rdi + offset], rsp\<close>
  | MOV_RSP_RDI \<comment> \<open>mov rsp, rdi\<close>
  | MOV_RSP_MEM_RSP u64 \<comment> \<open>mov rsp, [rsp + offset]\<close>
  | RET

fun asm_step :: "asm \<Rightarrow> cpu \<Rightarrow> cpu" where
  "asm_step (PUSH g) s =
     s\<lparr>rsp := rsp s - 8, mem := (mem s)(rsp s - 8 := gprs s g)\<rparr>"
| "asm_step (POP g) s =
     s\<lparr>rsp := rsp s + 8, gprs := (gprs s)(g := mem s (rsp s))\<rparr>"
| "asm_step (SUB_RSP n) s = s\<lparr>rsp := rsp s - n\<rparr>"
| "asm_step (ADD_RSP n) s = s\<lparr>rsp := rsp s + n\<rparr>"
| "asm_step (MOV_MEM_RDI_RSP off) s = s\<lparr>mem := (mem s)(gprs s RDI + off := rsp s)\<rparr>"
| "asm_step MOV_RSP_RDI s = s\<lparr>rsp := gprs s RDI\<rparr>"
| "asm_step (MOV_RSP_MEM_RSP off) s = s\<lparr>rsp := mem s (rsp s + off)\<rparr>"
| "asm_step RET s = s\<lparr>rsp := rsp s + 8, rip := mem s (rsp s)\<rparr>"

definition exec_asm :: "asm list \<Rightarrow> cpu \<Rightarrow> cpu" where
  "exec_asm = fold asm_step"

section \<open>The code\<close>

definition save_regs_to_stack :: "asm list" where
  "save_regs_to_stack =
     [PUSH R15, PUSH R14, PUSH R13, PUSH R12, PUSH R11, PUSH R10, PUSH R9, PUSH R8,
      PUSH RDI, PUSH RSI, PUSH RBP, SUB_RSP 8, PUSH RBX, PUSH RDX, PUSH RCX, PUSH RAX]"

definition restore_regs_from_stack :: "asm list" where
  "restore_regs_from_stack =
     [POP RAX, POP RCX, POP RDX, POP RBX, ADD_RSP 8, POP RBP, POP RSI, POP RDI,
      POP R8, POP R9, POP R10, POP R11, POP R12, POP R13, POP R14, POP R15]"

text \<open>\<open>size_of::<GeneralRegisters>()\<close>: sixteen \<open>u64\<close> fields in a \<open>repr(C)\<close> struct.\<close>

definition sizeof_GeneralRegisters :: u64 where
  "sizeof_GeneralRegisters = 16 * 8"

datatype entry_instr = VMLAUNCH_INSTR | VMRESUME_INSTR

definition vmx_entry_prologue :: "asm list" where
  "vmx_entry_prologue =
     save_regs_to_stack @
     [MOV_MEM_RDI_RSP sizeof_GeneralRegisters, MOV_RSP_RDI] @
     restore_regs_from_stack"

definition vmx_exit :: "asm list" where
  "vmx_exit =
     save_regs_to_stack @
     [MOV_RSP_MEM_RSP sizeof_GeneralRegisters] @
     restore_regs_from_stack @ [RET]"

definition vmx_entry_with ::
  "entry_instr \<Rightarrow> (entry_instr \<Rightarrow> cpu \<Rightarrow> cpu option) \<Rightarrow> cpu \<Rightarrow> cpu option" where
  "vmx_entry_with instr enter s =
     map_option (exec_asm vmx_exit) (enter instr (exec_asm vmx_entry_prologue s))"

definition vmx_launch :: "(entry_instr \<Rightarrow> cpu \<Rightarrow> cpu option) \<Rightarrow> cpu \<Rightarrow> cpu option" where
  "vmx_launch = vmx_entry_with VMLAUNCH_INSTR"

definition vmx_resume :: "(entry_instr \<Rightarrow> cpu \<Rightarrow> cpu option) \<Rightarrow> cpu \<Rightarrow> cpu option" where
  "vmx_resume = vmx_entry_with VMRESUME_INSTR"

section \<open>The layout of a saved register file\<close>

text \<open>The offset of a register in \<open>GeneralRegisters\<close>: its index times the field size.\<close>

definition slot :: "Gpr \<Rightarrow> u64" where
  "slot g = 8 * ucast (index_of_gpr g)"

definition store_regs :: "u64 \<Rightarrow> (Gpr \<Rightarrow> u64) \<Rightarrow> (u64 \<Rightarrow> u64) \<Rightarrow> u64 \<Rightarrow> u64" where
  "store_regs t g m a =
     (if a = t + slot RAX then g RAX else if a = t + slot RCX then g RCX
      else if a = t + slot RDX then g RDX else if a = t + slot RBX then g RBX
      else if a = t + slot RBP then g RBP else if a = t + slot RSI then g RSI
      else if a = t + slot RDI then g RDI else if a = t + slot R8 then g R8
      else if a = t + slot R9 then g R9 else if a = t + slot R10 then g R10
      else if a = t + slot R11 then g R11 else if a = t + slot R12 then g R12
      else if a = t + slot R13 then g R13 else if a = t + slot R14 then g R14
      else if a = t + slot R15 then g R15 else m a)"

definition load_regs :: "u64 \<Rightarrow> (u64 \<Rightarrow> u64) \<Rightarrow> Gpr \<Rightarrow> u64" where
  "load_regs t m g = m (t + slot g)"

lemma slot_simps [simp]:
  "slot RAX = 0" "slot RCX = 8" "slot RDX = 16" "slot RBX = 24" "slot RBP = 40" "slot RSI = 48"
  "slot RDI = 56" "slot R8 = 64" "slot R9 = 72" "slot R10 = 80" "slot R11 = 88" "slot R12 = 96"
  "slot R13 = 104" "slot R14 = 112" "slot R15 = 120"
  by (simp_all add: slot_def)

lemma slot_le: "\<exists>k \<le> 15. slot g = 8 * of_nat k"
  by (intro exI [of _ "unat (index_of_gpr g)"]) (cases g; simp)

lemma store_regs_slot [simp]: "store_regs t g m (t + slot r) = g r"
  by (cases r) (simp_all add: store_regs_def)

lemma store_regs_other: "(\<And>r. a \<noteq> t + slot r) \<Longrightarrow> store_regs t g m a = m a"
  by (simp add: store_regs_def del: slot_simps)

lemma load_store_regs [simp]: "load_regs t (store_regs t g m) = g"
  by (rule ext) (simp add: load_regs_def)

section \<open>Running the two macros\<close>

lemma exec_asm_append: "exec_asm (xs @ ys) s = exec_asm ys (exec_asm xs s)"
  by (simp add: exec_asm_def)

lemma exec_asm_Cons: "exec_asm (x # xs) s = exec_asm xs (asm_step x s)"
  by (simp add: exec_asm_def)

lemma exec_asm_Nil: "exec_asm [] s = s"
  by (simp add: exec_asm_def)

lemma exec_save:
  assumes "rsp s = t + 128"
  shows "exec_asm save_regs_to_stack s =
           s\<lparr>rsp := t, mem := store_regs t (gprs s) (mem s)\<rparr>"
  using assms
  by (intro cpu.equality ext)
    (simp_all add: save_regs_to_stack_def exec_asm_Cons exec_asm_Nil store_regs_def)

lemma exec_restore:
  assumes "rsp s = t"
  shows "exec_asm restore_regs_from_stack s = s\<lparr>rsp := t + 128, gprs := load_regs t (mem s)\<rparr>"
proof (intro cpu.equality ext)
  fix g
  show "gprs (exec_asm restore_regs_from_stack s) g =
      gprs (s\<lparr>rsp := t + 128, gprs := load_regs t (mem s)\<rparr>) g"
    using assms
    by (cases g) (simp_all add: restore_regs_from_stack_def exec_asm_Cons exec_asm_Nil load_regs_def
        add.commute)
qed (use assms in \<open>simp_all add: restore_regs_from_stack_def exec_asm_Cons exec_asm_Nil\<close>)

section \<open>The switch\<close>

text \<open>
  The stack frame of the caller and the vCPU structure do not overlap: the seventeen slots from
  the saved host registers up to the return address against the seventeen slots of \<open>guest_regs\<close> and
  \<open>host_stack_top\<close>.
\<close>

definition disjoint_frames :: "u64 \<Rightarrow> u64 \<Rightarrow> bool" where
  "disjoint_frames t v \<longleftrightarrow>
     list_all (\<lambda>i. list_all (\<lambda>j. t + 8 * of_nat i \<noteq> v + 8 * of_nat j) [0..<17]) [0..<17]"

lemma disjoint_framesD:
  "disjoint_frames t v \<Longrightarrow> i \<le> 16 \<Longrightarrow> j \<le> 16 \<Longrightarrow> t + 8 * of_nat i \<noteq> v + 8 * of_nat j"
  by (simp add: disjoint_frames_def list_all_iff)

lemma disjoint_slots:
  assumes "disjoint_frames t v"
  shows "t + slot g \<noteq> v + slot h" "t + slot g \<noteq> v + 128" "t + 128 \<noteq> v + slot h"
    "t + 128 \<noteq> v + 128" "v + slot h \<noteq> t + slot g" "v + 128 \<noteq> t + slot g"
proof -
  obtain i j where ij: "i \<le> 15" "slot g = 8 * of_nat i" "j \<le> 15" "slot h = 8 * of_nat j"
    using slot_le [of g] slot_le [of h] by blast
  show "t + slot g \<noteq> v + slot h" "v + slot h \<noteq> t + slot g"
    using ij disjoint_framesD [OF assms, of i j] by simp_all
  show "t + slot g \<noteq> v + 128" "v + 128 \<noteq> t + slot g"
    using ij disjoint_framesD [OF assms, of i 16] by simp_all
  show "t + 128 \<noteq> v + slot h"
    using ij disjoint_framesD [OF assms, of 16 j] by simp
  show "t + 128 \<noteq> v + 128"
    using disjoint_framesD [OF assms, of 16 16] by simp
qed

lemma disjoint_frames_ne: "disjoint_frames t v \<Longrightarrow> t \<noteq> v"
  using disjoint_slots(4) by auto

lemma slot_not_top [simp]: "slot g \<noteq> 128" "128 \<noteq> slot g"
  by (cases g; simp)+

lemma store_regs_frame:
  "store_regs t g m (t + 128) = m (t + 128)"
  "disjoint_frames t v \<Longrightarrow> store_regs t g m (v + slot h) = m (v + slot h)"
  "disjoint_frames t v \<Longrightarrow> store_regs t g m (v + 128) = m (v + 128)"
  "disjoint_frames t v \<Longrightarrow> store_regs v g m (t + slot h) = m (t + slot h)"
  "disjoint_frames t v \<Longrightarrow> store_regs v g m (t + 128) = m (t + 128)"
  by (rule store_regs_other, use disjoint_slots in \<open>simp\<close>)+

text \<open>The state in which the VM-entry instruction executes.\<close>

lemma exec_prologue:
  assumes "gprs s RDI = v" "rsp s = t + 128" "disjoint_frames t v"
  shows "exec_asm vmx_entry_prologue s =
     s\<lparr>rsp := v + 128, gprs := load_regs v (mem s),
       mem := (store_regs t (gprs s) (mem s))(v + 128 := t)\<rparr>"
proof -
  have "load_regs v ((store_regs t (gprs s) (mem s))(v + 128 := t)) = load_regs v (mem s)"
    using assms(3) by (intro ext) (simp add: load_regs_def store_regs_frame)
  with assms show ?thesis
    by (simp add: vmx_entry_prologue_def exec_asm_append exec_save [OF assms(2)] exec_restore
        exec_asm_Cons exec_asm_Nil sizeof_GeneralRegisters_def)
qed

lemma exec_vmx_exit:
  assumes "rsp s = v + 128" "mem s (v + 128) = t" "disjoint_frames t v"
  shows "exec_asm vmx_exit s =
     s\<lparr>rsp := t + 136, rip := mem s (t + 128), gprs := load_regs t (mem s),
       mem := store_regs v (gprs s) (mem s)\<rparr>"
proof -
  have "load_regs t (store_regs v (gprs s) (mem s)) = load_regs t (mem s)"
    using assms(3) by (intro ext) (simp add: load_regs_def store_regs_frame)
  with assms show ?thesis
    by (simp add: vmx_exit_def exec_asm_append exec_save [OF assms(1)] exec_restore
        exec_asm_Cons exec_asm_Nil sizeof_GeneralRegisters_def store_regs_frame add.commute)
qed

section \<open>Properties\<close>

text \<open>
  VM entry loads the guest: when \<open>vmx_launch\<close> or \<open>vmx_resume\<close> reaches the VM-entry instruction,
  every general-purpose register holds the value stored for it in \<open>guest_regs\<close> of the vCPU at
  \<open>rdi\<close>, \<open>host_stack_top\<close> holds the host stack pointer, the host registers are saved below it, and
  no other slot of the vCPU structure has changed.
\<close>

theorem vm_entry_loads_guest_registers:
  assumes "gprs s RDI = v" and "rsp s = t + 128" and "disjoint_frames t v"
  shows "let e = exec_asm vmx_entry_prologue s in
     (\<forall>g. gprs e g = mem s (v + slot g)) \<and> mem e (v + sizeof_GeneralRegisters) = t \<and>
     (\<forall>g. mem e (t + slot g) = gprs s g) \<and> (\<forall>g. mem e (v + slot g) = mem s (v + slot g)) \<and>
     mem e (t + 128) = mem s (t + 128)"
  by (simp add: exec_prologue [OF assms] load_regs_def sizeof_GeneralRegisters_def
      store_regs_frame disjoint_slots disjoint_frames_ne assms(3))

lemma switch_example_frames: "disjoint_frames 0x1000 0x8000"
  by (simp add: disjoint_frames_def upt_rec)

definition switch_example :: cpu where
  "switch_example =
     \<lparr>gprs = (\<lambda>g. if g = RDI then 0x8000 else 7), rsp = 0x1080, rip = 0, mem = (\<lambda>a. a + 1)\<rparr>"

theorem vm_entry_loads_guest_registers_witness:
  "gprs (exec_asm vmx_entry_prologue switch_example) R8 = 0x8041 \<and>
   mem (exec_asm vmx_entry_prologue switch_example) 0x8080 = 0x1000 \<and>
   mem (exec_asm vmx_entry_prologue switch_example) 0x1040 = 7"
proof -
  have "gprs switch_example RDI = 0x8000" "rsp switch_example = 0x1000 + 128"
    by (simp_all add: switch_example_def)
  note * = vm_entry_loads_guest_registers [OF this switch_example_frames, unfolded Let_def]
  from * have "gprs (exec_asm vmx_entry_prologue switch_example) R8 =
      mem switch_example (0x8000 + slot R8)" by blast
  moreover from * have "mem (exec_asm vmx_entry_prologue switch_example) (0x1000 + slot R8) =
      gprs switch_example R8" by blast
  moreover from * have "mem (exec_asm vmx_entry_prologue switch_example)
      (0x8000 + sizeof_GeneralRegisters) = 0x1000" by blast
  ultimately show ?thesis
    by (simp add: switch_example_def sizeof_GeneralRegisters_def)
qed

text \<open>
  C1. The world switch as a whole behaves as an ordinary function call: if the processor comes back
  from the guest with the host RSP the VMCS holds (the address of \<open>host_stack_top\<close>) and with the
  host's stack frame and \<open>host_stack_top\<close> intact, then \<open>vmx_exit\<close> returns to the caller's return
  address with the stack popped and all host registers as they were, and \<open>guest_regs\<close> holds the
  guest's registers at the exit.
\<close>

theorem world_switch_roundtrip:
  assumes "gprs s RDI = v" and "rsp s = t + 128" and "disjoint_frames t v"
    and enter: "enter instr (exec_asm vmx_entry_prologue s) = Some x"
    and host_rsp: "rsp x = v + sizeof_GeneralRegisters"
    and top: "mem x (v + 128) = mem (exec_asm vmx_entry_prologue s) (v + 128)"
    and frame: "\<And>k. k \<le> 16 \<Longrightarrow>
      mem x (t + 8 * of_nat k) = mem (exec_asm vmx_entry_prologue s) (t + 8 * of_nat k)"
  shows "\<exists>h. vmx_entry_with instr enter s = Some h \<and> gprs h = gprs s \<and> rsp h = rsp s + 8 \<and>
     rip h = mem s (rsp s) \<and> (\<forall>g. mem h (v + slot g) = gprs x g) \<and>
     mem h (v + sizeof_GeneralRegisters) = t"
proof -
  note pro = exec_prologue [OF assms(1-3)]
  have x_top: "mem x (v + 128) = t" using top by (simp add: pro)
  have exit: "exec_asm vmx_exit x =
     x\<lparr>rsp := t + 136, rip := mem x (t + 128), gprs := load_regs t (mem x),
       mem := store_regs v (gprs x) (mem x)\<rparr>"
    using host_rsp x_top assms(3) by (intro exec_vmx_exit) (simp_all add: sizeof_GeneralRegisters_def)
  have saved: "mem x (t + slot g) = gprs s g" for g
  proof -
    obtain k where k: "k \<le> 15" "slot g = 8 * of_nat k" using slot_le by blast
    then have "mem x (t + slot g) = mem (exec_asm vmx_entry_prologue s) (t + slot g)"
      using frame [of k] by simp
    then show ?thesis using disjoint_slots(2) [OF assms(3), of g] by (simp add: pro)
  qed
  have ret: "mem x (t + 128) = mem s (t + 128)"
    using frame [of 16] disjoint_slots(4) [OF assms(3)] by (simp add: pro store_regs_frame)
  have "load_regs t (mem x) = gprs s" by (rule ext) (simp add: load_regs_def saved)
  then show ?thesis
    using exit enter ret x_top assms(2)
    by (simp add: vmx_entry_with_def store_regs_frame sizeof_GeneralRegisters_def add.assoc)
qed

text \<open>A machine whose guest leaves every register at 9 and touches no host memory.\<close>

definition example_enter :: "entry_instr \<Rightarrow> cpu \<Rightarrow> cpu option" where
  "example_enter instr e = Some (e\<lparr>gprs := (\<lambda>_. 9), rsp := 0x8000 + sizeof_GeneralRegisters\<rparr>)"

theorem world_switch_roundtrip_witness:
  "\<exists>h. vmx_launch example_enter switch_example = Some h \<and> gprs h = gprs switch_example \<and>
     rsp h = 0x1088 \<and> rip h = 0x1081 \<and> mem h 0x8040 = 9 \<and> mem h 0x8080 = 0x1000"
proof -
  have init: "gprs switch_example RDI = 0x8000" "rsp switch_example = 0x1000 + 128"
    by (simp_all add: switch_example_def)
  obtain h where h: "vmx_entry_with VMLAUNCH_INSTR example_enter switch_example = Some h"
    "gprs h = gprs switch_example" "rsp h = rsp switch_example + 8"
    "rip h = mem switch_example (rsp switch_example)"
    "\<forall>g. mem h (0x8000 + slot g) = gprs ((exec_asm vmx_entry_prologue switch_example)
        \<lparr>gprs := (\<lambda>_. 9), rsp := 0x8000 + sizeof_GeneralRegisters\<rparr>) g"
    "mem h (0x8000 + sizeof_GeneralRegisters) = 0x1000"
    using world_switch_roundtrip [OF init switch_example_frames,
        of example_enter VMLAUNCH_INSTR "(exec_asm vmx_entry_prologue switch_example)
          \<lparr>gprs := (\<lambda>_. 9), rsp := 0x8000 + sizeof_GeneralRegisters\<rparr>"]
    by (auto simp: example_enter_def)
  have "mem h (0x8000 + slot R8) = 9" using h(5) [THEN spec, of R8] by (simp del: slot_simps)
  then show ?thesis
    using h by (intro exI [of _ h])
      (simp add: vmx_launch_def switch_example_def sizeof_GeneralRegisters_def)
qed

end
