(* ===== verification/Machine.thy ===== *)
theory Machine
  imports VmxDefinitions WorldSwitch
begin

text \<open>
  The processor and the platform as the code uses them. The functions of the external crates
  (\<open>x86\<close>: MSR, XCR0, VMX instructions, segment and descriptor-table registers; \<open>x86_64\<close>: control
  registers; \<open>raw_cpuid\<close>; \<open>axvisor_api\<close>: physical frames) and the guest itself are the fields of the
  record \<open>hw\<close>, a parameter of every definition that uses them, over an abstract machine state \<open>'m\<close>.
  What the code relies on is stated by the locales at the end, in the words of the crates'
  documentation and of the Intel manual. On top of them: \<open>src/msr.rs\<close>, \<open>src/vmx/instructions.rs\<close> and the
  functions of \<open>src/vmx/mod.rs\<close>.
\<close>

section \<open>The parameter\<close>

text \<open>
  The failures of a VMX instruction. \<open>VmFailValid\<close> and \<open>VmFailInvalid\<close> are the errors of the crate \<open>x86\<close>; \<open>VmFault\<close> stands for
  an instruction that raises an exception (\<open>#UD\<close> outside VMX operation, \<open>#GP\<close>), after which the code does not continue.
\<close>

datatype VmFail = VmFailValid | VmFailInvalid | VmFault

record CpuIdResult =
  eax :: u32
  ebx :: u32
  ecx :: u32
  edx :: u32

text \<open>The segment registers the code reads through \<open>x86::segmentation\<close> and \<open>x86::task\<close>.\<close>

datatype SegReg = SEG_ES | SEG_CS | SEG_SS | SEG_DS | SEG_FS | SEG_GS | SEG_TR

text \<open>A physical frame: its address and its 4096 bytes.\<close>

record PhysFrame =
  start_paddr :: u64
  frame_bytes :: "u8 list"

text \<open>
  \<open>overflow_checks\<close> is the compilation profile. Reads of processor state are queries; \<open>None\<close> is an
  instruction that raises an exception. \<open>hw_cr3_read_raw\<close> is the address part of CR3, \<open>hw_sgdt\<close> and
  \<open>hw_sidt\<close> give base and limit, \<open>hw_mem64\<close> reads an aligned quadword of memory. \<open>hw_vm_entry\<close> is the
  effect of \<open>vmx_launch\<close>/\<open>vmx_resume\<close> as established in \<open>WorldSwitch\<close>: the guest registers at the VM
  exit, or the failure of the VM-entry instruction; \<open>hw_saved_rsp\<close> is the host stack pointer that the
  entry code saves, \<open>hw_host_stack_top_addr\<close> the address at which the vCPU that owns a VMCS frame currently has the field it saves it
  to. \<open>xcr0_all\<close> and \<open>efer_all\<close> are the unions of the flags that \<open>Xcr0\<close> and \<open>EferFlags\<close> declare. \<open>err_messages\<close>: whether
  \<open>ax_err_type!\<close> evaluates its message, which depends on the log level.
\<close>

record 'm hw =
  overflow_checks :: bool
  err_messages :: bool
  hw_rdmsr :: "u32 \<Rightarrow> 'm \<Rightarrow> u64 option"
  hw_wrmsr :: "u32 \<Rightarrow> u64 \<Rightarrow> 'm \<Rightarrow> 'm option"
  hw_vmread :: "u32 \<Rightarrow> 'm \<Rightarrow> VmFail + u64"
  hw_vmwrite :: "u32 \<Rightarrow> u64 \<Rightarrow> 'm \<Rightarrow> (VmFail + unit) \<times> 'm"
  hw_vmptrld :: "u64 \<Rightarrow> 'm \<Rightarrow> (VmFail + unit) \<times> 'm"
  hw_vmclear :: "u64 \<Rightarrow> 'm \<Rightarrow> (VmFail + unit) \<times> 'm"
  hw_vmxon :: "u64 \<Rightarrow> 'm \<Rightarrow> (VmFail + unit) \<times> 'm"
  hw_vmxoff :: "'m \<Rightarrow> (VmFail + unit) \<times> 'm"
  hw_invept :: "u64 \<Rightarrow> u64 \<times> u64 \<Rightarrow> 'm \<Rightarrow> 'm option"
  hw_rflags :: "'m \<Rightarrow> u64"
  hw_cr0_read :: "'m \<Rightarrow> u64"
  hw_cr0_read_raw :: "'m \<Rightarrow> u64"
  hw_cr3_read_raw :: "'m \<Rightarrow> u64"
  hw_cr4_read :: "'m \<Rightarrow> u64"
  hw_cr4_read_raw :: "'m \<Rightarrow> u64"
  hw_cr4_write :: "u64 \<Rightarrow> 'm \<Rightarrow> 'm"
  hw_xcr0_read :: "'m \<Rightarrow> u64 option"
  hw_xcr0_write :: "u64 \<Rightarrow> 'm \<Rightarrow> 'm option"
  hw_cpuid :: "u32 \<Rightarrow> u32 \<Rightarrow> 'm \<Rightarrow> CpuIdResult"
  hw_has_vmx :: "'m \<Rightarrow> bool option"
  hw_has_xsave :: "'m \<Rightarrow> bool option"
  hw_has_xsaves_xrstors :: "'m \<Rightarrow> bool option"
  hw_has_rdtscp :: "'m \<Rightarrow> bool option"
  hw_has_invpcid :: "'m \<Rightarrow> bool option"
  hw_segment :: "SegReg \<Rightarrow> 'm \<Rightarrow> u16"
  hw_sgdt :: "'m \<Rightarrow> u64 \<times> u16"
  hw_sidt :: "'m \<Rightarrow> u64 \<times> u16"
  hw_mem64 :: "u64 \<Rightarrow> 'm \<Rightarrow> u64"
  hw_alloc :: "'m \<Rightarrow> PhysFrame res \<times> 'm"
  hw_alloc_zero :: "'m \<Rightarrow> PhysFrame res \<times> 'm"
  hw_vm_entry :: "entry_instr \<Rightarrow> GeneralRegisters \<Rightarrow> 'm \<Rightarrow> (VmFail + GeneralRegisters) \<times> 'm"
  hw_host_stack_top_addr :: "PhysFrame option \<Rightarrow> 'm \<Rightarrow> u64"
  hw_saved_rsp :: "'m \<Rightarrow> u64"
  hw_vmx_exit_addr :: u64
  xcr0_all :: u64
  efer_all :: u64

section \<open>Model-specific registers\<close>

datatype (plugins only: code) Msr =
    IA32_FEATURE_CONTROL | IA32_PAT | IA32_VMX_BASIC | IA32_VMX_PINBASED_CTLS
    | IA32_VMX_PROCBASED_CTLS | IA32_VMX_EXIT_CTLS | IA32_VMX_ENTRY_CTLS | IA32_VMX_MISC
    | IA32_VMX_CR0_FIXED0 | IA32_VMX_CR0_FIXED1 | IA32_VMX_CR4_FIXED0 | IA32_VMX_CR4_FIXED1
    | IA32_VMX_PROCBASED_CTLS2 | IA32_VMX_EPT_VPID_CAP | IA32_VMX_TRUE_PINBASED_CTLS
    | IA32_VMX_TRUE_PROCBASED_CTLS | IA32_VMX_TRUE_EXIT_CTLS | IA32_VMX_TRUE_ENTRY_CTLS
    | IA32_XSS | IA32_EFER | IA32_STAR | IA32_LSTAR | IA32_CSTAR | IA32_FMASK | IA32_FS_BASE
    | IA32_GS_BASE | IA32_KERNEL_GSBASE

primrec Msr_number :: "Msr \<Rightarrow> u32" where
  "Msr_number IA32_FEATURE_CONTROL = 0x3a"
| "Msr_number IA32_PAT = 0x277"
| "Msr_number IA32_VMX_BASIC = 0x480"
| "Msr_number IA32_VMX_PINBASED_CTLS = 0x481"
| "Msr_number IA32_VMX_PROCBASED_CTLS = 0x482"
| "Msr_number IA32_VMX_EXIT_CTLS = 0x483"
| "Msr_number IA32_VMX_ENTRY_CTLS = 0x484"
| "Msr_number IA32_VMX_MISC = 0x485"
| "Msr_number IA32_VMX_CR0_FIXED0 = 0x486"
| "Msr_number IA32_VMX_CR0_FIXED1 = 0x487"
| "Msr_number IA32_VMX_CR4_FIXED0 = 0x488"
| "Msr_number IA32_VMX_CR4_FIXED1 = 0x489"
| "Msr_number IA32_VMX_PROCBASED_CTLS2 = 0x48b"
| "Msr_number IA32_VMX_EPT_VPID_CAP = 0x48c"
| "Msr_number IA32_VMX_TRUE_PINBASED_CTLS = 0x48d"
| "Msr_number IA32_VMX_TRUE_PROCBASED_CTLS = 0x48e"
| "Msr_number IA32_VMX_TRUE_EXIT_CTLS = 0x48f"
| "Msr_number IA32_VMX_TRUE_ENTRY_CTLS = 0x490"
| "Msr_number IA32_XSS = 0xda0"
| "Msr_number IA32_EFER = 0xc0000080"
| "Msr_number IA32_STAR = 0xc0000081"
| "Msr_number IA32_LSTAR = 0xc0000082"
| "Msr_number IA32_CSTAR = 0xc0000083"
| "Msr_number IA32_FMASK = 0xc0000084"
| "Msr_number IA32_FS_BASE = 0xc0000100"
| "Msr_number IA32_GS_BASE = 0xc0000101"
| "Msr_number IA32_KERNEL_GSBASE = 0xc0000102"

definition Msr_variants :: "Msr list" where
  "Msr_variants =
     [IA32_FEATURE_CONTROL, IA32_PAT, IA32_VMX_BASIC, IA32_VMX_PINBASED_CTLS,
     IA32_VMX_PROCBASED_CTLS, IA32_VMX_EXIT_CTLS, IA32_VMX_ENTRY_CTLS, IA32_VMX_MISC,
     IA32_VMX_CR0_FIXED0, IA32_VMX_CR0_FIXED1, IA32_VMX_CR4_FIXED0, IA32_VMX_CR4_FIXED1,
     IA32_VMX_PROCBASED_CTLS2, IA32_VMX_EPT_VPID_CAP, IA32_VMX_TRUE_PINBASED_CTLS,
     IA32_VMX_TRUE_PROCBASED_CTLS, IA32_VMX_TRUE_EXIT_CTLS, IA32_VMX_TRUE_ENTRY_CTLS, IA32_XSS,
     IA32_EFER, IA32_STAR, IA32_LSTAR, IA32_CSTAR, IA32_FMASK, IA32_FS_BASE, IA32_GS_BASE,
     IA32_KERNEL_GSBASE]"

definition Msr_read :: "'m hw \<Rightarrow> Msr \<Rightarrow> ('m, u64) prog" where
  "Msr_read hw r m = (case hw_rdmsr hw (Msr_number r) m of Some v \<Rightarrow> (Ok v, m) | None \<Rightarrow> (Fault, m))"

definition Msr_write :: "'m hw \<Rightarrow> Msr \<Rightarrow> u64 \<Rightarrow> ('m, unit) prog" where
  "Msr_write hw r v m =
     (case hw_wrmsr hw (Msr_number r) v m of Some m' \<Rightarrow> (Ok (), m') | None \<Rightarrow> (Fault, m))"

text \<open>
  The trait \<open>MsrReadWrite\<close>: \<open>msr\<close> is the associated constant \<open>MSR\<close> of the type that implements it.
\<close>

definition read_raw :: "'m hw \<Rightarrow> Msr \<Rightarrow> ('m, u64) prog" where
  "read_raw hw msr = Msr_read hw msr"

definition write_raw :: "'m hw \<Rightarrow> Msr \<Rightarrow> u64 \<Rightarrow> ('m, unit) prog" where
  "write_raw hw msr flags = Msr_write hw msr flags"

section \<open>VMX instruction results\<close>

abbreviation (input) VM_INSTRUCTION_ERROR_FIELD :: u32 where
  "VM_INSTRUCTION_ERROR_FIELD \<equiv> 0x4400"

text \<open>
  \<open>as_axerr\<close> turns a failed VMX instruction into \<open>BadState\<close>. For \<open>VmFailValid\<close> it first reads, when messages are evaluated, the error
  number for the message, \<open>instruction_error().as_str()\<close>, and that read is unwrapped: if it fails with
  \<open>VmFailInvalid\<close> the code panics; if it fails with \<open>VmFailValid\<close>, \<open>as_axerr\<close> is called for it again in
  the same machine state and the recursion runs out of stack. An exception is passed on.
\<close>

definition as_axerr :: "'m hw \<Rightarrow> VmFail \<Rightarrow> ('m, 'a) prog" where
  "as_axerr hw err m =
     (case err of
        VmFailValid \<Rightarrow>
          if \<not> err_messages hw then (Err BadState, m)
          else (case hw_vmread hw VM_INSTRUCTION_ERROR_FIELD m of
             Inr _ \<Rightarrow> (Err BadState, m)
           | Inl VmFailInvalid \<Rightarrow> (Panic ''unwrap'', m)
           | Inl VmFailValid \<Rightarrow> (Panic ''stack overflow'', m)
           | Inl VmFault \<Rightarrow> (Fault, m))
      | VmFailInvalid \<Rightarrow> (Err BadState, m)
      | VmFault \<Rightarrow> (Fault, m))"

text \<open>\<open>.map_err(as_axerr)\<close> on the result of a VMX instruction.\<close>

definition map_err_ax :: "'m hw \<Rightarrow> ('m \<Rightarrow> (VmFail + 'a) \<times> 'm) \<Rightarrow> ('m, 'a) prog" where
  "map_err_ax hw instr m =
     (case instr m of (Inr x, m') \<Rightarrow> (Ok x, m') | (Inl e, m') \<Rightarrow> as_axerr hw e m')"

definition vmx_capture_status :: "'m hw \<Rightarrow> 'm \<Rightarrow> (VmFail + unit)" where
  "vmx_capture_status hw m =
     (let flags = hw_rflags hw m in
      if bit flags 6 then Inl VmFailValid else if bit flags 0 then Inl VmFailInvalid else Inr ())"

datatype InvEptType = SingleContext | Global

primrec InvEptType_number :: "InvEptType \<Rightarrow> u64" where
  "InvEptType_number SingleContext = 1"
| "InvEptType_number Global = 2"

definition invept :: "'m hw \<Rightarrow> InvEptType \<Rightarrow> u64 \<Rightarrow> 'm \<Rightarrow> (VmFail + unit) \<times> 'm" where
  "invept hw inv_type eptp m =
     (let invept_desc = (eptp, 0)
      in case hw_invept hw (InvEptType_number inv_type) invept_desc m of
           None \<Rightarrow> (Inl VmFault, m)
         | Some m' \<Rightarrow> (vmx_capture_status hw m', m'))"

section \<open>Feature detection\<close>

definition has_hardware_support :: "'m hw \<Rightarrow> 'm \<Rightarrow> bool" where
  "has_hardware_support hw m = (case hw_has_vmx hw m of Some b \<Rightarrow> b | None \<Rightarrow> False)"

section \<open>Execution lemmas\<close>

lemma Msr_read_Ok_iff [prog_elims]:
  "Msr_read hw r m = (Ok v, m') \<longleftrightarrow> hw_rdmsr hw (Msr_number r) m = Some v \<and> m' = m"
  by (auto simp: Msr_read_def split: option.splits)

lemma Msr_read_simps [prog_simps]:
  "hw_rdmsr hw (Msr_number r) m = Some v \<Longrightarrow> Msr_read hw r m = (Ok v, m)"
  "hw_rdmsr hw (Msr_number r) m = None \<Longrightarrow> Msr_read hw r m = (Fault, m)"
  by (simp_all add: Msr_read_def)

lemma Msr_write_Ok_iff [prog_elims]:
  "Msr_write hw r v m = (Ok u, m') \<longleftrightarrow> hw_wrmsr hw (Msr_number r) v m = Some m'"
  by (auto simp: Msr_write_def split: option.splits)

lemma as_axerr_not_Ok [simp]: "as_axerr hw e m \<noteq> (Ok x, m')"
  by (auto simp: as_axerr_def split: VmFail.splits sum.splits if_splits)

lemma as_axerr_state [simp]: "snd (as_axerr hw e m) = m"
  by (auto simp: as_axerr_def split: VmFail.splits sum.splits if_splits)

lemma as_axerr_Err: "as_axerr hw e m = (Err x, m') \<Longrightarrow> x = BadState"
  by (auto simp: as_axerr_def split: VmFail.splits sum.splits if_splits)

lemma map_err_ax_Ok_iff [prog_elims]:
  "map_err_ax hw instr m = (Ok x, m') \<longleftrightarrow> instr m = (Inr x, m')"
  by (auto simp: map_err_ax_def split: prod.splits sum.splits)

lemma map_err_ax_simps [prog_simps]:
  "instr m = (Inr x, m') \<Longrightarrow> map_err_ax hw instr m = (Ok x, m')"
  "instr m = (Inl e, m') \<Longrightarrow> map_err_ax hw instr m = as_axerr hw e m'"
  by (simp_all add: map_err_ax_def)

lemma Msr_variants_UNIV: "set Msr_variants = UNIV"
proof (rule UNIV_eq_I [symmetric])
  fix e show "e \<in> set Msr_variants" by (cases e) (simp_all add: Msr_variants_def)
qed

interpretation msrs: numeric_enum Msr_number "numeric_try_from Msr_variants Msr_number"
  by (rule numeric_enumI [OF _ Msr_variants_UNIV]) (simp add: Msr_variants_def)

lemmas Msr_number_inject [simp] = msrs.number_eq_iff

section \<open>What the code relies on\<close>

text \<open>
  VMCS fields. The encoding of a field gives its width (bits 14:13: 16, 64, 32 bits, natural) and bit
  0 selects the high half of a 64-bit field. A successful VMWRITE of a value that fits the field is
  read back and changes no other full field; it leaves the registers outside the VMCS alone.
\<close>

definition field_width :: "u32 \<Rightarrow> nat" where
  "field_width f =
     (let w = get_bits f 13 15 in if w = 0 then 16 else if w = 2 then 32 else 64)"

definition full_field :: "u32 \<Rightarrow> bool" where
  "full_field f \<longleftrightarrow> \<not> bit f 0"

definition host_view :: "'m hw \<Rightarrow> 'm \<Rightarrow>
    ((u32 \<Rightarrow> u64 option) \<times> (SegReg \<Rightarrow> u16) \<times> (u32 \<Rightarrow> u32 \<Rightarrow> CpuIdResult)) \<times>
    u64 list \<times> u64 option \<times> ((u64 \<times> u16) \<times> (u64 \<times> u16)) \<times> bool option list" where
  "host_view hw m =
     (((\<lambda>r. hw_rdmsr hw r m), (\<lambda>s. hw_segment hw s m), (\<lambda>leaf sub. hw_cpuid hw leaf sub m)),
      [hw_cr0_read hw m, hw_cr0_read_raw hw m, hw_cr3_read_raw hw m, hw_cr4_read hw m,
       hw_cr4_read_raw hw m],
      hw_xcr0_read hw m, (hw_sgdt hw m, hw_sidt hw m),
      [hw_has_rdtscp hw m, hw_has_invpcid hw m, hw_has_xsaves_xrstors hw m])"

locale vmcs_hw =
  fixes hw :: "'m hw"
  assumes vmwrite_read: "hw_vmwrite hw f v m = (Inr (), m') \<Longrightarrow> full_field f \<Longrightarrow>
      take_bit (field_width f) v = v \<Longrightarrow> hw_vmread hw f m' = Inr v"
    and vmwrite_other: "hw_vmwrite hw f v m = (Inr (), m') \<Longrightarrow> full_field f \<Longrightarrow> full_field g \<Longrightarrow>
      g \<noteq> f \<Longrightarrow> hw_vmread hw g m' = hw_vmread hw g m"
    and vmwrite_host: "hw_vmwrite hw f v m = (Inr (), m') \<Longrightarrow> host_view hw m' = host_view hw m"

text \<open>
  XCR0 and IA32_XSS: a value of declared XCR0 flags that is written without an exception is read back,
  and the two registers are independent of each other.
\<close>

locale xstate_hw =
  fixes hw :: "'m hw"
  assumes xcr0_read_flags: "hw_xcr0_read hw m = Some v \<Longrightarrow> v AND xcr0_all hw = v"
    and xcr0_write_read: "hw_xcr0_write hw v m = Some m' \<Longrightarrow> v AND xcr0_all hw = v \<Longrightarrow>
      hw_xcr0_read hw m' = Some v"
    and xcr0_write_rdmsr: "hw_xcr0_write hw v m = Some m' \<Longrightarrow> hw_rdmsr hw r m' = hw_rdmsr hw r m"
    and xss_write_read: "hw_wrmsr hw (Msr_number IA32_XSS) v m = Some m' \<Longrightarrow>
      hw_rdmsr hw (Msr_number IA32_XSS) m' = Some v"
    and xss_write_xcr0: "hw_wrmsr hw (Msr_number IA32_XSS) v m = Some m' \<Longrightarrow>
      hw_xcr0_read hw m' = hw_xcr0_read hw m"

text \<open>
  When the extended-state instructions work: XCR0 is accessible when XSAVE exists and CR4.OSXSAVE (bit 18)
  is set, IA32_XSS when XSAVES exists; a register that is accessible holds a legal value and accepts every
  legal one.
\<close>

locale xstate_live = xstate_hw hw for hw :: "'m hw" +
  fixes xcr0_ok :: "u64 \<Rightarrow> bool"
    and xss_ok :: "u64 \<Rightarrow> bool"
  assumes xgetbv_ok: "hw_has_xsave hw m = Some True \<Longrightarrow> bit (hw_cr4_read hw m) 18 \<Longrightarrow>
      hw_xcr0_read hw m \<noteq> None"
    and xcr0_legal: "hw_xcr0_read hw m = Some v \<Longrightarrow> xcr0_ok v"
    and xsetbv_ok: "hw_xcr0_read hw m \<noteq> None \<Longrightarrow> xcr0_ok v \<Longrightarrow> hw_xcr0_write hw v m \<noteq> None"
    and xss_readable: "hw_has_xsaves_xrstors hw m = Some True \<Longrightarrow>
      hw_rdmsr hw (Msr_number IA32_XSS) m \<noteq> None"
    and xss_legal: "hw_rdmsr hw (Msr_number IA32_XSS) m = Some v \<Longrightarrow> xss_ok v"
    and xss_writable: "hw_rdmsr hw (Msr_number IA32_XSS) m \<noteq> None \<Longrightarrow> xss_ok v \<Longrightarrow>
      hw_wrmsr hw (Msr_number IA32_XSS) v m \<noteq> None"

end
