(* ===== verification/RefMachine.thy ===== *)
theory RefMachine
  imports Machine
begin

text \<open>
  A reference machine that implements the parameter of the model in the way the Intel manual describes
  the operations the code uses: a store of MSRs, one set of fields and a launch state per VMCS with a
  current-VMCS pointer, XCR0 and the control registers, a frame allocator, and a guest that is a script of VM exits.
  It discharges the laws of the locales of \<open>Machine\<close> and gives the witnesses a concrete processor.
\<close>

record refm =
  m_msr :: "u32 \<Rightarrow> u64 option"
  m_cur :: "u64 option"
  m_vmcs :: "u64 \<Rightarrow> u32 \<Rightarrow> u64"
  m_launched :: "u64 \<Rightarrow> bool"
  m_xcr0 :: "u64 option"
  m_cr0 :: u64
  m_cr3 :: u64
  m_cr4 :: u64
  m_vmx_on :: bool
  m_rflags :: u64
  m_frames :: "u64 list"
  m_guest :: "(GeneralRegisters \<times> (u32 \<times> u64) list) list"

definition ref_wrmsr :: "u32 \<Rightarrow> u64 \<Rightarrow> refm \<Rightarrow> refm option" where
  "ref_wrmsr r v m =
     (case m_msr m r of None \<Rightarrow> None | Some _ \<Rightarrow> Some (m\<lparr>m_msr := (m_msr m)(r \<mapsto> v)\<rparr>))"

definition ref_vmread :: "u32 \<Rightarrow> refm \<Rightarrow> VmFail + u64" where
  "ref_vmread f m =
     (case m_cur m of None \<Rightarrow> Inl VmFailInvalid | Some p \<Rightarrow> Inr (m_vmcs m p f))"

text \<open>Bits 11:10 of an encoding are 1 for the read-only data fields.\<close>

definition ref_vmwrite :: "u32 \<Rightarrow> u64 \<Rightarrow> refm \<Rightarrow> (VmFail + unit) \<times> refm" where
  "ref_vmwrite f v m =
     (case m_cur m of
        None \<Rightarrow> (Inl VmFailInvalid, m)
      | Some p \<Rightarrow>
          if get_bits f 10 12 = 1 then (Inl VmFailValid, m)
          else (Inr (), m\<lparr>m_vmcs := (m_vmcs m)(p := (m_vmcs m p)(f := take_bit (field_width f) v))\<rparr>))"

definition ref_vmptrld :: "u64 \<Rightarrow> refm \<Rightarrow> (VmFail + unit) \<times> refm" where
  "ref_vmptrld p m =
     (if \<not> m_vmx_on m then (Inl VmFault, m)
      else if p AND 0xfff \<noteq> 0 then (Inl VmFailInvalid, m)
      else (Inr (), m\<lparr>m_cur := Some p\<rparr>))"

definition ref_vmclear :: "u64 \<Rightarrow> refm \<Rightarrow> (VmFail + unit) \<times> refm" where
  "ref_vmclear p m =
     (if \<not> m_vmx_on m then (Inl VmFault, m)
      else if p AND 0xfff \<noteq> 0 then (Inl VmFailInvalid, m)
      else (Inr (), m\<lparr>m_cur := (if m_cur m = Some p then None else m_cur m),
                      m_launched := (m_launched m)(p := False)\<rparr>))"

definition ref_vmxon :: "u64 \<Rightarrow> refm \<Rightarrow> (VmFail + unit) \<times> refm" where
  "ref_vmxon p m =
     (if \<not> bit (m_cr4 m) 13 then (Inl VmFault, m)
      else if m_vmx_on m \<or> p AND 0xfff \<noteq> 0 then (Inl VmFailInvalid, m)
      else (Inr (), m\<lparr>m_vmx_on := True\<rparr>))"

definition ref_vmxoff :: "refm \<Rightarrow> (VmFail + unit) \<times> refm" where
  "ref_vmxoff m =
     (if m_vmx_on m then (Inr (), m\<lparr>m_vmx_on := False, m_cur := None\<rparr>) else (Inl VmFault, m))"

text \<open>INVEPT rejects an EPT pointer whose memory type is not write-back or whose walk length is not four.\<close>

definition ref_eptp_ok :: "u64 \<Rightarrow> bool" where
  "ref_eptp_ok e \<longleftrightarrow> e AND 0x3f = 0x1e"

definition ref_invept :: "u64 \<Rightarrow> u64 \<times> u64 \<Rightarrow> refm \<Rightarrow> refm option" where
  "ref_invept t d m =
     (if \<not> m_vmx_on m then None else Some (m\<lparr>m_rflags := (if ref_eptp_ok (fst d) then 2 else 0x42)\<rparr>))"

text \<open>XGETBV and XSETBV need CR4.OSXSAVE.\<close>

definition ref_xcr0_read :: "refm \<Rightarrow> u64 option" where
  "ref_xcr0_read m = (if bit (m_cr4 m) 18 then map_option (\<lambda>v. v AND 0x2ff) (m_xcr0 m) else None)"

definition ref_xcr0_write :: "u64 \<Rightarrow> refm \<Rightarrow> refm option" where
  "ref_xcr0_write v m =
     (case ref_xcr0_read m of None \<Rightarrow> None | Some _ \<Rightarrow> Some (m\<lparr>m_xcr0 := Some (v AND 0x2ff)\<rparr>))"

definition ref_alloc :: "u8 \<Rightarrow> refm \<Rightarrow> PhysFrame res \<times> refm" where
  "ref_alloc fill m =
     (case m_frames m of
        [] \<Rightarrow> (Err NoMemory, m)
      | a # as \<Rightarrow>
          (Ok \<lparr>start_paddr = a, frame_bytes = replicate 4096 fill\<rparr>, m\<lparr>m_frames := as\<rparr>))"

text \<open>
  VM entry runs the next exit of the script: the registers and VMCS fields the guest leaves. VMLAUNCH needs a
  clear VMCS and VMRESUME a launched one. An exit whose reason has bit 31 set is a failed entry (its reason is invalid guest state,
  MSR loading or a machine check); it does not change the launch state.
\<close>

abbreviation (input) EXIT_REASON_FIELD :: u32 where "EXIT_REASON_FIELD \<equiv> 0x4402"

definition ref_entry_ok :: "u64 \<Rightarrow> bool" where
  "ref_entry_ok reason \<longleftrightarrow> (bit reason 31 \<longrightarrow> take_bit 16 reason \<in> {33, 34, 41})"

definition ref_vm_entry ::
  "entry_instr \<Rightarrow> GeneralRegisters \<Rightarrow> refm \<Rightarrow> (VmFail + GeneralRegisters) \<times> refm" where
  "ref_vm_entry instr regs m =
     (if \<not> m_vmx_on m then (Inl VmFault, m)
      else case (m_cur m, m_guest m) of
        (Some p, (g, fs) # rest) \<Rightarrow>
          let fields = fold (\<lambda>(f, v) vs. vs(f := v)) fs (m_vmcs m p); reason = fields EXIT_REASON_FIELD in
          if (instr = VMRESUME_INSTR) = m_launched m p \<and> ref_entry_ok reason then
            (Inr g, m\<lparr>m_guest := rest, m_launched := (m_launched m)(p := m_launched m p \<or> \<not> bit reason 31),
                      m_vmcs := (m_vmcs m)(p := fields)\<rparr>)
          else (Inl VmFailValid, m)
      | _ \<Rightarrow> (Inl VmFailInvalid, m))"

definition ref_hw :: "refm hw" where
  "ref_hw =
     \<lparr>overflow_checks = True, err_messages = True,
      hw_rdmsr = (\<lambda>r m. m_msr m r), hw_wrmsr = ref_wrmsr,
      hw_vmread = ref_vmread, hw_vmwrite = ref_vmwrite, hw_vmptrld = ref_vmptrld,
      hw_vmclear = ref_vmclear, hw_vmxon = ref_vmxon, hw_vmxoff = ref_vmxoff,
      hw_invept = ref_invept, hw_rflags = m_rflags,
      hw_cr0_read = m_cr0, hw_cr0_read_raw = m_cr0, hw_cr3_read_raw = m_cr3,
      hw_cr4_read = m_cr4, hw_cr4_read_raw = m_cr4, hw_cr4_write = (\<lambda>v m. m\<lparr>m_cr4 := v\<rparr>),
      hw_xcr0_read = ref_xcr0_read, hw_xcr0_write = ref_xcr0_write,
      hw_cpuid = (\<lambda>leaf sub m. \<lparr>eax = leaf, ebx = sub, ecx = -1, edx = -1\<rparr>),
      hw_has_vmx = (\<lambda>_. Some True), hw_has_xsave = (\<lambda>m. Some (m_xcr0 m \<noteq> None)),
      hw_has_xsaves_xrstors = (\<lambda>m. Some (m_msr m (Msr_number IA32_XSS) \<noteq> None)),
      hw_has_rdtscp = (\<lambda>_. Some True), hw_has_invpcid = (\<lambda>_. None),
      hw_segment = (\<lambda>s _. if s = SEG_TR then 0x28 else 0x10), hw_sgdt = (\<lambda>_. (0x5000, 0x7f)),
      hw_sidt = (\<lambda>_. (0x6000, 0xfff)), hw_mem64 = (\<lambda>_ _. 0x8b0000000067),
      hw_alloc = ref_alloc 0xcc, hw_alloc_zero = ref_alloc 0,
      hw_vm_entry = ref_vm_entry, hw_host_stack_top_addr = (\<lambda>_ _. 0x9080),
      hw_saved_rsp = (\<lambda>_. 0x7ff00), hw_vmx_exit_addr = 0xfff000,
      xcr0_all = 0x2ff, efer_all = 0xfd01\<rparr>"

lemma ref_hw_sel [simp]:
  "overflow_checks ref_hw" "err_messages ref_hw" "hw_rdmsr ref_hw = (\<lambda>r m. m_msr m r)" "hw_wrmsr ref_hw = ref_wrmsr"
  "hw_vmread ref_hw = ref_vmread" "hw_vmwrite ref_hw = ref_vmwrite"
  "hw_vmptrld ref_hw = ref_vmptrld" "hw_vmclear ref_hw = ref_vmclear"
  "hw_vmxon ref_hw = ref_vmxon" "hw_vmxoff ref_hw = ref_vmxoff"
  "hw_invept ref_hw = ref_invept" "hw_rflags ref_hw = m_rflags"
  "hw_cr0_read ref_hw = m_cr0" "hw_cr0_read_raw ref_hw = m_cr0" "hw_cr3_read_raw ref_hw = m_cr3"
  "hw_cr4_read ref_hw = m_cr4" "hw_cr4_read_raw ref_hw = m_cr4"
  "hw_cr4_write ref_hw = (\<lambda>v m. m\<lparr>m_cr4 := v\<rparr>)"
  "hw_xcr0_read ref_hw = ref_xcr0_read"
  "hw_xcr0_write ref_hw = ref_xcr0_write"
  "hw_cpuid ref_hw = (\<lambda>leaf sub m. \<lparr>eax = leaf, ebx = sub, ecx = -1, edx = -1\<rparr>)"
  "hw_has_vmx ref_hw = (\<lambda>_. Some True)" "hw_has_xsave ref_hw = (\<lambda>m. Some (m_xcr0 m \<noteq> None))"
  "hw_has_xsaves_xrstors ref_hw = (\<lambda>m. Some (m_msr m (Msr_number IA32_XSS) \<noteq> None))"
  "hw_has_rdtscp ref_hw = (\<lambda>_. Some True)" "hw_has_invpcid ref_hw = (\<lambda>_. None)"
  "hw_segment ref_hw = (\<lambda>s _. if s = SEG_TR then 0x28 else 0x10)" "hw_sgdt ref_hw = (\<lambda>_. (0x5000, 0x7f))"
  "hw_sidt ref_hw = (\<lambda>_. (0x6000, 0xfff))" "hw_mem64 ref_hw = (\<lambda>_ _. 0x8b0000000067)"
  "hw_alloc ref_hw = ref_alloc 0xcc" "hw_alloc_zero ref_hw = ref_alloc 0"
  "hw_vm_entry ref_hw = ref_vm_entry" "hw_host_stack_top_addr ref_hw = (\<lambda>_ _. 0x9080)"
  "hw_saved_rsp ref_hw = (\<lambda>_. 0x7ff00)"
  "hw_vmx_exit_addr ref_hw = 0xfff000" "xcr0_all ref_hw = 0x2ff" "efer_all ref_hw = 0xfd01"
  by (simp_all add: ref_hw_def)

interpretation ref_vmcs: vmcs_hw ref_hw
  by unfold_locales
    (auto simp: ref_vmwrite_def ref_vmread_def host_view_def ref_xcr0_read_def split: option.splits if_splits)

interpretation ref_xstate: xstate_hw ref_hw
  by unfold_locales
    (auto simp: ref_xcr0_write_def ref_xcr0_read_def ref_wrmsr_def and.assoc
      split: option.splits if_splits)

interpretation ref_xstate_live: xstate_live ref_hw "\<lambda>_. True" "\<lambda>_. True"
  by unfold_locales
    (auto simp: ref_xcr0_write_def ref_xcr0_read_def ref_wrmsr_def split: option.splits if_splits)

text \<open>A machine with VMX on, one current VMCS at 0x2000 and readable MSRs.\<close>

definition ref_machine :: refm where
  "ref_machine =
     \<lparr>m_msr = (\<lambda>r. Some (if r = Msr_number IA32_VMX_BASIC then 0xd8100000000001
                          else if r = Msr_number IA32_VMX_TRUE_ENTRY_CTLS then 0xffffffff000011fb
                          else if r = Msr_number IA32_VMX_CR0_FIXED0 then 0x80000021
                          else if r = Msr_number IA32_VMX_CR0_FIXED1 then 0xffffffff
                          else if r = Msr_number IA32_VMX_CR4_FIXED0 then 0x2000
                          else if r = Msr_number IA32_VMX_CR4_FIXED1 then 0x3727ff
                          else if r = Msr_number IA32_EFER then 0xd01
                          else 0xffffffff00000000)),
      m_cur = Some 0x2000, m_vmcs = (\<lambda>_ _. 0), m_launched = (\<lambda>_. False), m_xcr0 = Some 7,
      m_cr0 = 0x80000031, m_cr3 = 0x1000, m_cr4 = 0x42020, m_vmx_on = True, m_rflags = 2,
      m_frames = [0x10000, 0x11000, 0x12000, 0x13000, 0x14000], m_guest = []\<rparr>"

end
