(* ===== verification/VmxStructs.thy ===== *)
theory VmxStructs
  imports RefMachine
begin

text \<open>
  \<open>src/vmx/structs.rs\<close>: the VMCS/VMXON region, the I/O and MSR bitmaps, the IA32_VMX_BASIC and
  IA32_FEATURE_CONTROL registers and the EPT pointer, and \<open>read_vmcs_revision_id\<close> of \<open>src/vmx/mod.rs\<close>. A
  structure that owns physical frames holds their bytes; \<open>None\<close> is the uninitialised frame of
  \<open>VmxRegion::uninit\<close>. The locale \<open>intercept_map\<close> states what a bitmap promises to the code that fills
  it and is interpreted on both bitmaps.
\<close>

abbreviation (input) PAGE_SIZE :: nat where "PAGE_SIZE \<equiv> 4096"

definition frame_fill :: "u8 \<Rightarrow> PhysFrame \<Rightarrow> PhysFrame" where
  "frame_fill b fr = fr\<lparr>frame_bytes := replicate PAGE_SIZE b\<rparr>"

text \<open>
  \<open>bitmap[index] = f(bitmap[index])\<close> on the slice of \<open>len\<close> bytes at \<open>offset\<close> of a frame: an index out
  of the slice panics.
\<close>

definition slice_update :: "nat \<Rightarrow> nat \<Rightarrow> nat \<Rightarrow> (u8 \<Rightarrow> u8) \<Rightarrow> PhysFrame \<Rightarrow> PhysFrame res" where
  "slice_update offset len index f fr =
     (if index < len
      then Ok (fr\<lparr>frame_bytes := (frame_bytes fr)[offset + index := f (frame_bytes fr ! (offset + index))]\<rparr>)
      else Panic ''index out of bounds'')"

section \<open>VMCS and VMXON regions\<close>

record VmxRegion =
  region_frame :: "PhysFrame option"

definition VmxRegion_uninit :: VmxRegion where
  "VmxRegion_uninit = \<lparr>region_frame = None\<rparr>"

definition VmxRegion_new :: "'m hw \<Rightarrow> u32 \<Rightarrow> bool \<Rightarrow> ('m, VmxRegion) prog" where
  "VmxRegion_new hw revision_id shadow_indicator =
     bind (hw_alloc_zero hw) (\<lambda>frame.
     bind (lift (set_bits_to (read_u32_le (frame_bytes frame)) 0 31 revision_id)) (\<lambda>w.
     return \<lparr>region_frame = Some (frame\<lparr>frame_bytes :=
               write_u32_le (set_bit_to w 31 shadow_indicator) (frame_bytes frame)\<rparr>)\<rparr>))"

definition VmxRegion_phys_addr :: "VmxRegion \<Rightarrow> u64 res" where
  "VmxRegion_phys_addr r =
     (case region_frame r of
        Some fr \<Rightarrow> Ok (start_paddr fr)
      | None \<Rightarrow> Panic ''uninitialized PhysFrame'')"

section \<open>The I/O bitmap\<close>

record IOBitmap =
  io_bitmap_a_frame :: PhysFrame
  io_bitmap_b_frame :: PhysFrame

definition IOBitmap_passthrough_all :: "'m hw \<Rightarrow> ('m, IOBitmap) prog" where
  "IOBitmap_passthrough_all hw =
     bind (hw_alloc_zero hw) (\<lambda>a.
     bind (hw_alloc_zero hw) (\<lambda>b.
     return \<lparr>io_bitmap_a_frame = a, io_bitmap_b_frame = b\<rparr>))"

definition IOBitmap_intercept_all :: "'m hw \<Rightarrow> ('m, IOBitmap) prog" where
  "IOBitmap_intercept_all hw =
     bind (hw_alloc hw) (\<lambda>a.
     bind (hw_alloc hw) (\<lambda>b.
     return \<lparr>io_bitmap_a_frame = frame_fill 0xff a, io_bitmap_b_frame = frame_fill 0xff b\<rparr>))"

definition IOBitmap_phys_addr :: "IOBitmap \<Rightarrow> u64 \<times> u64" where
  "IOBitmap_phys_addr bm = (start_paddr (io_bitmap_a_frame bm), start_paddr (io_bitmap_b_frame bm))"

text \<open>\<open>bitmap[byte] |= 1 << bits\<close> or \<open>bitmap[byte] &= !(1 << bits)\<close>.\<close>

definition set_mask_bit :: "bool \<Rightarrow> nat \<Rightarrow> u8 \<Rightarrow> u8" where
  "set_mask_bit intercept bits x =
     (if intercept then x OR push_bit bits 1 else x AND NOT (push_bit bits 1))"

definition IOBitmap_set_intercept :: "u32 \<Rightarrow> bool \<Rightarrow> (IOBitmap, unit) prog" where
  "IOBitmap_set_intercept port intercept bm =
     (let in_a = (port \<le> 0x7fff);
          port' = (if in_a then port else port - 0x8000);
          frame = (if in_a then io_bitmap_a_frame bm else io_bitmap_b_frame bm);
          byte = unat (port' div 8);
          bits = unat (port' mod 8)
      in case slice_update 0 1024 byte (set_mask_bit intercept bits) frame of
           Ok fr \<Rightarrow>
             (Ok (), if in_a then bm\<lparr>io_bitmap_a_frame := fr\<rparr> else bm\<lparr>io_bitmap_b_frame := fr\<rparr>)
         | Err e \<Rightarrow> (Err e, bm) | Panic msg \<Rightarrow> (Panic msg, bm) | Fault \<Rightarrow> (Fault, bm))"

text \<open>The ports of the range \<open>port_base..port_base + count\<close>, in order.\<close>

definition IOBitmap_set_intercept_of_range ::
  "bool \<Rightarrow> u32 \<Rightarrow> u32 \<Rightarrow> bool \<Rightarrow> (IOBitmap, unit) prog" where
  "IOBitmap_set_intercept_of_range oc port_base count intercept =
     bind (lift (add_u32 oc port_base count)) (\<lambda>port_end.
     block (map (\<lambda>port. IOBitmap_set_intercept (of_nat port) intercept)
       [unat port_base ..< unat port_end]))"

section \<open>The MSR bitmap\<close>

record MsrBitmap =
  msr_frame :: PhysFrame

definition MsrBitmap_passthrough_all :: "'m hw \<Rightarrow> ('m, MsrBitmap) prog" where
  "MsrBitmap_passthrough_all hw = bind (hw_alloc_zero hw) (\<lambda>fr. return \<lparr>msr_frame = fr\<rparr>)"

definition MsrBitmap_intercept_all :: "'m hw \<Rightarrow> ('m, MsrBitmap) prog" where
  "MsrBitmap_intercept_all hw =
     bind (hw_alloc hw) (\<lambda>fr. return \<lparr>msr_frame = frame_fill 0xff fr\<rparr>)"

definition MsrBitmap_phys_addr :: "MsrBitmap \<Rightarrow> u64" where
  "MsrBitmap_phys_addr bm = start_paddr (msr_frame bm)"

definition MsrBitmap_set_intercept :: "u32 \<Rightarrow> bool \<Rightarrow> bool \<Rightarrow> (MsrBitmap, unit) prog" where
  "MsrBitmap_set_intercept msr is_write intercept bm =
     (let region =
            (if msr \<le> 0x1fff then (if \<not> is_write then Some 0 else Some 2)
             else if 0xc0000000 \<le> msr \<and> msr \<le> 0xc0001fff
             then (if \<not> is_write then Some 1 else Some 3)
             else None)
      in case region of
           None \<Rightarrow> (Panic ''unreachable'', bm)
         | Some (n :: nat) \<Rightarrow>
             let offset = n * 1024;
                 msr' = msr AND 0x1fff;
                 byte = unat (msr' div 8);
                 bits = unat (msr' mod 8)
             in case slice_update offset 1024 byte (set_mask_bit intercept bits) (msr_frame bm) of
                  Ok fr \<Rightarrow> (Ok (), bm\<lparr>msr_frame := fr\<rparr>)
                | Err e \<Rightarrow> (Err e, bm) | Panic msg \<Rightarrow> (Panic msg, bm) | Fault \<Rightarrow> (Fault, bm))"

definition set_read_intercept :: "u32 \<Rightarrow> bool \<Rightarrow> (MsrBitmap, unit) prog" where
  "set_read_intercept msr intercept = MsrBitmap_set_intercept msr False intercept"

definition set_write_intercept :: "u32 \<Rightarrow> bool \<Rightarrow> (MsrBitmap, unit) prog" where
  "set_write_intercept msr intercept = MsrBitmap_set_intercept msr True intercept"

section \<open>IA32_VMX_BASIC\<close>

record VmxBasic =
  revision_id :: u32
  region_size :: u16
  is_32bit_address :: bool
  mem_type :: u8
  io_exit_info_flag :: bool
  vmx_flex_controls :: bool

definition VMX_MEMORY_TYPE_WRITE_BACK :: u8 where
  "VMX_MEMORY_TYPE_WRITE_BACK = 6"

definition VmxBasic_MSR :: Msr where
  "VmxBasic_MSR = IA32_VMX_BASIC"

definition VmxBasic_read :: "'m hw \<Rightarrow> ('m, VmxBasic) prog" where
  "VmxBasic_read hw =
     bind (read_raw hw VmxBasic_MSR) (\<lambda>msr.
     return \<lparr>revision_id = ucast (get_bits msr 0 31), region_size = ucast (get_bits msr 32 45),
             is_32bit_address = get_bit msr 48, mem_type = ucast (get_bits msr 50 54),
             io_exit_info_flag = get_bit msr 54, vmx_flex_controls = get_bit msr 55\<rparr>)"

definition read_vmcs_revision_id :: "'m hw \<Rightarrow> ('m, u32) prog" where
  "read_vmcs_revision_id hw = bind (VmxBasic_read hw) (\<lambda>b. return (revision_id b))"

section \<open>IA32_FEATURE_CONTROL\<close>

definition FEATURE_CONTROL_LOCKED :: u64 where "FEATURE_CONTROL_LOCKED = push_bit 0 1"
definition VMXON_ENABLED_INSIDE_SMX :: u64 where "VMXON_ENABLED_INSIDE_SMX = push_bit 1 1"
definition VMXON_ENABLED_OUTSIDE_SMX :: u64 where "VMXON_ENABLED_OUTSIDE_SMX = push_bit 2 1"

definition FeatureControlFlags_all :: u64 where
  "FeatureControlFlags_all =
     FEATURE_CONTROL_LOCKED OR VMXON_ENABLED_INSIDE_SMX OR VMXON_ENABLED_OUTSIDE_SMX"

definition FeatureControl_MSR :: Msr where
  "FeatureControl_MSR = IA32_FEATURE_CONTROL"

definition FeatureControl_read :: "'m hw \<Rightarrow> ('m, u64) prog" where
  "FeatureControl_read hw =
     bind (read_raw hw FeatureControl_MSR) (\<lambda>v. return (v AND FeatureControlFlags_all))"

definition FeatureControl_write :: "'m hw \<Rightarrow> u64 \<Rightarrow> ('m, unit) prog" where
  "FeatureControl_write hw flags =
     bind (read_raw hw FeatureControl_MSR) (\<lambda>old_value.
       let reserved = old_value AND NOT FeatureControlFlags_all;
           new_value = reserved OR flags
       in write_raw hw FeatureControl_MSR new_value)"

section \<open>The EPT pointer\<close>

definition EPT_MEM_TYPE_WB :: u64 where "EPT_MEM_TYPE_WB = push_bit 0 6"
definition EPT_WALK_LENGTH_1 :: u64 where "EPT_WALK_LENGTH_1 = push_bit 3 0"
definition EPT_WALK_LENGTH_2 :: u64 where "EPT_WALK_LENGTH_2 = push_bit 3 1"
definition EPT_WALK_LENGTH_3 :: u64 where "EPT_WALK_LENGTH_3 = push_bit 3 2"
definition EPT_WALK_LENGTH_4 :: u64 where "EPT_WALK_LENGTH_4 = push_bit 3 3"
definition EPT_ENABLE_ACCESSED_DIRTY :: u64 where "EPT_ENABLE_ACCESSED_DIRTY = push_bit 6 1"

definition EPTPointer_from_table_phys :: "u64 \<Rightarrow> u64" where
  "EPTPointer_from_table_phys pml4_paddr =
     (let aligned_addr = pml4_paddr AND NOT (of_nat PAGE_SIZE - 1)
      in aligned_addr OR EPT_MEM_TYPE_WB OR EPT_WALK_LENGTH_4 OR EPT_ENABLE_ACCESSED_DIRTY)"

section \<open>What a bitmap promises\<close>

text \<open>
  \<open>get\<close> is how the processor reads the bitmap, \<open>key\<close> holds for the events it decides, \<open>ok\<close> for those
  the code can set.
\<close>

locale intercept_map =
  fixes set_key :: "'k \<Rightarrow> bool \<Rightarrow> ('s, unit) prog"
    and get :: "'s \<Rightarrow> 'k \<Rightarrow> bool"
    and wf :: "'s \<Rightarrow> bool"
    and key :: "'k \<Rightarrow> bool"
    and ok :: "'k \<Rightarrow> bool"
  assumes set_ok: "wf s \<Longrightarrow> ok k \<Longrightarrow> \<exists>s'. set_key k b s = (Ok (), s') \<and> wf s' \<and>
      (\<forall>j. key j \<longrightarrow> get s' j = (if j = k then b else get s j))"
    and set_not_ok: "\<not> ok k \<Longrightarrow> \<exists>msg. set_key k b s = (Panic msg, s)"
begin

lemma set_many_ok:
  assumes "wf s" "\<forall>k \<in> set ks. ok k"
  shows "\<exists>s'. block (map (\<lambda>k. set_key k b) ks) s = (Ok (), s') \<and> wf s' \<and>
    (\<forall>j. key j \<longrightarrow> get s' j = (if j \<in> set ks then b else get s j))"
  using assms
proof (induction ks arbitrary: s)
  case Nil
  then show ?case by (simp add: return_def)
next
  case (Cons k ks)
  then obtain s1 where s1: "set_key k b s = (Ok (), s1)" "wf s1"
    "\<forall>j. key j \<longrightarrow> get s1 j = (if j = k then b else get s j)"
    using set_ok [of s k b] by auto
  with Cons.IH [of s1] Cons.prems show ?case by (auto simp: bind_simps)
qed

lemma set_many_not_ok:
  assumes "wf s" "\<exists>k \<in> set ks. \<not> ok k"
  shows "\<exists>msg s'. block (map (\<lambda>k. set_key k b) ks) s = (Panic msg, s')"
  using assms
proof (induction ks arbitrary: s)
  case (Cons k ks)
  show ?case
  proof (cases "ok k")
    case True
    with Cons.prems obtain s1 where "set_key k b s = (Ok (), s1)" "wf s1"
      using set_ok [of s k b] by auto
    with Cons True show ?thesis by (simp add: bind_simps)
  next
    case False
    then obtain msg where "set_key k b s = (Panic msg, s)" using set_not_ok by blast
    then show ?thesis by (simp add: bind_simps)
  qed
qed simp

end

section \<open>Bits of the bitmaps\<close>

definition wf_frame :: "PhysFrame \<Rightarrow> bool" where
  "wf_frame fr \<longleftrightarrow> length (frame_bytes fr) = PAGE_SIZE"

definition frame_bit :: "PhysFrame \<Rightarrow> nat \<Rightarrow> bool" where
  "frame_bit fr n = bit (frame_bytes fr ! (n div 8)) (n mod 8)"

lemma wf_frame_slice_update:
  "slice_update offset len index f fr = Ok fr' \<Longrightarrow> wf_frame fr \<Longrightarrow> wf_frame fr'"
  by (auto simp: slice_update_def wf_frame_def split: if_splits)

lemma bit_set_mask_bit:
  "k < 8 \<Longrightarrow> n < 8 \<Longrightarrow> bit (set_mask_bit b n x) k = (if k = n then b else bit x k)"
  by (auto simp: set_mask_bit_def bit_simps)

lemma slice_update_bits:
  assumes "slice_update offset 1024 (q div 8) (set_mask_bit b (q mod 8)) fr = Ok fr'"
    and "wf_frame fr" and "offset \<le> 3072"
  shows "frame_bit fr' n = (if n = 8 * offset + q then b else frame_bit fr n)"
proof -
  from assms have q: "q div 8 < 1024" and fr': "frame_bytes fr' = (frame_bytes fr)
      [offset + q div 8 := set_mask_bit b (q mod 8) (frame_bytes fr ! (offset + q div 8))]"
    by (auto simp: slice_update_def split: if_splits)
  have len: "offset + q div 8 < length (frame_bytes fr)"
    using q assms(2,3) by (simp add: wf_frame_def)
  have "n = 8 * offset + q" if nq: "n div 8 = offset + q div 8" "n mod 8 = q mod 8"
  proof -
    have "n = 8 * (n div 8) + n mod 8" by simp
    also have "\<dots> = 8 * offset + (8 * (q div 8) + q mod 8)"
      by (simp only: nq add_mult_distrib2 add.assoc)
    finally show ?thesis by simp
  qed
  then have eq: "n = 8 * offset + q \<longleftrightarrow> n div 8 = offset + q div 8 \<and> n mod 8 = q mod 8"
    by auto
  show ?thesis
  proof (cases "n div 8 = offset + q div 8")
    case True
    then show ?thesis
      using len by (simp add: frame_bit_def fr' eq bit_set_mask_bit)
  next
    case False
    then show ?thesis by (auto simp: frame_bit_def fr' eq)
  qed
qed

text \<open>How the processor reads the bitmaps (SDM 25.6.4 and 25.6.9).\<close>

definition io_intercepted :: "IOBitmap \<Rightarrow> u32 \<Rightarrow> bool" where
  "io_intercepted bm port =
     (if port < 0x8000 then frame_bit (io_bitmap_a_frame bm) (unat port)
      else frame_bit (io_bitmap_b_frame bm) (unat port - 0x8000))"

definition wf_io :: "IOBitmap \<Rightarrow> bool" where
  "wf_io bm \<longleftrightarrow> wf_frame (io_bitmap_a_frame bm) \<and> wf_frame (io_bitmap_b_frame bm)"

text \<open>The ports whose bit lies in the first 1024 bytes of bitmap A or B.\<close>

definition io_settable :: "u32 \<Rightarrow> bool" where
  "io_settable port \<longleftrightarrow> port < 0x2000 \<or> (0x8000 \<le> port \<and> port < 0xa000)"

definition msr_region :: "u32 \<Rightarrow> bool \<Rightarrow> nat" where
  "msr_region msr is_write =
     (if msr \<le> 0x1fff then (if is_write then 2 else 0) else (if is_write then 3 else 1))"

definition msr_intercepted :: "MsrBitmap \<Rightarrow> u32 \<Rightarrow> bool \<Rightarrow> bool" where
  "msr_intercepted bm msr is_write =
     frame_bit (msr_frame bm) (8 * (1024 * msr_region msr is_write) + unat (msr AND 0x1fff))"

definition msr_covered :: "u32 \<Rightarrow> bool" where
  "msr_covered msr \<longleftrightarrow> msr \<le> 0x1fff \<or> (0xc0000000 \<le> msr \<and> msr \<le> 0xc0001fff)"

definition wf_msr :: "MsrBitmap \<Rightarrow> bool" where
  "wf_msr bm \<longleftrightarrow> wf_frame (msr_frame bm)"

lemma unat_div8_mod8:
  fixes p :: u32
  shows "unat (p div 8) = unat p div 8" "unat (p mod 8) = unat p mod 8"
  by (simp_all add: unat_div unat_mod)

section \<open>The bitmaps keep the promise\<close>

lemma io_set_intercept_run:
  fixes port :: u32
  assumes "wf_io bm" "io_settable port"
  shows "\<exists>bm'. IOBitmap_set_intercept port b bm = (Ok (), bm') \<and> wf_io bm' \<and>
    (\<forall>j < 0x10000. io_intercepted bm' j = (if j = port then b else io_intercepted bm j))"
proof (cases "port \<le> 0x7fff")
  case True
  then have less: "port < 0x2000"
    using assms(2) by (auto simp: io_settable_def word_le_nat_alt word_less_nat_alt)
  then have idx: "unat port div 8 < 1024" by (simp add: word_less_nat_alt)
  define fr where "fr = (io_bitmap_a_frame bm)\<lparr>frame_bytes :=
    (frame_bytes (io_bitmap_a_frame bm))[unat port div 8 :=
       set_mask_bit b (unat port mod 8) (frame_bytes (io_bitmap_a_frame bm) ! (unat port div 8))]\<rparr>"
  have upd: "slice_update 0 1024 (unat port div 8) (set_mask_bit b (unat port mod 8))
      (io_bitmap_a_frame bm) = Ok fr"
    using idx by (simp add: slice_update_def fr_def)
  have "io_intercepted (bm\<lparr>io_bitmap_a_frame := fr\<rparr>) j =
      (if j = port then b else io_intercepted bm j)" for j
    using slice_update_bits [OF upd] assms(1) less
    by (auto simp: io_intercepted_def wf_io_def word_unat_eq_iff word_less_nat_alt)
  then show ?thesis
    using True upd assms(1) wf_frame_slice_update [OF upd]
    by (simp add: IOBitmap_set_intercept_def Let_def unat_div8_mod8 wf_io_def)
next
  case False
  then have range: "0x8000 \<le> port" "port < 0xa000" using assms(2) by (auto simp: io_settable_def
      word_le_nat_alt word_less_nat_alt)
  then have sub: "unat (port - 0x8000) = unat port - 0x8000" by (simp add: unat_sub)
  let ?q = "unat port - 0x8000"
  have idx: "?q div 8 < 1024" using range by (simp add: word_less_nat_alt)
  define fr where "fr = (io_bitmap_b_frame bm)\<lparr>frame_bytes :=
    (frame_bytes (io_bitmap_b_frame bm))[?q div 8 :=
       set_mask_bit b (?q mod 8) (frame_bytes (io_bitmap_b_frame bm) ! (?q div 8))]\<rparr>"
  have upd: "slice_update 0 1024 (?q div 8) (set_mask_bit b (?q mod 8))
      (io_bitmap_b_frame bm) = Ok fr"
    using idx by (simp add: slice_update_def fr_def)
  have "io_intercepted (bm\<lparr>io_bitmap_b_frame := fr\<rparr>) j =
      (if j = port then b else io_intercepted bm j)" for j
    using slice_update_bits [OF upd] assms(1) range
    by (auto simp: io_intercepted_def wf_io_def word_unat_eq_iff word_less_nat_alt word_le_nat_alt)
  then show ?thesis
    using False upd assms(1) wf_frame_slice_update [OF upd]
    by (simp add: IOBitmap_set_intercept_def Let_def unat_div8_mod8 wf_io_def sub)
qed

lemma io_set_intercept_out:
  fixes port :: u32
  assumes "\<not> io_settable port"
  shows "IOBitmap_set_intercept port b bm = (Panic ''index out of bounds'', bm)"
proof (cases "port \<le> 0x7fff")
  case True
  then have "1024 \<le> unat port div 8"
    using assms by (simp add: io_settable_def word_less_nat_alt word_le_nat_alt)
  with True show ?thesis
    by (simp add: IOBitmap_set_intercept_def slice_update_def unat_div8_mod8)
next
  case False
  then have ge: "0x8000 \<le> port" by (simp add: word_le_nat_alt word_less_nat_alt)
  then have sub: "unat (port - 0x8000) = unat port - 0x8000" by (simp add: unat_sub)
  have "1024 \<le> (unat port - 0x8000) div 8"
    using assms ge by (simp add: io_settable_def word_less_nat_alt word_le_nat_alt)
  with False sub show ?thesis
    by (simp add: IOBitmap_set_intercept_def slice_update_def unat_div8_mod8)
qed

interpretation io_map: intercept_map
  IOBitmap_set_intercept io_intercepted wf_io "\<lambda>port. port < 0x10000" io_settable
  using io_set_intercept_run io_set_intercept_out by unfold_locales blast+

lemma msr_bit_index:
  fixes msr :: u32
  shows "unat (msr AND 0x1fff) < 8192"
proof -
  have "msr AND 0x1fff \<le> 0x1fff" by (rule word_and_le1)
  then show ?thesis by (simp add: word_le_nat_alt)
qed

lemma digits_eq:
  fixes a b x y :: nat
  assumes "n * a + x = n * b + y" "x < n" "y < n"
  shows "a = b \<and> x = y"
proof -
  have "(n * a + x) div n = a" "(n * b + y) div n = b" using assms(2,3) by simp_all
  then have "a = b" using assms(1) by metis
  then show ?thesis using assms(1) by simp
qed

lemma high_mod:
  fixes n :: nat
  assumes "0xc0000000 \<le> n" "n \<le> 0xc0001fff"
  shows "n = n mod 8192 + 0xc0000000"
proof -
  define d where "d = n - 0xc0000000"
  then have n: "n = d + 393216 * 8192" and d: "d < 8192" using assms by simp_all
  have "n mod 8192 = d mod 8192" unfolding n by (rule mod_mult_self1)
  with d n show ?thesis by simp
qed

lemma msr_low_bits_inj:
  fixes a b :: u32
  assumes "msr_covered a" "msr_covered b" "a AND 0x1fff = b AND 0x1fff"
    "(a \<le> 0x1fff) = (b \<le> 0x1fff)"
  shows "a = b"
proof -
  have low: "unat (x AND 0x1fff) = unat x mod 8192" for x :: u32
  proof -
    have "x AND 0x1fff = take_bit 13 x" by (simp add: take_bit_eq_mask mask_eq_exp_minus_1)
    then show ?thesis by (simp add: take_bit_eq_mod unat_mod)
  qed
  from arg_cong [OF assms(3), of unat] have same: "unat a mod 8192 = unat b mod 8192"
    by (simp only: low)
  have split: "unat x = unat x mod 8192 + (if x \<le> 0x1fff then 0 else 0xc0000000)"
    if "msr_covered x" for x :: u32
  proof (cases "x \<le> 0x1fff")
    case False
    then have "0xc0000000 \<le> unat x" "unat x \<le> 0xc0001fff"
      using that by (simp_all add: msr_covered_def word_le_nat_alt)
    from high_mod [OF this] show ?thesis using False by (simp only: if_False)
  qed (simp add: word_le_nat_alt)
  have "unat a = unat a mod 8192 + (if a \<le> 0x1fff then 0 else 0xc0000000)"
    by (rule split [OF assms(1)])
  also have "\<dots> = unat b mod 8192 + (if b \<le> 0x1fff then 0 else 0xc0000000)"
    by (simp only: same assms(4))
  also have "\<dots> = unat b" by (rule split [OF assms(2), symmetric])
  finally show ?thesis by (simp add: word_unat_eq_iff)
qed

lemma msr_set_intercept_run:
  assumes "wf_msr bm" "msr_covered msr"
  shows "\<exists>bm'. MsrBitmap_set_intercept msr w b bm = (Ok (), bm') \<and> wf_msr bm' \<and>
    (\<forall>j v. msr_covered j \<longrightarrow>
       msr_intercepted bm' j v = (if j = msr \<and> v = w then b else msr_intercepted bm j v))"
proof -
  let ?n = "msr_region msr w" and ?q = "unat (msr AND 0x1fff)"
  have idx: "?q div 8 < 1024" using msr_bit_index [of msr] by simp
  define fr where "fr = (msr_frame bm)\<lparr>frame_bytes :=
    (frame_bytes (msr_frame bm))[?n * 1024 + ?q div 8 :=
       set_mask_bit b (?q mod 8) (frame_bytes (msr_frame bm) ! (?n * 1024 + ?q div 8))]\<rparr>"
  have upd: "slice_update (?n * 1024) 1024 (?q div 8) (set_mask_bit b (?q mod 8)) (msr_frame bm) = Ok fr"
    using idx by (simp add: slice_update_def fr_def)
  have run: "MsrBitmap_set_intercept msr w b bm = (Ok (), bm\<lparr>msr_frame := fr\<rparr>)"
    using upd assms(2)
    by (auto simp: MsrBitmap_set_intercept_def Let_def unat_div8_mod8 msr_region_def msr_covered_def
        split: if_splits)
  have "?n * 1024 \<le> 3072" by (simp add: msr_region_def)
  then have bits: "frame_bit fr k = (if k = 8 * (?n * 1024) + ?q then b else frame_bit (msr_frame bm) k)" for k
    using slice_update_bits [OF upd] assms(1) by (simp add: wf_msr_def)
  have key: "8 * (1024 * msr_region j v) + unat (j AND 0x1fff) = 8 * (?n * 1024) + ?q \<longleftrightarrow>
      j = msr \<and> v = w" if "msr_covered j" for j v
  proof
    assume eq: "8 * (1024 * msr_region j v) + unat (j AND 0x1fff) = 8 * (?n * 1024) + ?q"
    have "msr_region j v = ?n \<and> unat (j AND 0x1fff) = ?q"
      using eq msr_bit_index [of j] msr_bit_index [of msr]
      by (intro digits_eq [of 8192]) (simp_all add: ac_simps)
    moreover from this have "v = w" "(j \<le> 0x1fff) = (msr \<le> 0x1fff)"
      by (auto simp: msr_region_def split: if_splits)
    ultimately show "j = msr \<and> v = w"
      using msr_low_bits_inj [OF that assms(2)] by (simp add: word_unat_eq_iff)
  qed simp
  have frame: "msr_frame (bm\<lparr>msr_frame := fr\<rparr>) = fr" by simp
  have "msr_intercepted (bm\<lparr>msr_frame := fr\<rparr>) j v =
      (if j = msr \<and> v = w then b else msr_intercepted bm j v)" if "msr_covered j" for j v
    using bits [of "8 * (1024 * msr_region j v) + unat (j AND 0x1fff)"] key [OF that, of v]
    by (simp only: msr_intercepted_def frame)
  then show ?thesis
    using run assms(1) wf_frame_slice_update [OF upd] by (auto simp: wf_msr_def)
qed

lemma msr_set_intercept_out:
  "\<not> msr_covered msr \<Longrightarrow> MsrBitmap_set_intercept msr w b bm = (Panic ''unreachable'', bm)"
  by (auto simp: MsrBitmap_set_intercept_def msr_covered_def)

interpretation msr_map: intercept_map
  "\<lambda>(msr, w) b. MsrBitmap_set_intercept msr w b" "\<lambda>bm (msr, w). msr_intercepted bm msr w" wf_msr
  "\<lambda>(msr, w). msr_covered msr" "\<lambda>(msr, w). msr_covered msr"
proof (unfold_locales, goal_cases)
  case (1 s k b)
  then show ?case using msr_set_intercept_run [of s "fst k" "snd k" b] by (cases k) auto
next
  case (2 k b s)
  then show ?case using msr_set_intercept_out [of "fst k" "snd k" b s] by (cases k) auto
qed

section \<open>Regions and pointers\<close>

lemma u32_of_bytes:
  fixes v :: u32
  shows "ucast (ucast v :: u8) OR push_bit 8 (ucast (ucast (drop_bit 8 v) :: u8)) OR
    push_bit 16 (ucast (ucast (drop_bit 16 v) :: u8)) OR
    push_bit 24 (ucast (ucast (drop_bit 24 v) :: u8)) = v" (is "?w = v")
proof (rule bit_word_eqI)
  fix n assume "n < LENGTH(32)"
  then consider "n < 8" | "8 \<le> n" "n < 16" | "16 \<le> n" "n < 24" | "24 \<le> n" "n < 32"
    by fastforce
  then show "bit ?w n = bit v n" by cases (auto simp: bit_simps)
qed

lemma read_write_u32_le:
  assumes "4 \<le> length bs"
  shows "read_u32_le (write_u32_le v bs) = v"
proof -
  obtain b0 b1 b2 b3 rest where "bs = b0 # b1 # b2 # b3 # rest"
    using assms by (metis (no_types) Suc_le_length_iff numeral_eq_Suc pred_numeral_simps(2,3)
        semiring_norm(26,27) numeral_One)
  then show ?thesis by (simp add: read_u32_le_def write_u32_le_def u32_of_bytes)
qed

lemma read_u32_le_zero: "read_u32_le (replicate 4096 0) = 0"
  by (simp add: read_u32_le_def)

lemma set_bits_to_zero:
  fixes v :: u32
  shows "set_bits_to 0 0 31 v = (if bit v 31 then Panic ''value does not fit into bit range'' else Ok v)"
proof -
  have "v AND mask 31 = v" if "\<not> bit v 31"
  proof (rule bit_word_eqI)
    fix n assume "n < LENGTH(32)"
    then have "n < 31 \<or> n = 31" by auto
    with that show "bit (v AND mask 31) n = bit v n" by (auto simp: bit_simps)
  qed
  moreover have "v AND mask 31 \<noteq> v" if "bit v 31"
  proof
    assume "v AND mask 31 = v"
    then have "bit (v AND mask 31) 31" using that by simp
    then show False by (simp add: bit_simps)
  qed
  ultimately show ?thesis by (auto simp: set_bits_to_def)
qed

lemma drop_write_u32_le: "drop 4 (write_u32_le v bs) = drop 4 bs"
  by (simp add: write_u32_le_def)

lemmas raw_defs = read_raw_def write_raw_def VmxBasic_MSR_def FeatureControl_MSR_def

lemmas VmxBasic_read_msr = VmxBasic_read_def [unfolded raw_defs]
lemmas FeatureControl_read_msr = FeatureControl_read_def [unfolded raw_defs]
lemmas FeatureControl_write_msr = FeatureControl_write_def [unfolded raw_defs]

lemma VmxBasic_revision_31: "VmxBasic_read hw m = (Ok b, m') \<Longrightarrow> \<not> bit (revision_id b) 31"
  by (auto simp: VmxBasic_read_msr prog_elims prog_simps bit_simps wbits)

lemma VmxRegion_new_run:
  assumes "hw_alloc_zero hw m = (Ok fr, m')" "frame_bytes fr = replicate 4096 0"
  shows "VmxRegion_new hw rid shadow m =
    (if bit rid 31 then (Panic ''value does not fit into bit range'', m')
     else (Ok \<lparr>region_frame = Some (fr\<lparr>frame_bytes :=
             write_u32_le (set_bit_to rid 31 shadow) (replicate 4096 0)\<rparr>)\<rparr>, m'))"
  using assms
  by (simp add: VmxRegion_new_def bind_simps read_u32_le_zero set_bits_to_zero lift_def return_def)

lemma eptp_bits:
  "EPTPointer_from_table_phys p = (p AND NOT (mask 12)) OR 0x5e"
proof -
  have "EPT_MEM_TYPE_WB OR EPT_WALK_LENGTH_4 OR EPT_ENABLE_ACCESSED_DIRTY = 0x5e"
    by (simp add: EPT_MEM_TYPE_WB_def EPT_WALK_LENGTH_4_def EPT_ENABLE_ACCESSED_DIRTY_def)
  moreover have "(of_nat PAGE_SIZE - 1 :: u64) = mask 12" by (simp add: mask_eq_exp_minus_1)
  ultimately show ?thesis
    unfolding EPTPointer_from_table_phys_def Let_def by (simp only: or.assoc)
qed

text \<open>The walk lengths are the values of bits 5:3, one less than the number of levels; the pointer asks for four levels.\<close>

lemma eptp_walk_length:
  "map (\<lambda>l. get_bits l 3 6) [EPT_WALK_LENGTH_1, EPT_WALK_LENGTH_2, EPT_WALK_LENGTH_3, EPT_WALK_LENGTH_4] = [0, 1, 2, 3]"
  "get_bits (EPTPointer_from_table_phys p) 3 6 = get_bits EPT_WALK_LENGTH_4 3 6"
proof -
  show "map (\<lambda>l. get_bits l 3 6) [EPT_WALK_LENGTH_1, EPT_WALK_LENGTH_2, EPT_WALK_LENGTH_3, EPT_WALK_LENGTH_4] = [0, 1, 2, 3]"
    by (simp add: get_bits_def mask_eq_exp_minus_1 EPT_WALK_LENGTH_1_def EPT_WALK_LENGTH_2_def EPT_WALK_LENGTH_3_def
        EPT_WALK_LENGTH_4_def)
  have "take_bit 3 (drop_bit 3 ((p AND NOT (mask 12)) OR 0x5e)) = take_bit 3 (drop_bit 3 (0x5e :: u64))"
    by (rule bit_word_eqI) (auto simp: bit_simps)
  then show "get_bits (EPTPointer_from_table_phys p) 3 6 = get_bits EPT_WALK_LENGTH_4 3 6"
    by (simp add: eptp_bits get_bits_def take_bit_eq_mask mask_eq_exp_minus_1 EPT_WALK_LENGTH_4_def)
qed

lemma unat_u32_less: "unat (x :: u32) < 2 ^ 32"
  using unsigned_less [of x] by simp

text \<open>The ports from \<open>base\<close> on that the code can set without a gap end at \<open>io_reach base\<close>.\<close>

definition io_reach :: "u32 \<Rightarrow> nat" where
  "io_reach base = (if base < 0x2000 then 0x2000 else if 0x8000 \<le> base \<and> base < 0xa000 then 0xa000 else unat base)"

lemma io_reach_bounds: "unat base \<le> io_reach base" "io_reach base < 2 ^ 32"
  using unsigned_less [of base] by (auto simp: io_reach_def word_less_nat_alt)

lemma io_reach_settable:
  "unat base \<le> n \<Longrightarrow> n < io_reach base \<Longrightarrow> io_settable (of_nat n)" "\<not> io_settable (of_nat (io_reach base))"
  using unat_u32_less [of base]
  by (auto simp: io_reach_def io_settable_def word_less_nat_alt word_le_nat_alt unat_of_nat split: if_splits)

lemma port_range:
  fixes base :: u32
  assumes "n \<le> 2 ^ 32"
  shows "set (map of_nat [unat base ..< n]) = {j :: u32. base \<le> j \<and> unat j < n}"
proof -
  have "j \<in> of_nat ` {unat base ..< n} \<longleftrightarrow> base \<le> j \<and> unat j < n" for j :: u32
  proof
    assume "j \<in> of_nat ` {unat base ..< n}"
    then obtain k where "j = of_nat k" "unat base \<le> k" "k < n" by auto
    moreover from this have "unat j = k" using assms by (simp add: unat_of_nat)
    ultimately show "base \<le> j \<and> unat j < n" by (simp add: word_le_nat_alt)
  next
    assume "base \<le> j \<and> unat j < n"
    then show "j \<in> of_nat ` {unat base ..< n}"
      by (intro image_eqI [of _ _ "unat j"]) (simp_all add: word_le_nat_alt)
  qed
  then show ?thesis by auto
qed

abbreviation (input) set_ports :: "bool \<Rightarrow> nat \<Rightarrow> nat \<Rightarrow> (IOBitmap, unit) prog" where
  "set_ports b lo hi \<equiv> block (map (\<lambda>port. IOBitmap_set_intercept (of_nat port) b) [lo ..< hi])"

lemma set_ports_run:
  assumes "wf_io bm" "n \<le> io_reach base"
  shows "\<exists>bm'. set_ports b (unat base) n bm = (Ok (), bm') \<and> wf_io bm' \<and>
    (\<forall>j < 0x10000. io_intercepted bm' j = (if base \<le> j \<and> unat j < n then b else io_intercepted bm j))"
proof -
  let ?ks = "map of_nat [unat base ..< n] :: u32 list"
  have "n \<le> 2 ^ 32" using assms(2) io_reach_bounds(2) [of base] by simp
  note ports = port_range [OF this, of base]
  have ok: "\<forall>k \<in> set ?ks. io_settable k" using io_reach_settable(1) [of base] assms(2) by auto
  from io_map.set_many_ok [OF assms(1) ok, of b] show ?thesis
    unfolding ports mem_Collect_eq by (simp add: comp_def)
qed

lemma set_ports_stops:
  assumes "wf_io bm" "io_reach base < n"
  shows "\<exists>bm'. set_ports b (unat base) n bm = (Panic ''index out of bounds'', bm') \<and> wf_io bm' \<and>
    (\<forall>j < 0x10000. io_intercepted bm' j = (if base \<le> j \<and> unat j < io_reach base then b else io_intercepted bm j))"
proof -
  have split: "[unat base ..< n] = [unat base ..< io_reach base] @ io_reach base # [Suc (io_reach base) ..< n]"
    using assms(2) io_reach_bounds(1) [of base] upt_add_eq_append [of "unat base" "io_reach base" "n - io_reach base"]
      upt_conv_Cons [of "io_reach base" n]
    by simp
  obtain bm' where bm': "set_ports b (unat base) (io_reach base) bm = (Ok (), bm')" "wf_io bm'"
    "\<forall>j < 0x10000. io_intercepted bm' j = (if base \<le> j \<and> unat j < io_reach base then b else io_intercepted bm j)"
    using set_ports_run [OF assms(1), of "io_reach base" base b] by auto
  have "set_ports b (unat base) n bm = (Panic ''index out of bounds'', bm')"
    unfolding split map_append list.map block_append
    using bm'(1) io_set_intercept_out [OF io_reach_settable(2), of base b bm'] by (simp add: bind_def)
  with bm'(2,3) show ?thesis by blast
qed

lemma port_end:
  fixes base count :: u32
  shows "unat (base + count) =
    (if 2 ^ 32 \<le> unat base + unat count then unat base + unat count - 2 ^ 32 else unat base + unat count)"
  using unat_u32_less [of base] unat_u32_less [of count]
  by (auto simp: unat_word_ariths take_bit_nat_def mod_if)

section \<open>Properties\<close>

text \<open>
  C28. I/O bitmap, one port: on a well-formed bitmap, \<open>set_intercept\<close> changes the decision the
  processor takes for exactly the given port, for the ports 0 to 0x1fff and 0x8000 to 0x9fff; for every
  other port it panics with an index out of bounds and changes nothing, because the code addresses the
  4096-byte frame through a slice of 1024 bytes.
\<close>

theorem io_set_intercept_spec:
  assumes "wf_io bm"
  shows "if io_settable port
     then \<exists>bm'. IOBitmap_set_intercept port b bm = (Ok (), bm') \<and> wf_io bm' \<and>
            (\<forall>j < 0x10000. io_intercepted bm' j = (if j = port then b else io_intercepted bm j))
     else IOBitmap_set_intercept port b bm = (Panic ''index out of bounds'', bm)"
  using io_set_intercept_run [OF assms] io_set_intercept_out by auto

definition zero_io :: IOBitmap where
  "zero_io = \<lparr>io_bitmap_a_frame = \<lparr>start_paddr = 0x1000, frame_bytes = replicate 4096 0\<rparr>,
              io_bitmap_b_frame = \<lparr>start_paddr = 0x2000, frame_bytes = replicate 4096 0\<rparr>\<rparr>"

lemma wf_zero_io: "wf_io zero_io"
  by (simp add: zero_io_def wf_io_def wf_frame_def)

theorem io_set_intercept_spec_witness:
  "(\<exists>bm'. IOBitmap_set_intercept 0x604 True zero_io = (Ok (), bm') \<and> io_intercepted bm' 0x604 \<and>
     \<not> io_intercepted bm' 0x605) \<and>
   IOBitmap_set_intercept 0x5658 True zero_io = (Panic ''index out of bounds'', zero_io)"
proof -
  have "\<not> io_intercepted zero_io 0x605"
    by (simp add: io_intercepted_def zero_io_def frame_bit_def)
  moreover have "io_settable 0x604" "\<not> io_settable 0x5658" by (simp_all add: io_settable_def)
  ultimately show ?thesis
    using io_set_intercept_spec [OF wf_zero_io, of "0x604" True]
      io_set_intercept_spec [OF wf_zero_io, of "0x5658" True] by fastforce
qed

text \<open>
  C29. I/O bitmap, a range of ports, for every base and count: the ports are set in order up to \<open>io_reach\<close>, the end of the
  part of the bitmap that the code can address (0x2000 for a base below it, 0xa000 for one from 0x8000 on, and nothing
  elsewhere). A range that ends there returns after setting the decision for exactly its ports; a longer one has set exactly the ports
  before that end when it panics with an index out of bounds. When base plus count does not fit 32 bits the call panics
  in a build with overflow checks and does nothing in a build without; in both cases no decision changes.
\<close>

theorem io_set_intercept_of_range_spec:
  assumes "wf_io bm"
  shows "if 2 ^ 32 \<le> unat base + unat count
    then IOBitmap_set_intercept_of_range oc base count b bm =
      (if oc then Panic ''attempt to add with overflow'' else Ok (), bm)
    else \<exists>bm'. IOBitmap_set_intercept_of_range oc base count b bm =
        (if unat base + unat count \<le> io_reach base then Ok () else Panic ''index out of bounds'', bm') \<and> wf_io bm' \<and>
      (\<forall>j < 0x10000. io_intercepted bm' j =
         (if base \<le> j \<and> unat j < min (unat base + unat count) (io_reach base) then b else io_intercepted bm j))"
proof (cases "2 ^ 32 \<le> unat base + unat count")
  case True
  then have none: "[unat base ..< unat (base + count)] = []"
    using unat_u32_less [of count] by (simp add: port_end)
  have "IOBitmap_set_intercept_of_range oc base count b bm = (if oc then Panic ''attempt to add with overflow'' else Ok (), bm)"
    unfolding IOBitmap_set_intercept_of_range_def add_u32_def bind_def lift_def using True by (simp add: none return_def del: upt_eq_Nil_conv)
  with True show ?thesis by simp
next
  case False
  then have run: "IOBitmap_set_intercept_of_range oc base count b bm = set_ports b (unat base) (unat base + unat count) bm"
    by (simp add: IOBitmap_set_intercept_of_range_def add_u32_def bind_def lift_def port_end)
  show ?thesis
  proof (cases "unat base + unat count \<le> io_reach base")
    case True
    then show ?thesis using False set_ports_run [OF assms True, of b] by (simp add: run min_absorb1)
  next
    case stops: False
    then have "io_reach base < unat base + unat count" by simp
    from set_ports_stops [OF assms this, of b] False stops show ?thesis by (simp add: run min_absorb2)
  qed
qed

theorem io_set_intercept_of_range_spec_witness:
  "(\<exists>bm'. IOBitmap_set_intercept_of_range True 0x8060 5 True zero_io = (Ok (), bm') \<and>
     io_intercepted bm' 0x8060 \<and> io_intercepted bm' 0x8064 \<and> \<not> io_intercepted bm' 0x8065) \<and>
   (\<exists>bm'. IOBitmap_set_intercept_of_range True 0x1fff 5 True zero_io = (Panic ''index out of bounds'', bm') \<and>
     io_intercepted bm' 0x1fff \<and> \<not> io_intercepted bm' 0x2000)"
proof -
  have reach: "io_reach 0x8060 = 0xa000" "io_reach 0x1fff = 0x2000" by (simp_all add: io_reach_def)
  have zero: "\<not> io_intercepted zero_io 0x8065" "\<not> io_intercepted zero_io 0x2000"
    by (simp_all add: io_intercepted_def zero_io_def frame_bit_def)
  note spec = io_set_intercept_of_range_spec [OF wf_zero_io]
  obtain bm1 where one: "IOBitmap_set_intercept_of_range True 0x8060 5 True zero_io = (Ok (), bm1)"
    "\<forall>j < 0x10000. io_intercepted bm1 j = (if 0x8060 \<le> j \<and> unat j < 0x8065 then True else io_intercepted zero_io j)"
    using spec [of "0x8060" 5 True True] by (auto simp: reach)
  obtain bm2 where two: "IOBitmap_set_intercept_of_range True 0x1fff 5 True zero_io = (Panic ''index out of bounds'', bm2)"
    "\<forall>j < 0x10000. io_intercepted bm2 j = (if 0x1fff \<le> j \<and> unat j < 0x2000 then True else io_intercepted zero_io j)"
    using spec [of "0x1fff" 5 True True] by (auto simp: reach)
  show ?thesis using one(1) one(2) zero two by (intro conjI exI [of _ bm1] exI [of _ bm2]) simp_all
qed

text \<open>
  C30. MSR bitmap: for every MSR of the two ranges the bitmap covers, \<open>set_intercept\<close> changes the
  decision for exactly that MSR and that direction (read or write), over all covered MSRs and both
  directions; for any other MSR it panics and changes nothing.
\<close>

theorem msr_set_intercept_spec:
  assumes "wf_msr bm"
  shows "if msr_covered msr
     then \<exists>bm'. MsrBitmap_set_intercept msr w b bm = (Ok (), bm') \<and> wf_msr bm' \<and>
            (\<forall>j v. msr_covered j \<longrightarrow>
               msr_intercepted bm' j v = (if j = msr \<and> v = w then b else msr_intercepted bm j v))
     else MsrBitmap_set_intercept msr w b bm = (Panic ''unreachable'', bm)"
  using msr_set_intercept_run [OF assms] msr_set_intercept_out by auto

definition zero_msr :: MsrBitmap where
  "zero_msr = \<lparr>msr_frame = \<lparr>start_paddr = 0x3000, frame_bytes = replicate 4096 0\<rparr>\<rparr>"

lemma wf_zero_msr: "wf_msr zero_msr"
  by (simp add: zero_msr_def wf_msr_def wf_frame_def)

theorem msr_set_intercept_spec_witness:
  "\<exists>bm'. MsrBitmap_set_intercept 0xc0000080 True True zero_msr = (Ok (), bm') \<and>
     msr_intercepted bm' 0xc0000080 True \<and> \<not> msr_intercepted bm' 0xc0000080 False \<and>
     \<not> msr_intercepted bm' 0x80 True"
proof -
  have cov: "msr_covered 0xc0000080" "msr_covered 0x80" by (simp_all add: msr_covered_def)
  then obtain bm' where bm': "MsrBitmap_set_intercept 0xc0000080 True True zero_msr = (Ok (), bm')"
    "\<forall>j v. msr_covered j \<longrightarrow> msr_intercepted bm' j v =
       (if j = 0xc0000080 \<and> v = True then True else msr_intercepted zero_msr j v)"
    using msr_set_intercept_spec [OF wf_zero_msr, of "0xc0000080" True True] by auto
  moreover have "\<not> msr_intercepted zero_msr 0xc0000080 False" "\<not> msr_intercepted zero_msr 0x80 True"
    by (simp_all add: msr_intercepted_def msr_region_def frame_bit_def zero_msr_def)
  ultimately show ?thesis using cov by (intro exI [of _ bm']) simp
qed

text \<open>
  VMCS and VMXON regions: given a zeroed frame, \<open>VmxRegion::new\<close> stores the revision identifier in
  bits 30:0 and the shadow indicator in bit 31 of the first word, leaves the rest of the frame zero and
  keeps its address; it panics exactly when the identifier needs bit 31, which one read from
  IA32_VMX_BASIC never does.
\<close>

theorem VmxRegion_new_spec:
  assumes "hw_alloc_zero hw m = (Ok fr, m')" and "frame_bytes fr = replicate 4096 0"
  shows "(if bit rid 31
      then VmxRegion_new hw rid shadow m = (Panic ''value does not fit into bit range'', m')
      else \<exists>bs. VmxRegion_new hw rid shadow m =
               (Ok \<lparr>region_frame = Some (fr\<lparr>frame_bytes := bs\<rparr>)\<rparr>, m') \<and>
             read_u32_le bs = rid OR (if shadow then 0x80000000 else 0) \<and>
             drop 4 bs = replicate 4092 0 \<and> length bs = 4096) \<and>
     (\<forall>n n' b. VmxBasic_read hw n = (Ok b, n') \<longrightarrow> \<not> bit (revision_id b) 31)"
proof -
  have word: "set_bit_to rid 31 shadow = rid OR (if shadow then 0x80000000 else 0)" if "\<not> bit rid 31"
  proof (rule bit_word_eqI)
    fix n assume "n < LENGTH(32)"
    have "bit (push_bit 31 1 :: u32) n \<longleftrightarrow> n = 31"
      using \<open>n < LENGTH(32)\<close> by (auto simp: bit_simps simp del: push_bit_of_1)
    with that show "bit (set_bit_to rid 31 shadow) n =
        bit (rid OR (if shadow then 0x80000000 else 0)) n"
      by (auto simp: wbits bit_or_iff)
  qed
  let ?bs = "write_u32_le (set_bit_to rid 31 shadow) (replicate 4096 0)"
  have bytes: "read_u32_le ?bs = set_bit_to rid 31 shadow" "drop 4 ?bs = replicate 4092 0"
    "length ?bs = 4096"
    by (simp_all add: read_write_u32_le drop_write_u32_le) (simp add: write_u32_le_def)
  show ?thesis
  proof (intro conjI allI impI)
    fix n n' b assume "VmxBasic_read hw n = (Ok b, n')"
    then show "\<not> bit (revision_id b) 31" by (rule VmxBasic_revision_31)
  next
    show "if bit rid 31
      then VmxRegion_new hw rid shadow m = (Panic ''value does not fit into bit range'', m')
      else \<exists>bs. VmxRegion_new hw rid shadow m =
               (Ok \<lparr>region_frame = Some (fr\<lparr>frame_bytes := bs\<rparr>)\<rparr>, m') \<and>
             read_u32_le bs = rid OR (if shadow then 0x80000000 else 0) \<and>
             drop 4 bs = replicate 4092 0 \<and> length bs = 4096"
      using bytes word by (auto simp only: VmxRegion_new_run [OF assms] if_True if_False split: if_split)
  qed
qed

theorem VmxRegion_new_spec_witness:
  "\<exists>bs. VmxRegion_new ref_hw 0x1234 True ref_machine =
     (Ok \<lparr>region_frame = Some \<lparr>start_paddr = 0x10000, frame_bytes = bs\<rparr>\<rparr>,
      ref_machine\<lparr>m_frames := [0x11000, 0x12000, 0x13000, 0x14000]\<rparr>) \<and>
     read_u32_le bs = 0x80001234"
proof -
  have "hw_alloc_zero ref_hw ref_machine =
      (Ok \<lparr>start_paddr = 0x10000, frame_bytes = replicate 4096 0\<rparr>,
       ref_machine\<lparr>m_frames := [0x11000, 0x12000, 0x13000, 0x14000]\<rparr>)"
    by (simp add: ref_alloc_def ref_machine_def)
  from VmxRegion_new_spec [OF this, of "0x1234" True] show ?thesis
    by (auto simp: bit_numeral_rec)
qed

text \<open>
  EPT pointer: whatever table address is given, the pointer has memory type write-back (bits 2:0),
  a page-walk length of four (bits 5:3), accessed/dirty flags enabled (bit 6), reserved bits 11:7 clear,
  and the page-aligned table address above.
\<close>

theorem EPTPointer_from_table_phys_spec:
  "let e = EPTPointer_from_table_phys p in
     get_bits e 0 3 = 6 \<and> get_bits e 3 6 = 3 \<and> get_bit e 6 \<and> get_bits e 7 12 = 0 \<and>
     drop_bit 12 e = drop_bit 12 p"
proof -
  let ?e = "(p AND NOT (mask 12)) OR 0x5e"
  have low: "take_bit 12 ?e = 0x5e"
    by (rule bit_word_eqI) (auto simp: bit_simps bit_numeral_rec)
  have bits: "get_bits ?e lo hi = get_bits 0x5e lo hi" if "hi \<le> 12" for lo hi
    by (rule bit_word_eqI) (use that in \<open>auto simp: wbits bit_simps\<close>)
  show ?thesis
    unfolding Let_def eptp_bits
  proof (intro conjI)
    show "get_bits ?e 0 3 = 6" "get_bits ?e 3 6 = 3" "get_bits ?e 7 12 = 0"
      by (simp_all only: bits) (simp_all add: get_bits_def mask_eq_exp_minus_1)
    show "get_bit ?e 6" by (simp add: get_bit_def bit_simps bit_numeral_rec)
    show "drop_bit 12 ?e = drop_bit 12 p"
      by (rule bit_word_eqI) (auto simp: bit_simps bit_numeral_rec dest: bit_imp_le_length)
  qed
qed

end
