(* ===== verification/VmcsFields.thy ===== *)
theory VmcsFields
  imports VmxStructs
begin

text \<open>
  The VMCS fields of \<open>src/vmx/vmcs.rs\<close>: one enum per width and group with the encodings of the Intel
  manual (Vol. 3D, Appendix B), and the accessors that the macros \<open>vmcs_read!\<close> and \<open>vmcs_write!\<close>
  generate for each of them on a 64-bit target. The locale \<open>field_enum\<close> states what an enum of fields
  promises (one encoding per field, of the enum's width and group); each enum is an interpretation.
\<close>

section \<open>Accessors\<close>

definition vmcs_read :: "'m hw \<Rightarrow> u32 \<Rightarrow> ('m, 'a::len word) prog" where
  "vmcs_read hw field = map_err_ax hw (\<lambda>m. (map_sum id ucast (hw_vmread hw field m), m))"

definition vmcs_write :: "'m hw \<Rightarrow> u32 \<Rightarrow> 'a::len word \<Rightarrow> ('m, unit) prog" where
  "vmcs_write hw field v = map_err_ax hw (hw_vmwrite hw field (ucast v))"

section \<open>Fields\<close>

datatype (plugins only: code) VmcsControl16 =
    VPID | POSTED_INTERRUPT_NOTIFICATION_VECTOR |
    EPTP_INDEX

primrec VmcsControl16_number :: "VmcsControl16 \<Rightarrow> u32" where
  "VmcsControl16_number VmcsControl16.VPID = 0x0"
| "VmcsControl16_number VmcsControl16.POSTED_INTERRUPT_NOTIFICATION_VECTOR = 0x2"
| "VmcsControl16_number VmcsControl16.EPTP_INDEX = 0x4"

definition VmcsControl16_variants :: "VmcsControl16 list" where
  "VmcsControl16_variants =
     [VmcsControl16.VPID, VmcsControl16.POSTED_INTERRUPT_NOTIFICATION_VECTOR,
      VmcsControl16.EPTP_INDEX]"

definition VmcsControl16_read :: "'m hw \<Rightarrow> VmcsControl16 \<Rightarrow> ('m, u16) prog" where
  "VmcsControl16_read hw field = vmcs_read hw (VmcsControl16_number field)"

definition VmcsControl16_write :: "'m hw \<Rightarrow> VmcsControl16 \<Rightarrow> u16 \<Rightarrow> ('m, unit) prog" where
  "VmcsControl16_write hw field v = vmcs_write hw (VmcsControl16_number field) v"

datatype (plugins only: code) VmcsControl64 =
    IO_BITMAP_A_ADDR | IO_BITMAP_B_ADDR |
    MSR_BITMAPS_ADDR | VMEXIT_MSR_STORE_ADDR | VMEXIT_MSR_LOAD_ADDR | VMENTRY_MSR_LOAD_ADDR |
    EXECUTIVE_VMCS_PTR | PML_ADDR | TSC_OFFSET | VIRT_APIC_ADDR | APIC_ACCESS_ADDR |
    POSTED_INTERRUPT_DESC_ADDR | VM_FUNCTION_CONTROLS | EPTP | EOI_EXIT0 | EOI_EXIT1 | EOI_EXIT2 |
    EOI_EXIT3 | EPTP_LIST_ADDR | VMREAD_BITMAP_ADDR | VMWRITE_BITMAP_ADDR |
    VIRT_EXCEPTION_INFO_ADDR | XSS_EXITING_BITMAP | ENCLS_EXITING_BITMAP | SUBPAGE_PERM_TABLE_PTR
    | TSC_MULTIPLIER

primrec VmcsControl64_number :: "VmcsControl64 \<Rightarrow> u32" where
  "VmcsControl64_number VmcsControl64.IO_BITMAP_A_ADDR = 0x2000"
| "VmcsControl64_number VmcsControl64.IO_BITMAP_B_ADDR = 0x2002"
| "VmcsControl64_number VmcsControl64.MSR_BITMAPS_ADDR = 0x2004"
| "VmcsControl64_number VmcsControl64.VMEXIT_MSR_STORE_ADDR = 0x2006"
| "VmcsControl64_number VmcsControl64.VMEXIT_MSR_LOAD_ADDR = 0x2008"
| "VmcsControl64_number VmcsControl64.VMENTRY_MSR_LOAD_ADDR = 0x200a"
| "VmcsControl64_number VmcsControl64.EXECUTIVE_VMCS_PTR = 0x200c"
| "VmcsControl64_number VmcsControl64.PML_ADDR = 0x200e"
| "VmcsControl64_number VmcsControl64.TSC_OFFSET = 0x2010"
| "VmcsControl64_number VmcsControl64.VIRT_APIC_ADDR = 0x2012"
| "VmcsControl64_number VmcsControl64.APIC_ACCESS_ADDR = 0x2014"
| "VmcsControl64_number VmcsControl64.POSTED_INTERRUPT_DESC_ADDR = 0x2016"
| "VmcsControl64_number VmcsControl64.VM_FUNCTION_CONTROLS = 0x2018"
| "VmcsControl64_number VmcsControl64.EPTP = 0x201a"
| "VmcsControl64_number VmcsControl64.EOI_EXIT0 = 0x201c"
| "VmcsControl64_number VmcsControl64.EOI_EXIT1 = 0x201e"
| "VmcsControl64_number VmcsControl64.EOI_EXIT2 = 0x2020"
| "VmcsControl64_number VmcsControl64.EOI_EXIT3 = 0x2022"
| "VmcsControl64_number VmcsControl64.EPTP_LIST_ADDR = 0x2024"
| "VmcsControl64_number VmcsControl64.VMREAD_BITMAP_ADDR = 0x2026"
| "VmcsControl64_number VmcsControl64.VMWRITE_BITMAP_ADDR = 0x2028"
| "VmcsControl64_number VmcsControl64.VIRT_EXCEPTION_INFO_ADDR = 0x202a"
| "VmcsControl64_number VmcsControl64.XSS_EXITING_BITMAP = 0x202c"
| "VmcsControl64_number VmcsControl64.ENCLS_EXITING_BITMAP = 0x202e"
| "VmcsControl64_number VmcsControl64.SUBPAGE_PERM_TABLE_PTR = 0x2030"
| "VmcsControl64_number VmcsControl64.TSC_MULTIPLIER = 0x2032"

definition VmcsControl64_variants :: "VmcsControl64 list" where
  "VmcsControl64_variants =
     [VmcsControl64.IO_BITMAP_A_ADDR, VmcsControl64.IO_BITMAP_B_ADDR,
      VmcsControl64.MSR_BITMAPS_ADDR, VmcsControl64.VMEXIT_MSR_STORE_ADDR,
      VmcsControl64.VMEXIT_MSR_LOAD_ADDR, VmcsControl64.VMENTRY_MSR_LOAD_ADDR,
      VmcsControl64.EXECUTIVE_VMCS_PTR, VmcsControl64.PML_ADDR, VmcsControl64.TSC_OFFSET,
      VmcsControl64.VIRT_APIC_ADDR, VmcsControl64.APIC_ACCESS_ADDR,
      VmcsControl64.POSTED_INTERRUPT_DESC_ADDR, VmcsControl64.VM_FUNCTION_CONTROLS,
      VmcsControl64.EPTP, VmcsControl64.EOI_EXIT0, VmcsControl64.EOI_EXIT1,
      VmcsControl64.EOI_EXIT2, VmcsControl64.EOI_EXIT3, VmcsControl64.EPTP_LIST_ADDR,
      VmcsControl64.VMREAD_BITMAP_ADDR, VmcsControl64.VMWRITE_BITMAP_ADDR,
      VmcsControl64.VIRT_EXCEPTION_INFO_ADDR, VmcsControl64.XSS_EXITING_BITMAP,
      VmcsControl64.ENCLS_EXITING_BITMAP, VmcsControl64.SUBPAGE_PERM_TABLE_PTR,
      VmcsControl64.TSC_MULTIPLIER]"

definition VmcsControl64_read :: "'m hw \<Rightarrow> VmcsControl64 \<Rightarrow> ('m, u64) prog" where
  "VmcsControl64_read hw field = vmcs_read hw (VmcsControl64_number field)"

definition VmcsControl64_write :: "'m hw \<Rightarrow> VmcsControl64 \<Rightarrow> u64 \<Rightarrow> ('m, unit) prog" where
  "VmcsControl64_write hw field v = vmcs_write hw (VmcsControl64_number field) v"

datatype (plugins only: code) VmcsControl32 =
    PINBASED_EXEC_CONTROLS |
    PRIMARY_PROCBASED_EXEC_CONTROLS | EXCEPTION_BITMAP | PAGE_FAULT_ERR_CODE_MASK |
    PAGE_FAULT_ERR_CODE_MATCH | CR3_TARGET_COUNT | VMEXIT_CONTROLS | VMEXIT_MSR_STORE_COUNT |
    VMEXIT_MSR_LOAD_COUNT | VMENTRY_CONTROLS | VMENTRY_MSR_LOAD_COUNT |
    VMENTRY_INTERRUPTION_INFO_FIELD | VMENTRY_EXCEPTION_ERR_CODE | VMENTRY_INSTRUCTION_LEN |
    TPR_THRESHOLD | SECONDARY_PROCBASED_EXEC_CONTROLS | PLE_GAP | PLE_WINDOW

primrec VmcsControl32_number :: "VmcsControl32 \<Rightarrow> u32" where
  "VmcsControl32_number VmcsControl32.PINBASED_EXEC_CONTROLS = 0x4000"
| "VmcsControl32_number VmcsControl32.PRIMARY_PROCBASED_EXEC_CONTROLS = 0x4002"
| "VmcsControl32_number VmcsControl32.EXCEPTION_BITMAP = 0x4004"
| "VmcsControl32_number VmcsControl32.PAGE_FAULT_ERR_CODE_MASK = 0x4006"
| "VmcsControl32_number VmcsControl32.PAGE_FAULT_ERR_CODE_MATCH = 0x4008"
| "VmcsControl32_number VmcsControl32.CR3_TARGET_COUNT = 0x400a"
| "VmcsControl32_number VmcsControl32.VMEXIT_CONTROLS = 0x400c"
| "VmcsControl32_number VmcsControl32.VMEXIT_MSR_STORE_COUNT = 0x400e"
| "VmcsControl32_number VmcsControl32.VMEXIT_MSR_LOAD_COUNT = 0x4010"
| "VmcsControl32_number VmcsControl32.VMENTRY_CONTROLS = 0x4012"
| "VmcsControl32_number VmcsControl32.VMENTRY_MSR_LOAD_COUNT = 0x4014"
| "VmcsControl32_number VmcsControl32.VMENTRY_INTERRUPTION_INFO_FIELD = 0x4016"
| "VmcsControl32_number VmcsControl32.VMENTRY_EXCEPTION_ERR_CODE = 0x4018"
| "VmcsControl32_number VmcsControl32.VMENTRY_INSTRUCTION_LEN = 0x401a"
| "VmcsControl32_number VmcsControl32.TPR_THRESHOLD = 0x401c"
| "VmcsControl32_number VmcsControl32.SECONDARY_PROCBASED_EXEC_CONTROLS = 0x401e"
| "VmcsControl32_number VmcsControl32.PLE_GAP = 0x4020"
| "VmcsControl32_number VmcsControl32.PLE_WINDOW = 0x4022"

definition VmcsControl32_variants :: "VmcsControl32 list" where
  "VmcsControl32_variants =
     [VmcsControl32.PINBASED_EXEC_CONTROLS, VmcsControl32.PRIMARY_PROCBASED_EXEC_CONTROLS,
      VmcsControl32.EXCEPTION_BITMAP, VmcsControl32.PAGE_FAULT_ERR_CODE_MASK,
      VmcsControl32.PAGE_FAULT_ERR_CODE_MATCH, VmcsControl32.CR3_TARGET_COUNT,
      VmcsControl32.VMEXIT_CONTROLS, VmcsControl32.VMEXIT_MSR_STORE_COUNT,
      VmcsControl32.VMEXIT_MSR_LOAD_COUNT, VmcsControl32.VMENTRY_CONTROLS,
      VmcsControl32.VMENTRY_MSR_LOAD_COUNT, VmcsControl32.VMENTRY_INTERRUPTION_INFO_FIELD,
      VmcsControl32.VMENTRY_EXCEPTION_ERR_CODE, VmcsControl32.VMENTRY_INSTRUCTION_LEN,
      VmcsControl32.TPR_THRESHOLD, VmcsControl32.SECONDARY_PROCBASED_EXEC_CONTROLS,
      VmcsControl32.PLE_GAP, VmcsControl32.PLE_WINDOW]"

definition VmcsControl32_read :: "'m hw \<Rightarrow> VmcsControl32 \<Rightarrow> ('m, u32) prog" where
  "VmcsControl32_read hw field = vmcs_read hw (VmcsControl32_number field)"

definition VmcsControl32_write :: "'m hw \<Rightarrow> VmcsControl32 \<Rightarrow> u32 \<Rightarrow> ('m, unit) prog" where
  "VmcsControl32_write hw field v = vmcs_write hw (VmcsControl32_number field) v"

datatype (plugins only: code) VmcsControlNW =
    CR0_GUEST_HOST_MASK | CR4_GUEST_HOST_MASK |
    CR0_READ_SHADOW | CR4_READ_SHADOW | CR3_TARGET_VALUE0 | CR3_TARGET_VALUE1 | CR3_TARGET_VALUE2
    | CR3_TARGET_VALUE3

primrec VmcsControlNW_number :: "VmcsControlNW \<Rightarrow> u32" where
  "VmcsControlNW_number VmcsControlNW.CR0_GUEST_HOST_MASK = 0x6000"
| "VmcsControlNW_number VmcsControlNW.CR4_GUEST_HOST_MASK = 0x6002"
| "VmcsControlNW_number VmcsControlNW.CR0_READ_SHADOW = 0x6004"
| "VmcsControlNW_number VmcsControlNW.CR4_READ_SHADOW = 0x6006"
| "VmcsControlNW_number VmcsControlNW.CR3_TARGET_VALUE0 = 0x6008"
| "VmcsControlNW_number VmcsControlNW.CR3_TARGET_VALUE1 = 0x600a"
| "VmcsControlNW_number VmcsControlNW.CR3_TARGET_VALUE2 = 0x600c"
| "VmcsControlNW_number VmcsControlNW.CR3_TARGET_VALUE3 = 0x600e"

definition VmcsControlNW_variants :: "VmcsControlNW list" where
  "VmcsControlNW_variants =
     [VmcsControlNW.CR0_GUEST_HOST_MASK, VmcsControlNW.CR4_GUEST_HOST_MASK,
      VmcsControlNW.CR0_READ_SHADOW, VmcsControlNW.CR4_READ_SHADOW,
      VmcsControlNW.CR3_TARGET_VALUE0, VmcsControlNW.CR3_TARGET_VALUE1,
      VmcsControlNW.CR3_TARGET_VALUE2, VmcsControlNW.CR3_TARGET_VALUE3]"

definition VmcsControlNW_read :: "'m hw \<Rightarrow> VmcsControlNW \<Rightarrow> ('m, usize) prog" where
  "VmcsControlNW_read hw field = vmcs_read hw (VmcsControlNW_number field)"

definition VmcsControlNW_write :: "'m hw \<Rightarrow> VmcsControlNW \<Rightarrow> usize \<Rightarrow> ('m, unit) prog" where
  "VmcsControlNW_write hw field v = vmcs_write hw (VmcsControlNW_number field) v"

datatype (plugins only: code) VmcsGuest16 =
    ES_SELECTOR | CS_SELECTOR | SS_SELECTOR | DS_SELECTOR
    | FS_SELECTOR | GS_SELECTOR | LDTR_SELECTOR | TR_SELECTOR | INTERRUPT_STATUS | PML_INDEX

primrec VmcsGuest16_number :: "VmcsGuest16 \<Rightarrow> u32" where
  "VmcsGuest16_number VmcsGuest16.ES_SELECTOR = 0x800"
| "VmcsGuest16_number VmcsGuest16.CS_SELECTOR = 0x802"
| "VmcsGuest16_number VmcsGuest16.SS_SELECTOR = 0x804"
| "VmcsGuest16_number VmcsGuest16.DS_SELECTOR = 0x806"
| "VmcsGuest16_number VmcsGuest16.FS_SELECTOR = 0x808"
| "VmcsGuest16_number VmcsGuest16.GS_SELECTOR = 0x80a"
| "VmcsGuest16_number VmcsGuest16.LDTR_SELECTOR = 0x80c"
| "VmcsGuest16_number VmcsGuest16.TR_SELECTOR = 0x80e"
| "VmcsGuest16_number VmcsGuest16.INTERRUPT_STATUS = 0x810"
| "VmcsGuest16_number VmcsGuest16.PML_INDEX = 0x812"

definition VmcsGuest16_variants :: "VmcsGuest16 list" where
  "VmcsGuest16_variants =
     [VmcsGuest16.ES_SELECTOR, VmcsGuest16.CS_SELECTOR, VmcsGuest16.SS_SELECTOR,
      VmcsGuest16.DS_SELECTOR, VmcsGuest16.FS_SELECTOR, VmcsGuest16.GS_SELECTOR,
      VmcsGuest16.LDTR_SELECTOR, VmcsGuest16.TR_SELECTOR, VmcsGuest16.INTERRUPT_STATUS,
      VmcsGuest16.PML_INDEX]"

definition VmcsGuest16_read :: "'m hw \<Rightarrow> VmcsGuest16 \<Rightarrow> ('m, u16) prog" where
  "VmcsGuest16_read hw field = vmcs_read hw (VmcsGuest16_number field)"

definition VmcsGuest16_write :: "'m hw \<Rightarrow> VmcsGuest16 \<Rightarrow> u16 \<Rightarrow> ('m, unit) prog" where
  "VmcsGuest16_write hw field v = vmcs_write hw (VmcsGuest16_number field) v"

datatype (plugins only: code) VmcsGuest64 =
    LINK_PTR | IA32_DEBUGCTL | IA32_PAT | IA32_EFER |
    IA32_PERF_GLOBAL_CTRL | PDPTE0 | PDPTE1 | PDPTE2 | PDPTE3 | IA32_BNDCFGS | IA32_RTIT_CTL

primrec VmcsGuest64_number :: "VmcsGuest64 \<Rightarrow> u32" where
  "VmcsGuest64_number VmcsGuest64.LINK_PTR = 0x2800"
| "VmcsGuest64_number VmcsGuest64.IA32_DEBUGCTL = 0x2802"
| "VmcsGuest64_number VmcsGuest64.IA32_PAT = 0x2804"
| "VmcsGuest64_number VmcsGuest64.IA32_EFER = 0x2806"
| "VmcsGuest64_number VmcsGuest64.IA32_PERF_GLOBAL_CTRL = 0x2808"
| "VmcsGuest64_number VmcsGuest64.PDPTE0 = 0x280a"
| "VmcsGuest64_number VmcsGuest64.PDPTE1 = 0x280c"
| "VmcsGuest64_number VmcsGuest64.PDPTE2 = 0x280e"
| "VmcsGuest64_number VmcsGuest64.PDPTE3 = 0x2810"
| "VmcsGuest64_number VmcsGuest64.IA32_BNDCFGS = 0x2812"
| "VmcsGuest64_number VmcsGuest64.IA32_RTIT_CTL = 0x2814"

definition VmcsGuest64_variants :: "VmcsGuest64 list" where
  "VmcsGuest64_variants =
     [VmcsGuest64.LINK_PTR, VmcsGuest64.IA32_DEBUGCTL, VmcsGuest64.IA32_PAT,
      VmcsGuest64.IA32_EFER, VmcsGuest64.IA32_PERF_GLOBAL_CTRL, VmcsGuest64.PDPTE0,
      VmcsGuest64.PDPTE1, VmcsGuest64.PDPTE2, VmcsGuest64.PDPTE3, VmcsGuest64.IA32_BNDCFGS,
      VmcsGuest64.IA32_RTIT_CTL]"

definition VmcsGuest64_read :: "'m hw \<Rightarrow> VmcsGuest64 \<Rightarrow> ('m, u64) prog" where
  "VmcsGuest64_read hw field = vmcs_read hw (VmcsGuest64_number field)"

definition VmcsGuest64_write :: "'m hw \<Rightarrow> VmcsGuest64 \<Rightarrow> u64 \<Rightarrow> ('m, unit) prog" where
  "VmcsGuest64_write hw field v = vmcs_write hw (VmcsGuest64_number field) v"

datatype (plugins only: code) VmcsGuest32 =
    ES_LIMIT | CS_LIMIT | SS_LIMIT | DS_LIMIT | FS_LIMIT
    | GS_LIMIT | LDTR_LIMIT | TR_LIMIT | GDTR_LIMIT | IDTR_LIMIT | ES_ACCESS_RIGHTS |
    CS_ACCESS_RIGHTS | SS_ACCESS_RIGHTS | DS_ACCESS_RIGHTS | FS_ACCESS_RIGHTS | GS_ACCESS_RIGHTS |
    LDTR_ACCESS_RIGHTS | TR_ACCESS_RIGHTS | INTERRUPTIBILITY_STATE | ACTIVITY_STATE | SMBASE |
    IA32_SYSENTER_CS | VMX_PREEMPTION_TIMER_VALUE

primrec VmcsGuest32_number :: "VmcsGuest32 \<Rightarrow> u32" where
  "VmcsGuest32_number VmcsGuest32.ES_LIMIT = 0x4800"
| "VmcsGuest32_number VmcsGuest32.CS_LIMIT = 0x4802"
| "VmcsGuest32_number VmcsGuest32.SS_LIMIT = 0x4804"
| "VmcsGuest32_number VmcsGuest32.DS_LIMIT = 0x4806"
| "VmcsGuest32_number VmcsGuest32.FS_LIMIT = 0x4808"
| "VmcsGuest32_number VmcsGuest32.GS_LIMIT = 0x480a"
| "VmcsGuest32_number VmcsGuest32.LDTR_LIMIT = 0x480c"
| "VmcsGuest32_number VmcsGuest32.TR_LIMIT = 0x480e"
| "VmcsGuest32_number VmcsGuest32.GDTR_LIMIT = 0x4810"
| "VmcsGuest32_number VmcsGuest32.IDTR_LIMIT = 0x4812"
| "VmcsGuest32_number VmcsGuest32.ES_ACCESS_RIGHTS = 0x4814"
| "VmcsGuest32_number VmcsGuest32.CS_ACCESS_RIGHTS = 0x4816"
| "VmcsGuest32_number VmcsGuest32.SS_ACCESS_RIGHTS = 0x4818"
| "VmcsGuest32_number VmcsGuest32.DS_ACCESS_RIGHTS = 0x481a"
| "VmcsGuest32_number VmcsGuest32.FS_ACCESS_RIGHTS = 0x481c"
| "VmcsGuest32_number VmcsGuest32.GS_ACCESS_RIGHTS = 0x481e"
| "VmcsGuest32_number VmcsGuest32.LDTR_ACCESS_RIGHTS = 0x4820"
| "VmcsGuest32_number VmcsGuest32.TR_ACCESS_RIGHTS = 0x4822"
| "VmcsGuest32_number VmcsGuest32.INTERRUPTIBILITY_STATE = 0x4824"
| "VmcsGuest32_number VmcsGuest32.ACTIVITY_STATE = 0x4826"
| "VmcsGuest32_number VmcsGuest32.SMBASE = 0x4828"
| "VmcsGuest32_number VmcsGuest32.IA32_SYSENTER_CS = 0x482a"
| "VmcsGuest32_number VmcsGuest32.VMX_PREEMPTION_TIMER_VALUE = 0x482e"

definition VmcsGuest32_variants :: "VmcsGuest32 list" where
  "VmcsGuest32_variants =
     [VmcsGuest32.ES_LIMIT, VmcsGuest32.CS_LIMIT, VmcsGuest32.SS_LIMIT, VmcsGuest32.DS_LIMIT,
      VmcsGuest32.FS_LIMIT, VmcsGuest32.GS_LIMIT, VmcsGuest32.LDTR_LIMIT, VmcsGuest32.TR_LIMIT,
      VmcsGuest32.GDTR_LIMIT, VmcsGuest32.IDTR_LIMIT, VmcsGuest32.ES_ACCESS_RIGHTS,
      VmcsGuest32.CS_ACCESS_RIGHTS, VmcsGuest32.SS_ACCESS_RIGHTS, VmcsGuest32.DS_ACCESS_RIGHTS,
      VmcsGuest32.FS_ACCESS_RIGHTS, VmcsGuest32.GS_ACCESS_RIGHTS, VmcsGuest32.LDTR_ACCESS_RIGHTS,
      VmcsGuest32.TR_ACCESS_RIGHTS, VmcsGuest32.INTERRUPTIBILITY_STATE,
      VmcsGuest32.ACTIVITY_STATE, VmcsGuest32.SMBASE, VmcsGuest32.IA32_SYSENTER_CS,
      VmcsGuest32.VMX_PREEMPTION_TIMER_VALUE]"

definition VmcsGuest32_read :: "'m hw \<Rightarrow> VmcsGuest32 \<Rightarrow> ('m, u32) prog" where
  "VmcsGuest32_read hw field = vmcs_read hw (VmcsGuest32_number field)"

definition VmcsGuest32_write :: "'m hw \<Rightarrow> VmcsGuest32 \<Rightarrow> u32 \<Rightarrow> ('m, unit) prog" where
  "VmcsGuest32_write hw field v = vmcs_write hw (VmcsGuest32_number field) v"

datatype (plugins only: code) VmcsGuestNW =
    CR0 | CR3 | CR4 | ES_BASE | CS_BASE | SS_BASE |
    DS_BASE | FS_BASE | GS_BASE | LDTR_BASE | TR_BASE | GDTR_BASE | IDTR_BASE | DR7 | RSP | RIP |
    RFLAGS | PENDING_DBG_EXCEPTIONS | IA32_SYSENTER_ESP | IA32_SYSENTER_EIP

primrec VmcsGuestNW_number :: "VmcsGuestNW \<Rightarrow> u32" where
  "VmcsGuestNW_number VmcsGuestNW.CR0 = 0x6800"
| "VmcsGuestNW_number VmcsGuestNW.CR3 = 0x6802"
| "VmcsGuestNW_number VmcsGuestNW.CR4 = 0x6804"
| "VmcsGuestNW_number VmcsGuestNW.ES_BASE = 0x6806"
| "VmcsGuestNW_number VmcsGuestNW.CS_BASE = 0x6808"
| "VmcsGuestNW_number VmcsGuestNW.SS_BASE = 0x680a"
| "VmcsGuestNW_number VmcsGuestNW.DS_BASE = 0x680c"
| "VmcsGuestNW_number VmcsGuestNW.FS_BASE = 0x680e"
| "VmcsGuestNW_number VmcsGuestNW.GS_BASE = 0x6810"
| "VmcsGuestNW_number VmcsGuestNW.LDTR_BASE = 0x6812"
| "VmcsGuestNW_number VmcsGuestNW.TR_BASE = 0x6814"
| "VmcsGuestNW_number VmcsGuestNW.GDTR_BASE = 0x6816"
| "VmcsGuestNW_number VmcsGuestNW.IDTR_BASE = 0x6818"
| "VmcsGuestNW_number VmcsGuestNW.DR7 = 0x681a"
| "VmcsGuestNW_number VmcsGuestNW.RSP = 0x681c"
| "VmcsGuestNW_number VmcsGuestNW.RIP = 0x681e"
| "VmcsGuestNW_number VmcsGuestNW.RFLAGS = 0x6820"
| "VmcsGuestNW_number VmcsGuestNW.PENDING_DBG_EXCEPTIONS = 0x6822"
| "VmcsGuestNW_number VmcsGuestNW.IA32_SYSENTER_ESP = 0x6824"
| "VmcsGuestNW_number VmcsGuestNW.IA32_SYSENTER_EIP = 0x6826"

definition VmcsGuestNW_variants :: "VmcsGuestNW list" where
  "VmcsGuestNW_variants =
     [VmcsGuestNW.CR0, VmcsGuestNW.CR3, VmcsGuestNW.CR4, VmcsGuestNW.ES_BASE, VmcsGuestNW.CS_BASE,
      VmcsGuestNW.SS_BASE, VmcsGuestNW.DS_BASE, VmcsGuestNW.FS_BASE, VmcsGuestNW.GS_BASE,
      VmcsGuestNW.LDTR_BASE, VmcsGuestNW.TR_BASE, VmcsGuestNW.GDTR_BASE, VmcsGuestNW.IDTR_BASE,
      VmcsGuestNW.DR7, VmcsGuestNW.RSP, VmcsGuestNW.RIP, VmcsGuestNW.RFLAGS,
      VmcsGuestNW.PENDING_DBG_EXCEPTIONS, VmcsGuestNW.IA32_SYSENTER_ESP,
      VmcsGuestNW.IA32_SYSENTER_EIP]"

definition VmcsGuestNW_read :: "'m hw \<Rightarrow> VmcsGuestNW \<Rightarrow> ('m, usize) prog" where
  "VmcsGuestNW_read hw field = vmcs_read hw (VmcsGuestNW_number field)"

definition VmcsGuestNW_write :: "'m hw \<Rightarrow> VmcsGuestNW \<Rightarrow> usize \<Rightarrow> ('m, unit) prog" where
  "VmcsGuestNW_write hw field v = vmcs_write hw (VmcsGuestNW_number field) v"

datatype (plugins only: code) VmcsHost16 =
    ES_SELECTOR | CS_SELECTOR | SS_SELECTOR | DS_SELECTOR
    | FS_SELECTOR | GS_SELECTOR | TR_SELECTOR

primrec VmcsHost16_number :: "VmcsHost16 \<Rightarrow> u32" where
  "VmcsHost16_number VmcsHost16.ES_SELECTOR = 0xc00"
| "VmcsHost16_number VmcsHost16.CS_SELECTOR = 0xc02"
| "VmcsHost16_number VmcsHost16.SS_SELECTOR = 0xc04"
| "VmcsHost16_number VmcsHost16.DS_SELECTOR = 0xc06"
| "VmcsHost16_number VmcsHost16.FS_SELECTOR = 0xc08"
| "VmcsHost16_number VmcsHost16.GS_SELECTOR = 0xc0a"
| "VmcsHost16_number VmcsHost16.TR_SELECTOR = 0xc0c"

definition VmcsHost16_variants :: "VmcsHost16 list" where
  "VmcsHost16_variants =
     [VmcsHost16.ES_SELECTOR, VmcsHost16.CS_SELECTOR, VmcsHost16.SS_SELECTOR,
      VmcsHost16.DS_SELECTOR, VmcsHost16.FS_SELECTOR, VmcsHost16.GS_SELECTOR,
      VmcsHost16.TR_SELECTOR]"

definition VmcsHost16_read :: "'m hw \<Rightarrow> VmcsHost16 \<Rightarrow> ('m, u16) prog" where
  "VmcsHost16_read hw field = vmcs_read hw (VmcsHost16_number field)"

definition VmcsHost16_write :: "'m hw \<Rightarrow> VmcsHost16 \<Rightarrow> u16 \<Rightarrow> ('m, unit) prog" where
  "VmcsHost16_write hw field v = vmcs_write hw (VmcsHost16_number field) v"

datatype (plugins only: code) VmcsHost64 =
    IA32_PAT | IA32_EFER | IA32_PERF_GLOBAL_CTRL

primrec VmcsHost64_number :: "VmcsHost64 \<Rightarrow> u32" where
  "VmcsHost64_number VmcsHost64.IA32_PAT = 0x2c00"
| "VmcsHost64_number VmcsHost64.IA32_EFER = 0x2c02"
| "VmcsHost64_number VmcsHost64.IA32_PERF_GLOBAL_CTRL = 0x2c04"

definition VmcsHost64_variants :: "VmcsHost64 list" where
  "VmcsHost64_variants =
     [VmcsHost64.IA32_PAT, VmcsHost64.IA32_EFER, VmcsHost64.IA32_PERF_GLOBAL_CTRL]"

definition VmcsHost64_read :: "'m hw \<Rightarrow> VmcsHost64 \<Rightarrow> ('m, u64) prog" where
  "VmcsHost64_read hw field = vmcs_read hw (VmcsHost64_number field)"

definition VmcsHost64_write :: "'m hw \<Rightarrow> VmcsHost64 \<Rightarrow> u64 \<Rightarrow> ('m, unit) prog" where
  "VmcsHost64_write hw field v = vmcs_write hw (VmcsHost64_number field) v"

datatype (plugins only: code) VmcsHost32 =
    IA32_SYSENTER_CS

primrec VmcsHost32_number :: "VmcsHost32 \<Rightarrow> u32" where
  "VmcsHost32_number VmcsHost32.IA32_SYSENTER_CS = 0x4c00"

definition VmcsHost32_variants :: "VmcsHost32 list" where
  "VmcsHost32_variants =
     [VmcsHost32.IA32_SYSENTER_CS]"

definition VmcsHost32_read :: "'m hw \<Rightarrow> VmcsHost32 \<Rightarrow> ('m, u32) prog" where
  "VmcsHost32_read hw field = vmcs_read hw (VmcsHost32_number field)"

definition VmcsHost32_write :: "'m hw \<Rightarrow> VmcsHost32 \<Rightarrow> u32 \<Rightarrow> ('m, unit) prog" where
  "VmcsHost32_write hw field v = vmcs_write hw (VmcsHost32_number field) v"

datatype (plugins only: code) VmcsHostNW =
    CR0 | CR3 | CR4 | FS_BASE | GS_BASE | TR_BASE |
    GDTR_BASE | IDTR_BASE | IA32_SYSENTER_ESP | IA32_SYSENTER_EIP | RSP | RIP

primrec VmcsHostNW_number :: "VmcsHostNW \<Rightarrow> u32" where
  "VmcsHostNW_number VmcsHostNW.CR0 = 0x6c00"
| "VmcsHostNW_number VmcsHostNW.CR3 = 0x6c02"
| "VmcsHostNW_number VmcsHostNW.CR4 = 0x6c04"
| "VmcsHostNW_number VmcsHostNW.FS_BASE = 0x6c06"
| "VmcsHostNW_number VmcsHostNW.GS_BASE = 0x6c08"
| "VmcsHostNW_number VmcsHostNW.TR_BASE = 0x6c0a"
| "VmcsHostNW_number VmcsHostNW.GDTR_BASE = 0x6c0c"
| "VmcsHostNW_number VmcsHostNW.IDTR_BASE = 0x6c0e"
| "VmcsHostNW_number VmcsHostNW.IA32_SYSENTER_ESP = 0x6c10"
| "VmcsHostNW_number VmcsHostNW.IA32_SYSENTER_EIP = 0x6c12"
| "VmcsHostNW_number VmcsHostNW.RSP = 0x6c14"
| "VmcsHostNW_number VmcsHostNW.RIP = 0x6c16"

definition VmcsHostNW_variants :: "VmcsHostNW list" where
  "VmcsHostNW_variants =
     [VmcsHostNW.CR0, VmcsHostNW.CR3, VmcsHostNW.CR4, VmcsHostNW.FS_BASE, VmcsHostNW.GS_BASE,
      VmcsHostNW.TR_BASE, VmcsHostNW.GDTR_BASE, VmcsHostNW.IDTR_BASE,
      VmcsHostNW.IA32_SYSENTER_ESP, VmcsHostNW.IA32_SYSENTER_EIP, VmcsHostNW.RSP, VmcsHostNW.RIP]"

definition VmcsHostNW_read :: "'m hw \<Rightarrow> VmcsHostNW \<Rightarrow> ('m, usize) prog" where
  "VmcsHostNW_read hw field = vmcs_read hw (VmcsHostNW_number field)"

definition VmcsHostNW_write :: "'m hw \<Rightarrow> VmcsHostNW \<Rightarrow> usize \<Rightarrow> ('m, unit) prog" where
  "VmcsHostNW_write hw field v = vmcs_write hw (VmcsHostNW_number field) v"

datatype (plugins only: code) VmcsReadOnly64 =
    GUEST_PHYSICAL_ADDR

primrec VmcsReadOnly64_number :: "VmcsReadOnly64 \<Rightarrow> u32" where
  "VmcsReadOnly64_number VmcsReadOnly64.GUEST_PHYSICAL_ADDR = 0x2400"

definition VmcsReadOnly64_variants :: "VmcsReadOnly64 list" where
  "VmcsReadOnly64_variants =
     [VmcsReadOnly64.GUEST_PHYSICAL_ADDR]"

definition VmcsReadOnly64_read :: "'m hw \<Rightarrow> VmcsReadOnly64 \<Rightarrow> ('m, u64) prog" where
  "VmcsReadOnly64_read hw field = vmcs_read hw (VmcsReadOnly64_number field)"

datatype (plugins only: code) VmcsReadOnly32 =
    VM_INSTRUCTION_ERROR | EXIT_REASON |
    VMEXIT_INTERRUPTION_INFO | VMEXIT_INTERRUPTION_ERR_CODE | IDT_VECTORING_INFO |
    IDT_VECTORING_ERR_CODE | VMEXIT_INSTRUCTION_LEN | VMEXIT_INSTRUCTION_INFO

primrec VmcsReadOnly32_number :: "VmcsReadOnly32 \<Rightarrow> u32" where
  "VmcsReadOnly32_number VmcsReadOnly32.VM_INSTRUCTION_ERROR = 0x4400"
| "VmcsReadOnly32_number VmcsReadOnly32.EXIT_REASON = 0x4402"
| "VmcsReadOnly32_number VmcsReadOnly32.VMEXIT_INTERRUPTION_INFO = 0x4404"
| "VmcsReadOnly32_number VmcsReadOnly32.VMEXIT_INTERRUPTION_ERR_CODE = 0x4406"
| "VmcsReadOnly32_number VmcsReadOnly32.IDT_VECTORING_INFO = 0x4408"
| "VmcsReadOnly32_number VmcsReadOnly32.IDT_VECTORING_ERR_CODE = 0x440a"
| "VmcsReadOnly32_number VmcsReadOnly32.VMEXIT_INSTRUCTION_LEN = 0x440c"
| "VmcsReadOnly32_number VmcsReadOnly32.VMEXIT_INSTRUCTION_INFO = 0x440e"

definition VmcsReadOnly32_variants :: "VmcsReadOnly32 list" where
  "VmcsReadOnly32_variants =
     [VmcsReadOnly32.VM_INSTRUCTION_ERROR, VmcsReadOnly32.EXIT_REASON,
      VmcsReadOnly32.VMEXIT_INTERRUPTION_INFO, VmcsReadOnly32.VMEXIT_INTERRUPTION_ERR_CODE,
      VmcsReadOnly32.IDT_VECTORING_INFO, VmcsReadOnly32.IDT_VECTORING_ERR_CODE,
      VmcsReadOnly32.VMEXIT_INSTRUCTION_LEN, VmcsReadOnly32.VMEXIT_INSTRUCTION_INFO]"

definition VmcsReadOnly32_read :: "'m hw \<Rightarrow> VmcsReadOnly32 \<Rightarrow> ('m, u32) prog" where
  "VmcsReadOnly32_read hw field = vmcs_read hw (VmcsReadOnly32_number field)"

datatype (plugins only: code) VmcsReadOnlyNW =
    EXIT_QUALIFICATION | IO_RCX | IO_RSI | IO_RDI |
    IO_RIP | GUEST_LINEAR_ADDR

primrec VmcsReadOnlyNW_number :: "VmcsReadOnlyNW \<Rightarrow> u32" where
  "VmcsReadOnlyNW_number VmcsReadOnlyNW.EXIT_QUALIFICATION = 0x6400"
| "VmcsReadOnlyNW_number VmcsReadOnlyNW.IO_RCX = 0x6402"
| "VmcsReadOnlyNW_number VmcsReadOnlyNW.IO_RSI = 0x6404"
| "VmcsReadOnlyNW_number VmcsReadOnlyNW.IO_RDI = 0x6406"
| "VmcsReadOnlyNW_number VmcsReadOnlyNW.IO_RIP = 0x6408"
| "VmcsReadOnlyNW_number VmcsReadOnlyNW.GUEST_LINEAR_ADDR = 0x640a"

definition VmcsReadOnlyNW_variants :: "VmcsReadOnlyNW list" where
  "VmcsReadOnlyNW_variants =
     [VmcsReadOnlyNW.EXIT_QUALIFICATION, VmcsReadOnlyNW.IO_RCX, VmcsReadOnlyNW.IO_RSI,
      VmcsReadOnlyNW.IO_RDI, VmcsReadOnlyNW.IO_RIP, VmcsReadOnlyNW.GUEST_LINEAR_ADDR]"

definition VmcsReadOnlyNW_read :: "'m hw \<Rightarrow> VmcsReadOnlyNW \<Rightarrow> ('m, usize) prog" where
  "VmcsReadOnlyNW_read hw field = vmcs_read hw (VmcsReadOnlyNW_number field)"

section \<open>What an enum of fields promises\<close>

text \<open>
  The encoding of a field: bits 14:13 its width, bits 11:10 its group, bit 0 clear for an access to the
  full field, bits 12 and 31:15 clear.
\<close>

locale field_enum =
  fixes number :: "'e \<Rightarrow> u32"
    and width_code :: u32
    and group_code :: u32
  assumes number_inj: "inj number"
    and width: "get_bits (number e) 13 15 = width_code"
    and group: "get_bits (number e) 10 12 = group_code"
    and full: "full_field (number e)"
    and reserved: "\<not> bit (number e) 12 \<and> drop_bit 15 (number e) = 0"
begin

lemma number_eq_iff: "number a = number b \<longleftrightarrow> a = b"
  using number_inj by (auto dest: injD)

lemma other_enum: "get_bits f 13 15 \<noteq> width_code \<or> get_bits f 10 12 \<noteq> group_code \<Longrightarrow> number e \<noteq> f"
  using width group by auto

lemma field_width_number:
  "field_width (number e) = (if width_code = 0 then 16 else if width_code = 2 then 32 else 64)"
  by (simp add: field_width_def width)

end

definition encoding_ok :: "u32 \<Rightarrow> u32 \<Rightarrow> u32 \<Rightarrow> bool" where
  "encoding_ok w k f \<longleftrightarrow>
     drop_bit 13 f AND 3 = w \<and> drop_bit 10 f AND 3 = k \<and> f AND 0x1001 = 0 \<and> drop_bit 15 f = 0"

lemma encoding_okD:
  assumes "encoding_ok w k f"
  shows "get_bits f 13 15 = w" "get_bits f 10 12 = k" "full_field f"
    "\<not> bit f 12 \<and> drop_bit 15 f = 0"
proof -
  have "(mask 2 :: u32) = 3" by (simp add: mask_eq_exp_minus_1)
  then show "get_bits f 13 15 = w" "get_bits f 10 12 = k"
    using assms by (simp_all add: encoding_ok_def get_bits_def)
  have low: "bit (f AND 0x1001) n \<longleftrightarrow> False" for n
    using assms by (simp add: encoding_ok_def)
  show "full_field f" using low [of 0] by (simp add: full_field_def bit_simps bit_numeral_rec)
  show "\<not> bit f 12 \<and> drop_bit 15 f = 0"
    using low [of 12] assms by (simp add: encoding_ok_def bit_simps bit_numeral_rec)
qed

lemma field_enumI:
  assumes "distinct (map number variants)" "set variants = UNIV"
    and "list_all (\<lambda>e. encoding_ok w k (number e)) variants"
  shows "field_enum number w k"
proof -
  have ok: "encoding_ok w k (number e)" for e
    using assms(2,3) by (auto simp: list_all_iff)
  have "inj number" using assms(1,2) by (simp add: distinct_map)
  then show ?thesis using encoding_okD [OF ok] by unfold_locales auto
qed

lemma VmcsControl16_variants_UNIV: "set VmcsControl16_variants = UNIV"
proof (rule UNIV_eq_I [symmetric])
  fix e show "e \<in> set VmcsControl16_variants" by (cases e) (simp_all add: VmcsControl16_variants_def)
qed

interpretation VmcsControl16_table: field_enum VmcsControl16_number 0 0
  by (rule field_enumI [OF _ VmcsControl16_variants_UNIV])
    (simp_all add: VmcsControl16_variants_def encoding_ok_def)

lemma VmcsControl64_variants_UNIV: "set VmcsControl64_variants = UNIV"
proof (rule UNIV_eq_I [symmetric])
  fix e show "e \<in> set VmcsControl64_variants" by (cases e) (simp_all add: VmcsControl64_variants_def)
qed

interpretation VmcsControl64_table: field_enum VmcsControl64_number 1 0
  by (rule field_enumI [OF _ VmcsControl64_variants_UNIV])
    (simp_all add: VmcsControl64_variants_def encoding_ok_def)

lemma VmcsControl32_variants_UNIV: "set VmcsControl32_variants = UNIV"
proof (rule UNIV_eq_I [symmetric])
  fix e show "e \<in> set VmcsControl32_variants" by (cases e) (simp_all add: VmcsControl32_variants_def)
qed

interpretation VmcsControl32_table: field_enum VmcsControl32_number 2 0
  by (rule field_enumI [OF _ VmcsControl32_variants_UNIV])
    (simp_all add: VmcsControl32_variants_def encoding_ok_def)

lemma VmcsControlNW_variants_UNIV: "set VmcsControlNW_variants = UNIV"
proof (rule UNIV_eq_I [symmetric])
  fix e show "e \<in> set VmcsControlNW_variants" by (cases e) (simp_all add: VmcsControlNW_variants_def)
qed

interpretation VmcsControlNW_table: field_enum VmcsControlNW_number 3 0
  by (rule field_enumI [OF _ VmcsControlNW_variants_UNIV])
    (simp_all add: VmcsControlNW_variants_def encoding_ok_def)

lemma VmcsGuest16_variants_UNIV: "set VmcsGuest16_variants = UNIV"
proof (rule UNIV_eq_I [symmetric])
  fix e show "e \<in> set VmcsGuest16_variants" by (cases e) (simp_all add: VmcsGuest16_variants_def)
qed

interpretation VmcsGuest16_table: field_enum VmcsGuest16_number 0 2
  by (rule field_enumI [OF _ VmcsGuest16_variants_UNIV])
    (simp_all add: VmcsGuest16_variants_def encoding_ok_def)

lemma VmcsGuest64_variants_UNIV: "set VmcsGuest64_variants = UNIV"
proof (rule UNIV_eq_I [symmetric])
  fix e show "e \<in> set VmcsGuest64_variants" by (cases e) (simp_all add: VmcsGuest64_variants_def)
qed

interpretation VmcsGuest64_table: field_enum VmcsGuest64_number 1 2
  by (rule field_enumI [OF _ VmcsGuest64_variants_UNIV])
    (simp_all add: VmcsGuest64_variants_def encoding_ok_def)

lemma VmcsGuest32_variants_UNIV: "set VmcsGuest32_variants = UNIV"
proof (rule UNIV_eq_I [symmetric])
  fix e show "e \<in> set VmcsGuest32_variants" by (cases e) (simp_all add: VmcsGuest32_variants_def)
qed

interpretation VmcsGuest32_table: field_enum VmcsGuest32_number 2 2
  by (rule field_enumI [OF _ VmcsGuest32_variants_UNIV])
    (simp_all add: VmcsGuest32_variants_def encoding_ok_def)

lemma VmcsGuestNW_variants_UNIV: "set VmcsGuestNW_variants = UNIV"
proof (rule UNIV_eq_I [symmetric])
  fix e show "e \<in> set VmcsGuestNW_variants" by (cases e) (simp_all add: VmcsGuestNW_variants_def)
qed

interpretation VmcsGuestNW_table: field_enum VmcsGuestNW_number 3 2
  by (rule field_enumI [OF _ VmcsGuestNW_variants_UNIV])
    (simp_all add: VmcsGuestNW_variants_def encoding_ok_def)

lemma VmcsHost16_variants_UNIV: "set VmcsHost16_variants = UNIV"
proof (rule UNIV_eq_I [symmetric])
  fix e show "e \<in> set VmcsHost16_variants" by (cases e) (simp_all add: VmcsHost16_variants_def)
qed

interpretation VmcsHost16_table: field_enum VmcsHost16_number 0 3
  by (rule field_enumI [OF _ VmcsHost16_variants_UNIV])
    (simp_all add: VmcsHost16_variants_def encoding_ok_def)

lemma VmcsHost64_variants_UNIV: "set VmcsHost64_variants = UNIV"
proof (rule UNIV_eq_I [symmetric])
  fix e show "e \<in> set VmcsHost64_variants" by (cases e) (simp_all add: VmcsHost64_variants_def)
qed

interpretation VmcsHost64_table: field_enum VmcsHost64_number 1 3
  by (rule field_enumI [OF _ VmcsHost64_variants_UNIV])
    (simp_all add: VmcsHost64_variants_def encoding_ok_def)

lemma VmcsHost32_variants_UNIV: "set VmcsHost32_variants = UNIV"
proof (rule UNIV_eq_I [symmetric])
  fix e show "e \<in> set VmcsHost32_variants" by (cases e) (simp_all add: VmcsHost32_variants_def)
qed

interpretation VmcsHost32_table: field_enum VmcsHost32_number 2 3
  by (rule field_enumI [OF _ VmcsHost32_variants_UNIV])
    (simp_all add: VmcsHost32_variants_def encoding_ok_def)

lemma VmcsHostNW_variants_UNIV: "set VmcsHostNW_variants = UNIV"
proof (rule UNIV_eq_I [symmetric])
  fix e show "e \<in> set VmcsHostNW_variants" by (cases e) (simp_all add: VmcsHostNW_variants_def)
qed

interpretation VmcsHostNW_table: field_enum VmcsHostNW_number 3 3
  by (rule field_enumI [OF _ VmcsHostNW_variants_UNIV])
    (simp_all add: VmcsHostNW_variants_def encoding_ok_def)

lemma VmcsReadOnly64_variants_UNIV: "set VmcsReadOnly64_variants = UNIV"
proof (rule UNIV_eq_I [symmetric])
  fix e show "e \<in> set VmcsReadOnly64_variants" by (cases e) (simp_all add: VmcsReadOnly64_variants_def)
qed

interpretation VmcsReadOnly64_table: field_enum VmcsReadOnly64_number 1 1
  by (rule field_enumI [OF _ VmcsReadOnly64_variants_UNIV])
    (simp_all add: VmcsReadOnly64_variants_def encoding_ok_def)

lemma VmcsReadOnly32_variants_UNIV: "set VmcsReadOnly32_variants = UNIV"
proof (rule UNIV_eq_I [symmetric])
  fix e show "e \<in> set VmcsReadOnly32_variants" by (cases e) (simp_all add: VmcsReadOnly32_variants_def)
qed

interpretation VmcsReadOnly32_table: field_enum VmcsReadOnly32_number 2 1
  by (rule field_enumI [OF _ VmcsReadOnly32_variants_UNIV])
    (simp_all add: VmcsReadOnly32_variants_def encoding_ok_def)

lemma VmcsReadOnlyNW_variants_UNIV: "set VmcsReadOnlyNW_variants = UNIV"
proof (rule UNIV_eq_I [symmetric])
  fix e show "e \<in> set VmcsReadOnlyNW_variants" by (cases e) (simp_all add: VmcsReadOnlyNW_variants_def)
qed

interpretation VmcsReadOnlyNW_table: field_enum VmcsReadOnlyNW_number 3 1
  by (rule field_enumI [OF _ VmcsReadOnlyNW_variants_UNIV])
    (simp_all add: VmcsReadOnlyNW_variants_def encoding_ok_def)

lemmas field_number_inject [simp] =
  VmcsControl16_table.number_eq_iff VmcsControl64_table.number_eq_iff
  VmcsControl32_table.number_eq_iff VmcsControlNW_table.number_eq_iff
  VmcsGuest16_table.number_eq_iff VmcsGuest64_table.number_eq_iff VmcsGuest32_table.number_eq_iff
  VmcsGuestNW_table.number_eq_iff VmcsHost16_table.number_eq_iff VmcsHost64_table.number_eq_iff
  VmcsHost32_table.number_eq_iff VmcsHostNW_table.number_eq_iff VmcsReadOnly64_table.number_eq_iff
  VmcsReadOnly32_table.number_eq_iff VmcsReadOnlyNW_table.number_eq_iff

lemmas field_full =
  VmcsControl16_table.full VmcsControl64_table.full VmcsControl32_table.full
  VmcsControlNW_table.full VmcsGuest16_table.full VmcsGuest64_table.full VmcsGuest32_table.full
  VmcsGuestNW_table.full VmcsHost16_table.full VmcsHost64_table.full VmcsHost32_table.full
  VmcsHostNW_table.full VmcsReadOnly64_table.full VmcsReadOnly32_table.full
  VmcsReadOnlyNW_table.full

lemmas field_width =
  VmcsControl16_table.width VmcsControl64_table.width VmcsControl32_table.width
  VmcsControlNW_table.width VmcsGuest16_table.width VmcsGuest64_table.width
  VmcsGuest32_table.width VmcsGuestNW_table.width VmcsHost16_table.width VmcsHost64_table.width
  VmcsHost32_table.width VmcsHostNW_table.width VmcsReadOnly64_table.width
  VmcsReadOnly32_table.width VmcsReadOnlyNW_table.width

lemmas field_group =
  VmcsControl16_table.group VmcsControl64_table.group VmcsControl32_table.group
  VmcsControlNW_table.group VmcsGuest16_table.group VmcsGuest64_table.group
  VmcsGuest32_table.group VmcsGuestNW_table.group VmcsHost16_table.group VmcsHost64_table.group
  VmcsHost32_table.group VmcsHostNW_table.group VmcsReadOnly64_table.group
  VmcsReadOnly32_table.group VmcsReadOnlyNW_table.group

lemmas field_widths =
  VmcsControl16_table.field_width_number VmcsControl64_table.field_width_number
  VmcsControl32_table.field_width_number VmcsControlNW_table.field_width_number
  VmcsGuest16_table.field_width_number VmcsGuest64_table.field_width_number
  VmcsGuest32_table.field_width_number VmcsGuestNW_table.field_width_number
  VmcsHost16_table.field_width_number VmcsHost64_table.field_width_number
  VmcsHost32_table.field_width_number VmcsHostNW_table.field_width_number
  VmcsReadOnly64_table.field_width_number VmcsReadOnly32_table.field_width_number
  VmcsReadOnlyNW_table.field_width_number

lemmas field_numbers =
  VmcsControl16_number.simps VmcsControl64_number.simps VmcsControl32_number.simps
  VmcsControlNW_number.simps VmcsGuest16_number.simps VmcsGuest64_number.simps
  VmcsGuest32_number.simps VmcsGuestNW_number.simps VmcsHost16_number.simps
  VmcsHost64_number.simps VmcsHost32_number.simps VmcsHostNW_number.simps
  VmcsReadOnly64_number.simps VmcsReadOnly32_number.simps VmcsReadOnlyNW_number.simps

lemmas field_read_defs =
  VmcsControl16_read_def VmcsControl64_read_def VmcsControl32_read_def VmcsControlNW_read_def
  VmcsGuest16_read_def VmcsGuest64_read_def VmcsGuest32_read_def VmcsGuestNW_read_def
  VmcsHost16_read_def VmcsHost64_read_def VmcsHost32_read_def VmcsHostNW_read_def
  VmcsReadOnly64_read_def VmcsReadOnly32_read_def VmcsReadOnlyNW_read_def

lemmas field_write_defs =
  VmcsControl16_write_def VmcsControl64_write_def VmcsControl32_write_def VmcsControlNW_write_def
  VmcsGuest16_write_def VmcsGuest64_write_def VmcsGuest32_write_def VmcsGuestNW_write_def
  VmcsHost16_write_def VmcsHost64_write_def VmcsHost32_write_def VmcsHostNW_write_def

section \<open>All fields\<close>

text \<open>The fields of all enums, to state what holds across them.\<close>

datatype (plugins only: code) VmcsField =
    F_Control16 VmcsControl16
  | F_Control64 VmcsControl64
  | F_Control32 VmcsControl32
  | F_ControlNW VmcsControlNW
  | F_Guest16 VmcsGuest16
  | F_Guest64 VmcsGuest64
  | F_Guest32 VmcsGuest32
  | F_GuestNW VmcsGuestNW
  | F_Host16 VmcsHost16
  | F_Host64 VmcsHost64
  | F_Host32 VmcsHost32
  | F_HostNW VmcsHostNW
  | F_ReadOnly64 VmcsReadOnly64
  | F_ReadOnly32 VmcsReadOnly32
  | F_ReadOnlyNW VmcsReadOnlyNW

primrec field_encoding :: "VmcsField \<Rightarrow> u32" where
  "field_encoding (F_Control16 f) = VmcsControl16_number f"
| "field_encoding (F_Control64 f) = VmcsControl64_number f"
| "field_encoding (F_Control32 f) = VmcsControl32_number f"
| "field_encoding (F_ControlNW f) = VmcsControlNW_number f"
| "field_encoding (F_Guest16 f) = VmcsGuest16_number f"
| "field_encoding (F_Guest64 f) = VmcsGuest64_number f"
| "field_encoding (F_Guest32 f) = VmcsGuest32_number f"
| "field_encoding (F_GuestNW f) = VmcsGuestNW_number f"
| "field_encoding (F_Host16 f) = VmcsHost16_number f"
| "field_encoding (F_Host64 f) = VmcsHost64_number f"
| "field_encoding (F_Host32 f) = VmcsHost32_number f"
| "field_encoding (F_HostNW f) = VmcsHostNW_number f"
| "field_encoding (F_ReadOnly64 f) = VmcsReadOnly64_number f"
| "field_encoding (F_ReadOnly32 f) = VmcsReadOnly32_number f"
| "field_encoding (F_ReadOnlyNW f) = VmcsReadOnlyNW_number f"

primrec field_width_code :: "VmcsField \<Rightarrow> u32" where
  "field_width_code (F_Control16 f) = 0"
| "field_width_code (F_Control64 f) = 1"
| "field_width_code (F_Control32 f) = 2"
| "field_width_code (F_ControlNW f) = 3"
| "field_width_code (F_Guest16 f) = 0"
| "field_width_code (F_Guest64 f) = 1"
| "field_width_code (F_Guest32 f) = 2"
| "field_width_code (F_GuestNW f) = 3"
| "field_width_code (F_Host16 f) = 0"
| "field_width_code (F_Host64 f) = 1"
| "field_width_code (F_Host32 f) = 2"
| "field_width_code (F_HostNW f) = 3"
| "field_width_code (F_ReadOnly64 f) = 1"
| "field_width_code (F_ReadOnly32 f) = 2"
| "field_width_code (F_ReadOnlyNW f) = 3"

primrec field_group_code :: "VmcsField \<Rightarrow> u32" where
  "field_group_code (F_Control16 f) = 0"
| "field_group_code (F_Control64 f) = 0"
| "field_group_code (F_Control32 f) = 0"
| "field_group_code (F_ControlNW f) = 0"
| "field_group_code (F_Guest16 f) = 2"
| "field_group_code (F_Guest64 f) = 2"
| "field_group_code (F_Guest32 f) = 2"
| "field_group_code (F_GuestNW f) = 2"
| "field_group_code (F_Host16 f) = 3"
| "field_group_code (F_Host64 f) = 3"
| "field_group_code (F_Host32 f) = 3"
| "field_group_code (F_HostNW f) = 3"
| "field_group_code (F_ReadOnly64 f) = 1"
| "field_group_code (F_ReadOnly32 f) = 1"
| "field_group_code (F_ReadOnlyNW f) = 1"

lemma field_encoding_codes:
  "get_bits (field_encoding f) 13 15 = field_width_code f"
  "get_bits (field_encoding f) 10 12 = field_group_code f"
  "full_field (field_encoding f)"
  by (cases f, simp_all add: field_width field_group field_full)+

lemma field_encoding_inj: "field_encoding f = field_encoding g \<Longrightarrow> f = g"
  using field_encoding_codes [of f] field_encoding_codes [of g]
  by (cases f; cases g) simp_all

text \<open>
  C31. VMCS field encodings: every field of the fifteen enums has the encoding bits of its width and
  group and selects the full field, and no two fields, of the same or of different enums, share an
  encoding.
\<close>

theorem vmcs_field_encodings:
  "get_bits (field_encoding f) 13 15 = field_width_code f \<and>
   get_bits (field_encoding f) 10 12 = field_group_code f \<and>
   \<not> bit (field_encoding f) 0 \<and>
   (field_encoding f = field_encoding g \<longleftrightarrow> f = g)"
  using field_encoding_codes [of f] field_encoding_inj by (auto simp: full_field_def)

section \<open>Running the accessors\<close>

lemma vmcs_read_simps [prog_simps]:
  "hw_vmread hw f m = Inr v \<Longrightarrow> vmcs_read hw f m = (Ok (ucast v), m)"
  "hw_vmread hw f m = Inl e \<Longrightarrow> vmcs_read hw f m = as_axerr hw e m"
  by (simp_all add: vmcs_read_def map_err_ax_def)

lemma vmcs_read_Ok_iff [prog_elims]:
  "vmcs_read hw f m = (Ok x, m') \<longleftrightarrow> (\<exists>v. hw_vmread hw f m = Inr v \<and> x = ucast v) \<and> m' = m"
  by (cases "hw_vmread hw f m") (auto simp: prog_simps)

lemma vmcs_read_state [simp]: "snd (vmcs_read hw f m) = m"
  by (cases "hw_vmread hw f m") (auto simp: prog_simps)

lemma vmcs_write_Ok_iff [prog_elims]:
  "vmcs_write hw f v m = (Ok u, m') \<longleftrightarrow> hw_vmwrite hw f (ucast v) m = (Inr (), m')"
  by (auto simp: vmcs_write_def map_err_ax_Ok_iff)

lemma vmcs_write_simps [prog_simps]:
  "hw_vmwrite hw f (ucast v) m = (Inr (), m') \<Longrightarrow> vmcs_write hw f v m = (Ok (), m')"
  "hw_vmwrite hw f (ucast v) m = (Inl e, m') \<Longrightarrow> vmcs_write hw f v m = as_axerr hw e m'"
  by (simp_all add: vmcs_write_def map_err_ax_def)


section \<open>A current VMCS\<close>

text \<open>
  While a VMCS is current on a processor that supports the declared fields, VMREAD of a declared field
  and VMWRITE of a declared field outside the read-only group succeed, and the VMCS stays current.
  Inside the locale: what a sequence of writes leaves in the VMCS.
\<close>

definition declared_field :: "u32 \<Rightarrow> bool" where
  "declared_field f \<longleftrightarrow> f \<in> range field_encoding"

definition writable_field :: "u32 \<Rightarrow> bool" where
  "writable_field f \<longleftrightarrow> f \<in> field_encoding ` {F. field_group_code F \<noteq> 1}"

lemma writable_declared: "writable_field f \<Longrightarrow> declared_field f"
  by (auto simp: writable_field_def declared_field_def)

lemma full_field_literal [simp]:
  "full_field 0" "full_field (numeral w) \<longleftrightarrow> even (numeral w :: u32)"
  by (simp_all add: full_field_def bit_0)

lemma declared_full [simp]: "declared_field f \<Longrightarrow> full_field f"
  by (auto simp: declared_field_def field_encoding_codes)

lemma declared_number [simp]:
  "declared_field (VmcsControl16_number f0)"
  "declared_field (VmcsControl64_number f1)"
  "declared_field (VmcsControl32_number f2)"
  "declared_field (VmcsControlNW_number f3)"
  "declared_field (VmcsGuest16_number f4)"
  "declared_field (VmcsGuest64_number f5)"
  "declared_field (VmcsGuest32_number f6)"
  "declared_field (VmcsGuestNW_number f7)"
  "declared_field (VmcsHost16_number f8)"
  "declared_field (VmcsHost64_number f9)"
  "declared_field (VmcsHost32_number f10)"
  "declared_field (VmcsHostNW_number f11)"
  "declared_field (VmcsReadOnly64_number f12)"
  "declared_field (VmcsReadOnly32_number f13)"
  "declared_field (VmcsReadOnlyNW_number f14)"
  unfolding declared_field_def by (metis field_encoding.simps rangeI)+

lemma writable_encoding: "field_group_code F \<noteq> 1 \<Longrightarrow> writable_field (field_encoding F)"
  by (auto simp: writable_field_def)

lemma writable_number [simp]:
  "writable_field (VmcsControl16_number f0)"
  "writable_field (VmcsControl64_number f1)"
  "writable_field (VmcsControl32_number f2)"
  "writable_field (VmcsControlNW_number f3)"
  "writable_field (VmcsGuest16_number f4)"
  "writable_field (VmcsGuest64_number f5)"
  "writable_field (VmcsGuest32_number f6)"
  "writable_field (VmcsGuestNW_number f7)"
  "writable_field (VmcsHost16_number f8)"
  "writable_field (VmcsHost64_number f9)"
  "writable_field (VmcsHost32_number f10)"
  "writable_field (VmcsHostNW_number f11)"
  using writable_encoding [of "F_Control16 f0"]
    writable_encoding [of "F_Control64 f1"]
    writable_encoding [of "F_Control32 f2"]
    writable_encoding [of "F_ControlNW f3"]
    writable_encoding [of "F_Guest16 f4"]
    writable_encoding [of "F_Guest64 f5"]
    writable_encoding [of "F_Guest32 f6"]
    writable_encoding [of "F_GuestNW f7"]
    writable_encoding [of "F_Host16 f8"]
    writable_encoding [of "F_Host64 f9"]
    writable_encoding [of "F_Host32 f10"]
    writable_encoding [of "F_HostNW f11"]
  by simp_all

locale vmcs_current = vmcs_hw hw for hw :: "'m hw" +
  fixes current :: "'m \<Rightarrow> bool"
  assumes current_read: "current m \<Longrightarrow> declared_field f \<Longrightarrow> \<exists>v. hw_vmread hw f m = Inr v"
    and current_write: "current m \<Longrightarrow> writable_field f \<Longrightarrow>
      \<exists>m'. hw_vmwrite hw f v m = (Inr (), m') \<and> current m'"
begin

lemma write_run:
  assumes "current m" "writable_field f" "take_bit (field_width f) v = v"
  obtains m' where "hw_vmwrite hw f v m = (Inr (), m')" "current m'"
    "\<And>g. full_field g \<Longrightarrow> hw_vmread hw g m' = (if g = f then Inr v else hw_vmread hw g m)"
    "host_view hw m' = host_view hw m"
proof -
  have "full_field f" using assms(2) by (simp add: writable_declared declared_full)
  with assms current_write [of m f v] that show thesis
    by (metis vmwrite_host vmwrite_other vmwrite_read)
qed

end

section \<open>Sequences of writes\<close>

definition field_writes :: "'m hw \<Rightarrow> (u32 \<times> u64) list \<Rightarrow> ('m, unit) prog" where
  "field_writes hw ws = block (map (\<lambda>(f, v). map_err_ax hw (hw_vmwrite hw f v)) ws)"

definition fits :: "u32 \<times> u64 \<Rightarrow> bool" where
  "fits w \<longleftrightarrow> writable_field (fst w) \<and> take_bit (field_width (fst w)) (snd w) = snd w"

text \<open>
  \<open>wrote hw ws m m'\<close>: the VMCS of \<open>m'\<close> is that of \<open>m\<close> with the writes \<open>ws\<close>, a later one overriding an
  earlier one to the same field, and nothing else has changed.
\<close>

definition wrote :: "'m hw \<Rightarrow> (u32 \<times> u64) list \<Rightarrow> 'm \<Rightarrow> 'm \<Rightarrow> bool" where
  "wrote hw ws m m' \<longleftrightarrow>
     host_view hw m' = host_view hw m \<and>
     (\<forall>g. full_field g \<longrightarrow> hw_vmread hw g m' =
        (case map_of (rev ws) g of Some v \<Rightarrow> Inr v | None \<Rightarrow> hw_vmread hw g m))"

lemma wrote_read:
  "wrote hw ws m m' \<Longrightarrow> full_field g \<Longrightarrow> hw_vmread hw g m' =
     (case map_of (rev ws) g of Some v \<Rightarrow> Inr v | None \<Rightarrow> hw_vmread hw g m)"
  by (simp add: wrote_def)

lemma wrote_host: "wrote hw ws m m' \<Longrightarrow> host_view hw m' = host_view hw m"
  by (simp add: wrote_def)

lemma wrote_Nil [simp]: "wrote hw [] m m"
  by (simp add: wrote_def)

lemma wrote_append:
  assumes "wrote hw ws m m1" "wrote hw ws' m1 m2"
  shows "wrote hw (ws @ ws') m m2"
  using assms by (auto simp: wrote_def map_add_def split: option.splits)

lemma host_viewD:
  assumes "host_view hw m' = host_view hw m"
  shows "hw_rdmsr hw r m' = hw_rdmsr hw r m" "hw_cr0_read hw m' = hw_cr0_read hw m"
    "hw_cr0_read_raw hw m' = hw_cr0_read_raw hw m" "hw_cr3_read_raw hw m' = hw_cr3_read_raw hw m"
    "hw_cr4_read hw m' = hw_cr4_read hw m" "hw_cr4_read_raw hw m' = hw_cr4_read_raw hw m"
    "hw_xcr0_read hw m' = hw_xcr0_read hw m" "hw_segment hw s m' = hw_segment hw s m"
    "hw_sgdt hw m' = hw_sgdt hw m" "hw_sidt hw m' = hw_sidt hw m"
    "hw_cpuid hw leaf sub m' = hw_cpuid hw leaf sub m"
    "hw_has_rdtscp hw m' = hw_has_rdtscp hw m" "hw_has_invpcid hw m' = hw_has_invpcid hw m"
    "hw_has_xsaves_xrstors hw m' = hw_has_xsaves_xrstors hw m"
  using assms by (auto simp: host_view_def fun_eq_iff)

lemma vmcs_write_eq: "vmcs_write hw f v = field_writes hw [(f, ucast v)]"
  by (rule ext) (auto simp: vmcs_write_def field_writes_def bind_def return_def map_err_ax_def
    split: prod.splits sum.splits res.splits)

lemma fits_ucast:
  "writable_field f \<Longrightarrow> LENGTH('a) \<le> field_width f \<Longrightarrow> fits (f, ucast (v :: 'a::len word))"
  by (auto simp: fits_def intro!: bit_word_eqI simp: bit_simps
    elim: less_le_trans [OF bit_imp_le_length])

lemma field_writes_simps [simp]:
  "field_writes hw [] = return ()"
  "field_writes hw ((f, v) # ws) =
     bind (map_err_ax hw (hw_vmwrite hw f v)) (\<lambda>_. field_writes hw ws)"
  by (simp_all add: field_writes_def)

context vmcs_current
begin

lemma field_writes_run:
  assumes "current m" "list_all fits ws"
  shows "\<exists>m'. field_writes hw ws m = (Ok (), m') \<and> current m' \<and> wrote hw ws m m'"
  using assms unfolding wrote_def
proof (induction ws arbitrary: m)
  case Nil
  then show ?case by (simp add: return_def)
next
  case (Cons w ws)
  obtain f v where w: "w = (f, v)" by (cases w)
  then have "writable_field f" "take_bit (field_width f) v = v"
    using Cons.prems by (simp_all add: fits_def)
  then obtain m1 where m1: "hw_vmwrite hw f v m = (Inr (), m1)" "current m1"
    "\<And>g. full_field g \<Longrightarrow> hw_vmread hw g m1 = (if g = f then Inr v else hw_vmread hw g m)"
    "host_view hw m1 = host_view hw m"
    using write_run [OF Cons.prems(1)] by blast
  from Cons.IH [OF m1(2)] Cons.prems(2) obtain m' where m': "field_writes hw ws m1 = (Ok (), m')"
    "current m'" "host_view hw m' = host_view hw m1"
    "\<And>g. full_field g \<Longrightarrow> hw_vmread hw g m' =
       (case map_of (rev ws) g of Some v \<Rightarrow> Inr v | None \<Rightarrow> hw_vmread hw g m1)"
    by auto
  have "field_writes hw (w # ws) m = (Ok (), m')"
    using m1(1) m'(1) by (simp add: w prog_simps)
  moreover have "hw_vmread hw g m' =
      (case map_of (rev (w # ws)) g of Some v \<Rightarrow> Inr v | None \<Rightarrow> hw_vmread hw g m)"
    if "full_field g" for g
    using m1(3) [OF that] m'(4) [OF that]
    by (auto simp: w map_add_def split: option.splits)
  ultimately show ?case using m'(2,3) m1(4) by auto
qed

lemma vmcs_write_run:
  assumes "current m" "writable_field f" "LENGTH('a) \<le> field_width f"
  shows "\<exists>m'. vmcs_write hw f (v :: 'a::len word) m = (Ok (), m') \<and> current m' \<and>
    wrote hw [(f, ucast v)] m m'"
  using field_writes_run [OF assms(1), of "[(f, ucast v)]"] fits_ucast [OF assms(2,3)]
  by (simp add: vmcs_write_eq)

lemma VmcsControl16_write_run:
  assumes "current m"
  shows "\<exists>m'. VmcsControl16_write hw f v m = (Ok (), m') \<and> current m' \<and>
    wrote hw [(VmcsControl16_number f, ucast v)] m m'"
  using vmcs_write_run [OF assms, of "VmcsControl16_number f" v]
  by (simp add: VmcsControl16_write_def field_widths)

lemma VmcsControl64_write_run:
  assumes "current m"
  shows "\<exists>m'. VmcsControl64_write hw f v m = (Ok (), m') \<and> current m' \<and>
    wrote hw [(VmcsControl64_number f, ucast v)] m m'"
  using vmcs_write_run [OF assms, of "VmcsControl64_number f" v]
  by (simp add: VmcsControl64_write_def field_widths)

lemma VmcsControl32_write_run:
  assumes "current m"
  shows "\<exists>m'. VmcsControl32_write hw f v m = (Ok (), m') \<and> current m' \<and>
    wrote hw [(VmcsControl32_number f, ucast v)] m m'"
  using vmcs_write_run [OF assms, of "VmcsControl32_number f" v]
  by (simp add: VmcsControl32_write_def field_widths)

lemma VmcsControlNW_write_run:
  assumes "current m"
  shows "\<exists>m'. VmcsControlNW_write hw f v m = (Ok (), m') \<and> current m' \<and>
    wrote hw [(VmcsControlNW_number f, ucast v)] m m'"
  using vmcs_write_run [OF assms, of "VmcsControlNW_number f" v]
  by (simp add: VmcsControlNW_write_def field_widths)

lemma VmcsGuest16_write_run:
  assumes "current m"
  shows "\<exists>m'. VmcsGuest16_write hw f v m = (Ok (), m') \<and> current m' \<and>
    wrote hw [(VmcsGuest16_number f, ucast v)] m m'"
  using vmcs_write_run [OF assms, of "VmcsGuest16_number f" v]
  by (simp add: VmcsGuest16_write_def field_widths)

lemma VmcsGuest64_write_run:
  assumes "current m"
  shows "\<exists>m'. VmcsGuest64_write hw f v m = (Ok (), m') \<and> current m' \<and>
    wrote hw [(VmcsGuest64_number f, ucast v)] m m'"
  using vmcs_write_run [OF assms, of "VmcsGuest64_number f" v]
  by (simp add: VmcsGuest64_write_def field_widths)

lemma VmcsGuest32_write_run:
  assumes "current m"
  shows "\<exists>m'. VmcsGuest32_write hw f v m = (Ok (), m') \<and> current m' \<and>
    wrote hw [(VmcsGuest32_number f, ucast v)] m m'"
  using vmcs_write_run [OF assms, of "VmcsGuest32_number f" v]
  by (simp add: VmcsGuest32_write_def field_widths)

lemma VmcsGuestNW_write_run:
  assumes "current m"
  shows "\<exists>m'. VmcsGuestNW_write hw f v m = (Ok (), m') \<and> current m' \<and>
    wrote hw [(VmcsGuestNW_number f, ucast v)] m m'"
  using vmcs_write_run [OF assms, of "VmcsGuestNW_number f" v]
  by (simp add: VmcsGuestNW_write_def field_widths)

lemma VmcsHost16_write_run:
  assumes "current m"
  shows "\<exists>m'. VmcsHost16_write hw f v m = (Ok (), m') \<and> current m' \<and>
    wrote hw [(VmcsHost16_number f, ucast v)] m m'"
  using vmcs_write_run [OF assms, of "VmcsHost16_number f" v]
  by (simp add: VmcsHost16_write_def field_widths)

lemma VmcsHost64_write_run:
  assumes "current m"
  shows "\<exists>m'. VmcsHost64_write hw f v m = (Ok (), m') \<and> current m' \<and>
    wrote hw [(VmcsHost64_number f, ucast v)] m m'"
  using vmcs_write_run [OF assms, of "VmcsHost64_number f" v]
  by (simp add: VmcsHost64_write_def field_widths)

lemma VmcsHost32_write_run:
  assumes "current m"
  shows "\<exists>m'. VmcsHost32_write hw f v m = (Ok (), m') \<and> current m' \<and>
    wrote hw [(VmcsHost32_number f, ucast v)] m m'"
  using vmcs_write_run [OF assms, of "VmcsHost32_number f" v]
  by (simp add: VmcsHost32_write_def field_widths)

lemma VmcsHostNW_write_run:
  assumes "current m"
  shows "\<exists>m'. VmcsHostNW_write hw f v m = (Ok (), m') \<and> current m' \<and>
    wrote hw [(VmcsHostNW_number f, ucast v)] m m'"
  using vmcs_write_run [OF assms, of "VmcsHostNW_number f" v]
  by (simp add: VmcsHostNW_write_def field_widths)


lemma vmcs_read_run:
  assumes "current m" "declared_field f"
  shows "\<exists>v. hw_vmread hw f m = Inr v \<and> vmcs_read hw f m = (Ok (ucast v), m)"
  using current_read [OF assms] by (auto simp: prog_simps)

end

interpretation ref_current: vmcs_current ref_hw "\<lambda>m. m_cur m \<noteq> None"
  by unfold_locales
    (auto simp: ref_vmwrite_def ref_vmread_def field_encoding_codes
      declared_field_def writable_field_def split: option.splits)

end
