(* ===== verification/Vmcs.thy ===== *)
theory Vmcs
  imports VmcsFields
begin

text \<open>
  The rest of \<open>src/vmx/vmcs.rs\<close>: the exit and event records, the functions that decode what the processor
  reports at a VM exit (exit reason, interruption information, I/O, EPT, CR and APIC qualifications),
  and the ones that program the VMCS (capability-checked controls, event injection, the EPT pointer, the
  switch of the guest to IA-32e mode).
\<close>

section \<open>Data\<close>

record VmxExitInfo =
  entry_failure :: bool
  exit_reason :: VmxExitReason
  exit_instruction_length :: u32
  guest_rip :: usize

record VmxInterruptInfo =
  int_vector :: u8
  int_type :: VmxInterruptionType
  int_err_code :: "u32 option"
  int_valid :: bool

definition VmxInterruptInfo_from :: "u8 \<Rightarrow> u32 option \<Rightarrow> VmxInterruptInfo" where
  "VmxInterruptInfo_from vector err_code =
     \<lparr>int_vector = vector, int_type = from_vector vector, int_err_code = err_code, int_valid = True\<rparr>"

definition VmxInterruptInfo_bits :: "VmxInterruptInfo \<Rightarrow> u32" where
  "VmxInterruptInfo_bits info =
     (let bits = ucast (int_vector info);
          bits = bits OR push_bit 8 (ucast (VmxInterruptionType_number (int_type info)));
          bits = set_bit_to bits 11 (int_err_code info \<noteq> None)
      in set_bit_to bits 31 (int_valid info))"

record VmxIoExitInfo =
  access_size :: u8
  is_in :: bool
  is_string :: bool
  is_repeat :: bool
  port :: u16

record CrAccessInfo =
  cr_number :: u8
  cr_access_type :: u8
  lmsw_op_type :: u8
  gpr :: u8
  lmsw_source_data :: u8

datatype ApicAccessExitType =
    LinearDataRead
  | LinearDataWrite
  | LinearInstructionFetch
  | LinearEventDelivery
  | LinearMonitoring
  | GuestPhysicalEventDelivery
  | GuestPhysicalMonitoring
  | GuestPhysicalInstructionFetchReadWrite

primrec ApicAccessExitType_number :: "ApicAccessExitType \<Rightarrow> u8" where
  "ApicAccessExitType_number LinearDataRead = 0"
| "ApicAccessExitType_number LinearDataWrite = 1"
| "ApicAccessExitType_number LinearInstructionFetch = 2"
| "ApicAccessExitType_number LinearEventDelivery = 3"
| "ApicAccessExitType_number LinearMonitoring = 4"
| "ApicAccessExitType_number GuestPhysicalEventDelivery = 10"
| "ApicAccessExitType_number GuestPhysicalMonitoring = 11"
| "ApicAccessExitType_number GuestPhysicalInstructionFetchReadWrite = 15"

definition ApicAccessExitType_try_from :: "u8 \<Rightarrow> ApicAccessExitType option" where
  "ApicAccessExitType_try_from n =
     (if n = 0 then Some LinearDataRead
      else if n = 1 then Some LinearDataWrite
      else if n = 2 then Some LinearInstructionFetch
      else if n = 3 then Some LinearEventDelivery
      else if n = 4 then Some LinearMonitoring
      else if n = 10 then Some GuestPhysicalEventDelivery
      else if n = 11 then Some GuestPhysicalMonitoring
      else if n = 15 then Some GuestPhysicalInstructionFetchReadWrite
      else None)"

record ApicAccessExitInfo =
  apic_offset :: u16
  apic_access_type :: ApicAccessExitType
  non_event_delivery_asynchronous :: bool

text \<open>
  The page-fault report of \<open>axaddrspace\<close>, with the access flags of \<open>page_table_entry\<close> as the set of the
  flags the code raises.
\<close>

datatype MappingFlag = READ | WRITE | EXECUTE

record NestedPageFaultInfo =
  access_flags :: "MappingFlag set"
  fault_guest_paddr :: usize

section \<open>Controls\<close>

definition set_control :: "'m hw \<Rightarrow> VmcsControl32 \<Rightarrow> Msr \<Rightarrow> u32 \<Rightarrow> u32 \<Rightarrow> u32 \<Rightarrow> ('m, unit) prog" where
  "set_control hw control capability_msr old_value set_bits clear_bits =
     bind (Msr_read hw capability_msr) (\<lambda>cap.
       let allowed0 = ucast cap; allowed1 = ucast (drop_bit 32 cap) in
       if allowed0 AND allowed1 \<noteq> allowed0 then panic ''assertion failed''
       else if set_bits AND clear_bits \<noteq> 0 then raise InvalidInput
       else if allowed1 AND set_bits \<noteq> set_bits then raise Unsupported
       else if allowed0 AND clear_bits \<noteq> 0 then raise Unsupported
       else
         let flexible = NOT allowed0 AND allowed1;
             unknown = flexible AND NOT (set_bits OR clear_bits);
             default_bits = unknown AND old_value;
             fixed1 = allowed0
         in VmcsControl32_write hw control (fixed1 OR default_bits OR set_bits))"

definition set_ept_pointer :: "'m hw \<Rightarrow> u64 \<Rightarrow> ('m, unit) prog" where
  "set_ept_pointer hw pml4_paddr =
     (let eptp = EPTPointer_from_table_phys pml4_paddr in
      block [VmcsControl64_write hw EPTP eptp, map_err_ax hw (invept hw SingleContext eptp)])"

section \<open>Exit information\<close>

definition instruction_error :: "'m hw \<Rightarrow> ('m, VmxInstructionError) prog" where
  "instruction_error hw =
     bind (unwrap (VmcsReadOnly32_read hw VM_INSTRUCTION_ERROR)) (\<lambda>e. return (VmxInstructionError_from e))"

definition exit_info :: "'m hw \<Rightarrow> ('m, VmxExitInfo) prog" where
  "exit_info hw =
     bind (VmcsReadOnly32_read hw EXIT_REASON) (\<lambda>full_reason.
       case VmxExitReason_try_from (get_bits full_reason 0 16) of
         None \<Rightarrow> panic ''Unknown VM-exit reason''
       | Some reason \<Rightarrow>
           bind (VmcsReadOnly32_read hw VMEXIT_INSTRUCTION_LEN) (\<lambda>len.
           bind (VmcsGuestNW_read hw VmcsGuestNW.RIP) (\<lambda>rip.
             return \<lparr>entry_failure = get_bit full_reason 31, exit_reason = reason,
                     exit_instruction_length = len, guest_rip = rip\<rparr>)))"

definition raw_interrupt_exit_info :: "'m hw \<Rightarrow> ('m, u32) prog" where
  "raw_interrupt_exit_info hw = VmcsReadOnly32_read hw VMEXIT_INTERRUPTION_INFO"

definition interrupt_exit_info :: "'m hw \<Rightarrow> ('m, VmxInterruptInfo) prog" where
  "interrupt_exit_info hw =
     bind (VmcsReadOnly32_read hw VMEXIT_INTERRUPTION_INFO) (\<lambda>info.
       case VmxInterruptionType_try_from (ucast (get_bits info 8 11)) of
         None \<Rightarrow> panic ''unwrap''
       | Some t \<Rightarrow>
           bind (if get_bit info 11
                 then bind (VmcsReadOnly32_read hw VMEXIT_INTERRUPTION_ERR_CODE) (\<lambda>e. return (Some e))
                 else return None) (\<lambda>err_code.
             return \<lparr>int_vector = ucast (get_bits info 0 8), int_type = t,
                     int_err_code = err_code, int_valid = get_bit info 31\<rparr>))"

definition inject_event :: "'m hw \<Rightarrow> u8 \<Rightarrow> u32 option \<Rightarrow> ('m, unit) prog" where
  "inject_event hw vector err_code =
     bind (if vector_has_error_code vector
           then case err_code of
                  Some c \<Rightarrow> return (Some c)
                | None \<Rightarrow>
                    bind (unwrap (VmcsReadOnly32_read hw VMEXIT_INTERRUPTION_ERR_CODE))
                      (\<lambda>c. return (Some c))
           else return None) (\<lambda>err_code.
       let int_info = VmxInterruptInfo_from vector err_code in
       block
         [case int_err_code int_info of
            Some c \<Rightarrow> VmcsControl32_write hw VMENTRY_EXCEPTION_ERR_CODE c
          | None \<Rightarrow> return (),
          if is_soft (int_type int_info)
          then bind (VmcsReadOnly32_read hw VMEXIT_INSTRUCTION_LEN)
                 (VmcsControl32_write hw VMENTRY_INSTRUCTION_LEN)
          else return (),
          VmcsControl32_write hw VMENTRY_INTERRUPTION_INFO_FIELD (VmxInterruptInfo_bits int_info)])"

definition io_exit_info :: "'m hw \<Rightarrow> ('m, VmxIoExitInfo) prog" where
  "io_exit_info hw =
     bind (VmcsReadOnlyNW_read hw EXIT_QUALIFICATION) (\<lambda>qualification.
       return \<lparr>access_size = ucast (get_bits qualification 0 3) + 1,
               is_in = get_bit qualification 3, is_string = get_bit qualification 4,
               is_repeat = get_bit qualification 5, port = ucast (get_bits qualification 16 32)\<rparr>)"

definition ept_violation_info :: "'m hw \<Rightarrow> ('m, NestedPageFaultInfo) prog" where
  "ept_violation_info hw =
     bind (VmcsReadOnlyNW_read hw EXIT_QUALIFICATION) (\<lambda>qualification.
     bind (VmcsReadOnly64_read hw GUEST_PHYSICAL_ADDR) (\<lambda>paddr.
       let flags = {};
           flags = (if get_bit qualification 0 then insert READ flags else flags);
           flags = (if get_bit qualification 1 then insert WRITE flags else flags);
           flags = (if get_bit qualification 2 then insert EXECUTE flags else flags)
       in return \<lparr>access_flags = flags, fault_guest_paddr = paddr\<rparr>))"

text \<open>The EFER flags of \<open>x86_64\<close> and the VM-entry control that the code names.\<close>

abbreviation (input) LONG_MODE_ENABLE :: u64 where "LONG_MODE_ENABLE \<equiv> 0x100"
abbreviation (input) LONG_MODE_ACTIVE :: u64 where "LONG_MODE_ACTIVE \<equiv> 0x400"
abbreviation (input) IA32E_MODE_GUEST :: u32 where "IA32E_MODE_GUEST \<equiv> 0x200"

definition update_efer :: "'m hw \<Rightarrow> ('m, unit) prog" where
  "update_efer hw =
     bind (VmcsGuest64_read hw VmcsGuest64.IA32_EFER) (\<lambda>efer.
       let guest_efer = efer AND efer_all hw in
       if guest_efer AND LONG_MODE_ENABLE = LONG_MODE_ENABLE \<and>
          guest_efer AND LONG_MODE_ACTIVE = LONG_MODE_ACTIVE
       then return ()
       else
         let guest_efer = guest_efer OR LONG_MODE_ACTIVE in
         block
           [VmcsGuest64_write hw VmcsGuest64.IA32_EFER guest_efer,
            bind (VmcsControl32_read hw VMENTRY_CONTROLS) (\<lambda>old.
              set_control hw VMENTRY_CONTROLS Msr.IA32_VMX_TRUE_ENTRY_CTLS old IA32E_MODE_GUEST 0)])"

definition cr_access_info :: "'m hw \<Rightarrow> ('m, CrAccessInfo) prog" where
  "cr_access_info hw =
     bind (VmcsReadOnlyNW_read hw EXIT_QUALIFICATION) (\<lambda>qualification.
       return \<lparr>cr_number = ucast (get_bits qualification 0 4),
               cr_access_type = ucast (get_bits qualification 4 6),
               lmsw_op_type = ucast (get_bits qualification 6 7),
               gpr = ucast (get_bits qualification 8 12),
               lmsw_source_data = ucast (get_bits qualification 16 32)\<rparr>)"

definition apic_access_exit_info :: "'m hw \<Rightarrow> ('m, ApicAccessExitInfo) prog" where
  "apic_access_exit_info hw =
     bind (VmcsReadOnlyNW_read hw EXIT_QUALIFICATION) (\<lambda>qualification.
       case ApicAccessExitType_try_from (ucast (get_bits qualification 12 16)) of
         None \<Rightarrow> panic ''unwrap''
       | Some t \<Rightarrow>
           return \<lparr>apic_offset = ucast (get_bits qualification 0 12), apic_access_type = t,
                   non_event_delivery_asynchronous = get_bit qualification 16\<rparr>)"

section \<open>Decoding lemmas\<close>

declare field_widths [simp]

interpretation apic_types: numeric_enum ApicAccessExitType_number ApicAccessExitType_try_from
proof
  fix e show "ApicAccessExitType_try_from (ApicAccessExitType_number e) = Some e"
    by (cases e) (simp_all add: ApicAccessExitType_try_from_def)
next
  fix n e assume "ApicAccessExitType_try_from n = Some e"
  then show "ApicAccessExitType_number e = n"
    by (auto simp: ApicAccessExitType_try_from_def split: if_splits)
qed

lemma VmcsControl32_write_then_read:
  "wrote hw [(VmcsControl32_number c, ucast v)] m m' \<Longrightarrow> VmcsControl32_read hw c m' = (Ok v, m')"
  by (simp add: field_read_defs wrote_read vmcs_read_simps)

lemma less_16_set: "(w :: u8) < 16 \<Longrightarrow> w \<in> {0,1,2,3,4,5,6,7,8,9,10,11,12,13,14,15}"
  by (simp add: word_less_nat_alt word_unat_eq_iff) arith

lemma less_8_set: "(w :: u8) < 8 \<Longrightarrow> w \<in> {0,1,2,3,4,5,6,7}"
  by (simp add: word_less_nat_alt word_unat_eq_iff) arith

lemma ucast_get_bits_less:
  assumes "hi - lo < 8" "8 < LENGTH('a)"
  shows "unat (ucast (get_bits (w :: 'a::len word) lo hi) :: u8) < 2 ^ (hi - lo)"
proof -
  have "(ucast (get_bits w lo hi) :: u8) = take_bit (hi - lo) (ucast (drop_bit lo w))"
    by (rule bit_word_eqI) (use assms in \<open>auto simp: wbits bit_simps add.commute\<close>)
  then show ?thesis using assms by (simp add: unsigned_take_bit_eq take_bit_nat_less_exp)
qed

text \<open>Every three-bit interruption type has a variant, so decoding never panics.\<close>

lemma VmxInterruptionType_try_from_total: "w < 8 \<Longrightarrow> \<exists>t. VmxInterruptionType_try_from w = Some t"
  by (drule less_8_set)
    (auto simp: VmxInterruptionType_try_from_def numeric_try_from_def VmxInterruptionType_variants_def)

lemma interrupt_info_type_total:
  "\<exists>t. VmxInterruptionType_try_from (ucast (get_bits (info :: u32) 8 11)) = Some t"
  using ucast_get_bits_less [of 11 8 info]
  by (intro VmxInterruptionType_try_from_total) (simp add: word_less_nat_alt)

lemma bit_u8_type: "bit (VmxInterruptionType_number t) n \<Longrightarrow> n < 3"
  using bit_imp_le_length [of "VmxInterruptionType_number t" n]
  by (cases t) (auto simp: bit_numeral_rec bit_1_iff split: nat.splits)

lemma bit_VmxInterruptInfo_bits:
  "bit (VmxInterruptInfo_bits info) n \<longleftrightarrow>
     n < 8 \<and> bit (int_vector info) n \<or>
     8 \<le> n \<and> n < 11 \<and> bit (VmxInterruptionType_number (int_type info)) (n - 8) \<or>
     n = 11 \<and> int_err_code info \<noteq> None \<or> n = 31 \<and> int_valid info"
  using bit_u8_type [of "int_type info" "n - 8"] bit_imp_le_length [of "int_vector info" n]
  by (auto simp: VmxInterruptInfo_bits_def Let_def wbits bit_simps)

lemma get_bits_interrupt_info:
  "ucast (get_bits (VmxInterruptInfo_bits info) 0 8) = int_vector info"
  "ucast (get_bits (VmxInterruptInfo_bits info) 8 11) = VmxInterruptionType_number (int_type info)"
  "get_bit (VmxInterruptInfo_bits info) 11 \<longleftrightarrow> int_err_code info \<noteq> None"
  "get_bit (VmxInterruptInfo_bits info) 31 \<longleftrightarrow> int_valid info"
  by (auto simp: get_bit_def bit_VmxInterruptInfo_bits wbits bit_simps
      intro!: bit_word_eqI dest: bit_u8_type)

section \<open>Capability-checked controls\<close>

text \<open>The control bit that the algorithm of the manual prescribes.\<close>

definition control_bit :: "u64 \<Rightarrow> u32 \<Rightarrow> u32 \<Rightarrow> u32 \<Rightarrow> nat \<Rightarrow> bool" where
  "control_bit cap old_value set_bits clear_bits n \<longleftrightarrow>
     (if bit set_bits n then True
      else if bit clear_bits n then False
      else if bit cap n then True
      else if \<not> bit cap (32 + n) then False
      else bit old_value n)"

lemma set_control_value:
  fixes cap :: u64 and s c old_value :: u32
  defines "allowed0 \<equiv> ucast cap :: u32" and "allowed1 \<equiv> ucast (drop_bit 32 cap) :: u32"
  assumes "allowed0 AND allowed1 = allowed0" "s AND c = 0" "allowed1 AND s = s" "allowed0 AND c = 0"
    and n: "n < 32"
  shows "bit (allowed0 OR (NOT allowed0 AND allowed1 AND NOT (s OR c) AND old_value) OR s) n \<longleftrightarrow>
    control_bit cap old_value s c n"
proof -
  have eq: "bit (x AND y) n \<longleftrightarrow> bit z n" if "x AND y = z" for x y z :: u32
    using that by simp
  show ?thesis
    using n eq [OF assms(3)] eq [OF assms(4)] eq [OF assms(5)] eq [OF assms(6)]
    by (auto simp: control_bit_def allowed0_def allowed1_def bit_simps)
qed

lemma set_control_run:
  assumes "hw_rdmsr hw (Msr_number capability_msr) m = Some cap"
  shows "set_control hw control capability_msr old_value s c m =
    (let allowed0 = ucast cap :: u32; allowed1 = ucast (drop_bit 32 cap) in
     if allowed0 AND allowed1 \<noteq> allowed0 then (Panic ''assertion failed'', m)
     else if s AND c \<noteq> 0 then (Err InvalidInput, m)
     else if allowed1 AND s \<noteq> s \<or> allowed0 AND c \<noteq> 0 then (Err Unsupported, m)
     else VmcsControl32_write hw control
       (allowed0 OR (NOT allowed0 AND allowed1 AND NOT (s OR c) AND old_value) OR s) m)"
  using assms by (simp add: set_control_def prog_simps Let_def and.assoc)

context vmcs_current
begin

lemma set_control_ok:
  assumes "current m" "hw_rdmsr hw (Msr_number capability_msr) m = Some cap"
    and "\<And>n. n < 32 \<Longrightarrow> bit cap n \<Longrightarrow> bit cap (32 + n)"
    and "s AND c = 0" "\<And>n. bit s n \<Longrightarrow> bit cap (32 + n)" "\<And>n. bit c n \<Longrightarrow> \<not> bit cap n"
  shows "\<exists>m' v. set_control hw control capability_msr old_value s c m = (Ok (), m') \<and> current m' \<and>
    wrote hw [(VmcsControl32_number control, ucast (v :: u32))] m m' \<and>
    (\<forall>n < 32. bit v n \<longleftrightarrow> control_bit cap old_value s c n)"
proof -
  define allowed0 allowed1 where "allowed0 = (ucast cap :: u32)" and
    "allowed1 = (ucast (drop_bit 32 cap) :: u32)"
  have checks: "allowed0 AND allowed1 = allowed0" "allowed1 AND s = s" "allowed0 AND c = 0"
    using assms(3,5,6)
    by (auto simp: allowed0_def allowed1_def bit_simps intro!: bit_word_eqI dest: bit_imp_le_length)
  let ?v = "allowed0 OR (NOT allowed0 AND allowed1 AND NOT (s OR c) AND old_value) OR s"
  obtain m' where "VmcsControl32_write hw control ?v m = (Ok (), m')" "current m'"
    "wrote hw [(VmcsControl32_number control, ucast ?v)] m m'"
    using VmcsControl32_write_run [OF assms(1)] by blast
  moreover have "set_control hw control capability_msr old_value s c m =
      VmcsControl32_write hw control ?v m"
    using checks assms(4)
    by (simp add: set_control_run [OF assms(2)] flip: allowed0_def allowed1_def)
  moreover have "\<forall>n < 32. bit ?v n \<longleftrightarrow> control_bit cap old_value s c n"
    using set_control_value [of cap s c _ old_value] checks assms(4)
    by (auto simp: allowed0_def allowed1_def)
  ultimately show ?thesis by metis
qed

end

text \<open>
  C17. Capability-checked controls: with \<open>allowed0\<close>/\<open>allowed1\<close> the low and high halves of the capability
  MSR, \<open>set_control\<close> panics when the halves contradict each other, fails with \<open>InvalidInput\<close> when a bit
  is both set and cleared, and with \<open>Unsupported\<close> when a bit may not be set or cleared, touching nothing;
  otherwise it writes the control in which requested bits have their requested value, fixed bits their
  fixed value and every other bit its old value, and no other field changes.
\<close>

theorem set_control_spec:
  assumes "vmcs_current hw current" "current m"
    and "hw_rdmsr hw (Msr_number capability_msr) m = Some cap"
  shows "let allowed0 = ucast cap :: u32; allowed1 = ucast (drop_bit 32 cap) :: u32;
             r = set_control hw control capability_msr old_value s c m in
    if allowed0 AND NOT allowed1 \<noteq> 0 then r = (Panic ''assertion failed'', m)
    else if s AND c \<noteq> 0 then r = (Err InvalidInput, m)
    else if s AND NOT allowed1 \<noteq> 0 \<or> c AND allowed0 \<noteq> 0 then r = (Err Unsupported, m)
    else \<exists>m' v. r = (Ok (), m') \<and> current m' \<and> VmcsControl32_read hw control m' = (Ok v, m') \<and>
      (\<forall>n < 32. bit v n \<longleftrightarrow> control_bit cap old_value s c n) \<and>
      wrote hw [(VmcsControl32_number control, ucast v)] m m'"
proof -
  define allowed0 allowed1 where a: "allowed0 = (ucast cap :: u32)"
    "allowed1 = (ucast (drop_bit 32 cap) :: u32)"
  have sub: "x AND NOT y = 0 \<longleftrightarrow> x AND y = x" for x y :: u32
    by (auto simp: word_and_eq_self_iff word_and_eq_0_iff bit_simps)
  have ok: "\<exists>m' v. set_control hw control capability_msr old_value s c m = (Ok (), m') \<and> current m' \<and>
      VmcsControl32_read hw control m' = (Ok v, m') \<and>
      (\<forall>n < 32. bit v n \<longleftrightarrow> control_bit cap old_value s c n) \<and>
      wrote hw [(VmcsControl32_number control, ucast v)] m m'"
    if "allowed0 AND NOT allowed1 = 0" "s AND c = 0" "s AND NOT allowed1 = 0" "c AND allowed0 = 0"
  proof -
    have "n < 32 \<Longrightarrow> bit cap n \<Longrightarrow> bit cap (32 + n)" "bit s n \<Longrightarrow> bit cap (32 + n)"
      "bit c n \<Longrightarrow> \<not> bit cap n" for n
      using that(1,3,4) bit_imp_le_length [of s n] bit_imp_le_length [of c n]
      by (auto simp: word_and_eq_0_iff a bit_simps)
    from vmcs_current.set_control_ok [OF assms this(1) that(2) this(2,3), of control old_value]
    show ?thesis using VmcsControl32_write_then_read [of hw control _ m] by auto
  qed
  show ?thesis
    using ok set_control_run [OF assms(3), of control old_value s c]
    unfolding Let_def a [symmetric] sub by (auto simp: and.commute)
qed

theorem set_control_spec_witness:
  "\<exists>m' v. set_control ref_hw VMENTRY_CONTROLS Msr.IA32_VMX_TRUE_ENTRY_CTLS 0x1000 0x200 0x4000
       ref_machine = (Ok (), m') \<and>
     VmcsControl32_read ref_hw VMENTRY_CONTROLS m' = (Ok v, m') \<and>
     bit v 9 \<and> bit v 12 \<and> \<not> bit v 14 \<and> bit v 0"
proof -
  have cap: "hw_rdmsr ref_hw (Msr_number Msr.IA32_VMX_TRUE_ENTRY_CTLS) ref_machine =
      Some 0xffffffff000011fb"
    by (simp add: ref_machine_def)
  have cur: "(\<lambda>m. m_cur m \<noteq> None) ref_machine" by (simp add: ref_machine_def)
  show ?thesis
    using set_control_spec [OF ref_current.vmcs_current_axioms cur cap, of VMENTRY_CONTROLS "0x1000" "0x200" "0x4000"]
    by (auto simp: control_bit_def bit_numeral_rec)
qed

section \<open>Exit information\<close>

lemma interrupt_exit_info_run:
  assumes "hw_vmread hw (VmcsReadOnly32_number VMEXIT_INTERRUPTION_INFO) m = Inr info"
    and "hw_vmread hw (VmcsReadOnly32_number VMEXIT_INTERRUPTION_ERR_CODE) m = Inr e"
  shows "\<exists>t. VmxInterruptionType_try_from (ucast (get_bits (ucast info :: u32) 8 11)) = Some t \<and>
    interrupt_exit_info hw m =
    (Ok \<lparr>int_vector = ucast (get_bits (ucast info :: u32) 0 8), int_type = t,
         int_err_code = (if get_bit (ucast info :: u32) 11 then Some (ucast e) else None),
         int_valid = get_bit (ucast info :: u32) 31\<rparr>, m)"
  using interrupt_info_type_total [of "ucast info"] assms
  by (auto simp: interrupt_exit_info_def field_read_defs prog_simps)

lemma interrupt_info_decode_bits:
  fixes raw :: u32
  assumes "VmxInterruptionType_number t = ucast (get_bits raw 8 11)"
  shows "VmxInterruptInfo_bits \<lparr>int_vector = ucast (get_bits raw 0 8), int_type = t,
      int_err_code = (if get_bit raw 11 then Some e else None), int_valid = get_bit raw 31\<rparr> =
    raw AND 0x80000fff"
proof (rule bit_word_eqI)
  fix n assume n: "n < LENGTH(32)"
  have mask: "(0x80000fff :: u32) = mask 12 OR push_bit 31 1"
    by (simp add: mask_eq_exp_minus_1)
  have "bit (raw AND 0x80000fff) n \<longleftrightarrow> bit raw n \<and> (n < 12 \<or> n = 31)"
    using n unfolding mask by (auto simp: bit_simps simp del: push_bit_of_1)
  then show "bit (VmxInterruptInfo_bits \<lparr>int_vector = ucast (get_bits raw 0 8), int_type = t,
      int_err_code = (if get_bit raw 11 then Some e else None), int_valid = get_bit raw 31\<rparr>) n =
    bit (raw AND 0x80000fff) n"
    using n by (auto simp: bit_VmxInterruptInfo_bits assms wbits bit_simps get_bit_def
        not_less less_Suc_eq numeral_eq_Suc)
qed

text \<open>
  C32. Interruption information: encoding an event with \<open>VmxInterruptInfo::bits\<close> and decoding it from the
  VM-exit interruption-information field with \<open>interrupt_exit_info\<close> gives the event back; and decoding
  any content of the field succeeds (it never panics) and re-encodes to that content with the reserved
  bits 30:12 cleared.
\<close>

theorem interrupt_info_roundtrip:
  assumes "hw_vmread hw (VmcsReadOnly32_number VMEXIT_INTERRUPTION_INFO) m = Inr raw"
    and "hw_vmread hw (VmcsReadOnly32_number VMEXIT_INTERRUPTION_ERR_CODE) m = Inr e"
  shows "(\<exists>info. interrupt_exit_info hw m = (Ok info, m) \<and>
            VmxInterruptInfo_bits info = ucast raw AND 0x80000fff) \<and>
    (\<forall>info. raw = ucast (VmxInterruptInfo_bits info) \<and>
       (int_err_code info = None \<or> int_err_code info = Some (ucast e)) \<longrightarrow>
       interrupt_exit_info hw m = (Ok info, m))"
proof (intro conjI allI impI)
  obtain t where t: "VmxInterruptionType_try_from (ucast (get_bits (ucast raw :: u32) 8 11)) = Some t"
    and run: "interrupt_exit_info hw m =
      (Ok \<lparr>int_vector = ucast (get_bits (ucast raw :: u32) 0 8), int_type = t,
         int_err_code = (if get_bit (ucast raw :: u32) 11 then Some (ucast e) else None),
         int_valid = get_bit (ucast raw :: u32) 31\<rparr>, m)"
    using interrupt_exit_info_run [OF assms] by blast
  have num: "VmxInterruptionType_number t = ucast (get_bits (ucast raw :: u32) 8 11)"
    using t by (rule int_types.number_try_from)
  show "\<exists>info. interrupt_exit_info hw m = (Ok info, m) \<and>
      VmxInterruptInfo_bits info = ucast raw AND 0x80000fff"
    unfolding run using interrupt_info_decode_bits [OF num] by auto
  fix info
  assume info: "raw = ucast (VmxInterruptInfo_bits info) \<and>
    (int_err_code info = None \<or> int_err_code info = Some (ucast e))"
  then have raw: "(ucast raw :: u32) = VmxInterruptInfo_bits info" by simp
  have "t = int_type info" using num by (simp add: raw get_bits_interrupt_info)
  then show "interrupt_exit_info hw m = (Ok info, m)"
    unfolding run raw get_bits_interrupt_info using info by (cases info) auto
qed

theorem interrupt_info_roundtrip_witness:
  "let info = \<lparr>int_vector = 14, int_type = HardException, int_err_code = Some 2, int_valid = True\<rparr>;
       m = ref_machine\<lparr>m_vmcs := (\<lambda>_ _. 0)(0x2000 := (\<lambda>_. 0)(0x4404 := 0x80000b0e, 0x4406 := 2))\<rparr>
   in interrupt_exit_info ref_hw m = (Ok info, m)"
proof -
  let ?info = "\<lparr>int_vector = 14, int_type = HardException, int_err_code = Some 2, int_valid = True\<rparr>"
  let ?m = "ref_machine\<lparr>m_vmcs := (\<lambda>_ _. 0)(0x2000 := (\<lambda>_. 0)(0x4404 := 0x80000b0e, 0x4406 := 2))\<rparr>"
  have "hw_vmread ref_hw (VmcsReadOnly32_number VMEXIT_INTERRUPTION_INFO) ?m = Inr 0x80000b0e"
    "hw_vmread ref_hw (VmcsReadOnly32_number VMEXIT_INTERRUPTION_ERR_CODE) ?m = Inr 2"
    by (simp_all add: ref_vmread_def ref_machine_def)
  moreover have "(0x80000b0e :: u64) = ucast (VmxInterruptInfo_bits ?info)"
    by (simp add: VmxInterruptInfo_bits_def set_bit_to_def)
  ultimately show ?thesis
    using interrupt_info_roundtrip [of ref_hw ?m "0x80000b0e" 2] by (simp add: Let_def)
qed

text \<open>
  Exit information: when the three fields can be read, \<open>exit_info\<close> returns the reason whose number is
  bits 15:0 of the exit-reason field, the VM-entry failure flag of bit 31, the instruction length and the
  guest RIP; it panics exactly when no exit reason has that number.
\<close>

theorem exit_info_spec:
  assumes "hw_vmread hw (VmcsReadOnly32_number EXIT_REASON) m = Inr raw"
    and "hw_vmread hw (VmcsReadOnly32_number VMEXIT_INSTRUCTION_LEN) m = Inr len"
    and "hw_vmread hw (VmcsGuestNW_number VmcsGuestNW.RIP) m = Inr guest_ip"
  shows "if \<exists>r. VmxExitReason_number r = take_bit 16 (ucast raw)
    then \<exists>info. exit_info hw m = (Ok info, m) \<and>
      VmxExitReason_number (exit_reason info) = take_bit 16 (ucast raw) \<and>
      entry_failure info = bit raw 31 \<and> exit_instruction_length info = ucast len \<and>
      guest_rip info = guest_ip
    else exit_info hw m = (Panic ''Unknown VM-exit reason'', m)"
proof -
  have bits: "get_bits (ucast raw :: u32) 0 16 = take_bit 16 (ucast raw)"
    by (simp add: get_bits_take_drop)
  show ?thesis
  proof (cases "VmxExitReason_try_from (take_bit 16 (ucast raw))")
    case None
    then have "\<nexists>r. VmxExitReason_number r = take_bit 16 (ucast raw)"
      by (metis exit_reasons.try_from_None_iff rangeI)
    with None assms show ?thesis
      by (simp add: exit_info_def field_read_defs prog_simps bits)
  next
    case (Some r)
    then have "VmxExitReason_number r = take_bit 16 (ucast raw)"
      by (rule exit_reasons.number_try_from)
    with Some assms show ?thesis
      by (auto simp: exit_info_def field_read_defs prog_simps bits get_bit_def bit_simps)
  qed
qed

theorem exit_info_spec_witness:
  "\<exists>info. exit_info ref_hw ref_machine = (Ok info, ref_machine) \<and> exit_reason info = EXCEPTION_NMI \<and>
     \<not> entry_failure info"
proof -
  have "VmxExitReason_number r = 0 \<longleftrightarrow> r = EXCEPTION_NMI" for r
    by (metis VmxExitReason_number.simps(1) VmxExitReason_number_inject)
  with exit_info_spec [of ref_hw ref_machine 0 0 0] show ?thesis
    by (auto simp: ref_vmread_def ref_machine_def)
qed

section \<open>Event injection\<close>

text \<open>The writes of an injection, with the error code and the instruction length of the last exit.\<close>

definition injection_writes :: "u8 \<Rightarrow> u32 option \<Rightarrow> u32 \<Rightarrow> u32 \<Rightarrow> u32 \<Rightarrow> (u32 \<times> u64) list" where
  "injection_writes vector err_code exit_err exit_len info =
     (if vector_has_error_code vector
      then [(VmcsControl32_number VMENTRY_EXCEPTION_ERR_CODE,
             ucast (case err_code of Some c \<Rightarrow> c | None \<Rightarrow> exit_err))] else []) @
     (if vector = 1 \<or> vector = 3 \<or> vector = 4
      then [(VmcsControl32_number VMENTRY_INSTRUCTION_LEN, ucast exit_len)] else []) @
     [(VmcsControl32_number VMENTRY_INTERRUPTION_INFO_FIELD, ucast info)]"

definition injected_error_code :: "u8 \<Rightarrow> u32 option \<Rightarrow> u32 \<Rightarrow> u32 option" where
  "injected_error_code vector err_code exit_err =
     (if vector_has_error_code vector
      then Some (case err_code of Some c \<Rightarrow> c | None \<Rightarrow> exit_err) else None)"

context vmcs_current
begin

lemma write_if_run:
  assumes "current m"
  shows "\<exists>m'. (case c of Some x \<Rightarrow> VmcsControl32_write hw f x | None \<Rightarrow> return ()) m = (Ok (), m') \<and>
    current m' \<and> wrote hw (case c of Some x \<Rightarrow> [(VmcsControl32_number f, ucast x)] | None \<Rightarrow> []) m m'"
  using assms VmcsControl32_write_run [OF assms] by (auto simp: return_def split: option.splits)

lemma copy_if_run:
  assumes "current m" "hw_vmread hw (VmcsReadOnly32_number f) m = Inr x"
  shows "\<exists>m'. (if b then bind (VmcsReadOnly32_read hw f) (VmcsControl32_write hw g)
             else return ()) m = (Ok (), m') \<and> current m' \<and>
    wrote hw (if b then [(VmcsControl32_number g, ucast (ucast x :: u32))] else []) m m'"
  using assms(1) VmcsControl32_write_run [OF assms(1), of g "ucast x"]
  by (auto simp: return_def bind_simps(1) field_read_defs vmcs_read_simps assms(2))

lemma inject_event_run:
  assumes "current m"
    and ec: "hw_vmread hw (VmcsReadOnly32_number VMEXIT_INTERRUPTION_ERR_CODE) m = Inr ec"
    and len: "hw_vmread hw (VmcsReadOnly32_number VMEXIT_INSTRUCTION_LEN) m = Inr len"
  shows "\<exists>m'. inject_event hw vector err_code m = (Ok (), m') \<and> current m' \<and>
    wrote hw (injection_writes vector err_code (ucast ec) (ucast len) (VmxInterruptInfo_bits
      (VmxInterruptInfo_from vector (injected_error_code vector err_code (ucast ec))))) m m'"
proof -
  let ?c = "injected_error_code vector err_code (ucast ec)"
  let ?info = "VmxInterruptInfo_from vector ?c"
  obtain m1 where m1: "(case ?c of Some x \<Rightarrow> VmcsControl32_write hw VMENTRY_EXCEPTION_ERR_CODE x
      | None \<Rightarrow> return ()) m = (Ok (), m1)" "current m1"
    "wrote hw (case ?c of Some x \<Rightarrow> [(VmcsControl32_number VMENTRY_EXCEPTION_ERR_CODE, ucast x)]
      | None \<Rightarrow> []) m m1"
    using write_if_run [OF assms(1)] by metis
  have "hw_vmread hw (VmcsReadOnly32_number VMEXIT_INSTRUCTION_LEN) m1 = Inr len"
    using wrote_read [OF m1(3), of "VmcsReadOnly32_number VMEXIT_INSTRUCTION_LEN"] len
    by (auto split: option.splits)
  then obtain m2 where m2: "(if is_soft (int_type ?info)
      then bind (VmcsReadOnly32_read hw VMEXIT_INSTRUCTION_LEN)
             (VmcsControl32_write hw VMENTRY_INSTRUCTION_LEN) else return ()) m1 = (Ok (), m2)"
    "current m2" "wrote hw (if is_soft (int_type ?info)
       then [(VmcsControl32_number VMENTRY_INSTRUCTION_LEN, ucast (ucast len :: u32))] else []) m1 m2"
    using copy_if_run [OF m1(2)] by metis
  obtain m' where m': "VmcsControl32_write hw VMENTRY_INTERRUPTION_INFO_FIELD
      (VmxInterruptInfo_bits ?info) m2 = (Ok (), m')" "current m'"
    "wrote hw [(VmcsControl32_number VMENTRY_INTERRUPTION_INFO_FIELD,
      ucast (VmxInterruptInfo_bits ?info))] m2 m'"
    using VmcsControl32_write_run [OF m2(2)] by metis
  have start: "(if vector_has_error_code vector
      then case err_code of Some c \<Rightarrow> return (Some c)
           | None \<Rightarrow> bind (unwrap (VmcsReadOnly32_read hw VMEXIT_INTERRUPTION_ERR_CODE))
                      (\<lambda>c. return (Some c))
      else return None) m = (Ok ?c, m)"
    using ec by (auto simp: injected_error_code_def prog_simps field_read_defs split: option.splits)
  have "inject_event hw vector err_code m = (Ok (), m')"
    unfolding inject_event_def bind_def [of _ _ m] start
    using m1(1) m2(1) m'(1)
    by (simp add: Let_def bind_simps(1) return_def VmxInterruptInfo_from_def)
  moreover have "wrote hw (injection_writes vector err_code (ucast ec) (ucast len)
      (VmxInterruptInfo_bits ?info)) m m'"
    using wrote_append [OF m1(3) wrote_append [OF m2(3) m'(3)]]
    by (auto simp: injection_writes_def injected_error_code_def VmxInterruptInfo_from_def
        is_soft_from_vector split: if_splits)
  ultimately show ?thesis using m'(2) by blast
qed

end



section \<open>Exit qualifications\<close>

lemma unat_take_bit_less: "unat (take_bit n (w :: 'a::len word)) < 2 ^ n"
  by (simp only: unsigned_take_bit_eq take_bit_nat_less_exp)

lemma unat_ucast_get_bits:
  assumes "hi - lo \<le> LENGTH('b)"
  shows "unat (ucast (get_bits (q :: u64) lo hi) :: 'b::len word) =
    unat (take_bit (hi - lo) (drop_bit lo q))"
proof -
  have "unat (take_bit (hi - lo) (drop_bit lo q)) < 2 ^ (hi - lo)" by (rule unat_take_bit_less)
  also have "(2 :: nat) ^ (hi - lo) \<le> 2 ^ LENGTH('b)" using assms by (intro power_increasing) auto
  finally show ?thesis
    by (simp only: get_bits_take_drop unsigned_ucast_eq take_bit_nat_eq_self)
qed

lemma io_access_size:
  "unat (ucast (get_bits (q :: u64) 0 3) + 1 :: u8) = unat (take_bit 3 q) + 1"
proof -
  have "unat (take_bit 3 q) < 8" using unat_take_bit_less [of 3 q] by simp
  then show ?thesis
    using unat_ucast_get_bits [where 'b = 8, of 3 0 q] by (subst unat_word_ariths) simp
qed

lemma io_exit_info_run:
  assumes "hw_vmread hw (VmcsReadOnlyNW_number EXIT_QUALIFICATION) m = Inr q"
  shows "\<exists>io. io_exit_info hw m = (Ok io, m) \<and> unat (access_size io) = unat (take_bit 3 q) + 1 \<and>
      is_in io = bit q 3 \<and> is_string io = bit q 4 \<and> is_repeat io = bit q 5 \<and>
      port io = ucast (drop_bit 16 q)"
proof -
  have port: "(ucast (get_bits q 16 32) :: u16) = ucast (drop_bit 16 q)"
    by (rule bit_word_eqI) (auto simp: wbits bit_simps)
  show ?thesis
    using assms io_access_size [of q]
    by (simp add: io_exit_info_def field_read_defs prog_simps get_bit_def port)
qed

lemma lmsw_fields:
  fixes q :: u64
  shows "(ucast (get_bits q 6 7) :: u8) = of_bool (bit q 6)"
    "unat (ucast (get_bits q 16 32) :: u8) = unat (take_bit 8 (drop_bit 16 q))"
proof -
  show "(ucast (get_bits q 6 7) :: u8) = of_bool (bit q 6)"
    by (rule bit_word_eqI) (auto simp: wbits bit_simps bit_1_iff)
  have "(ucast (get_bits q 16 32) :: u8) = ucast (take_bit 8 (drop_bit 16 q))"
    by (rule bit_word_eqI) (auto simp: wbits bit_simps)
  moreover have "unat (take_bit 8 (drop_bit 16 q)) < 2 ^ 8" unfolding unsigned_take_bit_eq by (rule take_bit_nat_less_exp)
  ultimately show "unat (ucast (get_bits q 16 32) :: u8) = unat (take_bit 8 (drop_bit 16 q))"
    by (simp add: unsigned_ucast_eq take_bit_nat_eq_self)
qed



section \<open>IA-32e mode\<close>

text \<open>
  Switching the guest to IA-32e mode: \<open>update_efer\<close> leaves everything alone when the guest EFER has
  both LME and LMA; otherwise it writes back the declared flags of the guest EFER with LMA set, also when
  LME is clear, and sets the IA-32e-mode-guest bit of the VM-entry controls, every other control bit
  keeping its old value where the capabilities leave it free.
\<close>

theorem update_efer_spec:
  assumes cur: "vmcs_current hw current" "current m"
    and efer: "hw_vmread hw (VmcsGuest64_number VmcsGuest64.IA32_EFER) m = Inr e"
    and old: "hw_vmread hw (VmcsControl32_number VMENTRY_CONTROLS) m = Inr old"
    and cap: "hw_rdmsr hw (Msr_number Msr.IA32_VMX_TRUE_ENTRY_CTLS) m = Some cap"
    and allowed: "\<And>n. n < 32 \<Longrightarrow> bit cap n \<Longrightarrow> bit cap (32 + n)" "bit cap 41"
    and flags: "bit (efer_all hw) 8" "bit (efer_all hw) 10"
  shows "if bit e 8 \<and> bit e 10 then update_efer hw m = (Ok (), m)
    else \<exists>m' v. update_efer hw m = (Ok (), m') \<and> current m' \<and>
      wrote hw [(VmcsGuest64_number VmcsGuest64.IA32_EFER, e AND efer_all hw OR 0x400),
                (VmcsControl32_number VMENTRY_CONTROLS, ucast (v :: u32))] m m' \<and>
      bit v 9 \<and> (\<forall>n < 32. bit v n \<longleftrightarrow> control_bit cap (ucast old) 0x200 0 n)"
proof -
  let ?e = "e AND efer_all hw"
  have one: "x AND push_bit n 1 = push_bit n 1 \<longleftrightarrow> bit x n" if "n < 64" for x :: u64 and n
    using that word_and_eq_self_iff [of "push_bit n 1" x]
    by (auto simp: and.commute bit_push_bit_iff bit_1_iff simp del: push_bit_of_1)
  have test: "x AND 0x100 = 0x100 \<longleftrightarrow> bit x 8" "x AND 0x400 = 0x400 \<longleftrightarrow> bit x 10" for x :: u64
    using one [of 8 x] one [of 10 x] by simp_all
  show ?thesis
  proof (cases "bit e 8 \<and> bit e 10")
    case True
    then show ?thesis
      using efer flags
      by (simp add: update_efer_def field_read_defs prog_simps test bit_and_iff del: field_numbers)
  next
    case False
    obtain m1 where m1: "VmcsGuest64_write hw VmcsGuest64.IA32_EFER (?e OR 0x400) m = (Ok (), m1)"
      "current m1" "wrote hw [(VmcsGuest64_number VmcsGuest64.IA32_EFER, ?e OR 0x400)] m m1"
      using vmcs_current.VmcsGuest64_write_run [OF cur, of VmcsGuest64.IA32_EFER "?e OR 0x400"] by auto
    have rd: "VmcsControl32_read hw VMENTRY_CONTROLS m1 = (Ok (ucast old), m1)"
      using wrote_read [OF m1(3), of "VmcsControl32_number VMENTRY_CONTROLS"] old
      by (simp add: field_read_defs prog_simps)
    have cap': "hw_rdmsr hw (Msr_number Msr.IA32_VMX_TRUE_ENTRY_CTLS) m1 = Some cap"
      using cap host_viewD(1) [OF wrote_host [OF m1(3)]] by metis
    have bit9: "bit (0x200 :: u32) n \<longleftrightarrow> n = 9" for n
      using bit_push_bit_iff [of 9 "1 :: u32" n] by (auto simp: bit_1_iff dest: bit_imp_le_length)
    have set9: "bit (0x200 :: u32) n \<Longrightarrow> bit cap (32 + n)" for n
      unfolding bit9 using allowed(2) by simp
    have none: "(0x200 :: u32) AND 0 = 0" "\<And>n. bit (0 :: u32) n \<Longrightarrow> \<not> bit cap n" by simp_all
    obtain m' v where v: "set_control hw VMENTRY_CONTROLS Msr.IA32_VMX_TRUE_ENTRY_CTLS
        (ucast old) 0x200 0 m1 = (Ok (), m')" "current m'"
      "wrote hw [(VmcsControl32_number VMENTRY_CONTROLS, ucast (v :: u32))] m1 m'"
      "\<forall>n < 32. bit v n \<longleftrightarrow> control_bit cap (ucast old) 0x200 0 n"
      using vmcs_current.set_control_ok [OF cur(1) m1(2) cap' allowed(1) none(1) set9 none(2)]
      by metis
    have "update_efer hw m = (Ok (), m')"
      using efer flags False m1(1) rd v(1)
      by (auto simp: update_efer_def field_read_defs prog_simps test bit_and_iff Let_def
          simp del: field_numbers)
    moreover have "bit v 9" using v(4) bit9 [of 9] by (simp add: control_bit_def)
    ultimately show ?thesis
      using False v wrote_append [OF m1(3) v(3)] by auto
  qed
qed

theorem update_efer_spec_witness:
  "\<exists>m'. update_efer ref_hw ref_machine = (Ok (), m') \<and>
     hw_vmread ref_hw (VmcsGuest64_number VmcsGuest64.IA32_EFER) m' = Inr 0x400"
proof -
  have cur: "(\<lambda>m. m_cur m \<noteq> None) ref_machine" by (simp add: ref_machine_def)
  have rd: "hw_vmread ref_hw f ref_machine = Inr 0" for f
    by (simp add: ref_machine_def ref_vmread_def)
  have cap: "hw_rdmsr ref_hw (Msr_number Msr.IA32_VMX_TRUE_ENTRY_CTLS) ref_machine =
      Some 0xffffffff000011fb"
    by (simp add: ref_machine_def)
  have hi: "bit (0xffffffff000011fb :: u64) (32 + n)" if "n < 32" for n
  proof -
    have "(0xffffffff000011fb :: u64) = push_bit 32 (mask 32) OR 0x11fb"
      by (simp add: mask_eq_exp_minus_1)
    then show ?thesis using that by (simp only: bit_or_iff bit_push_bit_iff bit_mask_iff) simp
  qed
  obtain m' v where "update_efer ref_hw ref_machine = (Ok (), m')"
    "wrote ref_hw [(VmcsGuest64_number VmcsGuest64.IA32_EFER, 0 AND efer_all ref_hw OR 0x400),
       (VmcsControl32_number VMENTRY_CONTROLS, ucast (v :: u32))] ref_machine m'"
    using update_efer_spec [OF ref_current.vmcs_current_axioms cur rd rd cap] hi hi [of 9]
    by (auto simp: bit_numeral_rec)
  then show ?thesis
    using wrote_read [of ref_hw _ ref_machine m' "VmcsGuest64_number VmcsGuest64.IA32_EFER"] by auto
qed

end
