(* ===== verification/XState.thy ===== *)
theory XState
  imports Vmcs
begin

text \<open>
  The extended processor state of a vCPU (\<open>XState\<close> in \<open>src/vmx/vcpu.rs\<close>): which of XCR0 and IA32_XSS
  exist, the values the host and the guest use, and the switch between them around a VM entry. Methods
  with \<open>&mut self\<close> run on a pair of the object and the machine; \<open>on_hw\<close> runs a computation of the
  machine there and \<open>on_field\<close> one of a field of the object.
\<close>

section \<open>Methods of an object on a machine\<close>

definition on_hw :: "('m, 'a) prog \<Rightarrow> ('s \<times> 'm, 'a) prog" where
  "on_hw p = zoom snd apsnd p"

definition on_field ::
  "('s \<Rightarrow> 'f) \<Rightarrow> (('f \<Rightarrow> 'f) \<Rightarrow> 's \<Rightarrow> 's) \<Rightarrow> ('f, 'a) prog \<Rightarrow> ('s \<times> 'm, 'a) prog" where
  "on_field sel upd p = zoom (\<lambda>s. sel (fst s)) (\<lambda>f. apfst (upd f)) p"

text \<open>A method of a field of the object that also uses the machine.\<close>

definition on_part ::
  "('s \<Rightarrow> 'f) \<Rightarrow> (('f \<Rightarrow> 'f) \<Rightarrow> 's \<Rightarrow> 's) \<Rightarrow> ('f \<times> 'm, 'a) prog \<Rightarrow> ('s \<times> 'm, 'a) prog" where
  "on_part sel upd p s =
     (case p (sel (fst s), snd s) of (r, (x, m)) \<Rightarrow> (r, (upd (\<lambda>_. x) (fst s), m)))"

definition self :: "('s \<times> 'm, 's) prog" where
  "self = gets fst"

definition modify_self :: "('s \<Rightarrow> 's) \<Rightarrow> ('s \<times> 'm, unit) prog" where
  "modify_self f = modify (apfst f)"

section \<open>Extended state\<close>

record XState =
  host_xcr0 :: u64
  guest_xcr0 :: u64
  host_xss :: u64
  guest_xss :: u64
  xsave_available :: bool
  xsaves_available :: bool

text \<open>\<open>xcr0()\<close> and \<open>xcr0_write\<close> of the crate \<open>x86\<close>.\<close>

definition xcr0_read :: "'m hw \<Rightarrow> ('m, u64) prog" where
  "xcr0_read hw m = (case hw_xcr0_read hw m of Some v \<Rightarrow> (Ok v, m) | None \<Rightarrow> (Fault, m))"

definition xcr0_write :: "'m hw \<Rightarrow> u64 \<Rightarrow> ('m, unit) prog" where
  "xcr0_write hw v m = (case hw_xcr0_write hw v m of Some m' \<Rightarrow> (Ok (), m') | None \<Rightarrow> (Fault, m))"

definition XState_xsave_available :: "'m hw \<Rightarrow> 'm \<Rightarrow> bool" where
  "XState_xsave_available hw m = (case hw_has_xsave hw m of Some b \<Rightarrow> b | None \<Rightarrow> False)"

definition XState_xsaves_available :: "'m hw \<Rightarrow> 'm \<Rightarrow> bool" where
  "XState_xsaves_available hw m = (case hw_has_xsaves_xrstors hw m of Some b \<Rightarrow> b | None \<Rightarrow> False)"

definition XState_new :: "'m hw \<Rightarrow> ('m, XState) prog" where
  "XState_new hw =
     bind (gets (XState_xsave_available hw)) (\<lambda>xsave.
     bind (if xsave then gets (XState_xsaves_available hw) else return False) (\<lambda>xsaves.
     bind (if xsave then xcr0_read hw else return 0) (\<lambda>xcr0.
     bind (if xsaves then Msr_read hw Msr.IA32_XSS else return 0) (\<lambda>xss.
     return \<lparr>host_xcr0 = xcr0, guest_xcr0 = xcr0, host_xss = xss, guest_xss = xss,
             xsave_available = xsave, xsaves_available = xsaves\<rparr>))))"

abbreviation (input) CR4_OSXSAVE :: u64 where "CR4_OSXSAVE \<equiv> 0x40000"

definition enable_xsave :: "'m hw \<Rightarrow> ('m, unit) prog" where
  "enable_xsave hw =
     bind (gets (XState_xsave_available hw)) (\<lambda>xsave.
       if xsave then modify (\<lambda>m. hw_cr4_write hw (hw_cr4_read hw m OR CR4_OSXSAVE) m) else return ())"

definition switch_to_guest :: "'m hw \<Rightarrow> (XState \<times> 'm, unit) prog" where
  "switch_to_guest hw =
     bind self (\<lambda>x.
       if xsave_available x then
         bind (on_hw (xcr0_read hw)) (\<lambda>v.
         bind (modify_self (host_xcr0_update (\<lambda>_. v))) (\<lambda>_.
         bind (on_hw (xcr0_write hw (guest_xcr0 x))) (\<lambda>_.
         if xsaves_available x then
           bind (on_hw (Msr_read hw Msr.IA32_XSS)) (\<lambda>v.
           bind (modify_self (host_xss_update (\<lambda>_. v))) (\<lambda>_.
           on_hw (Msr_write hw Msr.IA32_XSS (guest_xss x))))
         else return ())))
       else return ())"

definition switch_to_host :: "'m hw \<Rightarrow> (XState \<times> 'm, unit) prog" where
  "switch_to_host hw =
     bind self (\<lambda>x.
       if xsave_available x then
         bind (on_hw (xcr0_read hw)) (\<lambda>v.
         bind (modify_self (guest_xcr0_update (\<lambda>_. v))) (\<lambda>_.
         bind (on_hw (xcr0_write hw (host_xcr0 x))) (\<lambda>_.
         if xsaves_available x then
           bind (on_hw (Msr_read hw Msr.IA32_XSS)) (\<lambda>v.
           bind (modify_self (guest_xss_update (\<lambda>_. v))) (\<lambda>_.
           on_hw (Msr_write hw Msr.IA32_XSS (host_xss x))))
         else return ())))
       else return ())"

section \<open>Running methods\<close>

lemma on_hw_pair: "on_hw p (s, m) = (case p m of (r, m') \<Rightarrow> (r, (s, m')))"
  by (simp add: on_hw_def zoom_def split: prod.split)

lemma on_hw_simps [prog_simps]: "p m = (r, m') \<Longrightarrow> on_hw p (s, m) = (r, (s, m'))"
  by (simp add: on_hw_pair)

lemma on_hw_bind: "on_hw (bind p k) = bind (on_hw p) (\<lambda>x. on_hw (k x))"
  by (rule ext) (auto simp: on_hw_def zoom_def bind_def split: prod.splits res.splits)

lemma on_field_simps [prog_simps]:
  "p (sel s) = (r, x) \<Longrightarrow> on_field sel upd p (s, m) = (r, (upd (\<lambda>_. x) s, m))"
  by (simp add: on_field_def zoom_def)

lemma on_part_simps [prog_simps]:
  "p (sel s, m) = (r, (x, m')) \<Longrightarrow> on_part sel upd p (s, m) = (r, (upd (\<lambda>_. x) s, m'))"
  by (simp add: on_part_def)

lemma bind_self [simp]: "bind self k (s, m) = k s (s, m)"
  by (simp add: self_def)

lemma bind_modify_self [simp]: "bind (modify_self f) k (s, m) = k () (f s, m)"
  by (simp add: modify_self_def)

lemma modify_self_run [prog_simps]: "modify_self f (s, m) = (Ok (), (f s, m))"
  by (simp add: modify_self_def modify_def)

lemma on_hw_Ok_iff [prog_elims]:
  "on_hw p (s, m) = (Ok x, st) \<longleftrightarrow> (\<exists>m'. p m = (Ok x, m') \<and> st = (s, m'))"
  by (auto simp: on_hw_pair split: prod.splits)

lemma xcr0_read_simps [prog_simps]:
  "hw_xcr0_read hw m = Some v \<Longrightarrow> xcr0_read hw m = (Ok v, m)"
  "hw_xcr0_read hw m = None \<Longrightarrow> xcr0_read hw m = (Fault, m)"
  by (simp_all add: xcr0_read_def)

lemma xcr0_write_simps [prog_simps]:
  "hw_xcr0_write hw v m = Some m' \<Longrightarrow> xcr0_write hw v m = (Ok (), m')"
  by (simp_all add: xcr0_write_def)

lemma Msr_write_simps [prog_simps]:
  "hw_wrmsr hw (Msr_number r) v m = Some m' \<Longrightarrow> Msr_write hw r v m = (Ok (), m')"
  by (simp add: Msr_write_def)

section \<open>Switching\<close>

text \<open>
  The registers an \<open>XState\<close> switches are accessible, and the contents of the two registers.
\<close>

definition xstate_accessible :: "'m hw \<Rightarrow> XState \<Rightarrow> 'm \<Rightarrow> bool" where
  "xstate_accessible hw x m \<longleftrightarrow>
     (xsave_available x \<longrightarrow> hw_xcr0_read hw m \<noteq> None) \<and>
     (xsave_available x \<and> xsaves_available x \<longrightarrow> hw_rdmsr hw (Msr_number Msr.IA32_XSS) m \<noteq> None)"

definition xregs :: "'m hw \<Rightarrow> 'm \<Rightarrow> u64 option \<times> u64 option" where
  "xregs hw m = (hw_xcr0_read hw m, hw_rdmsr hw (Msr_number Msr.IA32_XSS) m)"

text \<open>A saved pair of values that the processor accepts.\<close>

definition xvalues_legal ::
  "'m hw \<Rightarrow> (u64 \<Rightarrow> bool) \<Rightarrow> (u64 \<Rightarrow> bool) \<Rightarrow> XState \<Rightarrow> u64 \<Rightarrow> u64 \<Rightarrow> bool" where
  "xvalues_legal hw xcr0_ok xss_ok x xcr0 xss \<longleftrightarrow>
     (xsave_available x \<longrightarrow> xcr0_ok xcr0 \<and> xcr0 AND xcr0_all hw = xcr0) \<and>
     (xsave_available x \<and> xsaves_available x \<longrightarrow> xss_ok xss)"

text \<open>What a load of saved values leaves in the registers, and the values it saves.\<close>

definition xregs_loaded :: "XState \<Rightarrow> u64 \<Rightarrow> u64 \<Rightarrow> u64 option \<times> u64 option \<Rightarrow> u64 option \<times> u64 option"
where
  "xregs_loaded x xcr0 xss r =
     (if xsave_available x then Some xcr0 else fst r,
      if xsave_available x \<and> xsaves_available x then Some xss else snd r)"

definition host_saved :: "u64 option \<times> u64 option \<Rightarrow> XState \<Rightarrow> XState" where
  "host_saved r x =
     x\<lparr>host_xcr0 := (if xsave_available x then the (fst r) else host_xcr0 x),
       host_xss := (if xsave_available x \<and> xsaves_available x then the (snd r) else host_xss x)\<rparr>"

definition swapped :: "XState \<Rightarrow> XState" where
  "swapped x = x\<lparr>host_xcr0 := guest_xcr0 x, guest_xcr0 := host_xcr0 x,
                 host_xss := guest_xss x, guest_xss := host_xss x\<rparr>"

lemma swapped_sel [simp]:
  "host_xcr0 (swapped x) = guest_xcr0 x" "guest_xcr0 (swapped x) = host_xcr0 x"
  "host_xss (swapped x) = guest_xss x" "guest_xss (swapped x) = host_xss x"
  "xsave_available (swapped x) = xsave_available x"
  "xsaves_available (swapped x) = xsaves_available x" "swapped (swapped x) = x"
  by (simp_all add: swapped_def)

lemma switch_to_host_swapped:
  "switch_to_host hw (x, m) = map_prod id (apfst swapped) (switch_to_guest hw (swapped x, m))"
  by (auto simp: switch_to_host_def switch_to_guest_def bind_def on_hw_pair self_def gets_def
      modify_self_def modify_def return_def swapped_def split: prod.splits res.splits)

context xstate_live
begin

lemma switch_to_guest_run:
  assumes "xstate_accessible hw x m" "xvalues_legal hw xcr0_ok xss_ok x (guest_xcr0 x) (guest_xss x)"
  shows "\<exists>m'. switch_to_guest hw (x, m) = (Ok (), (host_saved (xregs hw m) x, m')) \<and>
    xregs hw m' = xregs_loaded x (guest_xcr0 x) (guest_xss x) (xregs hw m)"
proof (cases "xsave_available x")
  case False
  then show ?thesis
    by (auto simp: switch_to_guest_def return_def xregs_def host_saved_def xregs_loaded_def)
next
  case True
  with assms(1) obtain v where v: "hw_xcr0_read hw m = Some v"
    by (auto simp: xstate_accessible_def)
  with assms(2) obtain m1 where m1: "hw_xcr0_write hw (guest_xcr0 x) m = Some m1"
    using xsetbv_ok [of m] True by (fastforce simp: xvalues_legal_def)
  then have r1: "hw_xcr0_read hw m1 = Some (guest_xcr0 x)"
    "\<And>r. hw_rdmsr hw r m1 = hw_rdmsr hw r m"
    using assms(2) True by (auto simp: xvalues_legal_def intro: xcr0_write_read xcr0_write_rdmsr)
  show ?thesis
  proof (cases "xsaves_available x")
    case False
    with True v m1 r1 show ?thesis
      by (simp add: switch_to_guest_def prog_simps xregs_def host_saved_def xregs_loaded_def)
  next
    case xs: True
    with True assms(1) obtain s where s: "hw_rdmsr hw (Msr_number Msr.IA32_XSS) m = Some s"
      by (auto simp: xstate_accessible_def)
    with r1 assms(2) obtain m2 where m2: "hw_wrmsr hw (Msr_number Msr.IA32_XSS) (guest_xss x) m1 = Some m2"
      using xss_writable [of m1] True xs by (fastforce simp: xvalues_legal_def)
    then have "hw_xcr0_read hw m2 = Some (guest_xcr0 x)"
      "hw_rdmsr hw (Msr_number Msr.IA32_XSS) m2 = Some (guest_xss x)"
      using r1 xss_write_xcr0 [OF m2] xss_write_read [OF m2] by simp_all
    with True xs v m1 r1 s m2 show ?thesis
      by (simp add: switch_to_guest_def prog_simps xregs_def host_saved_def xregs_loaded_def
          del: Msr_number.simps)
  qed
qed

lemma switch_to_host_run:
  assumes "xstate_accessible hw x m" "xvalues_legal hw xcr0_ok xss_ok x (host_xcr0 x) (host_xss x)"
  shows "\<exists>m'. switch_to_host hw (x, m) =
      (Ok (), (swapped (host_saved (xregs hw m) (swapped x)), m')) \<and>
    xregs hw m' = xregs_loaded x (host_xcr0 x) (host_xss x) (xregs hw m)"
  using switch_to_guest_run [of "swapped x" m] assms
  by (auto simp: switch_to_host_swapped xstate_accessible_def xregs_loaded_def xvalues_legal_def)

lemma xregs_legal:
  assumes "xstate_accessible hw x m"
  shows "xvalues_legal hw xcr0_ok xss_ok x (the (fst (xregs hw m))) (the (snd (xregs hw m)))"
  using assms xcr0_legal [of m] xcr0_read_flags [of m] xss_legal [of m]
  by (auto simp: xvalues_legal_def xstate_accessible_def xregs_def)

lemma XState_new_run:
  assumes "bit (hw_cr4_read hw m) 18"
  shows "\<exists>x. XState_new hw m = (Ok x, m) \<and> xstate_accessible hw x m \<and>
    xsave_available x = (hw_has_xsave hw m = Some True) \<and>
    xsaves_available x = (hw_has_xsave hw m = Some True \<and> hw_has_xsaves_xrstors hw m = Some True) \<and>
    host_xcr0 x = (if xsave_available x then the (hw_xcr0_read hw m) else 0) \<and>
    guest_xcr0 x = host_xcr0 x \<and> guest_xss x = host_xss x \<and>
    host_xss x =
      (if xsaves_available x then the (hw_rdmsr hw (Msr_number Msr.IA32_XSS) m) else 0)"
proof -
  let ?xs = "hw_has_xsave hw m = Some True"
  let ?ss = "?xs \<and> hw_has_xsaves_xrstors hw m = Some True"
  let ?xcr0 = "if ?xs then the (hw_xcr0_read hw m) else 0"
  let ?xss = "if ?ss then the (hw_rdmsr hw (Msr_number Msr.IA32_XSS) m) else 0"
  let ?x = "\<lparr>host_xcr0 = ?xcr0, guest_xcr0 = ?xcr0, host_xss = ?xss, guest_xss = ?xss,
             xsave_available = ?xs, xsaves_available = ?ss\<rparr>"
  have av: "XState_xsave_available hw m \<longleftrightarrow> hw_has_xsave hw m = Some True"
    "XState_xsaves_available hw m \<longleftrightarrow> hw_has_xsaves_xrstors hw m = Some True"
    by (auto simp: XState_xsave_available_def XState_xsaves_available_def split: option.splits)
  have "hw_has_xsave hw m = Some True \<Longrightarrow> \<exists>v. hw_xcr0_read hw m = Some v"
    "hw_has_xsaves_xrstors hw m = Some True \<Longrightarrow> \<exists>v. hw_rdmsr hw (Msr_number Msr.IA32_XSS) m = Some v"
    using xgetbv_ok [of m] xss_readable [of m] assms by auto
  then have "XState_new hw m = (Ok ?x, m) \<and> xstate_accessible hw ?x m"
    by (cases "hw_has_xsave hw m = Some True"; cases "hw_has_xsaves_xrstors hw m = Some True")
      (auto simp: XState_new_def av prog_simps xstate_accessible_def simp del: Msr_number.simps)
  then show ?thesis by (intro exI [of _ ?x]) auto
qed

end

text \<open>
  A new extended state: once CR4.OSXSAVE is enabled, \<open>XState::new\<close> executes no instruction that
  faults. It records whether XSAVE and XSAVES exist (XSAVES only together with XSAVE), starts host and
  guest with the current XCR0 and IA32_XSS, or zero where the register does not exist, and every register
  a later switch touches is accessible.
\<close>

theorem XState_new_spec:
  assumes "xstate_live hw xcr0_ok xss_ok" "bit (hw_cr4_read hw m) 18"
  shows "\<exists>x. XState_new hw m = (Ok x, m) \<and> xstate_accessible hw x m \<and>
    xsave_available x = (hw_has_xsave hw m = Some True) \<and>
    xsaves_available x = (hw_has_xsave hw m = Some True \<and> hw_has_xsaves_xrstors hw m = Some True) \<and>
    host_xcr0 x = (if xsave_available x then the (hw_xcr0_read hw m) else 0) \<and>
    guest_xcr0 x = host_xcr0 x \<and> guest_xss x = host_xss x \<and>
    host_xss x =
      (if xsaves_available x then the (hw_rdmsr hw (Msr_number Msr.IA32_XSS) m) else 0)"
  using assms by (rule xstate_live.XState_new_run)

theorem XState_new_spec_witness:
  "\<exists>x. XState_new ref_hw ref_machine = (Ok x, ref_machine) \<and> xsave_available x \<and> guest_xcr0 x = 7"
  using XState_new_spec [OF ref_xstate_live.xstate_live_axioms, of ref_machine]
  by (auto simp: ref_machine_def ref_xcr0_read_def bit_numeral_rec)

text \<open>
  C19. Switching the extended state around a VM entry: \<open>switch_to_guest\<close> loads the guest values of XCR0
  and IA32_XSS without a fault; after the guest has run (it may have changed both registers),
  \<open>switch_to_host\<close> restores exactly what the host had before and keeps what the guest left, so that the
  next entry continues with it. Registers that do not exist are never accessed.
\<close>

theorem xstate_switch_roundtrip:
  assumes live: "xstate_live hw xcr0_ok xss_ok"
    and acc: "xstate_accessible hw x m"
    and legal: "xvalues_legal hw xcr0_ok xss_ok x (guest_xcr0 x) (guest_xss x)"
  shows "\<exists>x1 m1. switch_to_guest hw (x, m) = (Ok (), (x1, m1)) \<and>
    xregs hw m1 = xregs_loaded x (guest_xcr0 x) (guest_xss x) (xregs hw m) \<and>
    (\<forall>m2. xstate_accessible hw x m2 \<longrightarrow>
      (\<exists>x3 m3. switch_to_host hw (x1, m2) = (Ok (), (x3, m3)) \<and>
        (xsave_available x \<longrightarrow> fst (xregs hw m3) = fst (xregs hw m) \<and>
           Some (guest_xcr0 x3) = fst (xregs hw m2)) \<and>
        (xsave_available x \<and> xsaves_available x \<longrightarrow> snd (xregs hw m3) = snd (xregs hw m) \<and>
           Some (guest_xss x3) = snd (xregs hw m2)) \<and>
        (\<not> xsave_available x \<longrightarrow> m3 = m2 \<and> x3 = x)))"
proof -
  let ?x1 = "host_saved (xregs hw m) x"
  obtain m1 where m1: "switch_to_guest hw (x, m) = (Ok (), (?x1, m1))"
    "xregs hw m1 = xregs_loaded x (guest_xcr0 x) (guest_xss x) (xregs hw m)"
    using xstate_live.switch_to_guest_run [OF assms] by blast
  have returned: "\<exists>x3 m3. switch_to_host hw (?x1, m2) = (Ok (), (x3, m3)) \<and>
        (xsave_available x \<longrightarrow> fst (xregs hw m3) = fst (xregs hw m) \<and>
           Some (guest_xcr0 x3) = fst (xregs hw m2)) \<and>
        (xsave_available x \<and> xsaves_available x \<longrightarrow> snd (xregs hw m3) = snd (xregs hw m) \<and>
           Some (guest_xss x3) = snd (xregs hw m2)) \<and>
        (\<not> xsave_available x \<longrightarrow> m3 = m2 \<and> x3 = x)" if acc2: "xstate_accessible hw x m2" for m2
  proof -
    have "xstate_accessible hw ?x1 m2"
      using acc2 by (simp add: xstate_accessible_def host_saved_def)
    moreover have "xvalues_legal hw xcr0_ok xss_ok ?x1 (host_xcr0 ?x1) (host_xss ?x1)"
      using xstate_live.xregs_legal [OF live acc] by (auto simp: xvalues_legal_def host_saved_def)
    ultimately obtain m3 where
      m3: "switch_to_host hw (?x1, m2) = (Ok (), (swapped (host_saved (xregs hw m2) (swapped ?x1)), m3))"
      "xregs hw m3 = xregs_loaded ?x1 (host_xcr0 ?x1) (host_xss ?x1) (xregs hw m2)"
      using xstate_live.switch_to_host_run [OF live] by blast
    have "m3 = m2" if "\<not> xsave_available x"
      using m3(1) that by (simp add: switch_to_host_def host_saved_def return_def)
    then show ?thesis
      using m3 acc acc2
      by (auto simp: xregs_loaded_def host_saved_def swapped_def xstate_accessible_def xregs_def)
  qed
  show ?thesis using m1 returned by blast
qed

theorem xstate_switch_roundtrip_witness:
  "let x = \<lparr>host_xcr0 = 0, guest_xcr0 = 3, host_xss = 0, guest_xss = 0x100,
            xsave_available = True, xsaves_available = True\<rparr>
   in \<exists>x1 m1. switch_to_guest ref_hw (x, ref_machine) = (Ok (), (x1, m1)) \<and>
        xregs ref_hw m1 = (Some 3, Some 0x100)"
proof -
  let ?x = "\<lparr>host_xcr0 = 0, guest_xcr0 = 3, host_xss = 0, guest_xss = 0x100,
            xsave_available = True, xsaves_available = True\<rparr>"
  have "xstate_accessible ref_hw ?x ref_machine"
    by (simp add: xstate_accessible_def ref_machine_def ref_xcr0_read_def bit_numeral_rec)
  moreover have "xvalues_legal ref_hw (\<lambda>_. True) (\<lambda>_. True) ?x (guest_xcr0 ?x) (guest_xss ?x)"
    by (simp add: xvalues_legal_def)
  ultimately show ?thesis
    using xstate_switch_roundtrip [OF ref_xstate_live.xstate_live_axioms, of ?x ref_machine]
    unfolding Let_def by (fastforce simp: xregs_loaded_def)
qed

end
