(* ===== verification/Vcpu.thy ===== *)
theory Vcpu
  imports XState
begin

text \<open>
  The virtual CPU (\<open>VmxVcpu\<close> in \<open>src/vmx/vcpu.rs\<close>, \<open>GuestPageWalkInfo\<close> of \<open>src/ept.rs\<close>): its fields,
  creation, the set-up of its VMCS (host state, guest state, controls, bitmaps), binding to and unbinding
  from a processor, and the accessors. Running the guest and handling exits are in \<open>VcpuRun\<close>. The
  emulated local APIC (\<open>x86_vlapic\<close>) and the access widths of \<open>axaddrspace\<close> are the parameter \<open>dev\<close>.
\<close>

section \<open>Devices\<close>

datatype AccessWidth = Byte | Word | Dword | Qword

record ('l, 'm) dev =
  vlapic_new :: "usize \<Rightarrow> usize \<Rightarrow> ('m, 'l) prog"
  vlapic_read :: "usize \<Rightarrow> AccessWidth \<Rightarrow> ('l \<times> 'm, usize) prog"
  vlapic_write :: "usize \<Rightarrow> AccessWidth \<Rightarrow> usize \<Rightarrow> ('l \<times> 'm, unit) prog"
  width_try_from :: "usize \<Rightarrow> AccessWidth option"
  width_bits_range :: "AccessWidth \<Rightarrow> nat \<times> nat"

section \<open>Data\<close>

abbreviation (input) VMX_PREEMPTION_TIMER_SET_VALUE :: u32 where
  "VMX_PREEMPTION_TIMER_SET_VALUE \<equiv> 1000000"
abbreviation (input) QEMU_EXIT_PORT :: u16 where "QEMU_EXIT_PORT \<equiv> 0x604"
abbreviation (input) QEMU_EXIT_MAGIC :: u64 where "QEMU_EXIT_MAGIC \<equiv> 0x2000"
abbreviation (input) MSR_IA32_EFER_LMA_BIT :: u64 where "MSR_IA32_EFER_LMA_BIT \<equiv> 0x400"
abbreviation (input) CR0_PE :: usize where "CR0_PE \<equiv> 1"

datatype VmCpuMode = Real | Protected | Compatibility | Mode64

record 'l VmxVcpu =
  guest_regs :: GeneralRegisters
  host_stack_top :: u64
  launched :: bool
  entry :: "u64 option"
  ept_root :: "u64 option"
  vmcs :: VmxRegion
  io_bitmap :: IOBitmap
  msr_bitmap :: MsrBitmap
  pending_events :: "(u8 \<times> u32 option) list"
  vlapic :: 'l
  xstate :: XState

type_synonym ('l, 'm, 'a) vprog = "('l VmxVcpu \<times> 'm, 'a) prog"

record GuestPageWalkInfo =
  top_entry :: usize
  level :: usize
  width :: u32
  is_user_mode_access :: bool
  is_write_access :: bool
  is_inst_fetch :: bool
  pse :: bool
  wp :: bool
  nxe :: bool
  is_smap_on :: bool
  is_smep_on :: bool

section \<open>Creation\<close>

definition VmxVcpu_new :: "'m hw \<Rightarrow> ('l, 'm) dev \<Rightarrow> usize \<Rightarrow> usize \<Rightarrow> ('m, 'l VmxVcpu) prog" where
  "VmxVcpu_new hw dev vm_id vcpu_id =
     bind (read_vmcs_revision_id hw) (\<lambda>vmcs_revision_id.
     bind (VmxRegion_new hw vmcs_revision_id False) (\<lambda>region.
     bind (IOBitmap_passthrough_all hw) (\<lambda>io.
     bind (MsrBitmap_passthrough_all hw) (\<lambda>msr.
     bind (vlapic_new dev vm_id vcpu_id) (\<lambda>l.
     bind (XState_new hw) (\<lambda>x.
     return \<lparr>guest_regs = GeneralRegisters_default, host_stack_top = 0, launched = False,
             entry = None, ept_root = None, vmcs = region, io_bitmap = io, msr_bitmap = msr,
             pending_events = [], vlapic = l, xstate = x\<rparr>))))))"

section \<open>Control registers\<close>

abbreviation (input) CR0_EXTENSION_TYPE :: u64 where "CR0_EXTENSION_TYPE \<equiv> 0x10"
abbreviation (input) CR0_WRITE_PROTECT :: u64 where "CR0_WRITE_PROTECT \<equiv> 0x10000"
abbreviation (input) CR0_NOT_WRITE_THROUGH :: u64 where "CR0_NOT_WRITE_THROUGH \<equiv> 0x20000000"
abbreviation (input) CR0_CACHE_DISABLE :: u64 where "CR0_CACHE_DISABLE \<equiv> 0x40000000"
abbreviation (input) CR0_PAGING :: u64 where "CR0_PAGING \<equiv> 0x80000000"
abbreviation (input) CR4_PAGE_SIZE_EXTENSION :: u64 where "CR4_PAGE_SIZE_EXTENSION \<equiv> 0x10"
abbreviation (input) CR4_PHYSICAL_ADDRESS_EXTENSION :: u64 where
  "CR4_PHYSICAL_ADDRESS_EXTENSION \<equiv> 0x20"
abbreviation (input) CR4_VMXE :: u64 where "CR4_VMXE \<equiv> 0x2000"
abbreviation (input) CR4_SMEP :: u64 where "CR4_SMEP \<equiv> 0x100000"
abbreviation (input) CR4_SMAP :: u64 where "CR4_SMAP \<equiv> 0x200000"
abbreviation (input) NO_EXECUTE_ENABLE :: u64 where "NO_EXECUTE_ENABLE \<equiv> 0x800"

definition set_cr :: "'m hw \<Rightarrow> usize \<Rightarrow> u64 \<Rightarrow> ('m, unit) prog" where
  "set_cr hw cr_idx val = unwrap
     (if cr_idx = 0 then
        bind (Msr_read hw Msr.IA32_VMX_CR0_FIXED1) (\<lambda>fixed1.
        bind (Msr_read hw Msr.IA32_VMX_CR0_FIXED0) (\<lambda>fixed0.
          let must0 = fixed1 AND NOT (CR0_NOT_WRITE_THROUGH OR CR0_CACHE_DISABLE);
              must1 = fixed0 AND NOT (CR0_PAGING OR CR0_PE)
          in block
            [VmcsGuestNW_write hw VmcsGuestNW.CR0 ((val AND must0) OR must1),
             VmcsControlNW_write hw CR0_READ_SHADOW val,
             VmcsControlNW_write hw CR0_GUEST_HOST_MASK (must1 OR NOT must0)]))
      else if cr_idx = 3 then VmcsGuestNW_write hw VmcsGuestNW.CR3 val
      else if cr_idx = 4 then
        bind (Msr_read hw Msr.IA32_VMX_CR4_FIXED1) (\<lambda>must0.
        bind (Msr_read hw Msr.IA32_VMX_CR4_FIXED0) (\<lambda>must1.
          let val = val OR CR4_VMXE
          in block
            [VmcsGuestNW_write hw VmcsGuestNW.CR4 ((val AND must0) OR must1),
             VmcsControlNW_write hw CR4_READ_SHADOW val,
             VmcsControlNW_write hw CR4_GUEST_HOST_MASK (must1 OR NOT must0)]))
      else panic ''unreachable'')"

definition cr :: "'m hw \<Rightarrow> usize \<Rightarrow> ('m, usize) prog" where
  "cr hw cr_idx = unwrap
     (if cr_idx = 0 then VmcsGuestNW_read hw VmcsGuestNW.CR0
      else if cr_idx = 3 then VmcsGuestNW_read hw VmcsGuestNW.CR3
      else if cr_idx = 4 then
        bind (VmcsControlNW_read hw CR4_GUEST_HOST_MASK) (\<lambda>host_mask.
        bind (VmcsControlNW_read hw CR4_READ_SHADOW) (\<lambda>shadow.
        bind (VmcsGuestNW_read hw VmcsGuestNW.CR4) (\<lambda>cr4.
        return ((shadow AND host_mask) OR (cr4 AND NOT host_mask)))))
      else panic ''unreachable'')"

section \<open>Host state\<close>

text \<open>An element of the descriptor table as a slice, and the base address of the task segment.\<close>

definition table_entry :: "'m hw \<Rightarrow> u64 \<Rightarrow> nat \<Rightarrow> nat \<Rightarrow> ('m, u64) prog" where
  "table_entry hw base len i =
     (if i < len then gets (hw_mem64 hw (base + of_nat (8 * i))) else panic ''index out of bounds'')"

definition get_tr_base :: "'m hw \<Rightarrow> u16 \<Rightarrow> u64 \<times> u16 \<Rightarrow> ('m, u64) prog" where
  "get_tr_base hw tr gdt =
     (let index = unat (drop_bit 3 tr);
          table_len = (unat (snd gdt) + 1) div 8
      in bind (table_entry hw (fst gdt) table_len index) (\<lambda>entry.
         if entry AND push_bit 47 1 \<noteq> 0 then
           let base_low = get_bits entry 16 40 OR push_bit 24 (get_bits entry 56 64) in
           bind (table_entry hw (fst gdt) table_len (index + 1)) (\<lambda>next_entry.
             let base_high = next_entry AND 0xffffffff
             in return (base_low OR push_bit 32 base_high))
         else return 0))"

definition setup_vmcs_host :: "'m hw \<Rightarrow> ('m, unit) prog" where
  "setup_vmcs_host hw =
     block
       [bind (Msr_read hw Msr.IA32_PAT) (VmcsHost64_write hw VmcsHost64.IA32_PAT),
        bind (Msr_read hw Msr.IA32_EFER) (VmcsHost64_write hw VmcsHost64.IA32_EFER),
        bind (gets (hw_cr0_read_raw hw)) (VmcsHostNW_write hw VmcsHostNW.CR0),
        bind (gets (hw_cr3_read_raw hw)) (VmcsHostNW_write hw VmcsHostNW.CR3),
        bind (gets (hw_cr4_read_raw hw)) (VmcsHostNW_write hw VmcsHostNW.CR4),
        bind (gets (hw_segment hw SEG_ES)) (VmcsHost16_write hw VmcsHost16.ES_SELECTOR),
        bind (gets (hw_segment hw SEG_CS)) (VmcsHost16_write hw VmcsHost16.CS_SELECTOR),
        bind (gets (hw_segment hw SEG_SS)) (VmcsHost16_write hw VmcsHost16.SS_SELECTOR),
        bind (gets (hw_segment hw SEG_DS)) (VmcsHost16_write hw VmcsHost16.DS_SELECTOR),
        bind (gets (hw_segment hw SEG_FS)) (VmcsHost16_write hw VmcsHost16.FS_SELECTOR),
        bind (gets (hw_segment hw SEG_GS)) (VmcsHost16_write hw VmcsHost16.GS_SELECTOR),
        bind (Msr_read hw Msr.IA32_FS_BASE) (VmcsHostNW_write hw VmcsHostNW.FS_BASE),
        bind (Msr_read hw Msr.IA32_GS_BASE) (VmcsHostNW_write hw VmcsHostNW.GS_BASE),
        bind (gets (hw_segment hw SEG_TR)) (\<lambda>tr.
        bind (gets (hw_sgdt hw)) (\<lambda>gdtp.
        bind (gets (hw_sidt hw)) (\<lambda>idtp.
        block
          [VmcsHost16_write hw VmcsHost16.TR_SELECTOR tr,
           bind (get_tr_base hw tr gdtp) (VmcsHostNW_write hw VmcsHostNW.TR_BASE),
           VmcsHostNW_write hw VmcsHostNW.GDTR_BASE (fst gdtp),
           VmcsHostNW_write hw VmcsHostNW.IDTR_BASE (fst idtp),
           VmcsHostNW_write hw VmcsHostNW.RIP (hw_vmx_exit_addr hw),
           VmcsHostNW_write hw VmcsHostNW.IA32_SYSENTER_ESP 0,
           VmcsHostNW_write hw VmcsHostNW.IA32_SYSENTER_EIP 0,
           VmcsHost32_write hw VmcsHost32.IA32_SYSENTER_CS 0])))]"

section \<open>Binding\<close>

definition bind_to_current_processor :: "'m hw \<Rightarrow> ('l, 'm, unit) vprog" where
  "bind_to_current_processor hw =
     bind self (\<lambda>v.
     bind (lift (VmxRegion_phys_addr (vmcs v))) (\<lambda>paddr.
     block [on_hw (map_err_ax hw (hw_vmptrld hw paddr)), on_hw (setup_vmcs_host hw)]))"

definition unbind_from_current_processor :: "'m hw \<Rightarrow> ('l, 'm, unit) vprog" where
  "unbind_from_current_processor hw =
     bind self (\<lambda>v.
     bind (lift (VmxRegion_phys_addr (vmcs v))) (\<lambda>paddr.
     on_hw (map_err_ax hw (hw_vmclear hw paddr))))"

section \<open>Guest state\<close>

definition set_guest_segment ::
  "'m hw \<Rightarrow> VmcsGuest16 \<Rightarrow> VmcsGuestNW \<Rightarrow> VmcsGuest32 \<Rightarrow> VmcsGuest32 \<Rightarrow> u32 \<Rightarrow> ('m, unit) prog" where
  "set_guest_segment hw seg_selector seg_base seg_limit seg_access_rights access_rights =
     block
       [VmcsGuest16_write hw seg_selector 0,
        VmcsGuestNW_write hw seg_base 0,
        VmcsGuest32_write hw seg_limit 0xffff,
        VmcsGuest32_write hw seg_access_rights access_rights]"

definition setup_vmcs_guest :: "'m hw \<Rightarrow> u64 \<Rightarrow> ('m, unit) prog" where
  "setup_vmcs_guest hw entry_addr =
     block
       [set_cr hw 0 (CR0_NOT_WRITE_THROUGH OR CR0_CACHE_DISABLE OR CR0_EXTENSION_TYPE),
        set_cr hw 4 0,
        set_guest_segment hw VmcsGuest16.ES_SELECTOR VmcsGuestNW.ES_BASE ES_LIMIT ES_ACCESS_RIGHTS 0x93,
        set_guest_segment hw VmcsGuest16.CS_SELECTOR VmcsGuestNW.CS_BASE CS_LIMIT CS_ACCESS_RIGHTS 0x9b,
        set_guest_segment hw VmcsGuest16.SS_SELECTOR VmcsGuestNW.SS_BASE SS_LIMIT SS_ACCESS_RIGHTS 0x93,
        set_guest_segment hw VmcsGuest16.DS_SELECTOR VmcsGuestNW.DS_BASE DS_LIMIT DS_ACCESS_RIGHTS 0x93,
        set_guest_segment hw VmcsGuest16.FS_SELECTOR VmcsGuestNW.FS_BASE FS_LIMIT FS_ACCESS_RIGHTS 0x93,
        set_guest_segment hw VmcsGuest16.GS_SELECTOR VmcsGuestNW.GS_BASE GS_LIMIT GS_ACCESS_RIGHTS 0x93,
        set_guest_segment hw VmcsGuest16.TR_SELECTOR VmcsGuestNW.TR_BASE TR_LIMIT TR_ACCESS_RIGHTS 0x8b,
        set_guest_segment hw LDTR_SELECTOR LDTR_BASE LDTR_LIMIT LDTR_ACCESS_RIGHTS 0x82,
        VmcsGuestNW_write hw VmcsGuestNW.GDTR_BASE 0,
        VmcsGuest32_write hw GDTR_LIMIT 0xffff,
        VmcsGuestNW_write hw VmcsGuestNW.IDTR_BASE 0,
        VmcsGuest32_write hw IDTR_LIMIT 0xffff,
        VmcsGuestNW_write hw VmcsGuestNW.CR3 0,
        VmcsGuestNW_write hw DR7 0x400,
        VmcsGuestNW_write hw VmcsGuestNW.RSP 0,
        VmcsGuestNW_write hw VmcsGuestNW.RIP entry_addr,
        VmcsGuestNW_write hw RFLAGS 0x2,
        VmcsGuestNW_write hw PENDING_DBG_EXCEPTIONS 0,
        VmcsGuestNW_write hw VmcsGuestNW.IA32_SYSENTER_ESP 0,
        VmcsGuestNW_write hw VmcsGuestNW.IA32_SYSENTER_EIP 0,
        VmcsGuest32_write hw VmcsGuest32.IA32_SYSENTER_CS 0,
        VmcsGuest32_write hw INTERRUPTIBILITY_STATE 0,
        VmcsGuest32_write hw ACTIVITY_STATE 0,
        VmcsGuest32_write hw VMX_PREEMPTION_TIMER_VALUE VMX_PREEMPTION_TIMER_SET_VALUE,
        VmcsGuest64_write hw LINK_PTR (- 1),
        VmcsGuest64_write hw IA32_DEBUGCTL 0,
        bind (Msr_read hw Msr.IA32_PAT) (VmcsGuest64_write hw VmcsGuest64.IA32_PAT),
        VmcsGuest64_write hw VmcsGuest64.IA32_EFER 0]"

section \<open>Bitmaps and controls\<close>

definition setup_io_bitmap :: "'m hw \<Rightarrow> ('l, 'm, unit) vprog" where
  "setup_io_bitmap hw =
     on_field io_bitmap io_bitmap_update
       (IOBitmap_set_intercept_of_range (overflow_checks hw) (ucast QEMU_EXIT_PORT) 1 True)"

abbreviation (input) IA32_UMWAIT_CONTROL :: u32 where "IA32_UMWAIT_CONTROL \<equiv> 0xe1"

definition setup_msr_bitmap :: "('l, 'm, unit) vprog" where
  "setup_msr_bitmap =
     on_field msr_bitmap msr_bitmap_update
       (block
         ([set_write_intercept IA32_UMWAIT_CONTROL True,
           set_read_intercept IA32_UMWAIT_CONTROL True] @
          concat (map (\<lambda>msr. [set_read_intercept (of_nat msr) True, set_write_intercept (of_nat msr) True])
            [0x800 ..< 0x840])))"

text \<open>The controls of \<open>x86::vmx::vmcs::control\<close> that the code names.\<close>

abbreviation (input) EXTERNAL_INTERRUPT_EXITING :: u32 where "EXTERNAL_INTERRUPT_EXITING \<equiv> 0x1"
abbreviation (input) NMI_EXITING :: u32 where "NMI_EXITING \<equiv> 0x8"
abbreviation (input) INTERRUPT_WINDOW_EXITING :: u32 where "INTERRUPT_WINDOW_EXITING \<equiv> 0x4"
abbreviation (input) CR3_LOAD_EXITING :: u32 where "CR3_LOAD_EXITING \<equiv> 0x8000"
abbreviation (input) CR3_STORE_EXITING :: u32 where "CR3_STORE_EXITING \<equiv> 0x10000"
abbreviation (input) CR8_LOAD_EXITING :: u32 where "CR8_LOAD_EXITING \<equiv> 0x80000"
abbreviation (input) CR8_STORE_EXITING :: u32 where "CR8_STORE_EXITING \<equiv> 0x100000"
abbreviation (input) USE_IO_BITMAPS :: u32 where "USE_IO_BITMAPS \<equiv> 0x2000000"
abbreviation (input) USE_MSR_BITMAPS :: u32 where "USE_MSR_BITMAPS \<equiv> 0x10000000"
abbreviation (input) SECONDARY_CONTROLS :: u32 where "SECONDARY_CONTROLS \<equiv> 0x80000000"
abbreviation (input) ENABLE_EPT :: u32 where "ENABLE_EPT \<equiv> 0x2"
abbreviation (input) ENABLE_RDTSCP :: u32 where "ENABLE_RDTSCP \<equiv> 0x8"
abbreviation (input) UNRESTRICTED_GUEST :: u32 where "UNRESTRICTED_GUEST \<equiv> 0x80"
abbreviation (input) ENABLE_INVPCID :: u32 where "ENABLE_INVPCID \<equiv> 0x1000"
abbreviation (input) ENABLE_XSAVES_XRSTORS :: u32 where "ENABLE_XSAVES_XRSTORS \<equiv> 0x100000"
abbreviation (input) HOST_ADDRESS_SPACE_SIZE :: u32 where "HOST_ADDRESS_SPACE_SIZE \<equiv> 0x200"
abbreviation (input) ACK_INTERRUPT_ON_EXIT :: u32 where "ACK_INTERRUPT_ON_EXIT \<equiv> 0x8000"
abbreviation (input) EXIT_SAVE_IA32_PAT :: u32 where "EXIT_SAVE_IA32_PAT \<equiv> 0x40000"
abbreviation (input) EXIT_LOAD_IA32_PAT :: u32 where "EXIT_LOAD_IA32_PAT \<equiv> 0x80000"
abbreviation (input) EXIT_SAVE_IA32_EFER :: u32 where "EXIT_SAVE_IA32_EFER \<equiv> 0x100000"
abbreviation (input) EXIT_LOAD_IA32_EFER :: u32 where "EXIT_LOAD_IA32_EFER \<equiv> 0x200000"
abbreviation (input) ENTRY_LOAD_IA32_PAT :: u32 where "ENTRY_LOAD_IA32_PAT \<equiv> 0x4000"
abbreviation (input) ENTRY_LOAD_IA32_EFER :: u32 where "ENTRY_LOAD_IA32_EFER \<equiv> 0x8000"

text \<open>\<open>set_control\<close> with the low half of an MSR as the old value.\<close>

definition set_control_from ::
  "'m hw \<Rightarrow> VmcsControl32 \<Rightarrow> Msr \<Rightarrow> Msr \<Rightarrow> u32 \<Rightarrow> u32 \<Rightarrow> ('m, unit) prog" where
  "set_control_from hw control capability_msr default_msr set_bits clear_bits =
     bind (Msr_read hw default_msr) (\<lambda>old.
       set_control hw control capability_msr (ucast old) set_bits clear_bits)"

definition secondary_controls :: "'m hw \<Rightarrow> 'm \<Rightarrow> u32" where
  "secondary_controls hw m =
     (let val = ENABLE_EPT OR UNRESTRICTED_GUEST;
          val = (if hw_has_rdtscp hw m = Some True then val OR ENABLE_RDTSCP else val);
          val = (if hw_has_invpcid hw m = Some True then val OR ENABLE_INVPCID else val)
      in if hw_has_xsaves_xrstors hw m = Some True then val OR ENABLE_XSAVES_XRSTORS else val)"

definition setup_exec_controls :: "'m hw \<Rightarrow> u64 \<Rightarrow> bool \<Rightarrow> ('m, unit) prog" where
  "setup_exec_controls hw ept_root_addr is_guest =
     block
       [set_control_from hw PINBASED_EXEC_CONTROLS IA32_VMX_TRUE_PINBASED_CTLS
          IA32_VMX_PINBASED_CTLS (NMI_EXITING OR EXTERNAL_INTERRUPT_EXITING) 0,
        set_control_from hw PRIMARY_PROCBASED_EXEC_CONTROLS IA32_VMX_TRUE_PROCBASED_CTLS
          IA32_VMX_PROCBASED_CTLS (USE_IO_BITMAPS OR USE_MSR_BITMAPS OR SECONDARY_CONTROLS)
          (CR3_LOAD_EXITING OR CR3_STORE_EXITING OR CR8_LOAD_EXITING OR CR8_STORE_EXITING),
        bind (gets (secondary_controls hw)) (\<lambda>val.
          set_control_from hw SECONDARY_PROCBASED_EXEC_CONTROLS IA32_VMX_PROCBASED_CTLS2
            IA32_VMX_PROCBASED_CTLS2 val 0),
        set_control_from hw VMEXIT_CONTROLS IA32_VMX_TRUE_EXIT_CTLS IA32_VMX_EXIT_CTLS
          (HOST_ADDRESS_SPACE_SIZE OR ACK_INTERRUPT_ON_EXIT OR EXIT_SAVE_IA32_PAT OR
           EXIT_LOAD_IA32_PAT OR EXIT_SAVE_IA32_EFER OR EXIT_LOAD_IA32_EFER) 0,
        set_control_from hw VMENTRY_CONTROLS IA32_VMX_TRUE_ENTRY_CTLS IA32_VMX_ENTRY_CTLS
          (if \<not> is_guest then ENTRY_LOAD_IA32_PAT OR ENTRY_LOAD_IA32_EFER OR IA32E_MODE_GUEST
           else ENTRY_LOAD_IA32_PAT OR ENTRY_LOAD_IA32_EFER) 0,
        set_ept_pointer hw ept_root_addr,
        VmcsControl32_write hw VMEXIT_MSR_STORE_COUNT 0,
        VmcsControl32_write hw VMEXIT_MSR_LOAD_COUNT 0,
        VmcsControl32_write hw VMENTRY_MSR_LOAD_COUNT 0,
        VmcsControl32_write hw CR3_TARGET_COUNT 0]"

definition setup_bitmap_fields :: "'m hw \<Rightarrow> 'l VmxVcpu \<Rightarrow> ('m, unit) prog" where
  "setup_bitmap_fields hw v =
     block
       [VmcsControl32_write hw EXCEPTION_BITMAP (push_bit 6 1),
        VmcsControl64_write hw IO_BITMAP_A_ADDR (fst (IOBitmap_phys_addr (io_bitmap v))),
        VmcsControl64_write hw IO_BITMAP_B_ADDR (snd (IOBitmap_phys_addr (io_bitmap v))),
        VmcsControl64_write hw MSR_BITMAPS_ADDR (MsrBitmap_phys_addr (msr_bitmap v))]"

definition setup_vmcs_control :: "'m hw \<Rightarrow> u64 \<Rightarrow> bool \<Rightarrow> ('l, 'm, unit) vprog" where
  "setup_vmcs_control hw ept_root_addr is_guest =
     block
       [on_hw (setup_exec_controls hw ept_root_addr is_guest),
        setup_io_bitmap hw,
        bind self (\<lambda>v. on_hw (setup_bitmap_fields hw v))]"

definition setup_vmcs :: "'m hw \<Rightarrow> u64 \<Rightarrow> u64 \<Rightarrow> ('l, 'm, unit) vprog" where
  "setup_vmcs hw entry_addr ept_root_addr =
     bind self (\<lambda>v.
     bind (lift (VmxRegion_phys_addr (vmcs v))) (\<lambda>paddr.
     block
       [on_hw (map_err_ax hw (hw_vmclear hw paddr)),
        bind_to_current_processor hw,
        setup_msr_bitmap,
        on_hw (setup_vmcs_guest hw entry_addr),
        setup_vmcs_control hw ept_root_addr True,
        unbind_from_current_processor hw]))"

definition VmxVcpu_setup :: "'m hw \<Rightarrow> u64 \<Rightarrow> u64 \<Rightarrow> ('l, 'm, unit) vprog" where
  "VmxVcpu_setup hw ept_root_addr entry_addr = setup_vmcs hw entry_addr ept_root_addr"

section \<open>Accessors\<close>

definition get_cpu_mode :: "'m hw \<Rightarrow> ('m, VmCpuMode) prog" where
  "get_cpu_mode hw =
     bind (Msr_read hw Msr.IA32_EFER) (\<lambda>ia32_efer.
     bind (unwrap (VmcsGuest32_read hw CS_ACCESS_RIGHTS)) (\<lambda>cs_access_right.
     bind (unwrap (VmcsGuestNW_read hw VmcsGuestNW.CR0)) (\<lambda>cr0.
     return
       (if ia32_efer AND MSR_IA32_EFER_LMA_BIT \<noteq> 0 then
          (if cs_access_right AND 0x2000 \<noteq> 0 then Mode64 else Compatibility)
        else if cr0 AND CR0_PE \<noteq> 0 then Protected else Real))))"

definition stack_pointer :: "'m hw \<Rightarrow> ('m, usize) prog" where
  "stack_pointer hw = unwrap (VmcsGuestNW_read hw VmcsGuestNW.RSP)"

definition set_stack_pointer :: "'m hw \<Rightarrow> usize \<Rightarrow> ('m, unit) prog" where
  "set_stack_pointer hw sp = unwrap (VmcsGuestNW_write hw VmcsGuestNW.RSP sp)"

definition gla2gva :: "'m hw \<Rightarrow> usize \<Rightarrow> ('m, usize) prog" where
  "gla2gva hw guest_ip =
     bind (get_cpu_mode hw) (\<lambda>cpu_mode.
     bind (if cpu_mode = Mode64 then return 0
           else unwrap (VmcsGuestNW_read hw VmcsGuestNW.CS_BASE)) (\<lambda>seg_base.
     lift (add_usize (overflow_checks hw) guest_ip seg_base)))"

definition get_paging_level :: "'m hw \<Rightarrow> ('m, usize) prog" where
  "get_paging_level hw =
     bind (unwrap (VmcsGuestNW_read hw VmcsGuestNW.CR0)) (\<lambda>cr0.
     bind (unwrap (VmcsGuestNW_read hw VmcsGuestNW.CR4)) (\<lambda>cr4.
     bind (unwrap (VmcsGuest64_read hw VmcsGuest64.IA32_EFER)) (\<lambda>efer.
     return
       (if cr0 AND CR0_PAGING \<noteq> 0 then
          (if cr4 AND CR4_PHYSICAL_ADDRESS_EXTENSION \<noteq> 0 then
             (if efer AND LONG_MODE_ACTIVE \<noteq> 0 then 4 else 3)
           else 2)
        else 0))))"

definition get_ptw_info :: "'m hw \<Rightarrow> ('m, GuestPageWalkInfo) prog" where
  "get_ptw_info hw =
     bind (unwrap (VmcsGuestNW_read hw VmcsGuestNW.CR3)) (\<lambda>top_entry.
     bind (get_paging_level hw) (\<lambda>level.
     bind (unwrap (VmcsGuest32_read hw SS_ACCESS_RIGHTS)) (\<lambda>ss.
     bind (unwrap (VmcsGuest64_read hw VmcsGuest64.IA32_EFER)) (\<lambda>efer.
     bind (unwrap (VmcsGuestNW_read hw VmcsGuestNW.CR0)) (\<lambda>cr0.
     bind (unwrap (VmcsGuestNW_read hw VmcsGuestNW.CR4)) (\<lambda>cr4a.
     bind (unwrap (VmcsGuestNW_read hw VmcsGuestNW.CR4)) (\<lambda>cr4b.
     bind (if level = 4 \<or> level = 3 then return (9, True, efer AND NO_EXECUTE_ENABLE \<noteq> 0)
           else if level = 2 then
             bind (unwrap (VmcsGuestNW_read hw VmcsGuestNW.CR4)) (\<lambda>cr4c.
               return (10, cr4c AND CR4_PAGE_SIZE_EXTENSION \<noteq> 0, False))
           else return (0, True, efer AND NO_EXECUTE_ENABLE \<noteq> 0)) (\<lambda>(width, pse, nxe).
     return
       \<lparr>top_entry = top_entry, level = level, width = width,
        is_user_mode_access = (drop_bit 5 ss AND 3 = 3), is_write_access = False,
        is_inst_fetch = False, pse = pse, wp = (cr0 AND CR0_WRITE_PROTECT \<noteq> 0), nxe = nxe,
        is_smap_on = (cr4a AND CR4_SMAP \<noteq> 0), is_smep_on = (cr4b AND CR4_SMEP \<noteq> 0)\<rparr>))))))))"

definition VmxVcpu_rip :: "'m hw \<Rightarrow> ('m, usize) prog" where
  "VmxVcpu_rip hw = unwrap (VmcsGuestNW_read hw VmcsGuestNW.RIP)"

definition VmxVcpu_cs :: "'m hw \<Rightarrow> ('m, u16) prog" where
  "VmxVcpu_cs hw = unwrap (VmcsGuest16_read hw VmcsGuest16.CS_SELECTOR)"

definition advance_rip :: "'m hw \<Rightarrow> u8 \<Rightarrow> ('m, unit) prog" where
  "advance_rip hw instr_len =
     bind (VmcsGuestNW_read hw VmcsGuestNW.RIP) (\<lambda>ip.
     bind (lift (add_usize (overflow_checks hw) ip (ucast instr_len))) (\<lambda>ip'.
     VmcsGuestNW_write hw VmcsGuestNW.RIP ip'))"

definition queue_event :: "u8 \<Rightarrow> u32 option \<Rightarrow> ('l, 'm, unit) vprog" where
  "queue_event vector err_code =
     modify_self (pending_events_update (\<lambda>es. es @ [(vector, err_code)]))"

definition set_interrupt_window :: "'m hw \<Rightarrow> bool \<Rightarrow> ('m, unit) prog" where
  "set_interrupt_window hw enable =
     bind (VmcsControl32_read hw PRIMARY_PROCBASED_EXEC_CONTROLS) (\<lambda>ctrl.
       let ctrl = (if enable then ctrl OR INTERRUPT_WINDOW_EXITING
                   else ctrl AND NOT INTERRUPT_WINDOW_EXITING)
       in VmcsControl32_write hw PRIMARY_PROCBASED_EXEC_CONTROLS ctrl)"

definition set_io_intercept_of_range :: "'m hw \<Rightarrow> u32 \<Rightarrow> u32 \<Rightarrow> bool \<Rightarrow> ('l, 'm, unit) vprog" where
  "set_io_intercept_of_range hw port_base count intercept =
     on_field io_bitmap io_bitmap_update
       (IOBitmap_set_intercept_of_range (overflow_checks hw) port_base count intercept)"

definition set_msr_intercept_of_range :: "u32 \<Rightarrow> bool \<Rightarrow> ('l, 'm, unit) vprog" where
  "set_msr_intercept_of_range msr intercept =
     on_field msr_bitmap msr_bitmap_update
       (block [set_read_intercept msr intercept, set_write_intercept msr intercept])"

text \<open>The vCPU interface of \<open>axvcpu\<close>, up to \<open>run\<close>.\<close>

definition set_entry :: "u64 \<Rightarrow> ('l, 'm, unit) vprog" where
  "set_entry e = modify_self (entry_update (\<lambda>_. Some e))"

definition set_ept_root :: "u64 \<Rightarrow> ('l, 'm, unit) vprog" where
  "set_ept_root e = modify_self (ept_root_update (\<lambda>_. Some e))"

definition AxArchVCpu_setup :: "'m hw \<Rightarrow> ('l, 'm, unit) vprog" where
  "AxArchVCpu_setup hw =
     bind self (\<lambda>v.
       case entry v of
         None \<Rightarrow> panic ''unwrap''
       | Some e \<Rightarrow> (case ept_root v of None \<Rightarrow> panic ''unwrap'' | Some r \<Rightarrow> setup_vmcs hw e r))"

definition AxArchVCpu_bind :: "'m hw \<Rightarrow> ('l, 'm, unit) vprog" where
  "AxArchVCpu_bind hw = bind_to_current_processor hw"

definition AxArchVCpu_unbind :: "'m hw \<Rightarrow> ('l, 'm, unit) vprog" where
  "AxArchVCpu_unbind hw =
     bind (modify_self (launched_update (\<lambda>_. False))) (\<lambda>_. unbind_from_current_processor hw)"

definition set_gpr :: "usize \<Rightarrow> usize \<Rightarrow> ('l, 'm, unit) vprog" where
  "set_gpr reg val =
     bind self (\<lambda>v.
     bind (lift (set_reg_of_index (guest_regs v) (ucast reg) val)) (\<lambda>regs.
     modify_self (guest_regs_update (\<lambda>_. regs))))"

definition inject_interrupt :: "usize \<Rightarrow> ('l, 'm, unit) vprog" where
  "inject_interrupt vector =
     (if vector \<noteq> 0 then queue_event (ucast vector) None else panic ''explicit panic'')"

definition set_return_value :: "usize \<Rightarrow> ('l, 'm, unit) vprog" where
  "set_return_value val = modify_self (guest_regs_update (rax_update (\<lambda>_. val)))"

definition VmxVcpu_drop :: "'m hw \<Rightarrow> ('l, 'm, unit) vprog" where
  "VmxVcpu_drop hw =
     bind self (\<lambda>v.
     bind (lift (VmxRegion_phys_addr (vmcs v))) (\<lambda>paddr.
     on_hw (\<lambda>m. case hw_vmclear hw paddr m of
                  (Inr _, m') \<Rightarrow> (Ok (), m') | (Inl _, m') \<Rightarrow> (Panic ''unwrap'', m'))))"

section \<open>Programs that only write the VMCS\<close>

text \<open>
  \<open>writes hw current m0 p ws\<close>: on every machine with a current VMCS whose registers outside the VMCS are
  those of \<open>m0\<close>, \<open>p\<close> succeeds and its effect is the list of writes \<open>ws\<close>. The rules compose along the
  code, so that the effect of a set-up function is read off its statements.
\<close>

definition writes ::
  "'m hw \<Rightarrow> ('m \<Rightarrow> bool) \<Rightarrow> 'm \<Rightarrow> ('m, unit) prog \<Rightarrow> (u32 \<times> u64) list \<Rightarrow> bool" where
  "writes hw current m0 p ws \<longleftrightarrow>
     (\<forall>m. current m \<and> host_view hw m = host_view hw m0 \<longrightarrow>
        (\<exists>m'. p m = (Ok (), m') \<and> current m' \<and> wrote hw ws m m'))"

named_theorems writes_rules \<open>the writes of a statement\<close>

lemma writesD:
  assumes "writes hw current m p ws" "current m"
  obtains m' where "p m = (Ok (), m')" "current m'" "wrote hw ws m m'"
  using assms by (auto simp: writes_def)

lemma writes_return: "writes hw current m0 (return ()) []"
  by (simp add: writes_def return_def)

lemma writes_bind:
  assumes "writes hw current m0 p ws" "writes hw current m0 q ws'"
  shows "writes hw current m0 (bind p (\<lambda>_. q)) (ws @ ws')"
  unfolding writes_def
proof (intro allI impI)
  fix m assume m: "current m \<and> host_view hw m = host_view hw m0"
  then obtain m1 where m1: "p m = (Ok (), m1)" "current m1" "wrote hw ws m m1"
    using assms(1) by (auto simp: writes_def)
  then have "host_view hw m1 = host_view hw m0" using m by (simp add: wrote_host)
  then obtain m' where "q m1 = (Ok (), m')" "current m'" "wrote hw ws' m1 m'"
    using assms(2) m1(2) by (auto simp: writes_def)
  then show "\<exists>m'. bind p (\<lambda>_. q) m = (Ok (), m') \<and> current m' \<and> wrote hw (ws @ ws') m m'"
    using m1 wrote_append by (auto simp: bind_simps)
qed

lemma writes_Nil [writes_rules]: "writes hw current m0 (block []) []"
  by (simp add: writes_return)

lemma writes_Cons [writes_rules]:
  "writes hw current m0 p ws \<Longrightarrow> writes hw current m0 (block ps) ws' \<Longrightarrow>
   writes hw current m0 (block (p # ps)) (ws @ ws')"
  by (simp add: writes_bind)

lemma writes_gets [writes_rules]:
  assumes "\<And>m. host_view hw m = host_view hw m0 \<Longrightarrow> q m = q m0" "writes hw current m0 (k (q m0)) ws"
  shows "writes hw current m0 (bind (gets q) k) ws"
  unfolding writes_def bind_gets
proof (intro allI impI)
  fix m assume m: "current m \<and> host_view hw m = host_view hw m0"
  then have "q m = q m0" using assms(1) by blast
  then show "\<exists>m'. k (q m) m = (Ok (), m') \<and> current m' \<and> wrote hw ws m m'"
    using assms(2) m by (simp add: writes_def)
qed

lemma writes_msr [writes_rules]:
  assumes "hw_rdmsr hw (Msr_number r) m0 = Some x" "writes hw current m0 (k x) ws"
  shows "writes hw current m0 (bind (Msr_read hw r) k) ws"
  unfolding writes_def
proof (intro allI impI)
  fix m assume m: "current m \<and> host_view hw m = host_view hw m0"
  then have "hw_rdmsr hw (Msr_number r) m = Some x"
    using assms(1) host_viewD(1) [of hw m m0 "Msr_number r"] by simp
  then have "bind (Msr_read hw r) k m = k x m" by (simp add: bind_simps Msr_read_simps)
  then show "\<exists>m'. bind (Msr_read hw r) k m = (Ok (), m') \<and> current m' \<and> wrote hw ws m m'"
    using assms(2) m by (simp add: writes_def)
qed

lemma writes_unwrap [writes_rules]:
  "writes hw current m0 p ws \<Longrightarrow> writes hw current m0 (unwrap p) ws"
  unfolding writes_def by (metis unwrap_simps(1))

context vmcs_current
begin

lemma writes_fields [writes_rules]:
  "writes hw current m0 (VmcsControl32_write hw fc32 v32) [(VmcsControl32_number fc32, ucast v32)]"
  "writes hw current m0 (VmcsControl64_write hw fc64 v64) [(VmcsControl64_number fc64, v64)]"
  "writes hw current m0 (VmcsControlNW_write hw fcnw v64) [(VmcsControlNW_number fcnw, v64)]"
  "writes hw current m0 (VmcsGuest16_write hw fg16 v16) [(VmcsGuest16_number fg16, ucast v16)]"
  "writes hw current m0 (VmcsGuest64_write hw fg64 v64) [(VmcsGuest64_number fg64, v64)]"
  "writes hw current m0 (VmcsGuest32_write hw fg32 v32) [(VmcsGuest32_number fg32, ucast v32)]"
  "writes hw current m0 (VmcsGuestNW_write hw fgnw v64) [(VmcsGuestNW_number fgnw, v64)]"
  "writes hw current m0 (VmcsHost16_write hw fh16 v16) [(VmcsHost16_number fh16, ucast v16)]"
  "writes hw current m0 (VmcsHost64_write hw fh64 v64) [(VmcsHost64_number fh64, v64)]"
  "writes hw current m0 (VmcsHost32_write hw fh32 v32) [(VmcsHost32_number fh32, ucast v32)]"
  "writes hw current m0 (VmcsHostNW_write hw fhnw v64) [(VmcsHostNW_number fhnw, v64)]"
  using VmcsControl32_write_run VmcsControl64_write_run [where v = v64]
    VmcsControlNW_write_run [where v = v64] VmcsGuest16_write_run
    VmcsGuest64_write_run [where v = v64] VmcsGuest32_write_run VmcsGuestNW_write_run [where v = v64]
    VmcsHost16_write_run VmcsHost64_write_run [where v = v64] VmcsHost32_write_run
    VmcsHostNW_write_run [where v = v64]
  by (auto simp: writes_def)

end

section \<open>Control registers\<close>

text \<open>The value of a control register that the guest reads: host-owned bits come from the shadow.\<close>

definition guest_view :: "u64 \<Rightarrow> u64 \<Rightarrow> u64 \<Rightarrow> u64" where
  "guest_view host_mask shadow real = (shadow AND host_mask) OR (real AND NOT host_mask)"

lemma guest_view_set:
  "guest_view (must1 OR NOT must0) val ((val AND must0) OR must1) = val"
  by (rule bit_word_eqI) (auto simp: guest_view_def bit_simps)

definition cr0_writes :: "u64 \<Rightarrow> u64 \<Rightarrow> u64 \<Rightarrow> (u32 \<times> u64) list" where
  "cr0_writes must0 must1 val =
     [(VmcsGuestNW_number VmcsGuestNW.CR0, (val AND must0) OR must1),
      (VmcsControlNW_number CR0_READ_SHADOW, val),
      (VmcsControlNW_number CR0_GUEST_HOST_MASK, must1 OR NOT must0)]"

definition cr4_writes :: "u64 \<Rightarrow> u64 \<Rightarrow> u64 \<Rightarrow> (u32 \<times> u64) list" where
  "cr4_writes must0 must1 val =
     [(VmcsGuestNW_number VmcsGuestNW.CR4, (val AND must0) OR must1),
      (VmcsControlNW_number CR4_READ_SHADOW, val),
      (VmcsControlNW_number CR4_GUEST_HOST_MASK, must1 OR NOT must0)]"

context vmcs_current
begin

lemma set_cr0_writes [writes_rules]:
  assumes "hw_rdmsr hw (Msr_number Msr.IA32_VMX_CR0_FIXED1) m0 = Some fixed1"
    and "hw_rdmsr hw (Msr_number Msr.IA32_VMX_CR0_FIXED0) m0 = Some fixed0"
  shows "writes hw current m0 (set_cr hw 0 val)
    (cr0_writes (fixed1 AND NOT (CR0_NOT_WRITE_THROUGH OR CR0_CACHE_DISABLE))
       (fixed0 AND NOT (CR0_PAGING OR CR0_PE)) val)"
proof -
  let ?must0 = "fixed1 AND NOT (CR0_NOT_WRITE_THROUGH OR CR0_CACHE_DISABLE)"
  let ?must1 = "fixed0 AND NOT (CR0_PAGING OR CR0_PE)"
  have "writes hw current m0
      (block [VmcsGuestNW_write hw VmcsGuestNW.CR0 ((val AND ?must0) OR ?must1),
        VmcsControlNW_write hw CR0_READ_SHADOW val,
        VmcsControlNW_write hw CR0_GUEST_HOST_MASK (?must1 OR NOT ?must0)])
      (cr0_writes ?must0 ?must1 val)"
    using writes_Cons [OF writes_fields(7) writes_Cons [OF writes_fields(3)
        writes_Cons [OF writes_fields(3) writes_Nil]]]
    by (simp only: cr0_writes_def append_Cons append_Nil)
  then show ?thesis
    unfolding set_cr_def Let_def
    by (simp only: refl if_True) (intro writes_unwrap writes_msr [OF assms(1)] writes_msr [OF assms(2)])
qed

lemma set_cr4_writes [writes_rules]:
  assumes "hw_rdmsr hw (Msr_number Msr.IA32_VMX_CR4_FIXED1) m0 = Some fixed1"
    and "hw_rdmsr hw (Msr_number Msr.IA32_VMX_CR4_FIXED0) m0 = Some fixed0"
  shows "writes hw current m0 (set_cr hw 4 val) (cr4_writes fixed1 fixed0 (val OR CR4_VMXE))"
proof -
  let ?val = "val OR CR4_VMXE"
  have "writes hw current m0
      (block [VmcsGuestNW_write hw VmcsGuestNW.CR4 ((?val AND fixed1) OR fixed0),
        VmcsControlNW_write hw CR4_READ_SHADOW ?val,
        VmcsControlNW_write hw CR4_GUEST_HOST_MASK (fixed0 OR NOT fixed1)])
      (cr4_writes fixed1 fixed0 ?val)"
    using writes_Cons [OF writes_fields(7) writes_Cons [OF writes_fields(3)
        writes_Cons [OF writes_fields(3) writes_Nil]]]
    by (simp only: cr4_writes_def append_Cons append_Nil)
  moreover have "(4 :: usize) \<noteq> 0" "(4 :: usize) \<noteq> 3" by simp_all
  ultimately show ?thesis
    unfolding set_cr_def Let_def
    by (simp only: refl if_True if_False)
      (intro writes_unwrap writes_msr [OF assms(1)] writes_msr [OF assms(2)])
qed

end

lemma set_cr_unreachable:
  "cr_idx \<notin> {0, 3, 4} \<Longrightarrow> set_cr hw cr_idx val m = (Panic ''unreachable'', m)"
  by (simp add: set_cr_def unwrap_def panic_def)

lemma bit_single:
  "bit (0x20000000 :: u64) n \<longleftrightarrow> n = 29" "bit (0x40000000 :: u64) n \<longleftrightarrow> n = 30"
  "bit (0x80000000 :: u64) n \<longleftrightarrow> n = 31" "bit (0x2000 :: u64) n \<longleftrightarrow> n = 13"
  "bit (0x60000000 :: u64) n \<longleftrightarrow> n = 29 \<or> n = 30" "bit (0x80000001 :: u64) n \<longleftrightarrow> n = 0 \<or> n = 31"
proof -
  have p: "bit (push_bit k 1 :: u64) n \<longleftrightarrow> n = k" if "k < 64" for k
    using that by (auto simp: bit_push_bit_iff bit_1_iff simp del: push_bit_of_1)
  have or: "(0x60000000 :: u64) = push_bit 29 1 OR push_bit 30 1"
    "(0x80000001 :: u64) = push_bit 0 1 OR push_bit 31 1"
    by simp_all
  show "bit (0x20000000 :: u64) n \<longleftrightarrow> n = 29" "bit (0x40000000 :: u64) n \<longleftrightarrow> n = 30"
    "bit (0x80000000 :: u64) n \<longleftrightarrow> n = 31" "bit (0x2000 :: u64) n \<longleftrightarrow> n = 13"
    using p [of 29] p [of 30] p [of 31] p [of 13] by simp_all
  show "bit (0x60000000 :: u64) n \<longleftrightarrow> n = 29 \<or> n = 30"
    unfolding or bit_or_iff using p [of 29] p [of 30] by (simp del: push_bit_of_1)
  show "bit (0x80000001 :: u64) n \<longleftrightarrow> n = 0 \<or> n = 31"
    unfolding or bit_or_iff using p [of 0] p [of 31] by (simp del: push_bit_of_1)
qed

lemma cr0_real_bits:
  fixes must0 must1 val :: u64
  assumes "must0 = fixed01 AND NOT (CR0_NOT_WRITE_THROUGH OR CR0_CACHE_DISABLE)" "must1 = fixed00 AND NOT (CR0_PAGING OR CR0_PE)"
  shows "\<forall>n < 64. bit ((val AND must0) OR must1) n \<longleftrightarrow>
      (if bit fixed00 n \<and> n \<noteq> 0 \<and> n \<noteq> 31 then True
       else if \<not> bit fixed01 n \<or> n = 29 \<or> n = 30 then False else bit val n)"
  unfolding assms bit_or_iff bit_and_iff bit_not_iff bit_single bit_1_iff by auto

lemma cr4_real_bits:
  fixes val :: u64
  shows "\<forall>n < 64. bit (((val OR CR4_VMXE) AND fixed41) OR fixed40) n \<longleftrightarrow>
      (if bit fixed40 n then True else if \<not> bit fixed41 n then False else n = 13 \<or> bit val n)"
  unfolding bit_or_iff bit_and_iff bit_single by auto

lemma cr_reads:
  "wrote hw (cr0_writes must0 must1 val) m m' \<Longrightarrow> cr hw 0 m' = (Ok ((val AND must0) OR must1), m')"
  "wrote hw [(VmcsGuestNW_number VmcsGuestNW.CR3, val)] m m' \<Longrightarrow> cr hw 3 m' = (Ok val, m')"
  "wrote hw (cr4_writes must0 must1 val) m m' \<Longrightarrow> cr hw 4 m' = (Ok val, m')"
  using wrote_read [of hw _ m m'] guest_view_set [of must1 must0 val]
  by (simp_all add: cr_def field_read_defs prog_simps cr0_writes_def cr4_writes_def guest_view_def)

text \<open>
  C16. Writing a guest control register: with a current VMCS and readable fixed-bit MSRs, \<open>set_cr\<close> of CR0 succeeds and the guest
  afterwards reads exactly the value it wrote, while the real CR0, which \<open>cr(0)\<close> returns, has every bit that VMX fixes to 1 set
  (except PE and PG), every bit that VMX fixes to 0 clear, NW and CD clear, and the written value
  elsewhere. \<open>set_cr\<close> of CR3 writes the value as it is, and \<open>cr(3)\<close> reads it back. For CR4 the guest reads, as does \<open>cr(4)\<close>, the
  written value with VMXE added, and the real CR4 obeys the fixed bits. No other field changes; an index other than 0, 3 and 4 panics.
\<close>

theorem set_cr_spec:
  assumes hw: "vmcs_current hw current" "current m"
    and f0: "hw_rdmsr hw (Msr_number Msr.IA32_VMX_CR0_FIXED1) m = Some fixed01"
      "hw_rdmsr hw (Msr_number Msr.IA32_VMX_CR0_FIXED0) m = Some fixed00"
    and f4: "hw_rdmsr hw (Msr_number Msr.IA32_VMX_CR4_FIXED1) m = Some fixed41"
      "hw_rdmsr hw (Msr_number Msr.IA32_VMX_CR4_FIXED0) m = Some fixed40"
  shows "(\<exists>m' mask shadow real. set_cr hw 0 val m = (Ok (), m') \<and> current m' \<and>
       wrote hw [(VmcsGuestNW_number VmcsGuestNW.CR0, real),
         (VmcsControlNW_number CR0_READ_SHADOW, shadow),
         (VmcsControlNW_number CR0_GUEST_HOST_MASK, mask)] m m' \<and>
       guest_view mask shadow real = val \<and> cr hw 0 m' = (Ok real, m') \<and>
       (\<forall>n < 64. bit real n \<longleftrightarrow>
          (if bit fixed00 n \<and> n \<noteq> 0 \<and> n \<noteq> 31 then True
           else if \<not> bit fixed01 n \<or> n = 29 \<or> n = 30 then False else bit val n))) \<and>
    (\<exists>m'. set_cr hw 3 val m = (Ok (), m') \<and> current m' \<and>
       wrote hw [(VmcsGuestNW_number VmcsGuestNW.CR3, val)] m m' \<and> cr hw 3 m' = (Ok val, m')) \<and>
    (\<exists>m' mask shadow real. set_cr hw 4 val m = (Ok (), m') \<and> current m' \<and>
       wrote hw [(VmcsGuestNW_number VmcsGuestNW.CR4, real),
         (VmcsControlNW_number CR4_READ_SHADOW, shadow),
         (VmcsControlNW_number CR4_GUEST_HOST_MASK, mask)] m m' \<and>
       guest_view mask shadow real = val OR CR4_VMXE \<and> cr hw 4 m' = (Ok (val OR CR4_VMXE), m') \<and>
       (\<forall>n < 64. bit real n \<longleftrightarrow>
          (if bit fixed40 n then True else if \<not> bit fixed41 n then False
           else n = 13 \<or> bit val n))) \<and>
    (\<forall>i. i \<notin> {0, 3, 4} \<longrightarrow> set_cr hw i val m = (Panic ''unreachable'', m))"
proof -
  define must0 where "must0 = fixed01 AND NOT (CR0_NOT_WRITE_THROUGH OR CR0_CACHE_DISABLE)"
  define must1 where "must1 = fixed00 AND NOT (CR0_PAGING OR CR0_PE)"
  let ?real0 = "(val AND must0) OR must1" and ?real4 = "((val OR CR4_VMXE) AND fixed41) OR fixed40"
  obtain m0 where m0: "set_cr hw 0 val m = (Ok (), m0)" "current m0" "wrote hw (cr0_writes must0 must1 val) m m0"
    using writesD [OF vmcs_current.set_cr0_writes [OF hw(1) f0] hw(2)]
    unfolding must0_def must1_def by metis
  obtain m3 where m3: "set_cr hw 3 val m = (Ok (), m3)" "current m3" "wrote hw [(VmcsGuestNW_number VmcsGuestNW.CR3, val)] m m3"
    using vmcs_current.VmcsGuestNW_write_run [OF hw, of VmcsGuestNW.CR3 val] by (auto simp: set_cr_def unwrap_def simp del: field_numbers)
  obtain m4 where m4: "set_cr hw 4 val m = (Ok (), m4)" "current m4" "wrote hw (cr4_writes fixed41 fixed40 (val OR CR4_VMXE)) m m4"
    using writesD [OF vmcs_current.set_cr4_writes [OF hw(1) f4] hw(2)] by metis
  show ?thesis
  proof (rule conjI, rule exI [of _ m0], rule exI [of _ "must1 OR NOT must0"], rule exI [of _ val], rule exI [of _ ?real0],
      intro conjI m0(1,2) m0(3) [unfolded cr0_writes_def] guest_view_set cr_reads(1) [OF m0(3)] cr0_real_bits [OF must0_def must1_def],
      rule conjI, intro exI [of _ m3] conjI m3 cr_reads(2) [OF m3(3)], rule conjI, rule exI [of _ m4],
      rule exI [of _ "fixed40 OR NOT fixed41"], rule exI [of _ "val OR CR4_VMXE"], rule exI [of _ ?real4],
      intro conjI m4(1,2) m4(3) [unfolded cr4_writes_def] guest_view_set cr_reads(3) [OF m4(3)] cr4_real_bits)
    show "\<forall>i. i \<notin> {0, 3, 4} \<longrightarrow> set_cr hw i val m = (Panic ''unreachable'', m)" by (intro allI impI set_cr_unreachable)
  qed
qed

theorem set_cr_spec_witness:
  "\<exists>m'. set_cr ref_hw 4 0x20 ref_machine = (Ok (), m') \<and> cr ref_hw 4 m' = (Ok 0x2020, m')"
proof -
  have cur: "(\<lambda>m. m_cur m \<noteq> None) ref_machine" by (simp add: ref_machine_def)
  have msrs: "hw_rdmsr ref_hw (Msr_number Msr.IA32_VMX_CR0_FIXED1) ref_machine = Some 0xffffffff"
    "hw_rdmsr ref_hw (Msr_number Msr.IA32_VMX_CR0_FIXED0) ref_machine = Some 0x80000021"
    "hw_rdmsr ref_hw (Msr_number Msr.IA32_VMX_CR4_FIXED1) ref_machine = Some 0x3727ff"
    "hw_rdmsr ref_hw (Msr_number Msr.IA32_VMX_CR4_FIXED0) ref_machine = Some 0x2000"
    by (simp_all add: ref_machine_def)
  show ?thesis
    using set_cr_spec [OF ref_current.vmcs_current_axioms cur msrs, of "0x20"] by auto
qed

section \<open>The guest and host state areas\<close>

lemma writes_eqI: "writes hw current m0 p ws' \<Longrightarrow> ws' = ws \<Longrightarrow> writes hw current m0 p ws"
  by simp

definition segment_reset ::
  "VmcsGuest16 \<Rightarrow> VmcsGuestNW \<Rightarrow> VmcsGuest32 \<Rightarrow> VmcsGuest32 \<Rightarrow> u64 \<Rightarrow> (u32 \<times> u64) list" where
  "segment_reset selector base limit rights access_rights =
     [(VmcsGuest16_number selector, 0), (VmcsGuestNW_number base, 0),
      (VmcsGuest32_number limit, 0xffff), (VmcsGuest32_number rights, access_rights)]"

text \<open>
  The guest state after the control registers: flat 64 KiB segments at base 0 with the access rights of a
  processor after reset, the entry point, and everything else cleared.
\<close>

definition guest_reset :: "u64 \<Rightarrow> u64 \<Rightarrow> (u32 \<times> u64) list" where
  "guest_reset entry_addr pat =
     segment_reset VmcsGuest16.ES_SELECTOR VmcsGuestNW.ES_BASE ES_LIMIT ES_ACCESS_RIGHTS 0x93 @
     segment_reset VmcsGuest16.CS_SELECTOR VmcsGuestNW.CS_BASE CS_LIMIT CS_ACCESS_RIGHTS 0x9b @
     segment_reset VmcsGuest16.SS_SELECTOR VmcsGuestNW.SS_BASE SS_LIMIT SS_ACCESS_RIGHTS 0x93 @
     segment_reset VmcsGuest16.DS_SELECTOR VmcsGuestNW.DS_BASE DS_LIMIT DS_ACCESS_RIGHTS 0x93 @
     segment_reset VmcsGuest16.FS_SELECTOR VmcsGuestNW.FS_BASE FS_LIMIT FS_ACCESS_RIGHTS 0x93 @
     segment_reset VmcsGuest16.GS_SELECTOR VmcsGuestNW.GS_BASE GS_LIMIT GS_ACCESS_RIGHTS 0x93 @
     segment_reset VmcsGuest16.TR_SELECTOR VmcsGuestNW.TR_BASE TR_LIMIT TR_ACCESS_RIGHTS 0x8b @
     segment_reset LDTR_SELECTOR LDTR_BASE LDTR_LIMIT LDTR_ACCESS_RIGHTS 0x82 @
     [(VmcsGuestNW_number VmcsGuestNW.GDTR_BASE, 0), (VmcsGuest32_number GDTR_LIMIT, 0xffff),
      (VmcsGuestNW_number VmcsGuestNW.IDTR_BASE, 0), (VmcsGuest32_number IDTR_LIMIT, 0xffff),
      (VmcsGuestNW_number VmcsGuestNW.CR3, 0), (VmcsGuestNW_number DR7, 0x400),
      (VmcsGuestNW_number VmcsGuestNW.RSP, 0), (VmcsGuestNW_number VmcsGuestNW.RIP, entry_addr),
      (VmcsGuestNW_number RFLAGS, 2), (VmcsGuestNW_number PENDING_DBG_EXCEPTIONS, 0),
      (VmcsGuestNW_number VmcsGuestNW.IA32_SYSENTER_ESP, 0),
      (VmcsGuestNW_number VmcsGuestNW.IA32_SYSENTER_EIP, 0),
      (VmcsGuest32_number VmcsGuest32.IA32_SYSENTER_CS, 0),
      (VmcsGuest32_number INTERRUPTIBILITY_STATE, 0), (VmcsGuest32_number ACTIVITY_STATE, 0),
      (VmcsGuest32_number VMX_PREEMPTION_TIMER_VALUE, 1000000),
      (VmcsGuest64_number LINK_PTR, - 1), (VmcsGuest64_number IA32_DEBUGCTL, 0),
      (VmcsGuest64_number VmcsGuest64.IA32_PAT, pat), (VmcsGuest64_number VmcsGuest64.IA32_EFER, 0)]"

text \<open>The host state: the registers of the processor the vCPU is bound to.\<close>

definition host_area :: "'m hw \<Rightarrow> 'm \<Rightarrow> u64 \<Rightarrow> u64 \<Rightarrow> u64 \<Rightarrow> u64 \<Rightarrow> u64 \<Rightarrow> (u32 \<times> u64) list" where
  "host_area hw m pat efer fs_base gs_base tr_base =
     [(VmcsHost64_number VmcsHost64.IA32_PAT, pat), (VmcsHost64_number VmcsHost64.IA32_EFER, efer),
      (VmcsHostNW_number VmcsHostNW.CR0, hw_cr0_read_raw hw m),
      (VmcsHostNW_number VmcsHostNW.CR3, hw_cr3_read_raw hw m),
      (VmcsHostNW_number VmcsHostNW.CR4, hw_cr4_read_raw hw m),
      (VmcsHost16_number VmcsHost16.ES_SELECTOR, ucast (hw_segment hw SEG_ES m)),
      (VmcsHost16_number VmcsHost16.CS_SELECTOR, ucast (hw_segment hw SEG_CS m)),
      (VmcsHost16_number VmcsHost16.SS_SELECTOR, ucast (hw_segment hw SEG_SS m)),
      (VmcsHost16_number VmcsHost16.DS_SELECTOR, ucast (hw_segment hw SEG_DS m)),
      (VmcsHost16_number VmcsHost16.FS_SELECTOR, ucast (hw_segment hw SEG_FS m)),
      (VmcsHost16_number VmcsHost16.GS_SELECTOR, ucast (hw_segment hw SEG_GS m)),
      (VmcsHostNW_number VmcsHostNW.FS_BASE, fs_base), (VmcsHostNW_number VmcsHostNW.GS_BASE, gs_base),
      (VmcsHost16_number VmcsHost16.TR_SELECTOR, ucast (hw_segment hw SEG_TR m)),
      (VmcsHostNW_number VmcsHostNW.TR_BASE, tr_base),
      (VmcsHostNW_number VmcsHostNW.GDTR_BASE, fst (hw_sgdt hw m)),
      (VmcsHostNW_number VmcsHostNW.IDTR_BASE, fst (hw_sidt hw m)),
      (VmcsHostNW_number VmcsHostNW.RIP, hw_vmx_exit_addr hw),
      (VmcsHostNW_number VmcsHostNW.IA32_SYSENTER_ESP, 0),
      (VmcsHostNW_number VmcsHostNW.IA32_SYSENTER_EIP, 0),
      (VmcsHost32_number VmcsHost32.IA32_SYSENTER_CS, 0)]"

context vmcs_current
begin

lemma set_guest_segment_writes [writes_rules]:
  "writes hw current m0 (set_guest_segment hw sel base limit rights r)
     (segment_reset sel base limit rights (ucast r))"
  unfolding set_guest_segment_def segment_reset_def
  by (rule writes_eqI, (rule writes_rules)+) simp

lemma setup_vmcs_guest_writes:
  assumes "hw_rdmsr hw (Msr_number Msr.IA32_VMX_CR0_FIXED1) m0 = Some fixed01"
    "hw_rdmsr hw (Msr_number Msr.IA32_VMX_CR0_FIXED0) m0 = Some fixed00"
    "hw_rdmsr hw (Msr_number Msr.IA32_VMX_CR4_FIXED1) m0 = Some fixed41"
    "hw_rdmsr hw (Msr_number Msr.IA32_VMX_CR4_FIXED0) m0 = Some fixed40"
    "hw_rdmsr hw (Msr_number Msr.IA32_PAT) m0 = Some pat"
  shows "writes hw current m0 (setup_vmcs_guest hw entry_addr)
    (cr0_writes (fixed01 AND NOT (CR0_NOT_WRITE_THROUGH OR CR0_CACHE_DISABLE))
       (fixed00 AND NOT (CR0_PAGING OR CR0_PE))
       (CR0_NOT_WRITE_THROUGH OR CR0_CACHE_DISABLE OR CR0_EXTENSION_TYPE) @
     cr4_writes fixed41 fixed40 (0 OR CR4_VMXE) @ guest_reset entry_addr pat)"
  unfolding setup_vmcs_guest_def
  by (rule writes_eqI, (rule writes_rules assms)+) (simp add: guest_reset_def del: field_numbers)

end

lemma writes_query:
  assumes "\<And>m. host_view hw m = host_view hw m0 \<Longrightarrow> q m = (Ok x, m)" "writes hw current m0 (k x) ws"
  shows "writes hw current m0 (bind q k) ws"
  unfolding writes_def
proof (intro allI impI)
  fix m assume m: "current m \<and> host_view hw m = host_view hw m0"
  then have "bind q k m = k x m" using assms(1) by (simp add: bind_simps)
  then show "\<exists>m'. bind q k m = (Ok (), m') \<and> current m' \<and> wrote hw ws m m'"
    using assms(2) m by (simp add: writes_def)
qed

context vmcs_current
begin

lemma setup_vmcs_host_writes:
  assumes "hw_rdmsr hw (Msr_number Msr.IA32_PAT) m0 = Some pat"
    "hw_rdmsr hw (Msr_number Msr.IA32_EFER) m0 = Some efer"
    "hw_rdmsr hw (Msr_number Msr.IA32_FS_BASE) m0 = Some fs_base"
    "hw_rdmsr hw (Msr_number Msr.IA32_GS_BASE) m0 = Some gs_base"
    and tr: "\<And>m. host_view hw m = host_view hw m0 \<Longrightarrow>
      get_tr_base hw (hw_segment hw SEG_TR m0) (hw_sgdt hw m0) m = (Ok tr_base, m)"
  shows "writes hw current m0 (setup_vmcs_host hw) (host_area hw m0 pat efer fs_base gs_base tr_base)"
  unfolding setup_vmcs_host_def
  by (rule writes_eqI, (rule writes_rules assms(1-4) host_viewD writes_query [OF tr] | assumption)+)
    (simp_all add: host_area_def del: field_numbers)

end

text \<open>
  The initial guest state: with a current VMCS, \<open>setup_vmcs_guest\<close> succeeds and writes the control
  registers (through \<open>set_cr\<close>) and then the reset state of the guest at the given entry point, nothing
  else; with it the guest is not in paging mode, and protected mode and paging are both off in the real
  CR0.
\<close>

theorem setup_vmcs_guest_spec:
  assumes hw: "vmcs_current hw current" "current m"
    and msrs: "hw_rdmsr hw (Msr_number Msr.IA32_VMX_CR0_FIXED1) m = Some fixed01"
      "hw_rdmsr hw (Msr_number Msr.IA32_VMX_CR0_FIXED0) m = Some fixed00"
      "hw_rdmsr hw (Msr_number Msr.IA32_VMX_CR4_FIXED1) m = Some fixed41"
      "hw_rdmsr hw (Msr_number Msr.IA32_VMX_CR4_FIXED0) m = Some fixed40"
      "hw_rdmsr hw (Msr_number Msr.IA32_PAT) m = Some pat"
  shows "\<exists>m' must0 must1 cr0. setup_vmcs_guest hw entry_addr m = (Ok (), m') \<and> current m' \<and>
    wrote hw (cr0_writes must0 must1 0x60000010 @ cr4_writes fixed41 fixed40 CR4_VMXE @
      guest_reset entry_addr pat) m m' \<and>
    hw_vmread hw (VmcsGuestNW_number VmcsGuestNW.CR0) m' = Inr cr0 \<and> \<not> bit cr0 0 \<and> \<not> bit cr0 31 \<and>
    get_paging_level hw m' = (Ok 0, m')"
proof -
  define must0 where "must0 = fixed01 AND NOT (CR0_NOT_WRITE_THROUGH OR CR0_CACHE_DISABLE)"
  define must1 where "must1 = fixed00 AND NOT (CR0_PAGING OR CR0_PE)"
  define cr0 where "cr0 = (0x60000010 AND must0) OR must1"
  let ?ws = "cr0_writes must0 must1 0x60000010 @ cr4_writes fixed41 fixed40 CR4_VMXE @
    guest_reset entry_addr pat"
  obtain m' where m': "setup_vmcs_guest hw entry_addr m = (Ok (), m')" "current m'" "wrote hw ?ws m m'"
    using writesD [OF vmcs_current.setup_vmcs_guest_writes [OF hw(1) msrs] hw(2), of entry_addr]
    unfolding must0_def must1_def by auto
  have rd: "hw_vmread hw (VmcsGuestNW_number VmcsGuestNW.CR0) m' = Inr cr0"
    using wrote_read [OF m'(3), of "VmcsGuestNW_number VmcsGuestNW.CR0"]
    by (simp add: cr0_writes_def cr4_writes_def guest_reset_def segment_reset_def cr0_def)
  have "\<not> bit must1 0" "\<not> bit must1 31"
    unfolding must1_def bit_and_iff bit_not_iff bit_or_iff bit_single bit_1_iff by simp_all
  then have off: "\<not> bit cr0 0" "\<not> bit cr0 31"
    unfolding cr0_def bit_or_iff bit_and_iff by (simp_all add: bit_numeral_rec)
  have "cr0 AND CR0_PAGING = 0"
    unfolding word_and_eq_0_iff bit_single using off(2) by auto
  moreover obtain cr4 efer where "hw_vmread hw (VmcsGuestNW_number VmcsGuestNW.CR4) m' = Inr cr4"
    "hw_vmread hw (VmcsGuest64_number VmcsGuest64.IA32_EFER) m' = Inr efer"
    using vmcs_current.current_read [OF hw(1) m'(2)] declared_number by metis
  ultimately have "get_paging_level hw m' = (Ok 0, m')"
    using rd by (simp add: get_paging_level_def field_read_defs prog_simps)
  with m' rd off show ?thesis by blast
qed

theorem setup_vmcs_guest_spec_witness:
  "\<exists>m'. setup_vmcs_guest ref_hw 0x8000 ref_machine = (Ok (), m') \<and>
     hw_vmread ref_hw (VmcsGuestNW_number VmcsGuestNW.RIP) m' = Inr 0x8000 \<and>
     get_paging_level ref_hw m' = (Ok 0, m')"
proof -
  have cur: "(\<lambda>m. m_cur m \<noteq> None) ref_machine" by (simp add: ref_machine_def)
  have msrs: "hw_rdmsr ref_hw (Msr_number Msr.IA32_VMX_CR0_FIXED1) ref_machine = Some 0xffffffff"
    "hw_rdmsr ref_hw (Msr_number Msr.IA32_VMX_CR0_FIXED0) ref_machine = Some 0x80000021"
    "hw_rdmsr ref_hw (Msr_number Msr.IA32_VMX_CR4_FIXED1) ref_machine = Some 0x3727ff"
    "hw_rdmsr ref_hw (Msr_number Msr.IA32_VMX_CR4_FIXED0) ref_machine = Some 0x2000"
    "hw_rdmsr ref_hw (Msr_number Msr.IA32_PAT) ref_machine = Some 0xffffffff00000000"
    by (simp_all add: ref_machine_def)
  obtain m' must0 must1 where m': "setup_vmcs_guest ref_hw 0x8000 ref_machine = (Ok (), m')"
    "wrote ref_hw (cr0_writes must0 must1 0x60000010 @ cr4_writes 0x3727ff 0x2000 CR4_VMXE @
      guest_reset 0x8000 0xffffffff00000000) ref_machine m'"
    "get_paging_level ref_hw m' = (Ok 0, m')"
    using setup_vmcs_guest_spec [OF ref_current.vmcs_current_axioms cur msrs, of "0x8000"] by blast
  then show ?thesis
    using wrote_read [OF m'(2), of "VmcsGuestNW_number VmcsGuestNW.RIP"]
    by (simp add: cr0_writes_def cr4_writes_def guest_reset_def segment_reset_def)
qed

text \<open>
  The host state area: with a current VMCS and a readable task descriptor, \<open>setup_vmcs_host\<close>
  succeeds and stores the PAT, EFER, control registers, segment selectors and bases, descriptor-table
  bases of the processor it runs on, and the exit handler as the host instruction pointer; nothing else
  is written.
\<close>

theorem setup_vmcs_host_spec:
  assumes hw: "vmcs_current hw current" "current m"
    and msrs: "hw_rdmsr hw (Msr_number Msr.IA32_PAT) m = Some pat"
      "hw_rdmsr hw (Msr_number Msr.IA32_EFER) m = Some efer"
      "hw_rdmsr hw (Msr_number Msr.IA32_FS_BASE) m = Some fs_base"
      "hw_rdmsr hw (Msr_number Msr.IA32_GS_BASE) m = Some gs_base"
    and tr: "\<And>m1. host_view hw m1 = host_view hw m \<Longrightarrow>
      get_tr_base hw (hw_segment hw SEG_TR m) (hw_sgdt hw m) m1 = (Ok tr_base, m1)"
  shows "\<exists>m'. setup_vmcs_host hw m = (Ok (), m') \<and> current m' \<and>
    wrote hw (host_area hw m pat efer fs_base gs_base tr_base) m m'"
  using vmcs_current.setup_vmcs_host_writes [OF hw(1) msrs tr] hw(2) by (auto elim!: writesD)

theorem setup_vmcs_host_spec_witness:
  "\<exists>m'. setup_vmcs_host ref_hw ref_machine = (Ok (), m') \<and>
     hw_vmread ref_hw (VmcsHostNW_number VmcsHostNW.RIP) m' = Inr 0xfff000 \<and>
     hw_vmread ref_hw (VmcsHostNW_number VmcsHostNW.CR3) m' = Inr 0x1000"
proof -
  have cur: "(\<lambda>m. m_cur m \<noteq> None) ref_machine" by (simp add: ref_machine_def)
  have msrs: "hw_rdmsr ref_hw (Msr_number Msr.IA32_PAT) ref_machine = Some 0xffffffff00000000"
    "hw_rdmsr ref_hw (Msr_number Msr.IA32_EFER) ref_machine = Some 0xd01"
    "hw_rdmsr ref_hw (Msr_number Msr.IA32_FS_BASE) ref_machine = Some 0xffffffff00000000"
    "hw_rdmsr ref_hw (Msr_number Msr.IA32_GS_BASE) ref_machine = Some 0xffffffff00000000"
    by (simp_all add: ref_machine_def)
  have tr: "get_tr_base ref_hw (hw_segment ref_hw SEG_TR ref_machine) (hw_sgdt ref_hw ref_machine) m1 =
      (Ok 0x6700000000, m1)" for m1
    by (simp add: get_tr_base_def table_entry_def get_bits_def prog_simps mask_eq_exp_minus_1)
  show ?thesis
    using setup_vmcs_host_spec [OF ref_current.vmcs_current_axioms cur msrs tr]
      wrote_read [of ref_hw _ ref_machine]
    by (fastforce simp: host_area_def ref_machine_def)
qed

section \<open>Bitmaps and controls\<close>

text \<open>
  The base of the task segment: \<open>get_tr_base\<close> reads the descriptor that the selector indexes in the
  descriptor table. It panics exactly when the index, or the second half of a present descriptor, lies
  outside the table, returns 0 for a descriptor that is not present, and otherwise the 64-bit base whose
  bits 23:0, 31:24 and 63:32 are bits 39:16 and 63:56 of the descriptor and bits 31:0 of its second half.
\<close>

theorem get_tr_base_spec:
  "let index = unat (drop_bit 3 tr); len = (unat limit + 1) div 8;
       lo = hw_mem64 hw (base + of_nat (8 * index)) m;
       hi = hw_mem64 hw (base + of_nat (8 * (index + 1))) m;
       r = get_tr_base hw tr (base, limit) m
   in if index \<ge> len \<or> (bit lo 47 \<and> index + 1 \<ge> len) then r = (Panic ''index out of bounds'', m)
      else if \<not> bit lo 47 then r = (Ok 0, m)
      else \<exists>b. r = (Ok b, m) \<and> get_bits b 0 24 = get_bits lo 16 40 \<and>
             get_bits b 24 32 = get_bits lo 56 64 \<and> get_bits b 32 64 = get_bits hi 0 32"
proof -
  have present: "e AND push_bit 47 1 \<noteq> 0 \<longleftrightarrow> bit e 47" for e :: u64
    unfolding word_and_eq_0_iff bit_push_bit_iff bit_1_iff by auto
  have mask: "(0xffffffff :: u64) = mask 32" by (simp add: mask_eq_exp_minus_1)
  have fields: "get_bits b 0 24 = get_bits lo 16 40 \<and> get_bits b 24 32 = get_bits lo 56 64 \<and>
      get_bits b 32 64 = get_bits hi 0 32"
    if "b = (get_bits lo 16 40 OR push_bit 24 (get_bits lo 56 64)) OR push_bit 32 (hi AND mask 32)"
    for b lo hi :: u64
    unfolding that
    by (intro conjI bit_word_eqI) (auto simp: wbits bit_simps)
  define index len where "index = unat (drop_bit 3 tr)" and "len = (unat limit + 1) div 8"
  define lo hi where "lo = hw_mem64 hw (base + of_nat (8 * index)) m"
    and "hi = hw_mem64 hw (base + of_nat (8 * (index + 1))) m"
  have "get_tr_base hw tr (base, limit) m =
      (if index < len then
         if bit lo 47 then
           if index + 1 < len
           then (Ok ((get_bits lo 16 40 OR push_bit 24 (get_bits lo 56 64)) OR push_bit 32 (hi AND mask 32)), m)
           else (Panic ''index out of bounds'', m)
         else (Ok 0, m)
       else (Panic ''index out of bounds'', m))"
    unfolding get_tr_base_def table_entry_def Let_def present mask fst_conv snd_conv
      index_def [symmetric] len_def [symmetric]
    by (simp add: bind_def gets_def panic_def return_def lo_def hi_def present)
  with fields [OF refl, of lo hi] show ?thesis
    unfolding Let_def index_def [symmetric] len_def [symmetric] lo_def [symmetric] hi_def [symmetric]
    by auto
qed

definition msr_setup_keys :: "(u32 \<times> bool) list" where
  "msr_setup_keys = [(IA32_UMWAIT_CONTROL, True), (IA32_UMWAIT_CONTROL, False)] @
     concat (map (\<lambda>msr. [(of_nat msr, False), (of_nat msr, True)]) [0x800 ..< 0x840])"

lemma setup_msr_bitmap_block:
  "setup_msr_bitmap = on_field msr_bitmap msr_bitmap_update
     (block (map (\<lambda>k. (\<lambda>(msr, w) b. MsrBitmap_set_intercept msr w b) k True) msr_setup_keys))"
  by (simp add: setup_msr_bitmap_def msr_setup_keys_def set_read_intercept_def
      set_write_intercept_def map_concat comp_def)

lemma of_nat_u32_range:
  assumes "b < 2 ^ 32"
  shows "(\<exists>n. a \<le> n \<and> n < b \<and> (j :: u32) = of_nat n) \<longleftrightarrow> a \<le> unat j \<and> unat j < b"
proof
  assume "\<exists>n. a \<le> n \<and> n < b \<and> j = of_nat n"
  then show "a \<le> unat j \<and> unat j < b"
    using assms by (auto simp: unat_of_nat take_bit_nat_eq_self)
next
  assume "a \<le> unat j \<and> unat j < b"
  then show "\<exists>n. a \<le> n \<and> n < b \<and> j = of_nat n"
    by (intro exI [of _ "unat j"]) simp
qed

lemma msr_keys_upt:
  "(j, w) \<in> set (concat (map (\<lambda>msr. [(of_nat msr, False), (of_nat msr, True)]) [a ..< b])) \<longleftrightarrow>
     (\<exists>n. a \<le> n \<and> n < b \<and> j = of_nat n)"
  by (cases w) auto

lemma msr_setup_keys_iff:
  "(j, w) \<in> set msr_setup_keys \<longleftrightarrow> j = 0xe1 \<or> (0x800 \<le> j \<and> j \<le> 0x83f)"
proof -
  have "(j, w) \<in> set msr_setup_keys \<longleftrightarrow> j = 0xe1 \<or> (\<exists>n. 0x800 \<le> n \<and> n < 0x840 \<and> j = of_nat n)"
    unfolding msr_setup_keys_def set_append Un_iff msr_keys_upt by (cases w) simp_all
  also have "\<dots> \<longleftrightarrow> j = 0xe1 \<or> (0x800 \<le> unat j \<and> unat j < 0x840)"
    by (subst of_nat_u32_range) simp_all
  finally show ?thesis by (auto simp: word_le_nat_alt)
qed

text \<open>
  MSR intercepts: on a well-formed bitmap, \<open>setup_msr_bitmap\<close> succeeds and afterwards the guest's
  reads and writes of IA32_UMWAIT_CONTROL and of the x2APIC registers 0x800 to 0x83f are intercepted, and
  the decision for every other covered MSR is what it was; nothing but the bitmap changes.
\<close>

lemma setup_msr_bitmap_run:
  assumes "wf_msr (msr_bitmap v)"
  shows "\<exists>bm. setup_msr_bitmap (v, m) = (Ok (), (v\<lparr>msr_bitmap := bm\<rparr>, m)) \<and> wf_msr bm \<and>
    (\<forall>j w. msr_covered j \<longrightarrow> msr_intercepted bm j w =
       (j = 0xe1 \<or> (0x800 \<le> j \<and> j \<le> 0x83f) \<or> msr_intercepted (msr_bitmap v) j w))"
proof -
  have ok: "\<forall>k \<in> set msr_setup_keys. (\<lambda>(msr, w). msr_covered msr) k"
    using msr_setup_keys_iff by (fastforce simp: msr_covered_def word_le_nat_alt)
  obtain bm where "block (map (\<lambda>k. (\<lambda>(msr, w) b. MsrBitmap_set_intercept msr w b) k True)
      msr_setup_keys) (msr_bitmap v) = (Ok (), bm)" "wf_msr bm"
    "\<forall>j. (\<lambda>(msr, w). msr_covered msr) j \<longrightarrow> (\<lambda>(msr, w). msr_intercepted bm msr w) j =
      (if j \<in> set msr_setup_keys then True else (\<lambda>(msr, w). msr_intercepted (msr_bitmap v) msr w) j)"
    using msr_map.set_many_ok [OF assms ok, of True] by blast
  then show ?thesis
    unfolding setup_msr_bitmap_block
    by (intro exI [of _ bm]) (auto simp: on_field_simps msr_setup_keys_iff)
qed

text \<open>A vCPU with zeroed bitmaps and its VMCS at 0x2000.\<close>

definition ref_vcpu :: "(usize \<Rightarrow> usize) VmxVcpu" where
  "ref_vcpu =
     \<lparr>guest_regs = GeneralRegisters_default, host_stack_top = 0, launched = False, entry = None,
      ept_root = None,
      vmcs = \<lparr>region_frame = Some \<lparr>start_paddr = 0x2000, frame_bytes = replicate 4096 0\<rparr>\<rparr>,
      io_bitmap = zero_io, msr_bitmap = zero_msr, pending_events = [], vlapic = (\<lambda>_. 0),
      xstate = \<lparr>host_xcr0 = 7, guest_xcr0 = 7, host_xss = 0, guest_xss = 0,
                xsave_available = True, xsaves_available = True\<rparr>\<rparr>"

text \<open>
  Devices that implement the parameter \<open>dev\<close>: a local APIC that stores its registers and refuses those past
  the x2APIC range, and the four access widths.
\<close>

definition ref_dev :: "(usize \<Rightarrow> usize, 'm) dev" where
  "ref_dev =
     \<lparr>vlapic_new = (\<lambda>_ _. return (\<lambda>_. 0)),
      vlapic_read = (\<lambda>a _. bind (gets fst) (\<lambda>l. if a < 0x840 then return (l a) else raise Unsupported)),
      vlapic_write = (\<lambda>a _ x.
        if a < 0x840 then modify (\<lambda>(l, m). (l(a := x), m)) else raise Unsupported),
      width_try_from = (\<lambda>n. if n = 1 then Some Byte else if n = 2 then Some Word
        else if n = 4 then Some Dword else if n = 8 then Some Qword else None),
      width_bits_range = (\<lambda>w. (0, case w of Byte \<Rightarrow> 8 | Word \<Rightarrow> 16 | Dword \<Rightarrow> 32 | Qword \<Rightarrow> 64))\<rparr>"

definition control_value :: "u64 \<Rightarrow> u32 \<Rightarrow> u32 \<Rightarrow> u32 \<Rightarrow> u32" where
  "control_value cap old_value s c =
     (ucast cap OR (NOT (ucast cap) AND ucast (drop_bit 32 cap) AND NOT (s OR c) AND old_value) OR s)"

text \<open>The capability MSR admits setting \<open>s\<close> and clearing \<open>c\<close>.\<close>

definition cap_allows :: "u64 \<Rightarrow> u32 \<Rightarrow> u32 \<Rightarrow> bool" where
  "cap_allows cap s c \<longleftrightarrow>
     (let allowed0 = ucast cap :: u32; allowed1 = ucast (drop_bit 32 cap) :: u32 in
      allowed0 AND allowed1 = allowed0 \<and> s AND c = 0 \<and> allowed1 AND s = s \<and> allowed0 AND c = 0)"

lemma control_value_bit:
  "cap_allows cap s c \<Longrightarrow> n < 32 \<Longrightarrow> bit (control_value cap old_value s c) n \<longleftrightarrow>
     control_bit cap old_value s c n"
  unfolding control_value_def cap_allows_def Let_def by (rule set_control_value) simp_all

text \<open>INVEPT succeeds on an EPT pointer that VM entry accepts (\<open>eptp_ok\<close>), and changes no field and no register of the host.\<close>

locale ept_hw = vmcs_current hw current for hw :: "'m hw" and current +
  fixes eptp_ok :: "u64 \<Rightarrow> bool"
  assumes invept_ok: "current m \<Longrightarrow> eptp_ok e \<Longrightarrow> invept hw SingleContext e m = (r, m') \<Longrightarrow>
      r = Inr () \<and> current m' \<and> wrote hw [] m m'"
begin

lemma set_control_from_writes [writes_rules]:
  assumes "hw_rdmsr hw (Msr_number default_msr) m0 = Some old"
    and "hw_rdmsr hw (Msr_number capability_msr) m0 = Some cap" "cap_allows cap s c"
  shows "writes hw current m0 (set_control_from hw control capability_msr default_msr s c)
    [(VmcsControl32_number control, ucast (control_value cap (ucast old) s c))]"
  unfolding set_control_from_def
proof (rule writes_msr [OF assms(1)])
  have "writes hw current m0 (VmcsControl32_write hw control (control_value cap (ucast old) s c))
      [(VmcsControl32_number control, ucast (control_value cap (ucast old) s c))]"
    by (rule writes_fields)
  then show "writes hw current m0 (set_control hw control capability_msr (ucast old) s c)
      [(VmcsControl32_number control, ucast (control_value cap (ucast old) s c))]"
    unfolding writes_def
  proof (intro allI impI, elim allE impE)
    fix m assume m: "current m \<and> host_view hw m = host_view hw m0"
    then show "current m \<and> host_view hw m = host_view hw m0" .
    have "hw_rdmsr hw (Msr_number capability_msr) m = Some cap"
      using assms(2) m host_viewD(1) [of hw m m0 "Msr_number capability_msr"] by simp
    from set_control_run [OF this, of control "ucast old" s c]
    have "set_control hw control capability_msr (ucast old) s c m =
        VmcsControl32_write hw control (control_value cap (ucast old) s c) m"
      using assms(3) by (simp add: cap_allows_def control_value_def Let_def)
    then show "\<exists>m'. VmcsControl32_write hw control (control_value cap (ucast old) s c) m = (Ok (), m') \<and>
          current m' \<and>
          wrote hw [(VmcsControl32_number control, ucast (control_value cap (ucast old) s c))] m m' \<Longrightarrow>
        \<exists>m'. set_control hw control capability_msr (ucast old) s c m = (Ok (), m') \<and> current m' \<and>
          wrote hw [(VmcsControl32_number control, ucast (control_value cap (ucast old) s c))] m m'"
      by simp
  qed
qed

lemma set_ept_pointer_writes [writes_rules]:
  assumes "eptp_ok (EPTPointer_from_table_phys p)"
  shows "writes hw current m0 (set_ept_pointer hw p)
     [(VmcsControl64_number EPTP, EPTPointer_from_table_phys p)]"
proof -
  have "writes hw current m0
      (map_err_ax hw (invept hw SingleContext (EPTPointer_from_table_phys p))) []"
    unfolding writes_def
  proof (intro allI impI)
    fix m assume m: "current m \<and> host_view hw m = host_view hw m0"
    obtain r m' where inv: "invept hw SingleContext (EPTPointer_from_table_phys p) m = (r, m')"
      by (cases "invept hw SingleContext (EPTPointer_from_table_phys p) m")
    with m have "r = Inr ()" "current m'" "wrote hw [] m m'" using invept_ok [OF _ assms] by blast+
    with inv show "\<exists>m'. map_err_ax hw (invept hw SingleContext (EPTPointer_from_table_phys p)) m =
        (Ok (), m') \<and> current m' \<and> wrote hw [] m m'"
      by (simp add: map_err_ax_def)
  qed
  from writes_Cons [OF writes_fields(2) writes_Cons [OF this writes_Nil]]
  show ?thesis by (simp add: set_ept_pointer_def Let_def del: block.simps field_numbers)
qed

end

lemma ref_invept_run:
  assumes "m_vmx_on m" "ref_eptp_ok e"
  shows "invept ref_hw t e m = (Inr (), m\<lparr>m_rflags := 2\<rparr>)"
  using assms by (simp add: invept_def ref_invept_def vmx_capture_status_def bit_numeral_rec)

lemma ref_wrote_rflags: "wrote ref_hw [] m (m\<lparr>m_rflags := r\<rparr>)"
  by (auto simp: wrote_def host_view_def ref_vmread_def ref_xcr0_read_def split: option.splits)

lemma ref_eptp_from_table: "ref_eptp_ok (EPTPointer_from_table_phys p)"
proof -
  have "(p AND NOT (mask 12)) AND mask 6 = 0" by (rule bit_word_eqI) (auto simp: bit_simps)
  then have "((p AND NOT (mask 12)) OR 0x5e) AND 0x3f = (0x1e :: u64)"
    by (simp add: bit.conj_disj_distrib2 mask_eq_exp_minus_1)
  then show ?thesis by (simp only: ref_eptp_ok_def eptp_bits)
qed

lemma ref_current_on: "vmcs_current ref_hw (\<lambda>m. m_cur m \<noteq> None \<and> m_vmx_on m)"
proof
  fix m :: refm and f v
  assume m: "m_cur m \<noteq> None \<and> m_vmx_on m"
  then show "\<exists>v. hw_vmread ref_hw f m = Inr v" by (auto simp: ref_vmread_def)
  assume "writable_field f"
  with m show "\<exists>m'. hw_vmwrite ref_hw f v m = (Inr (), m') \<and> m_cur m' \<noteq> None \<and> m_vmx_on m'"
    using ref_current.current_write [of m f v] by (auto simp: ref_vmwrite_def split: if_splits)
qed

interpretation ref_ept: ept_hw ref_hw "\<lambda>m. m_cur m \<noteq> None \<and> m_vmx_on m" ref_eptp_ok
  by (intro ept_hw.intro ref_current_on ept_hw_axioms.intro) (auto simp: ref_invept_run ref_wrote_rflags)

text \<open>The control area of a guest, given the capability MSRs.\<close>

definition control_area ::
  "'m hw \<Rightarrow> 'm \<Rightarrow> (Msr \<Rightarrow> u64) \<Rightarrow> u64 \<Rightarrow> (u32 \<times> u64) list" where
  "control_area hw m msr root =
     [(VmcsControl32_number PINBASED_EXEC_CONTROLS,
       ucast (control_value (msr IA32_VMX_TRUE_PINBASED_CTLS) (ucast (msr IA32_VMX_PINBASED_CTLS)) 0x9 0)),
      (VmcsControl32_number PRIMARY_PROCBASED_EXEC_CONTROLS,
       ucast (control_value (msr IA32_VMX_TRUE_PROCBASED_CTLS) (ucast (msr IA32_VMX_PROCBASED_CTLS))
         0x92000000 0x198000)),
      (VmcsControl32_number SECONDARY_PROCBASED_EXEC_CONTROLS,
       ucast (control_value (msr IA32_VMX_PROCBASED_CTLS2) (ucast (msr IA32_VMX_PROCBASED_CTLS2))
         (secondary_controls hw m) 0)),
      (VmcsControl32_number VMEXIT_CONTROLS,
       ucast (control_value (msr IA32_VMX_TRUE_EXIT_CTLS) (ucast (msr IA32_VMX_EXIT_CTLS)) 0x3c8200 0)),
      (VmcsControl32_number VMENTRY_CONTROLS,
       ucast (control_value (msr IA32_VMX_TRUE_ENTRY_CTLS) (ucast (msr IA32_VMX_ENTRY_CTLS)) 0xc000 0)),
      (VmcsControl64_number EPTP, EPTPointer_from_table_phys root),
      (VmcsControl32_number VMEXIT_MSR_STORE_COUNT, 0), (VmcsControl32_number VMEXIT_MSR_LOAD_COUNT, 0),
      (VmcsControl32_number VMENTRY_MSR_LOAD_COUNT, 0), (VmcsControl32_number CR3_TARGET_COUNT, 0)]"

definition bitmap_area :: "'l VmxVcpu \<Rightarrow> (u32 \<times> u64) list" where
  "bitmap_area v =
     [(VmcsControl32_number EXCEPTION_BITMAP, 0x40),
      (VmcsControl64_number IO_BITMAP_A_ADDR, start_paddr (io_bitmap_a_frame (io_bitmap v))),
      (VmcsControl64_number IO_BITMAP_B_ADDR, start_paddr (io_bitmap_b_frame (io_bitmap v))),
      (VmcsControl64_number MSR_BITMAPS_ADDR, start_paddr (msr_frame (msr_bitmap v)))]"

definition control_msrs :: "Msr list" where
  "control_msrs =
     [IA32_VMX_PINBASED_CTLS, IA32_VMX_TRUE_PINBASED_CTLS, IA32_VMX_PROCBASED_CTLS,
      IA32_VMX_TRUE_PROCBASED_CTLS, IA32_VMX_PROCBASED_CTLS2, IA32_VMX_EXIT_CTLS,
      IA32_VMX_TRUE_EXIT_CTLS, IA32_VMX_ENTRY_CTLS, IA32_VMX_TRUE_ENTRY_CTLS]"

definition control_caps_ok :: "'m hw \<Rightarrow> 'm \<Rightarrow> (Msr \<Rightarrow> u64) \<Rightarrow> bool" where
  "control_caps_ok hw m msr \<longleftrightarrow>
     cap_allows (msr IA32_VMX_TRUE_PINBASED_CTLS) 0x9 0 \<and>
     cap_allows (msr IA32_VMX_TRUE_PROCBASED_CTLS) 0x92000000 0x198000 \<and>
     cap_allows (msr IA32_VMX_PROCBASED_CTLS2) (secondary_controls hw m) 0 \<and>
     cap_allows (msr IA32_VMX_TRUE_EXIT_CTLS) 0x3c8200 0 \<and>
     cap_allows (msr IA32_VMX_TRUE_ENTRY_CTLS) 0xc000 0"

lemma secondary_controls_host:
  "host_view hw m' = host_view hw m \<Longrightarrow> secondary_controls hw m' = secondary_controls hw m"
  by (simp add: secondary_controls_def host_viewD [of hw m' m])

lemma secondary_controls_bits: "bit (secondary_controls hw m) 1" "bit (secondary_controls hw m) 7"
  by (simp_all add: secondary_controls_def Let_def bit_or_iff bit_numeral_rec)

lemma setup_io_bitmap_run:
  assumes "wf_io (io_bitmap v)"
  shows "\<exists>io. setup_io_bitmap hw (v, m) = (Ok (), (v\<lparr>io_bitmap := io\<rparr>, m)) \<and> wf_io io \<and>
    (\<forall>j < 0x10000. io_intercepted io j = (j = 0x604 \<or> io_intercepted (io_bitmap v) j))"
proof -
  obtain io where io: "IOBitmap_set_intercept 0x604 True (io_bitmap v) = (Ok (), io)" "wf_io io"
    "\<forall>j < 0x10000. io_intercepted io j = (if j = 0x604 then True else io_intercepted (io_bitmap v) j)"
    using io_set_intercept_run [OF assms, of "0x604" True] by (auto simp: io_settable_def)
  have "IOBitmap_set_intercept_of_range (overflow_checks hw) 0x604 1 True (io_bitmap v) = (Ok (), io)"
    using io(1)
    by (simp add: IOBitmap_set_intercept_of_range_def add_u32_def bind_def lift_def return_def)
  then show ?thesis
    using io by (intro exI [of _ io]) (simp add: setup_io_bitmap_def on_field_simps)
qed

context ept_hw
begin

lemma control_area_writes:
  assumes "\<And>r. r \<in> set control_msrs \<Longrightarrow> hw_rdmsr hw (Msr_number r) m0 = Some (msr r)"
    and "control_caps_ok hw m0 msr" and "eptp_ok (EPTPointer_from_table_phys root)"
  shows "writes hw current m0 (setup_exec_controls hw root True) (control_area hw m0 msr root)"
  unfolding setup_exec_controls_def
  by (rule writes_eqI, (rule writes_rules assms(1,3) secondary_controls_host | assumption
      | (use assms(2) in \<open>simp add: control_caps_ok_def control_msrs_def\<close>; fail))+)
    (simp_all add: control_area_def del: field_numbers)

lemma bitmap_area_writes: "writes hw current m0 (setup_bitmap_fields hw v) (bitmap_area v)"
  unfolding setup_bitmap_fields_def
  by (rule writes_eqI, (rule writes_rules)+)
    (simp add: bitmap_area_def IOBitmap_phys_addr_def MsrBitmap_phys_addr_def del: field_numbers)

end

text \<open>
  C27. The execution controls: with a current VMCS, capability MSRs that admit the requested settings, an EPT root
  whose pointer the processor accepts and a well-formed I/O bitmap, \<open>setup_vmcs_control\<close> succeeds. External interrupts and NMIs exit, I/O and MSR
  bitmaps and the secondary controls are used, CR3 and CR8 accesses do not exit, EPT and unrestricted
  guest are enabled; the EPT pointer, the addresses of the vCPU's own bitmaps and the exception bitmap
  (only \<open>#UD\<close>) are set; of the vCPU only the I/O bitmap changes, and there only the QEMU exit port.
\<close>

theorem setup_vmcs_control_spec:
  assumes hw: "ept_hw hw current eptp_ok" "current m" and root: "eptp_ok (EPTPointer_from_table_phys root)"
    and msrs: "\<And>r. r \<in> set control_msrs \<Longrightarrow> hw_rdmsr hw (Msr_number r) m = Some (msr r)"
    and caps: "control_caps_ok hw m msr" and wf: "wf_io (io_bitmap v)"
  shows "\<exists>io m' pin primary secondary. setup_vmcs_control hw root True (v, m) = (Ok (), (v\<lparr>io_bitmap := io\<rparr>, m')) \<and>
    current m' \<and> wf_io io \<and>
    (\<forall>j < 0x10000. io_intercepted io j = (j = 0x604 \<or> io_intercepted (io_bitmap v) j)) \<and>
    wrote hw (control_area hw m msr root @ bitmap_area (v\<lparr>io_bitmap := io\<rparr>)) m m' \<and>
    VmcsControl32_read hw PINBASED_EXEC_CONTROLS m' = (Ok pin, m') \<and> bit pin 0 \<and> bit pin 3 \<and>
    VmcsControl32_read hw PRIMARY_PROCBASED_EXEC_CONTROLS m' = (Ok primary, m') \<and>
    bit primary 25 \<and> bit primary 28 \<and> bit primary 31 \<and>
    \<not> bit primary 15 \<and> \<not> bit primary 16 \<and> \<not> bit primary 19 \<and> \<not> bit primary 20 \<and>
    VmcsControl32_read hw SECONDARY_PROCBASED_EXEC_CONTROLS m' = (Ok secondary, m') \<and>
    bit secondary 1 \<and> bit secondary 7"
proof -
  obtain m1 where m1: "setup_exec_controls hw root True m = (Ok (), m1)" "current m1"
    "wrote hw (control_area hw m msr root) m m1"
    using writesD [OF ept_hw.control_area_writes [OF hw(1) msrs caps root] hw(2)] by blast
  obtain io where io: "setup_io_bitmap hw (v, m1) = (Ok (), (v\<lparr>io_bitmap := io\<rparr>, m1))" "wf_io io"
    "\<forall>j < 0x10000. io_intercepted io j = (j = 0x604 \<or> io_intercepted (io_bitmap v) j)"
    using setup_io_bitmap_run [OF wf, of hw m1] by (elim exE conjE) (rule that)
  let ?v = "v\<lparr>io_bitmap := io\<rparr>"
  obtain m' where m': "setup_bitmap_fields hw ?v m1 = (Ok (), m')" "current m'"
    "wrote hw (bitmap_area ?v) m1 m'"
    using writesD [OF ept_hw.bitmap_area_writes [OF hw(1)] m1(2)] by metis
  have run: "setup_vmcs_control hw root True (v, m) = (Ok (), (?v, m'))"
    using m1(1) io(1) m'(1) by (simp add: setup_vmcs_control_def prog_simps)
  have all: "wrote hw (control_area hw m msr root @ bitmap_area ?v) m m'"
    using wrote_append [OF m1(3) m'(3)] .
  let ?pin = "control_value (msr IA32_VMX_TRUE_PINBASED_CTLS) (ucast (msr IA32_VMX_PINBASED_CTLS)) 0x9 0"
  let ?primary = "control_value (msr IA32_VMX_TRUE_PROCBASED_CTLS) (ucast (msr IA32_VMX_PROCBASED_CTLS))
    0x92000000 0x198000"
  let ?secondary = "control_value (msr IA32_VMX_PROCBASED_CTLS2) (ucast (msr IA32_VMX_PROCBASED_CTLS2))
    (secondary_controls hw m) 0"
  have reads: "VmcsControl32_read hw PINBASED_EXEC_CONTROLS m' = (Ok ?pin, m')"
    "VmcsControl32_read hw PRIMARY_PROCBASED_EXEC_CONTROLS m' = (Ok ?primary, m')"
    "VmcsControl32_read hw SECONDARY_PROCBASED_EXEC_CONTROLS m' = (Ok ?secondary, m')"
    using wrote_read [OF all]
    by (simp_all add: field_read_defs prog_simps control_area_def bitmap_area_def)
  have bits: "bit ?pin 0" "bit ?pin 3" "bit ?primary 25" "bit ?primary 28" "bit ?primary 31"
    "\<not> bit ?primary 15" "\<not> bit ?primary 16" "\<not> bit ?primary 19" "\<not> bit ?primary 20"
    "bit ?secondary 1" "bit ?secondary 7"
    using caps secondary_controls_bits [of hw m]
    by (simp_all add: control_caps_ok_def control_value_bit control_bit_def bit_numeral_rec)
  show ?thesis
    by (rule exI [of _ io], rule exI [of _ m'], rule exI [of _ ?pin], rule exI [of _ ?primary],
        rule exI [of _ ?secondary]) (intro conjI run m'(2) io(2,3) all reads bits)
qed

theorem setup_vmcs_control_spec_witness:
  "\<exists>io m'. setup_vmcs_control ref_hw 0x7000 True (ref_vcpu, ref_machine) =
       (Ok (), (ref_vcpu\<lparr>io_bitmap := io\<rparr>, m')) \<and> io_intercepted io 0x604 \<and>
     hw_vmread ref_hw (VmcsControl64_number EPTP) m' = Inr 0x705e"
proof -
  have cur: "(\<lambda>m. m_cur m \<noteq> None \<and> m_vmx_on m) ref_machine" by (simp add: ref_machine_def)
  let ?msr = "\<lambda>r. if r = IA32_VMX_TRUE_ENTRY_CTLS then 0xffffffff000011fb else 0xffffffff00000000 :: u64"
  have msrs: "hw_rdmsr ref_hw (Msr_number r) ref_machine = Some (?msr r)" if "r \<in> set control_msrs" for r
    using that by (auto simp: control_msrs_def ref_machine_def)
  have caps: "control_caps_ok ref_hw ref_machine ?msr"
    by (simp add: control_caps_ok_def cap_allows_def secondary_controls_def ref_machine_def Let_def)
  have wf: "wf_io (io_bitmap ref_vcpu)" by (simp add: ref_vcpu_def wf_zero_io)
  obtain io m' where r: "setup_vmcs_control ref_hw 0x7000 True (ref_vcpu, ref_machine) =
      (Ok (), (ref_vcpu\<lparr>io_bitmap := io\<rparr>, m'))"
    "\<forall>j < 0x10000. io_intercepted io j = (j = 0x604 \<or> io_intercepted (io_bitmap ref_vcpu) j)"
    "wrote ref_hw (control_area ref_hw ref_machine ?msr 0x7000 @ bitmap_area (ref_vcpu\<lparr>io_bitmap := io\<rparr>))
       ref_machine m'"
    using setup_vmcs_control_spec [OF ref_ept.ept_hw_axioms cur ref_eptp_from_table [of "0x7000"] msrs caps wf] by blast
  have "hw_vmread ref_hw (VmcsControl64_number EPTP) m' = Inr 0x705e"
    using wrote_read [OF r(3), of "VmcsControl64_number EPTP"]
    by (simp add: control_area_def bitmap_area_def EPTPointer_from_table_phys_def EPT_MEM_TYPE_WB_def
        EPT_WALK_LENGTH_4_def EPT_ENABLE_ACCESSED_DIRTY_def)
  with r show ?thesis by (intro exI [of _ io] exI [of _ m']) simp
qed

section \<open>Accessors\<close>

lemma and_single_bit:
  assumes "k < LENGTH('a)"
  shows "w AND push_bit k 1 \<noteq> 0 \<longleftrightarrow> bit (w :: 'a::len word) k"
  unfolding word_and_eq_0_iff bit_push_bit_iff bit_1_iff using assms by auto

lemma and_flags:
  "(w :: u64) AND 0x10 \<noteq> 0 \<longleftrightarrow> bit w 4" "w AND 0x20 \<noteq> 0 \<longleftrightarrow> bit w 5"
  "w AND 0x400 \<noteq> 0 \<longleftrightarrow> bit w 10" "w AND 0x800 \<noteq> 0 \<longleftrightarrow> bit w 11" "w AND 0x200 \<noteq> 0 \<longleftrightarrow> bit w 9"
  "w AND 0x10000 \<noteq> 0 \<longleftrightarrow> bit w 16" "w AND 0x100000 \<noteq> 0 \<longleftrightarrow> bit w 20"
  "w AND 0x200000 \<noteq> 0 \<longleftrightarrow> bit w 21" "w AND 0x80000000 \<noteq> 0 \<longleftrightarrow> bit w 31" "w AND 1 \<noteq> 0 \<longleftrightarrow> bit w 0"
  and and_flags32: "(x :: u32) AND 0x2000 \<noteq> 0 \<longleftrightarrow> bit x 13"
  using and_single_bit [of 4 w] and_single_bit [of 5 w] and_single_bit [of 10 w]
    and_single_bit [of 11 w] and_single_bit [of 9 w] and_single_bit [of 16 w]
    and_single_bit [of 20 w] and_single_bit [of 21 w] and_single_bit [of 31 w]
    and_single_bit [of 0 w] and_single_bit [of 13 x]
  by simp_all

lemma unat_ucast_u8: "unat (ucast (len :: u8) :: usize) = unat len"
proof -
  have "unat len < 2 ^ 8" using unsigned_less [of len] by simp
  then show ?thesis by (simp add: unsigned_ucast_eq take_bit_nat_eq_self)
qed

context vmcs_current
begin

lemma advance_rip_run:
  assumes "current m" "hw_vmread hw (VmcsGuestNW_number VmcsGuestNW.RIP) m = Inr ip"
  shows "\<exists>m'. advance_rip hw len m =
      (if overflow_checks hw \<and> 2 ^ 64 \<le> unat ip + unat len
       then (Panic ''attempt to add with overflow'', m) else (Ok (), m')) \<and> current m' \<and>
    wrote hw [(VmcsGuestNW_number VmcsGuestNW.RIP, ip + ucast len)] m m'"
proof -
  obtain m' where m': "VmcsGuestNW_write hw VmcsGuestNW.RIP (ip + ucast len) m = (Ok (), m')" "current m'"
    "wrote hw [(VmcsGuestNW_number VmcsGuestNW.RIP, ip + ucast len)] m m'"
    using VmcsGuestNW_write_run [OF assms(1), of VmcsGuestNW.RIP "ip + ucast len"] by auto
  have "advance_rip hw len m =
      (if overflow_checks hw \<and> 2 ^ 64 \<le> unat ip + unat len
       then (Panic ''attempt to add with overflow'', m) else (Ok (), m'))"
    using assms(2) m'(1)
    by (simp add: advance_rip_def field_read_defs prog_simps add_usize_def unat_ucast_u8 bind_def
        lift_def del: field_numbers)
  with m' show ?thesis by blast
qed

lemma advance_rip_ok:
  assumes "current m" "hw_vmread hw (VmcsGuestNW_number VmcsGuestNW.RIP) m = Inr ip"
    and "unat ip + unat len < 2 ^ 64"
  shows "\<exists>m'. advance_rip hw len m = (Ok (), m') \<and> current m' \<and>
    wrote hw [(VmcsGuestNW_number VmcsGuestNW.RIP, ip + ucast len)] m m'"
  using advance_rip_run [OF assms(1,2), of len] assms(3) by auto

end

text \<open>
  Advancing the guest instruction pointer: \<open>advance_rip\<close> adds the instruction length to the guest RIP
  and writes nothing else. When the sum does not fit 64 bits it panics without a write in a build with
  overflow checks, and wraps around in a build without.
\<close>

theorem advance_rip_spec:
  assumes hw: "vmcs_current hw current" "current m"
    and ip: "hw_vmread hw (VmcsGuestNW_number VmcsGuestNW.RIP) m = Inr ip"
  shows "if overflow_checks hw \<and> 2 ^ 64 \<le> unat ip + unat len
    then advance_rip hw len m = (Panic ''attempt to add with overflow'', m)
    else \<exists>m'. advance_rip hw len m = (Ok (), m') \<and> current m' \<and>
      wrote hw [(VmcsGuestNW_number VmcsGuestNW.RIP, ip + ucast len)] m m' \<and>
      (unat ip + unat len < 2 ^ 64 \<longrightarrow> unat (ip + ucast len) = unat ip + unat len)"
proof -
  have "unat (ip + ucast len) = unat ip + unat len" if "unat ip + unat len < 2 ^ 64"
    using that by (simp add: unat_word_ariths unat_ucast_u8)
  then show ?thesis
    using vmcs_current.advance_rip_run [OF hw ip, of len] by auto
qed

theorem advance_rip_spec_witness:
  "\<exists>m'. advance_rip ref_hw 3 ref_machine = (Ok (), m') \<and>
     hw_vmread ref_hw (VmcsGuestNW_number VmcsGuestNW.RIP) m' = Inr 3"
proof -
  have cur: "(\<lambda>m. m_cur m \<noteq> None) ref_machine" by (simp add: ref_machine_def)
  have ip: "hw_vmread ref_hw (VmcsGuestNW_number VmcsGuestNW.RIP) ref_machine = Inr 0"
    by (simp add: ref_machine_def ref_vmread_def)
  obtain m' where "advance_rip ref_hw 3 ref_machine = (Ok (), m')"
    "wrote ref_hw [(VmcsGuestNW_number VmcsGuestNW.RIP, 0 + ucast (3 :: u8))] ref_machine m'"
    using advance_rip_spec [OF ref_current.vmcs_current_axioms cur ip, of 3] by auto
  then show ?thesis
    using wrote_read [of ref_hw _ ref_machine m' "VmcsGuestNW_number VmcsGuestNW.RIP"] by auto
qed

text \<open>
  Guest paging mode: the page-walk information has level 0 without CR0.PG, 2 without CR4.PAE, 4 when
  EFER.LMA is set and 3 otherwise, with index widths 0, 10, 9 and 9; large pages follow CR4.PSE and
  no-execute is off exactly in 32-bit paging mode; the root is CR3, and the user, WP, SMAP and SMEP flags
  are those of the guest.
\<close>

theorem get_ptw_info_spec:
  assumes "hw_vmread hw (VmcsGuestNW_number VmcsGuestNW.CR0) m = Inr cr0"
    "hw_vmread hw (VmcsGuestNW_number VmcsGuestNW.CR3) m = Inr cr3"
    "hw_vmread hw (VmcsGuestNW_number VmcsGuestNW.CR4) m = Inr cr4"
    "hw_vmread hw (VmcsGuest64_number VmcsGuest64.IA32_EFER) m = Inr efer"
    "hw_vmread hw (VmcsGuest32_number SS_ACCESS_RIGHTS) m = Inr ss"
  shows "\<exists>w. get_ptw_info hw m = (Ok w, m) \<and> top_entry w = cr3 \<and>
    (level w, width w) =
      (if \<not> bit cr0 31 then (0, 0) else if \<not> bit cr4 5 then (2, 10)
       else if bit efer 10 then (4, 9) else (3, 9)) \<and>
    pse w = (bit cr0 31 \<and> \<not> bit cr4 5 \<longrightarrow> bit cr4 4) \<and>
    nxe w = (\<not> (bit cr0 31 \<and> \<not> bit cr4 5) \<and> bit efer 11) \<and>
    wp w = bit cr0 16 \<and> is_smap_on w = bit cr4 21 \<and> is_smep_on w = bit cr4 20 \<and>
    is_user_mode_access w = (bit ss 5 \<and> bit ss 6) \<and> \<not> is_write_access w \<and> \<not> is_inst_fetch w"
proof -
  have user: "drop_bit 5 (ucast ss :: u32) AND 3 = 3 \<longleftrightarrow> bit ss 5 \<and> bit ss 6"
  proof -
    have mask: "(3 :: u32) = mask 2" by (simp add: mask_eq_exp_minus_1)
    have "bit (3 :: u32) n \<longleftrightarrow> n < 2" if "n < 32" for n
      using that unfolding mask bit_mask_iff by auto
    then have "drop_bit 5 (ucast ss :: u32) AND 3 = 3 \<longleftrightarrow>
        (\<forall>n < 32. n < 2 \<longrightarrow> bit (drop_bit 5 (ucast ss :: u32)) n)"
      using word_and_eq_self_iff [of 3 "drop_bit 5 (ucast ss :: u32)"] by (auto simp: and.commute)
    also have "\<dots> \<longleftrightarrow> bit (drop_bit 5 (ucast ss :: u32)) 0 \<and> bit (drop_bit 5 (ucast ss :: u32)) 1"
      by (rule iffI) (use less_2_cases in auto)
    finally show ?thesis by (simp add: bit_drop_bit_eq bit_ucast_iff)
  qed
  have lvl: "get_paging_level hw m = (Ok (if \<not> bit cr0 31 then 0 else if \<not> bit cr4 5 then 2
      else if bit efer 10 then 4 else 3), m)"
    using assms(1,3,4) unfolding get_paging_level_def field_read_defs
    by (simp add: prog_simps and_flags del: field_numbers)
  show ?thesis
    unfolding get_ptw_info_def field_read_defs
    by (cases "bit cr0 31"; cases "bit cr4 5"; cases "bit efer 10")
      (use assms lvl in \<open>simp_all add: prog_simps and_flags user del: field_numbers\<close>)
qed

theorem get_ptw_info_spec_witness:
  "\<exists>w. get_ptw_info ref_hw ref_machine = (Ok w, ref_machine) \<and> level w = 0"
proof -
  have "hw_vmread ref_hw f ref_machine = Inr 0" for f by (simp add: ref_machine_def ref_vmread_def)
  from get_ptw_info_spec [OF this this this this this] show ?thesis by auto
qed

text \<open>
  The mode that \<open>get_cpu_mode\<close> reports: it is IA-32e mode (64-bit when CS.L is set, compatibility
  otherwise) exactly when the EFER of the processor has LMA set, whatever the EFER of the guest is;
  without it, it is protected or real mode by CR0.PE of the guest. On a 64-bit host a guest in real mode
  is therefore reported in IA-32e mode.
\<close>

theorem get_cpu_mode_spec:
  assumes "hw_rdmsr hw (Msr_number Msr.IA32_EFER) m = Some host_efer"
    "hw_vmread hw (VmcsGuest32_number CS_ACCESS_RIGHTS) m = Inr cs"
    "hw_vmread hw (VmcsGuestNW_number VmcsGuestNW.CR0) m = Inr cr0"
  shows "get_cpu_mode hw m =
    (Ok (if bit host_efer 10 then if bit cs 13 then Mode64 else Compatibility
         else if bit cr0 0 then Protected else Real), m)"
proof -
  have "bit (ucast cs :: u32) 13 \<longleftrightarrow> bit cs 13" by (simp add: bit_ucast_iff)
  then show ?thesis
    using assms unfolding get_cpu_mode_def field_read_defs
    by (simp add: prog_simps and_flags and_flags32 del: field_numbers Msr_number.simps)
qed

theorem get_cpu_mode_spec_witness:
  "get_cpu_mode ref_hw ref_machine = (Ok Compatibility, ref_machine)"
proof -
  have "hw_vmread ref_hw f ref_machine = Inr 0" for f by (simp add: ref_machine_def ref_vmread_def)
  moreover have "hw_rdmsr ref_hw (Msr_number Msr.IA32_EFER) ref_machine = Some 0xd01"
    by (simp add: ref_machine_def)
  ultimately show ?thesis
    using get_cpu_mode_spec [of ref_hw ref_machine "0xd01" 0 0] by (simp add: bit_numeral_rec)
qed

end
