(* ===== verification/VcpuRun.thy ===== *)
theory VcpuRun
  imports Vcpu
begin

text \<open>
  Running a vCPU (\<open>inner_run\<close> and \<open>run\<close> of \<open>src/vmx/vcpu.rs\<close>): injection of pending events, the switch
  of the extended state, VM entry, and the handling of the exits that the vCPU handles itself (interrupt
  window, preemption timer, XSETBV, control registers, CPUID, x2APIC registers, APIC accesses); every
  other exit becomes an \<open>AxVCpuExitReason\<close> for the caller.
\<close>

section \<open>Results of handlers\<close>

text \<open>The \<open>AxResult\<close> of a handler as a value; a panic or a fault still ends the run.\<close>

definition attempt :: "('s, unit) prog \<Rightarrow> ('s, AxError + unit) prog" where
  "attempt p s =
     (case p s of
        (Ok _, s') \<Rightarrow> (Ok (Inr ()), s')
      | (Err e, s') \<Rightarrow> (Ok (Inl e), s')
      | (Panic msg, s') \<Rightarrow> (Panic msg, s')
      | (Fault, s') \<Rightarrow> (Fault, s'))"

definition handled :: "('s, unit) prog \<Rightarrow> ('s, (AxError + unit) option) prog" where
  "handled p = bind (attempt p) (\<lambda>r. return (Some r))"

datatype AxVCpuExitReason =
    Hypercall u64 "u64 list"
  | IoRead u16 AccessWidth
  | IoWrite u16 AccessWidth u64
  | ExternalInterrupt u64
  | SysRegRead usize usize
  | SysRegWrite usize u64
  | Halt
  | SystemDown
  | FailEntry u64
  | Nothing

section \<open>Events\<close>

abbreviation (input) INTERRUPT_FLAG :: u64 where "INTERRUPT_FLAG \<equiv> 0x200"

definition allow_interrupt :: "'m hw \<Rightarrow> ('m, bool) prog" where
  "allow_interrupt hw =
     bind (unwrap (VmcsGuestNW_read hw RFLAGS)) (\<lambda>rflags.
     bind (unwrap (VmcsGuest32_read hw INTERRUPTIBILITY_STATE)) (\<lambda>block_state.
     return (rflags AND INTERRUPT_FLAG \<noteq> 0 \<and> block_state = 0)))"

definition inject_pending_events :: "'m hw \<Rightarrow> ('l, 'm, unit) vprog" where
  "inject_pending_events hw =
     bind self (\<lambda>v.
       case pending_events v of
         [] \<Rightarrow> return ()
       | event # _ \<Rightarrow>
           bind (if fst event < 32 then return True else on_hw (allow_interrupt hw)) (\<lambda>allow.
             if allow then
               block [on_hw (inject_event hw (fst event) (snd event)),
                      modify_self (pending_events_update tl)]
             else on_hw (set_interrupt_window hw True)))"

section \<open>Exit handlers\<close>

definition read_edx_eax :: "GeneralRegisters \<Rightarrow> u64" where
  "read_edx_eax r = push_bit 32 (rdx r AND 0xffffffff) OR (rax r AND 0xffffffff)"

definition write_edx_eax :: "u64 \<Rightarrow> GeneralRegisters \<Rightarrow> GeneralRegisters" where
  "write_edx_eax val r = r\<lparr>rax := val AND 0xffffffff, rdx := drop_bit 32 val\<rparr>"

abbreviation (input) VMEXIT_INSTR_LEN_RDMSR_WRMSR :: u8 where "VMEXIT_INSTR_LEN_RDMSR_WRMSR \<equiv> 2"

definition handle_apic_msr_access ::
  "'m hw \<Rightarrow> ('l, 'm) dev \<Rightarrow> bool \<Rightarrow> u32 \<Rightarrow> ('l, 'm, unit) vprog" where
  "handle_apic_msr_access hw dev write msr =
     bind (on_hw (advance_rip hw VMEXIT_INSTR_LEN_RDMSR_WRMSR)) (\<lambda>_.
     bind self (\<lambda>v.
       if write then
         on_part vlapic vlapic_update
           (vlapic_write dev (ucast msr) Qword (read_edx_eax (guest_regs v)))
       else
         bind (on_part vlapic vlapic_update (vlapic_read dev (ucast msr) Qword)) (\<lambda>val.
         modify_self (guest_regs_update (write_edx_eax val)))))"

definition handle_apic_access :: "'m hw \<Rightarrow> VmxExitInfo \<Rightarrow> ('l, 'm, unit) vprog" where
  "handle_apic_access hw info =
     on_hw (bind (apic_access_exit_info hw) (\<lambda>a.
       if apic_access_type a = LinearDataWrite \<or> apic_access_type a = LinearDataRead then
         bind (advance_rip hw (ucast (exit_instruction_length info))) (\<lambda>_.
         panic ''not implemented: apic access'')
       else raise BadState))"

definition handle_vmx_preemption_timer :: "'m hw \<Rightarrow> ('l, 'm, unit) vprog" where
  "handle_vmx_preemption_timer hw =
     on_hw (VmcsGuest32_write hw VMX_PREEMPTION_TIMER_VALUE VMX_PREEMPTION_TIMER_SET_VALUE)"

abbreviation (input) VM_EXIT_INSTR_LEN_MV_TO_CR :: u8 where "VM_EXIT_INSTR_LEN_MV_TO_CR \<equiv> 3"

definition handle_cr :: "'m hw \<Rightarrow> ('l, 'm, unit) vprog" where
  "handle_cr hw =
     bind (on_hw (cr_access_info hw)) (\<lambda>info.
     bind self (\<lambda>v.
       let reg = gpr info; cr_num = cr_number info in
       if cr_access_type info = 0 then
         bind (if reg = 4 then on_hw (stack_pointer hw)
               else lift (get_reg_of_index (guest_regs v) reg)) (\<lambda>val.
           if cr_num = 0 \<or> cr_num = 4 then
             on_hw (block
               [advance_rip hw VM_EXIT_INSTR_LEN_MV_TO_CR,
                set_cr hw (ucast cr_num) val,
                if cr_num = 0 \<and> val AND CR0_PAGING \<noteq> 0 then update_efer hw else return ()])
           else panic ''access to cr not allowed'')
       else panic ''access to cr not allowed''))"

abbreviation (input) VM_EXIT_INSTR_LEN_CPUID :: u8 where "VM_EXIT_INSTR_LEN_CPUID \<equiv> 2"
abbreviation (input) LEAF_FEATURE_INFO :: u32 where "LEAF_FEATURE_INFO \<equiv> 1"
abbreviation (input) LEAF_STRUCTURED_EXTENDED_FEATURE_FLAGS_ENUMERATION :: u32 where
  "LEAF_STRUCTURED_EXTENDED_FEATURE_FLAGS_ENUMERATION \<equiv> 7"
abbreviation (input) LEAF_PROCESSOR_EXTENDED_STATE_ENUMERATION :: u32 where
  "LEAF_PROCESSOR_EXTENDED_STATE_ENUMERATION \<equiv> 0xd"
abbreviation (input) EAX_FREQUENCY_INFO :: u32 where "EAX_FREQUENCY_INFO \<equiv> 0x16"
abbreviation (input) LEAF_HYPERVISOR_INFO :: u32 where "LEAF_HYPERVISOR_INFO \<equiv> 0x40000000"
abbreviation (input) LEAF_HYPERVISOR_FEATURE :: u32 where "LEAF_HYPERVISOR_FEATURE \<equiv> 0x40000001"
abbreviation (input) FEATURE_VMX :: u32 where "FEATURE_VMX \<equiv> 0x20"
abbreviation (input) FEATURE_HYPERVISOR :: u32 where "FEATURE_HYPERVISOR \<equiv> 0x80000000"
abbreviation (input) FEATURE_MCE :: u32 where "FEATURE_MCE \<equiv> 0x80"
abbreviation (input) TIMER_FREQUENCY_MHZ :: u32 where "TIMER_FREQUENCY_MHZ \<equiv> 3000"

text \<open>\<open>b"RVMRVMRVMRVM"\<close>, read as three little-endian words.\<close>

definition VENDOR_STR :: "u8 list" where
  "VENDOR_STR = [0x52, 0x56, 0x4d, 0x52, 0x56, 0x4d, 0x52, 0x56, 0x4d, 0x52, 0x56, 0x4d]"

definition vendor_regs :: "nat \<Rightarrow> u32" where
  "vendor_regs i = read_u32_le (drop (4 * i) VENDOR_STR)"

definition load_guest_xstate :: "'m hw \<Rightarrow> ('l, 'm, unit) vprog" where
  "load_guest_xstate hw = on_part xstate xstate_update (switch_to_guest hw)"

definition load_host_xstate :: "'m hw \<Rightarrow> ('l, 'm, unit) vprog" where
  "load_host_xstate hw = on_part xstate xstate_update (switch_to_host hw)"

definition cpuid_result :: "'m hw \<Rightarrow> GeneralRegisters \<Rightarrow> ('l, 'm, CpuIdResult) vprog" where
  "cpuid_result hw regs =
     (let function = ucast (rax regs);
          cpuid = on_hw (gets (hw_cpuid hw (ucast (rax regs)) (ucast (rcx regs))))
      in if function = LEAF_FEATURE_INFO then
           bind cpuid (\<lambda>res. return
             (res\<lparr>ecx := ecx res AND NOT FEATURE_VMX OR FEATURE_HYPERVISOR,
                  eax := eax res AND NOT FEATURE_MCE\<rparr>))
         else if function = LEAF_STRUCTURED_EXTENDED_FEATURE_FLAGS_ENUMERATION then
           bind cpuid (\<lambda>res. return
             (if rcx regs = 0 then res\<lparr>ecx := set_bit_to (set_bit_to (ecx res) 5 False) 16 False\<rparr>
              else res))
         else if function = LEAF_PROCESSOR_EXTENDED_STATE_ENUMERATION then
           bind (load_guest_xstate hw) (\<lambda>_.
           bind cpuid (\<lambda>res.
           bind (load_host_xstate hw) (\<lambda>_. return res)))
         else if function = LEAF_HYPERVISOR_INFO then
           return \<lparr>eax = LEAF_HYPERVISOR_FEATURE, ebx = vendor_regs 0, ecx = vendor_regs 1,
                   edx = vendor_regs 2\<rparr>
         else if function = LEAF_HYPERVISOR_FEATURE then
           return \<lparr>eax = 0, ebx = 0, ecx = 0, edx = 0\<rparr>
         else if function = EAX_FREQUENCY_INFO then
           bind cpuid (\<lambda>res. return
             (if eax res = 0 then res\<lparr>eax := TIMER_FREQUENCY_MHZ\<rparr> else res))
         else cpuid)"

definition handle_cpuid :: "'m hw \<Rightarrow> ('l, 'm, unit) vprog" where
  "handle_cpuid hw =
     bind self (\<lambda>v.
     bind (cpuid_result hw (guest_regs v)) (\<lambda>res.
     bind (modify_self (guest_regs_update (\<lambda>r.
        r\<lparr>rax := ucast (eax res), rbx := ucast (ebx res), rcx := ucast (ecx res),
          rdx := ucast (edx res)\<rparr>))) (\<lambda>_.
     on_hw (advance_rip hw VM_EXIT_INSTR_LEN_CPUID))))"

abbreviation (input) VM_EXIT_INSTR_LEN_XSETBV :: u8 where "VM_EXIT_INSTR_LEN_XSETBV \<equiv> 3"
abbreviation (input) XCR0_FPU_MMX_STATE :: u64 where "XCR0_FPU_MMX_STATE \<equiv> 0x1"
abbreviation (input) XCR0_SSE_STATE :: u64 where "XCR0_SSE_STATE \<equiv> 0x2"
abbreviation (input) XCR0_AVX_STATE :: u64 where "XCR0_AVX_STATE \<equiv> 0x4"
abbreviation (input) XCR0_BNDREG_STATE :: u64 where "XCR0_BNDREG_STATE \<equiv> 0x8"
abbreviation (input) XCR0_BNDCSR_STATE :: u64 where "XCR0_BNDCSR_STATE \<equiv> 0x10"
abbreviation (input) XCR0_OPMASK_STATE :: u64 where "XCR0_OPMASK_STATE \<equiv> 0x20"
abbreviation (input) XCR0_ZMM_HI256_STATE :: u64 where "XCR0_ZMM_HI256_STATE \<equiv> 0x40"
abbreviation (input) XCR0_HI16_ZMM_STATE :: u64 where "XCR0_HI16_ZMM_STATE \<equiv> 0x80"

definition contains :: "u64 \<Rightarrow> u64 \<Rightarrow> bool" where
  "contains flags f \<longleftrightarrow> flags AND f = f"

text \<open>The checks on a new XCR0: \<open>Xcr0::from_bits\<close>, then the conditions of the closure in order.\<close>

definition xsetbv_check :: "u64 \<Rightarrow> u64 \<Rightarrow> u64 option" where
  "xsetbv_check all_flags x =
     (if x AND NOT all_flags \<noteq> 0 then None
      else if \<not> contains x XCR0_FPU_MMX_STATE then None
      else if contains x XCR0_AVX_STATE \<and> \<not> contains x XCR0_SSE_STATE then None
      else if contains x XCR0_BNDCSR_STATE \<noteq> contains x XCR0_BNDREG_STATE then None
      else if contains x XCR0_OPMASK_STATE
        \<or> contains x XCR0_ZMM_HI256_STATE
        \<or> contains x XCR0_HI16_ZMM_STATE
        \<or> \<not> contains x XCR0_AVX_STATE
        \<or> \<not> contains x XCR0_OPMASK_STATE
        \<or> \<not> contains x XCR0_ZMM_HI256_STATE
        \<or> \<not> contains x XCR0_HI16_ZMM_STATE then None
      else Some x)"

definition handle_xsetbv :: "'m hw \<Rightarrow> ('l, 'm, unit) vprog" where
  "handle_xsetbv hw =
     bind self (\<lambda>v.
       let regs = guest_regs v;
           index = get_bits (rcx regs) 0 32;
           val = push_bit 32 (get_bits (rdx regs) 0 32) OR get_bits (rax regs) 0 32
       in if index = 0 then
            (case xsetbv_check (xcr0_all hw) val of
               None \<Rightarrow> raise InvalidInput
             | Some x \<Rightarrow>
                 bind (modify_self (xstate_update (guest_xcr0_update (\<lambda>_. x)))) (\<lambda>_.
                 on_hw (advance_rip hw VM_EXIT_INSTR_LEN_XSETBV)))
          else raise Unsupported)"

abbreviation (input) X2APIC_MSR_BASE :: u32 where "X2APIC_MSR_BASE \<equiv> 0x800"
abbreviation (input) X2APIC_MSR_END :: u32 where "X2APIC_MSR_END \<equiv> 0x8ff"

definition builtin_vmexit_handler ::
  "'m hw \<Rightarrow> ('l, 'm) dev \<Rightarrow> VmxExitInfo \<Rightarrow> ('l, 'm, (AxError + unit) option) vprog" where
  "builtin_vmexit_handler hw dev info =
     bind self (\<lambda>v.
       let reason = exit_reason info; msr = ucast (rcx (guest_regs v)) :: u32 in
       if reason = INTERRUPT_WINDOW then handled (on_hw (set_interrupt_window hw False))
       else if reason = PREEMPTION_TIMER then handled (handle_vmx_preemption_timer hw)
       else if reason = XSETBV then handled (handle_xsetbv hw)
       else if reason = CR_ACCESS then handled (handle_cr hw)
       else if reason = CPUID then handled (handle_cpuid hw)
       else if (reason = MSR_READ \<or> reason = MSR_WRITE) \<and>
               X2APIC_MSR_BASE \<le> msr \<and> msr \<le> X2APIC_MSR_END then
         handled (handle_apic_msr_access hw dev (reason = MSR_WRITE) msr)
       else if reason = APIC_ACCESS then handled (handle_apic_access hw info)
       else return None)"

section \<open>Running\<close>

definition vmx_entry_failed :: "'m hw \<Rightarrow> ('m, 'a) prog" where
  "vmx_entry_failed hw = bind (instruction_error hw) (\<lambda>e. panic (as_str e))"

text \<open>
  \<open>vmx_launch\<close> and \<open>vmx_resume\<close> as \<open>world_switch_roundtrip\<close> describes them: the host stack pointer and the
  guest registers are stored in the first fields of the structure, or the entry instruction fails or raises an exception.
\<close>

definition vm_enter :: "'m hw \<Rightarrow> entry_instr \<Rightarrow> ('l, 'm, unit) vprog" where
  "vm_enter hw instr st =
     (let v = (fst st)\<lparr>host_stack_top := hw_saved_rsp hw (snd st)\<rparr> in
      case hw_vm_entry hw instr (guest_regs v) (snd st) of
        (Inr regs, m') \<Rightarrow> (Ok (), (v\<lparr>guest_regs := regs\<rparr>, m'))
      | (Inl VmFault, m') \<Rightarrow> (Fault, (v, m'))
      | (Inl _, m') \<Rightarrow> on_hw (vmx_entry_failed hw) (v, m'))"

text \<open>The host RSP of the VMCS is the address of the field \<open>host_stack_top\<close> of this vCPU at that moment.\<close>

definition write_host_rsp :: "'m hw \<Rightarrow> ('l, 'm, unit) vprog" where
  "write_host_rsp hw =
     bind self (\<lambda>v. on_hw (unwrap
       (bind (gets (hw_host_stack_top_addr hw (region_frame (vmcs v)))) (VmcsHostNW_write hw VmcsHostNW.RSP))))"

definition inner_run :: "'m hw \<Rightarrow> ('l, 'm) dev \<Rightarrow> ('l, 'm, VmxExitInfo option) vprog" where
  "inner_run hw dev =
     bind (unwrap (inject_pending_events hw)) (\<lambda>_.
     bind (load_guest_xstate hw) (\<lambda>_.
     bind self (\<lambda>v.
     bind (if launched v then vm_enter hw VMRESUME_INSTR
           else block
             [modify_self (launched_update (\<lambda>_. True)),
              write_host_rsp hw,
              vm_enter hw VMLAUNCH_INSTR]) (\<lambda>_.
     bind (load_host_xstate hw) (\<lambda>_.
     bind (on_hw (unwrap (exit_info hw))) (\<lambda>info.
     bind (builtin_vmexit_handler hw dev info) (\<lambda>result.
       case result of
         Some (Inl e) \<Rightarrow> panic ''VmxVcpu failed to handle a VM-exit that should be handled by itself''
       | Some (Inr _) \<Rightarrow> return None
       | None \<Rightarrow> return (Some info))))))))"

definition io_exit_reason ::
  "('l, 'm) dev \<Rightarrow> VmxIoExitInfo \<Rightarrow> GeneralRegisters \<Rightarrow> AxVCpuExitReason" where
  "io_exit_reason dev io regs =
     (if is_repeat io \<or> is_string io then Halt
      else case width_try_from dev (ucast (access_size io)) of
             None \<Rightarrow> Halt
           | Some w \<Rightarrow>
               if is_in io then IoRead (port io) w
               else if port io = QEMU_EXIT_PORT \<and> w = Word \<and> rax regs = QEMU_EXIT_MAGIC
               then SystemDown
               else IoWrite (port io) w
                 (get_bits (rax regs) (fst (width_bits_range dev w)) (snd (width_bits_range dev w))))"

definition run_exit :: "'m hw \<Rightarrow> ('l, 'm) dev \<Rightarrow> VmxExitInfo \<Rightarrow> ('l, 'm, AxVCpuExitReason) vprog" where
  "run_exit hw dev info =
     bind self (\<lambda>v.
       let regs = guest_regs v; reason = exit_reason info in
       if entry_failure info then return (FailEntry 0)
       else if reason = VMCALL then
         bind (on_hw (advance_rip hw (ucast (exit_instruction_length info)))) (\<lambda>_.
         return (Hypercall (rax regs) [rdi regs, rsi regs, rdx regs, rcx regs, r8 regs, r9 regs]))
       else if reason = IO_INSTRUCTION then
         bind (on_hw (unwrap (io_exit_info hw))) (\<lambda>io.
         bind (on_hw (advance_rip hw (ucast (exit_instruction_length info)))) (\<lambda>_.
         return (io_exit_reason dev io regs)))
       else if reason = EXTERNAL_INTERRUPT then
         bind (on_hw (interrupt_exit_info hw)) (\<lambda>int_info.
           if int_valid int_info then return (ExternalInterrupt (ucast (int_vector int_info)))
           else panic ''assertion failed: int_info.valid'')
       else if reason = MSR_READ then return (SysRegRead (rcx regs) 0)
       else if reason = MSR_WRITE then
         return (SysRegWrite (rcx regs)
           ((rax regs AND 0xffffffff) OR push_bit 32 (rdx regs AND 0xffffffff)))
       else return Halt)"

definition run :: "'m hw \<Rightarrow> ('l, 'm) dev \<Rightarrow> ('l, 'm, AxVCpuExitReason) vprog" where
  "run hw dev =
     bind (inner_run hw dev) (\<lambda>r. case r of Some info \<Rightarrow> run_exit hw dev info | None \<Rightarrow> return Nothing)"

text \<open>The state that \<open>{:?}\<close> prints, after the general registers.\<close>

definition VmxVcpu_fmt :: "'m hw \<Rightarrow> ('m, (string \<times> u64) list) prog" where
  "VmxVcpu_fmt hw = unwrap
     (bind (VmcsGuestNW_read hw VmcsGuestNW.RIP) (\<lambda>ip.
      bind (VmcsGuestNW_read hw VmcsGuestNW.RSP) (\<lambda>sp.
      bind (VmcsGuestNW_read hw RFLAGS) (\<lambda>rflags.
      bind (VmcsGuestNW_read hw VmcsGuestNW.CR0) (\<lambda>cr0.
      bind (VmcsGuestNW_read hw VmcsGuestNW.CR3) (\<lambda>cr3.
      bind (VmcsGuestNW_read hw VmcsGuestNW.CR4) (\<lambda>cr4.
      bind (VmcsGuest16_read hw VmcsGuest16.CS_SELECTOR) (\<lambda>cs.
      bind (VmcsGuestNW_read hw VmcsGuestNW.FS_BASE) (\<lambda>fs_base.
      bind (VmcsGuestNW_read hw VmcsGuestNW.GS_BASE) (\<lambda>gs_base.
      bind (VmcsGuest16_read hw VmcsGuest16.TR_SELECTOR) (\<lambda>tss.
      return [(''rip'', ip), (''rsp'', sp), (''rflags'', rflags), (''cr0'', cr0), (''cr3'', cr3),
              (''cr4'', cr4), (''cs'', ucast cs), (''fs_base'', fs_base), (''gs_base'', gs_base),
              (''tss'', ucast tss)])))))))))))"

section \<open>XSETBV\<close>

lemma handled_simps [prog_simps]:
  "p s = (Ok x, s') \<Longrightarrow> handled p s = (Ok (Some (Inr ())), s')"
  "p s = (Err e, s') \<Longrightarrow> handled p s = (Ok (Some (Inl e)), s')"
  "p s = (Panic msg, s') \<Longrightarrow> handled p s = (Panic msg, s')"
  by (simp_all add: handled_def attempt_def bind_def return_def)

lemma handled_not_None: "handled p s \<noteq> (Ok None, s')"
  by (auto simp: handled_def attempt_def bind_def return_def split: prod.splits res.splits)

lemma xsetbv_check_None: "xsetbv_check all_flags x = None"
  by (simp add: xsetbv_check_def)

text \<open>
  C23. XSETBV: the handler rejects every value the guest writes, with \<open>InvalidInput\<close> for XCR0 and
  \<open>Unsupported\<close> for any other register, and changes nothing, because its last condition holds for every
  value; the exit is reported as handled with that error, on which \<open>inner_run\<close> panics.
\<close>

theorem handle_xsetbv_spec:
  "let e = (if get_bits (rcx (guest_regs v)) 0 32 = 0 then InvalidInput else Unsupported) in
   handle_xsetbv hw (v, m) = (Err e, (v, m)) \<and>
   (exit_reason info = XSETBV \<longrightarrow>
      builtin_vmexit_handler hw dev info (v, m) = (Ok (Some (Inl e)), (v, m)))"
proof -
  have run: "handle_xsetbv hw (v, m) =
      (Err (if get_bits (rcx (guest_regs v)) 0 32 = 0 then InvalidInput else Unsupported), (v, m))"
    by (simp add: handle_xsetbv_def xsetbv_check_None Let_def raise_def)
  have "XSETBV \<noteq> INTERRUPT_WINDOW" "XSETBV \<noteq> PREEMPTION_TIMER"
    by (simp_all flip: VmxExitReason_number_inject)
  with run show ?thesis
    by (simp add: builtin_vmexit_handler_def Let_def handled_simps)
qed

theorem handle_xsetbv_spec_witness:
  "builtin_vmexit_handler ref_hw ref_dev
     \<lparr>entry_failure = False, exit_reason = XSETBV, exit_instruction_length = 3, guest_rip = 0\<rparr>
     (ref_vcpu\<lparr>guest_regs := GeneralRegisters_default\<lparr>rax := 7\<rparr>\<rparr>, ref_machine) =
   (Ok (Some (Inl InvalidInput)),
    (ref_vcpu\<lparr>guest_regs := GeneralRegisters_default\<lparr>rax := 7\<rparr>\<rparr>, ref_machine))"
  using handle_xsetbv_spec
    [of "ref_vcpu\<lparr>guest_regs := GeneralRegisters_default\<lparr>rax := 7\<rparr>\<rparr>" ref_hw ref_machine
      "\<lparr>entry_failure = False, exit_reason = XSETBV, exit_instruction_length = 3, guest_rip = 0\<rparr>" ref_dev]
  by (simp add: GeneralRegisters_default_def get_bits_def)

section \<open>CPUID\<close>

lemma vendor_regs_values: "vendor_regs 0 = 0x524d5652" "vendor_regs 1 = 0x56524d56" "vendor_regs 2 = 0x4d56524d"
  by (simp_all add: vendor_regs_def VENDOR_STR_def read_u32_le_def)

text \<open>What the guest sees of leaf \<open>f\<close> when the processor reports \<open>c\<close>.\<close>

definition cpuid_view :: "u32 \<Rightarrow> u64 \<Rightarrow> CpuIdResult \<Rightarrow> CpuIdResult \<Rightarrow> bool" where
  "cpuid_view f sub c res \<longleftrightarrow>
     (if f = 1 then
        bit (ecx res) 31 \<and> \<not> bit (ecx res) 5 \<and>
        (\<forall>n. n \<noteq> 5 \<and> n \<noteq> 31 \<longrightarrow> bit (ecx res) n = bit (ecx c) n) \<and>
        ebx res = ebx c \<and> edx res = edx c \<and> \<not> bit (eax res) 7 \<and>
        (\<forall>n. n \<noteq> 7 \<longrightarrow> bit (eax res) n = bit (eax c) n)
      else if f = 7 \<and> sub = 0 then
        \<not> bit (ecx res) 5 \<and> \<not> bit (ecx res) 16 \<and>
        (\<forall>n. n \<noteq> 5 \<and> n \<noteq> 16 \<longrightarrow> bit (ecx res) n = bit (ecx c) n) \<and>
        eax res = eax c \<and> ebx res = ebx c \<and> edx res = edx c
      else if f = 0x40000000 then
        res = \<lparr>eax = 0x40000001, ebx = 0x524d5652, ecx = 0x56524d56, edx = 0x4d56524d\<rparr>
      else if f = 0x40000001 then res = \<lparr>eax = 0, ebx = 0, ecx = 0, edx = 0\<rparr>
      else if f = 0x16 \<and> eax c = 0 then res = c\<lparr>eax := 3000\<rparr>
      else res = c)"

lemma leaf1_bits:
  "bit (x AND - 33 OR 0x80000000 :: u32) n \<longleftrightarrow> n = 31 \<or> (n \<noteq> 5 \<and> bit x n)"
  "bit (x AND - 129 :: u32) n \<longleftrightarrow> n \<noteq> 7 \<and> bit x n"
proof -
  have p: "bit (push_bit k 1 :: u32) n \<longleftrightarrow> n = k" if "k < 32" for k
    using that by (auto simp: bit_push_bit_iff bit_1_iff simp del: push_bit_of_1)
  have bits: "bit (0x20 :: u32) n \<longleftrightarrow> n = 5" "bit (0x80000000 :: u32) n \<longleftrightarrow> n = 31"
    "bit (0x80 :: u32) n \<longleftrightarrow> n = 7"
    using p [of 5] p [of 31] p [of 7] by simp_all
  have neg: "(- 33 :: u32) = NOT 0x20" "(- 129 :: u32) = NOT 0x80" by simp_all
  show "bit (x AND - 33 OR 0x80000000) n \<longleftrightarrow> n = 31 \<or> (n \<noteq> 5 \<and> bit x n)"
    "bit (x AND - 129) n \<longleftrightarrow> n \<noteq> 7 \<and> bit x n"
    unfolding neg bit_or_iff bit_and_iff bit_not_iff bits by (auto dest: bit_imp_le_length)
qed

lemma cpuid_result_run:
  assumes "(ucast (rax regs) :: u32) \<noteq> 0xd"
  shows "\<exists>res. cpuid_result hw regs (v, m) = (Ok res, (v, m)) \<and>
    cpuid_view (ucast (rax regs)) (rcx regs)
      (hw_cpuid hw (ucast (rax regs)) (ucast (rcx regs)) m) res"
proof -
  define f :: u32 where "f = ucast (rax regs)"
  define c where "c = hw_cpuid hw f (ucast (rcx regs)) m"
  have "f \<noteq> 0xd" using assms by (simp add: f_def)
  consider "f = 1" | "f = 7" | "f = 0x40000000" | "f = 0x40000001" | "f = 0x16"
    | "f \<noteq> 1" "f \<noteq> 7" "f \<noteq> 0x40000000" "f \<noteq> 0x40000001" "f \<noteq> 0x16" by blast
  then have "\<exists>res. cpuid_result hw regs (v, m) = (Ok res, (v, m)) \<and> cpuid_view f (rcx regs) c res"
    unfolding cpuid_result_def Let_def f_def [symmetric]
    by cases (simp_all add: \<open>f \<noteq> 0xd\<close> on_hw_pair gets_def bind_def return_def c_def
        vendor_regs_values [simplified] cpuid_view_def leaf1_bits wbits)
  then show ?thesis by (simp add: c_def f_def)
qed

section \<open>Control registers\<close>

lemma handle_cr_run:
  assumes "cr_access_info hw m = (Ok info, m)"
  shows "handle_cr hw (v, m) =
    (if cr_access_type info = 0 then
       bind (if gpr info = 4 then on_hw (stack_pointer hw)
             else lift (get_reg_of_index (guest_regs v) (gpr info))) (\<lambda>val.
         if cr_number info = 0 \<or> cr_number info = 4 then
           on_hw (block
             [advance_rip hw 3, set_cr hw (ucast (cr_number info)) val,
              if cr_number info = 0 \<and> val AND CR0_PAGING \<noteq> 0 then update_efer hw else return ()])
         else panic ''access to cr not allowed'')
     else panic ''access to cr not allowed'') (v, m)"
  using assms by (simp add: handle_cr_def prog_simps Let_def)

text \<open>The fields that hold control register 0 or 4.\<close>

definition cr_fields :: "u8 \<Rightarrow> u64 \<Rightarrow> u64 \<Rightarrow> u64 \<Rightarrow> (u32 \<times> u64) list" where
  "cr_fields n real shadow owned =
     (if n = 0
      then [(VmcsGuestNW_number VmcsGuestNW.CR0, real), (VmcsControlNW_number CR0_READ_SHADOW, shadow),
            (VmcsControlNW_number CR0_GUEST_HOST_MASK, owned)]
      else [(VmcsGuestNW_number VmcsGuestNW.CR4, real), (VmcsControlNW_number CR4_READ_SHADOW, shadow),
            (VmcsControlNW_number CR4_GUEST_HOST_MASK, owned)])"

lemma cr_writes_fields:
  "cr0_writes must0 must1 val = cr_fields 0 ((val AND must0) OR must1) val (must1 OR NOT must0)"
  "cr4_writes must0 must1 val = cr_fields 4 ((val AND must0) OR must1) val (must1 OR NOT must0)"
  by (simp_all add: cr_fields_def cr0_writes_def cr4_writes_def del: field_numbers)

lemma set_cr_fields:
  assumes hw: "vmcs_current hw current" "current m"
    and f0: "hw_rdmsr hw (Msr_number Msr.IA32_VMX_CR0_FIXED1) m = Some fixed01"
      "hw_rdmsr hw (Msr_number Msr.IA32_VMX_CR0_FIXED0) m = Some fixed00"
    and f4: "hw_rdmsr hw (Msr_number Msr.IA32_VMX_CR4_FIXED1) m = Some fixed41"
      "hw_rdmsr hw (Msr_number Msr.IA32_VMX_CR4_FIXED0) m = Some fixed40"
    and n: "n = 0 \<or> n = 4"
  obtains m' real shadow owned where "set_cr hw (ucast n) val m = (Ok (), m')" "current m'"
    "wrote hw (cr_fields n real shadow owned) m m'"
    "guest_view owned shadow real = (if n = 0 then val else val OR CR4_VMXE)"
  using n
proof
  assume n: "n = 0"
  obtain m' where "set_cr hw 0 val m = (Ok (), m')" "current m'"
    "wrote hw (cr0_writes (fixed01 AND NOT (CR0_NOT_WRITE_THROUGH OR CR0_CACHE_DISABLE))
       (fixed00 AND NOT (CR0_PAGING OR CR0_PE)) val) m m'"
    by (rule writesD [OF vmcs_current.set_cr0_writes [OF hw(1) f0] hw(2)])
  with guest_view_set show ?thesis
    by (intro that [of m']) (simp_all only: n cr_writes_fields if_True unsigned_0 refl)
next
  assume n: "n = 4"
  have four: "(ucast (4 :: u8) :: usize) = 4" "(4 :: u8) = 0 \<longleftrightarrow> False" by simp_all
  obtain m' where "set_cr hw 4 val m = (Ok (), m')" "current m'"
    "wrote hw (cr4_writes fixed41 fixed40 (val OR CR4_VMXE)) m m'"
    by (rule writesD [OF vmcs_current.set_cr4_writes [OF hw(1) f4] hw(2)])
  with guest_view_set show ?thesis
    by (intro that [of m']) (simp_all only: n cr_writes_fields four if_False)
qed

text \<open>What turning paging on adds: the guest's EFER gets LMA, the entry controls get "IA-32e mode guest".\<close>

definition paging_on_writes :: "'m hw \<Rightarrow> u64 \<Rightarrow> u32 \<Rightarrow> (u32 \<times> u64) list" where
  "paging_on_writes hw efer ctl =
     [(VmcsGuest64_number VmcsGuest64.IA32_EFER, efer AND efer_all hw OR 0x400), (VmcsControl32_number VMENTRY_CONTROLS, ucast ctl)]"

lemma cr_fields_other:
  assumes "n = 0 \<or> n = 4" "wrote hw ((VmcsGuestNW_number VmcsGuestNW.RIP, ip) # cr_fields n real shadow owned) m m'"
  shows "hw_vmread hw (VmcsGuest64_number VmcsGuest64.IA32_EFER) m' = hw_vmread hw (VmcsGuest64_number VmcsGuest64.IA32_EFER) m"
    "hw_vmread hw (VmcsControl32_number VMENTRY_CONTROLS) m' = hw_vmread hw (VmcsControl32_number VMENTRY_CONTROLS) m"
  using wrote_read [OF assms(2)] assms(1) by (auto simp: cr_fields_def)

lemma paging_on_run:
  assumes cur: "vmcs_current hw current" "current m"
    and efer: "hw_vmread hw (VmcsGuest64_number VmcsGuest64.IA32_EFER) m = Inr efer"
      "hw_vmread hw (VmcsControl32_number VMENTRY_CONTROLS) m = Inr old"
    and cap: "hw_rdmsr hw (Msr_number Msr.IA32_VMX_TRUE_ENTRY_CTLS) m = Some cap"
      "\<And>n. n < 32 \<Longrightarrow> bit cap n \<Longrightarrow> bit cap (32 + n)" "bit cap 41" "bit (efer_all hw) 8" "bit (efer_all hw) 10"
  obtains m' ctl where "(if pg then update_efer hw else return ()) m = (Ok (), m')" "current m'"
    "wrote hw (if pg \<and> \<not> (bit efer 8 \<and> bit efer 10) then paging_on_writes hw efer ctl else []) m m'"
    "\<forall>n < 32. bit ctl n \<longleftrightarrow> control_bit cap (ucast old) 0x200 0 n"
proof (cases "pg \<and> \<not> (bit efer 8 \<and> bit efer 10)")
  case True
  then obtain m' ctl where "update_efer hw m = (Ok (), m')" "current m'" "wrote hw (paging_on_writes hw efer ctl) m m'"
    "\<forall>n < 32. bit ctl n \<longleftrightarrow> control_bit cap (ucast old) 0x200 0 n"
    using update_efer_spec [OF cur efer cap] unfolding paging_on_writes_def by auto
  with True show thesis by (intro that [of m' ctl]) simp_all
next
  case False
  define ctl :: u32 where "ctl = horner_sum of_bool 2 (map (control_bit cap (ucast old) 0x200 0) [0..<32])"
  have "(if pg then update_efer hw else return ()) m = (Ok (), m)"
    using False update_efer_spec [OF cur efer cap] by (auto simp: return_def)
  with False cur(2) show thesis
    by (intro that [of m ctl]) (auto simp: wrote_def ctl_def bit_horner_sum_bit_word_iff)
qed

text \<open>
  C21. Control-register accesses: a MOV to CR0 or CR4 advances RIP by
  three bytes and writes the control register with the value of the named general register (or of the
  guest stack pointer for register 4), so that the guest reads that value back. A MOV to CR0 that sets PG, in a guest whose EFER does
  not have LME and LMA both set, also sets LMA in the guest's EFER (whether or not LME is set) and "IA-32e mode guest" in the entry
  controls, as the capability MSR admits it. Nothing else changes.
  Every other kind of access (a read of a control register, CLTS, LMSW) and every other register panics and changes nothing.
\<close>

theorem handle_cr_spec:
  fixes v :: "'l VmxVcpu" and m :: 'm
  assumes hw: "vmcs_current hw current" "current m"
    and info: "cr_access_info hw m = (Ok info, m)"
    and ip: "hw_vmread hw (VmcsGuestNW_number VmcsGuestNW.RIP) m = Inr ip" "unat ip + 3 < 2 ^ 64"
    and f0: "hw_rdmsr hw (Msr_number Msr.IA32_VMX_CR0_FIXED1) m = Some fixed01"
      "hw_rdmsr hw (Msr_number Msr.IA32_VMX_CR0_FIXED0) m = Some fixed00"
    and f4: "hw_rdmsr hw (Msr_number Msr.IA32_VMX_CR4_FIXED1) m = Some fixed41"
      "hw_rdmsr hw (Msr_number Msr.IA32_VMX_CR4_FIXED0) m = Some fixed40"
    and val: "if gpr info = 4 then hw_vmread hw (VmcsGuestNW_number VmcsGuestNW.RSP) m = Inr val
       else get_reg_of_index (guest_regs v) (gpr info) = Ok val"
    and efer: "hw_vmread hw (VmcsGuest64_number VmcsGuest64.IA32_EFER) m = Inr efer"
      "hw_vmread hw (VmcsControl32_number VMENTRY_CONTROLS) m = Inr old"
    and cap: "hw_rdmsr hw (Msr_number Msr.IA32_VMX_TRUE_ENTRY_CTLS) m = Some cap"
      "\<And>n. n < 32 \<Longrightarrow> bit cap n \<Longrightarrow> bit cap (32 + n)" "bit cap 41" "bit (efer_all hw) 8" "bit (efer_all hw) 10"
  shows "if cr_access_type info \<noteq> 0 \<or> cr_number info \<notin> {0, 4}
    then handle_cr hw (v, m) = (Panic ''access to cr not allowed'', (v, m))
    else \<exists>m' real shadow owned ctl. handle_cr hw (v, m) = (Ok (), (v, m')) \<and> current m' \<and>
         wrote hw ((VmcsGuestNW_number VmcsGuestNW.RIP, ip + 3) # cr_fields (cr_number info) real shadow owned @
           (if cr_number info = 0 \<and> bit val 31 \<and> \<not> (bit efer 8 \<and> bit efer 10) then paging_on_writes hw efer ctl else [])) m m' \<and>
         guest_view owned shadow real = (if cr_number info = 0 then val else val OR CR4_VMXE) \<and>
         (\<forall>n < 32. bit ctl n \<longleftrightarrow> control_bit cap (ucast old) 0x200 0 n)"
proof -
  define source :: "('l, 'm, usize) vprog" where "source = (if gpr info = 4 then on_hw (stack_pointer hw)
       else lift (get_reg_of_index (guest_regs v) (gpr info)))"
  have get: "source (v, m) = (Ok val, (v, m))"
    using val by (auto simp: source_def stack_pointer_def field_read_defs prog_simps
        simp del: field_numbers split: if_splits)
  let ?pg = "cr_number info = 0 \<and> bit val 31"
  have run: "handle_cr hw (v, m) =
      (if cr_access_type info = 0 \<and> (cr_number info = 0 \<or> cr_number info = 4)
       then on_hw (block
             [advance_rip hw 3, set_cr hw (ucast (cr_number info)) val, if ?pg then update_efer hw else return ()]) (v, m)
       else (Panic ''access to cr not allowed'', (v, m)))"
    unfolding handle_cr_run [OF info] and_flags source_def [symmetric]
    by (cases "cr_access_type info = 0"; cases "cr_number info = 0 \<or> cr_number info = 4")
      (simp_all only: if_True if_False bind_simps(1) [where p = source, OF get] simp_thms panic_def)
  show ?thesis
  proof (cases "cr_access_type info \<noteq> 0 \<or> cr_number info \<notin> {0, 4}")
    case True
    then show ?thesis using run by auto
  next
    case False
    then have n: "cr_number info = 0 \<or> cr_number info = 4" and acc: "cr_access_type info = 0" by auto
    obtain m1 where m1: "advance_rip hw 3 m = (Ok (), m1)" "current m1"
      "wrote hw [(VmcsGuestNW_number VmcsGuestNW.RIP, ip + 3)] m m1"
      using vmcs_current.advance_rip_ok [OF hw ip(1), of 3] ip(2) by auto
    have hv: "host_view hw m1 = host_view hw m" using m1(3) by (rule wrote_host)
    note fixed = f0 [folded host_viewD(1) [OF hv]] f4 [folded host_viewD(1) [OF hv]]
    obtain m2 real shadow owned where m2: "set_cr hw (ucast (cr_number info)) val m1 = (Ok (), m2)"
      "current m2" "wrote hw (cr_fields (cr_number info) real shadow owned) m1 m2"
      "guest_view owned shadow real = (if cr_number info = 0 then val else val OR CR4_VMXE)"
      by (rule set_cr_fields [OF hw(1) m1(2) fixed n])
    let ?ws = "(VmcsGuestNW_number VmcsGuestNW.RIP, ip + 3) # cr_fields (cr_number info) real shadow owned"
    have ws: "wrote hw ?ws m m2" using wrote_append [OF m1(3) m2(3)] by (simp del: field_numbers)
    note same = cr_fields_other [OF n ws] and cap' = cap(1) [folded host_viewD(1) [OF wrote_host [OF ws]]]
    obtain m' ctl where m': "(if ?pg then update_efer hw else return ()) m2 = (Ok (), m')" "current m'"
      "wrote hw (if ?pg \<and> \<not> (bit efer 8 \<and> bit efer 10) then paging_on_writes hw efer ctl else []) m2 m'"
      "\<forall>n < 32. bit ctl n \<longleftrightarrow> control_bit cap (ucast old) 0x200 0 n"
      by (rule paging_on_run [OF hw(1) m2(2) efer [folded same] cap' cap(2-5)]) (assumption, assumption, rule that)
    have "handle_cr hw (v, m) = (Ok (), (v, m'))"
      using acc n m1(1) m2(1) m'(1) by (simp add: run bind_def on_hw_pair return_def)
    moreover have "wrote hw (?ws @ (if ?pg \<and> \<not> (bit efer 8 \<and> bit efer 10) then paging_on_writes hw efer ctl else [])) m m'"
      using wrote_append [OF ws m'(3)] .
    ultimately show ?thesis using False m'(2,4) m2(4) unfolding append_Cons by (simp only: if_False conj_assoc) blast
  qed
qed

lemma ref_entry_cap:
  "hw_rdmsr ref_hw (Msr_number Msr.IA32_VMX_TRUE_ENTRY_CTLS) ref_machine = Some 0xffffffff000011fb"
  "n < 32 \<Longrightarrow> bit (0xffffffff000011fb :: u64) (32 + n)" "bit (0xffffffff000011fb :: u64) 41"
  "bit (efer_all ref_hw) 8" "bit (efer_all ref_hw) 10"
proof -
  have cap: "(0xffffffff000011fb :: u64) = push_bit 32 (mask 32) OR 0x11fb" by (simp add: mask_eq_exp_minus_1)
  show "n < 32 \<Longrightarrow> bit (0xffffffff000011fb :: u64) (32 + n)" "bit (0xffffffff000011fb :: u64) 41"
    by (simp_all only: cap bit_or_iff bit_push_bit_iff bit_mask_iff) simp_all
qed (simp_all add: ref_machine_def bit_numeral_rec)

theorem handle_cr_spec_witness:
  "let v = ref_vcpu\<lparr>guest_regs := GeneralRegisters_default\<lparr>rax := 0x80000011\<rparr>\<rparr> in
   \<exists>m' real shadow owned. handle_cr ref_hw (v, ref_machine) = (Ok (), (v, m')) \<and>
     hw_vmread ref_hw (VmcsGuestNW_number VmcsGuestNW.CR0) m' = Inr real \<and>
     hw_vmread ref_hw (VmcsGuest64_number VmcsGuest64.IA32_EFER) m' = Inr 0x400 \<and>
     guest_view owned shadow real = 0x80000011"
proof -
  let ?v = "ref_vcpu\<lparr>guest_regs := GeneralRegisters_default\<lparr>rax := 0x80000011\<rparr>\<rparr>"
  let ?info = "\<lparr>cr_number = 0, cr_access_type = 0, lmsw_op_type = 0, gpr = 0, lmsw_source_data = 0\<rparr>"
  have cur: "(\<lambda>m. m_cur m \<noteq> None) ref_machine" by (simp add: ref_machine_def)
  have rd: "hw_vmread ref_hw f ref_machine = Inr 0" for f by (simp add: ref_machine_def ref_vmread_def)
  have info: "cr_access_info ref_hw ref_machine = (Ok ?info, ref_machine)"
    by (simp add: cr_access_info_def field_read_defs prog_simps rd [simplified] get_bits_def)
  have ip: "unat (0 :: u64) + 3 < 2 ^ 64" by simp
  have msrs: "hw_rdmsr ref_hw (Msr_number Msr.IA32_VMX_CR0_FIXED1) ref_machine = Some 0xffffffff"
    "hw_rdmsr ref_hw (Msr_number Msr.IA32_VMX_CR0_FIXED0) ref_machine = Some 0x80000021"
    "hw_rdmsr ref_hw (Msr_number Msr.IA32_VMX_CR4_FIXED1) ref_machine = Some 0x3727ff"
    "hw_rdmsr ref_hw (Msr_number Msr.IA32_VMX_CR4_FIXED0) ref_machine = Some 0x2000"
    by (simp_all add: ref_machine_def)
  have val: "if gpr ?info = 4 then hw_vmread ref_hw (VmcsGuestNW_number VmcsGuestNW.RSP) ref_machine = Inr 0x80000011
      else get_reg_of_index (guest_regs ?v) (gpr ?info) = Ok 0x80000011"
    by (simp add: get_reg_of_index_def)
  have pg: "bit (0x80000011 :: u64) 31" by (simp add: bit_numeral_rec)
  obtain m' real shadow owned ctl where r: "handle_cr ref_hw (?v, ref_machine) = (Ok (), (?v, m'))"
    "wrote ref_hw ((VmcsGuestNW_number VmcsGuestNW.RIP, 0 + 3) # cr_fields 0 real shadow owned @ paging_on_writes ref_hw 0 ctl)
       ref_machine m'"
    "guest_view owned shadow real = 0x80000011"
    using handle_cr_spec [OF ref_current.vmcs_current_axioms cur info rd ip msrs val rd rd ref_entry_cap] pg
    by (auto simp del: field_numbers)
  have "hw_vmread ref_hw (VmcsGuestNW_number VmcsGuestNW.CR0) m' = Inr real"
    "hw_vmread ref_hw (VmcsGuest64_number VmcsGuest64.IA32_EFER) m' = Inr 0x400"
    using wrote_read [OF r(2)] by (simp_all add: cr_fields_def paging_on_writes_def)
  with r(1,3) show ?thesis by (auto simp: Let_def)
qed

end
