(* ===== verification/VcpuExits.thy ===== *)
theory VcpuExits
  imports VcpuRun
begin

text \<open>
  What the handlers and \<open>run\<close> report: which exits the vCPU handles itself, the accesses to the emulated
  x2APIC through EDX:EAX, and the exit reasons for the caller. The access widths of \<open>axaddrspace\<close> are the
  locale \<open>access_widths\<close>.
\<close>

section \<open>EDX:EAX\<close>

lemma bit_read_edx_eax:
  "bit (read_edx_eax r) n \<longleftrightarrow> (if n < 32 then bit (rax r) n else n < 64 \<and> bit (rdx r) (n - 32))"
proof -
  have low: "(0xffffffff :: u64) = mask 32" by (simp add: mask_eq_exp_minus_1)
  show ?thesis
    unfolding read_edx_eax_def low by (auto simp: bit_simps dest: bit_imp_le_length)
qed

lemma read_write_edx_eax: "read_edx_eax (write_edx_eax val r) = val"
proof -
  have low: "(0xffffffff :: u64) = mask 32" by (simp add: mask_eq_exp_minus_1)
  show ?thesis
    by (rule bit_word_eqI, unfold bit_read_edx_eax write_edx_eax_def low)
      (auto simp: bit_simps dest: bit_imp_le_length)
qed

lemma read_edx_eax_eq: "read_edx_eax r = get_edx_eax r"
  by (rule bit_word_eqI)
    (auto simp: bit_read_edx_eax get_edx_eax_def reg32_def subreg_bits bit_simps dest: bit_imp_le_length)

text \<open>
  C36. EDX:EAX: \<open>read_edx_eax\<close> of the vCPU computes the same value as \<open>get_edx_eax\<close> of the register file;
  a value that is written is read back, the write clears the upper halves of RAX and RDX and touches no
  other register, and writing back what was read changes nothing but those upper halves.
\<close>

theorem edx_eax_roundtrip:
  "read_edx_eax r = get_edx_eax r \<and>
   read_edx_eax (write_edx_eax val r) = val \<and>
   drop_bit 32 (rax (write_edx_eax val r)) = 0 \<and> drop_bit 32 (rdx (write_edx_eax val r)) = 0 \<and>
   write_edx_eax val r = r\<lparr>rax := rax (write_edx_eax val r), rdx := rdx (write_edx_eax val r)\<rparr> \<and>
   write_edx_eax (read_edx_eax r) r = r\<lparr>rax := take_bit 32 (rax r), rdx := take_bit 32 (rdx r)\<rparr>"
proof (intro conjI)
  have low: "(0xffffffff :: u64) = mask 32" by (simp add: mask_eq_exp_minus_1)
  show "read_edx_eax r = get_edx_eax r" by (rule read_edx_eax_eq)
  show "read_edx_eax (write_edx_eax val r) = val" by (rule read_write_edx_eax)
  show "drop_bit 32 (rax (write_edx_eax val r)) = 0" "drop_bit 32 (rdx (write_edx_eax val r)) = 0"
    unfolding write_edx_eax_def low
    by (auto intro!: bit_word_eqI simp: bit_simps dest: bit_imp_le_length)
  show "write_edx_eax val r = r\<lparr>rax := rax (write_edx_eax val r), rdx := rdx (write_edx_eax val r)\<rparr>"
    by (simp add: write_edx_eax_def)
  have "read_edx_eax r AND mask 32 = take_bit 32 (rax r)" "drop_bit 32 (read_edx_eax r) = take_bit 32 (rdx r)"
    by (auto intro!: bit_word_eqI simp: bit_simps bit_read_edx_eax dest: bit_imp_le_length)
  then show "write_edx_eax (read_edx_eax r) r = r\<lparr>rax := take_bit 32 (rax r), rdx := take_bit 32 (rdx r)\<rparr>"
    by (simp only: write_edx_eax_def low)
qed

section \<open>x2APIC registers\<close>

text \<open>
  C25. RDMSR and WRMSR of an x2APIC register: RIP advances by two bytes first, also when the emulated APIC
  then fails. A write hands the APIC the value of EDX:EAX and returns its result; a read that succeeds
  leaves the value in EDX:EAX and every other register alone; a read that fails returns the error of the
  APIC with the registers unchanged.
\<close>

theorem handle_apic_msr_access_spec:
  assumes hw: "vmcs_current hw current" "current m"
    and ip: "hw_vmread hw (VmcsGuestNW_number VmcsGuestNW.RIP) m = Inr ip" "unat ip + 2 < 2 ^ 64"
  shows "\<exists>m1. current m1 \<and> wrote hw [(VmcsGuestNW_number VmcsGuestNW.RIP, ip + 2)] m m1 \<and>
    (\<forall>res l m2. vlapic_write dev (ucast msr) Qword (get_edx_eax (guest_regs v)) (vlapic v, m1) =
        (res, (l, m2)) \<longrightarrow>
      handle_apic_msr_access hw dev True msr (v, m) = (res, (v\<lparr>vlapic := l\<rparr>, m2))) \<and>
    (\<forall>val l m2. vlapic_read dev (ucast msr) Qword (vlapic v, m1) = (Ok val, (l, m2)) \<longrightarrow>
      (\<exists>regs. handle_apic_msr_access hw dev False msr (v, m) =
         (Ok (), (v\<lparr>guest_regs := regs, vlapic := l\<rparr>, m2)) \<and> get_edx_eax regs = val \<and>
         regs = (guest_regs v)\<lparr>rax := rax regs, rdx := rdx regs\<rparr>)) \<and>
    (\<forall>e l m2. vlapic_read dev (ucast msr) Qword (vlapic v, m1) = (Err e, (l, m2)) \<longrightarrow>
      handle_apic_msr_access hw dev False msr (v, m) = (Err e, (v\<lparr>vlapic := l\<rparr>, m2)))"
proof -
  obtain m1 where m1: "advance_rip hw 2 m = (Ok (), m1)" "current m1"
    "wrote hw [(VmcsGuestNW_number VmcsGuestNW.RIP, ip + 2)] m m1"
    using vmcs_current.advance_rip_ok [OF hw ip(1), of 2] ip(2) by auto
  have eq: "read_edx_eax (guest_regs v) = get_edx_eax (guest_regs v)" by (rule read_edx_eax_eq)
  have regs: "get_edx_eax (write_edx_eax val r) = val"
    "write_edx_eax val r = r\<lparr>rax := rax (write_edx_eax val r), rdx := rdx (write_edx_eax val r)\<rparr>" for val r
    using read_write_edx_eax [of val r] by (simp_all add: read_edx_eax_eq write_edx_eax_def)
  show ?thesis
  proof (intro exI [of _ m1] conjI allI impI m1(2,3))
    fix res l m2
    assume "vlapic_write dev (ucast msr) Qword (get_edx_eax (guest_regs v)) (vlapic v, m1) = (res, (l, m2))"
    then show "handle_apic_msr_access hw dev True msr (v, m) = (res, (v\<lparr>vlapic := l\<rparr>, m2))"
      using m1(1) by (simp add: handle_apic_msr_access_def prog_simps eq)
  next
    fix val l m2
    assume "vlapic_read dev (ucast msr) Qword (vlapic v, m1) = (Ok val, (l, m2))"
    then have "handle_apic_msr_access hw dev False msr (v, m) =
        (Ok (), (v\<lparr>guest_regs := write_edx_eax val (guest_regs v), vlapic := l\<rparr>, m2))"
      using m1(1) by (simp add: handle_apic_msr_access_def prog_simps)
    with regs show "\<exists>regs. handle_apic_msr_access hw dev False msr (v, m) =
         (Ok (), (v\<lparr>guest_regs := regs, vlapic := l\<rparr>, m2)) \<and> get_edx_eax regs = val \<and>
         regs = (guest_regs v)\<lparr>rax := rax regs, rdx := rdx regs\<rparr>"
      by blast
  next
    fix e l m2
    assume "vlapic_read dev (ucast msr) Qword (vlapic v, m1) = (Err e, (l, m2))"
    then show "handle_apic_msr_access hw dev False msr (v, m) = (Err e, (v\<lparr>vlapic := l\<rparr>, m2))"
      using m1(1) by (simp add: handle_apic_msr_access_def prog_simps)
  qed
qed

theorem handle_apic_msr_access_spec_witness:
  "let v = ref_vcpu\<lparr>guest_regs := GeneralRegisters_default\<lparr>rax := 0x1ff\<rparr>\<rparr> in
   \<exists>m1 regs. handle_apic_msr_access ref_hw ref_dev True 0x80f (v, ref_machine) =
       (Ok (), (v\<lparr>vlapic := (\<lambda>_. 0)(0x80f := 0x1ff)\<rparr>, m1)) \<and>
     handle_apic_msr_access ref_hw ref_dev False 0x80f (v, ref_machine) =
       (Ok (), (v\<lparr>guest_regs := regs, vlapic := \<lambda>_. 0\<rparr>, m1)) \<and> get_edx_eax regs = 0"
proof -
  define v where "v = ref_vcpu\<lparr>guest_regs := GeneralRegisters_default\<lparr>rax := 0x1ff\<rparr>\<rparr>"
  have cur: "(\<lambda>m. m_cur m \<noteq> None) ref_machine" by (simp add: ref_machine_def)
  have ip: "hw_vmread ref_hw (VmcsGuestNW_number VmcsGuestNW.RIP) ref_machine = Inr 0"
    "unat (0 :: u64) + 2 < 2 ^ 64"
    by (simp_all add: ref_machine_def ref_vmread_def)
  have v: "get_edx_eax (guest_regs v) = 0x1ff" "vlapic v = (\<lambda>_. 0)"
    by (simp_all add: v_def read_edx_eax_def GeneralRegisters_default_def ref_vcpu_def flip: read_edx_eax_eq)
  have dev: "vlapic_write ref_dev 0x80f Qword 0x1ff (\<lambda>_. 0, m1) = (Ok (), ((\<lambda>_. 0)(0x80f := 0x1ff), m1))"
    "vlapic_read ref_dev 0x80f Qword (\<lambda>_. 0, m1) = (Ok 0, (\<lambda>_. 0, m1))" for m1 :: refm
    by (simp_all add: ref_dev_def modify_def return_def)
  show ?thesis
    unfolding Let_def v_def [symmetric]
    using handle_apic_msr_access_spec [OF ref_current.vmcs_current_axioms cur ip,
        where dev = ref_dev and msr = "0x80f" and v = v]
    by (auto simp: dev v)
qed

section \<open>Exits the vCPU handles itself\<close>

definition builtin_exit :: "'l VmxVcpu \<Rightarrow> VmxExitInfo \<Rightarrow> bool" where
  "builtin_exit v info \<longleftrightarrow>
     exit_reason info \<in> {INTERRUPT_WINDOW, PREEMPTION_TIMER, XSETBV, CR_ACCESS, CPUID, APIC_ACCESS} \<or>
     exit_reason info \<in> {MSR_READ, MSR_WRITE} \<and>
       (ucast (rcx (guest_regs v)) :: u32) \<in> {0x800 .. 0x8ff}"

text \<open>
  C20. The caller sees an exit exactly when the vCPU does not handle it: the built-in handler passes an exit
  on precisely when its reason is none of the six built-in ones and no access to an x2APIC register, and
  then neither the vCPU nor the machine has changed; on every other exit it never returns "not handled".
\<close>

theorem builtin_vmexit_handler_passes:
  "builtin_vmexit_handler hw dev info (v, m) = (Ok None, st) \<longleftrightarrow> \<not> builtin_exit v info \<and> st = (v, m)"
proof (cases "builtin_exit v info")
  case True
  then show ?thesis
    unfolding builtin_vmexit_handler_def builtin_exit_def Let_def
    by (auto simp: handled_not_None)
next
  case False
  then show ?thesis
    unfolding builtin_vmexit_handler_def builtin_exit_def Let_def
    by (auto simp: return_def)
qed

section \<open>Exit reasons for the caller\<close>

primrec width_bytes :: "AccessWidth \<Rightarrow> nat" where
  "width_bytes Byte = 1"
| "width_bytes Word = 2"
| "width_bytes Dword = 4"
| "width_bytes Qword = 8"

definition width_of_bytes :: "nat \<Rightarrow> AccessWidth option" where
  "width_of_bytes n =
     (if n = 1 then Some Byte else if n = 2 then Some Word else if n = 4 then Some Dword
      else if n = 8 then Some Qword else None)"

lemma width_of_bytes_Some: "width_of_bytes n = Some w \<longleftrightarrow> n = width_bytes w"
  by (cases w) (auto simp: width_of_bytes_def)

locale access_widths =
  fixes dev :: "('l, 'm) dev"
  assumes try_from: "width_try_from dev n = width_of_bytes (unat n)"
    and bits_range: "width_bits_range dev w = (0, 8 * width_bytes w)"
begin

text \<open>The exit reason of a port access, from the exit qualification and RAX.\<close>

lemma io_exit_reason_eq:
  assumes "unat (access_size io) = unat (take_bit 3 q) + 1"
  shows "io_exit_reason dev io regs =
    (if is_repeat io \<or> is_string io then Halt
     else case width_of_bytes (unat (take_bit 3 q) + 1) of
            None \<Rightarrow> Halt
          | Some w \<Rightarrow>
              if is_in io then IoRead (port io) w
              else if port io = 0x604 \<and> w = Word \<and> rax regs = 0x2000 then SystemDown
              else IoWrite (port io) w (take_bit (8 * width_bytes w) (rax regs)))"
proof -
  have "unat (ucast (access_size io) :: usize) = unat (access_size io)"
    by (rule unat_ucast_u8)
  then show ?thesis
    by (auto simp: io_exit_reason_def try_from bits_range assms get_bits_def take_bit_eq_mask
        split: option.splits)
qed

end

interpretation ref_widths: access_widths ref_dev
proof unfold_locales
  fix n :: usize and w
  show "width_try_from ref_dev n = width_of_bytes (unat n)"
    by (simp add: ref_dev_def width_of_bytes_def word_unat_eq_iff)
  show "width_bits_range ref_dev w = (0, 8 * width_bytes w)"
    by (cases w) (simp_all add: ref_dev_def)
qed

text \<open>
  C40. Port accesses: the exit reason \<open>run\<close> reports for a port access follows the exit qualification: string and repeated
  accesses and widths other than 1, 2, 4 and 8 bytes are reported as a halt, an input with port and width,
  an output with port, width and the low bytes of RAX, and the 16-bit output of 0x2000 to port 0x604 as a
  system shutdown; RIP moves past the instruction and nothing else changes, also for a reported halt.
\<close>

theorem run_exit_io:
  assumes hw: "vmcs_current hw current" "current m" and dev: "access_widths dev"
    and q: "hw_vmread hw (VmcsReadOnlyNW_number EXIT_QUALIFICATION) m = Inr q"
    and ip: "hw_vmread hw (VmcsGuestNW_number VmcsGuestNW.RIP) m = Inr ip"
    and len: "unat ip + unat (ucast (exit_instruction_length info) :: u8) < 2 ^ 64"
    and info: "exit_reason info = IO_INSTRUCTION" "\<not> entry_failure info"
  shows "\<exists>m'. current m' \<and>
      wrote hw [(VmcsGuestNW_number VmcsGuestNW.RIP, ip + ucast (ucast (exit_instruction_length info) :: u8))] m m' \<and>
    run_exit hw dev info (v, m) =
      (Ok (if bit q 5 \<or> bit q 4 then Halt
           else case width_of_bytes (unat (take_bit 3 q) + 1) of
             None \<Rightarrow> Halt
           | Some w \<Rightarrow>
               let p = ucast (drop_bit 16 q); a = rax (guest_regs v) in
               if bit q 3 then IoRead p w
               else if p = 0x604 \<and> w = Word \<and> a = 0x2000 then SystemDown
               else IoWrite p w (take_bit (8 * width_bytes w) a)), (v, m'))"
proof -
  obtain io where io: "io_exit_info hw m = (Ok io, m)" "unat (access_size io) = unat (take_bit 3 q) + 1"
    "is_in io = bit q 3" "is_string io = bit q 4" "is_repeat io = bit q 5" "port io = ucast (drop_bit 16 q)"
    using io_exit_info_run [OF q] by (elim exE conjE) (rule that)
  obtain m' where m': "advance_rip hw (ucast (exit_instruction_length info)) m = (Ok (), m')" "current m'"
    "wrote hw [(VmcsGuestNW_number VmcsGuestNW.RIP, ip + ucast (ucast (exit_instruction_length info) :: u8))] m m'"
    using vmcs_current.advance_rip_ok [OF hw ip len] by (elim exE conjE) (rule that)
  have "IO_INSTRUCTION \<noteq> VMCALL" by (simp flip: VmxExitReason_number_inject)
  then have "run_exit hw dev info (v, m) = (Ok (io_exit_reason dev io (guest_regs v)), (v, m'))"
    using info io(1) m'(1) by (simp add: run_exit_def prog_simps unwrap_simps Let_def)
  then show ?thesis
    using m'(2,3) access_widths.io_exit_reason_eq [OF dev io(2)] io
    by (intro exI [of _ m']) (simp only: Let_def)
qed

theorem run_exit_io_witness:
  "let m = ref_machine\<lparr>m_vmcs := (\<lambda>_ _. 0)(0x2000 := (\<lambda>_. 0)(0x6400 := 0x06040001))\<rparr>;
       v = ref_vcpu\<lparr>guest_regs := GeneralRegisters_default\<lparr>rax := 0x2000\<rparr>\<rparr> in
   \<exists>m'. run_exit ref_hw ref_dev
       \<lparr>entry_failure = False, exit_reason = IO_INSTRUCTION, exit_instruction_length = 1, guest_rip = 0\<rparr>
       (v, m) = (Ok SystemDown, (v, m'))"
proof -
  define m where "m = ref_machine\<lparr>m_vmcs := (\<lambda>_ _. 0)(0x2000 := (\<lambda>_. 0)(0x6400 := 0x06040001))\<rparr>"
  define v where "v = ref_vcpu\<lparr>guest_regs := GeneralRegisters_default\<lparr>rax := 0x2000\<rparr>\<rparr>"
  let ?info = "\<lparr>entry_failure = False, exit_reason = IO_INSTRUCTION, exit_instruction_length = 1, guest_rip = 0\<rparr>"
  have cur: "(\<lambda>m. m_cur m \<noteq> None) m" by (simp add: m_def ref_machine_def)
  have fields: "hw_vmread ref_hw (VmcsReadOnlyNW_number EXIT_QUALIFICATION) m = Inr 0x06040001"
    "hw_vmread ref_hw (VmcsGuestNW_number VmcsGuestNW.RIP) m = Inr 0"
    by (simp_all add: m_def ref_vmread_def ref_machine_def)
  have len: "unat (0 :: u64) + unat (ucast (exit_instruction_length ?info) :: u8) < 2 ^ 64"
    and info: "exit_reason ?info = IO_INSTRUCTION" "\<not> entry_failure ?info" by simp_all
  have "rax (guest_regs v) = 0x2000" by (simp add: v_def)
  then show ?thesis
    unfolding Let_def m_def [symmetric] v_def [symmetric]
    using run_exit_io [OF ref_current.vmcs_current_axioms cur ref_widths.access_widths_axioms fields len info,
        where v = v]
    by (auto simp: width_of_bytes_def bit_numeral_rec)
qed

section \<open>Every exit that is reported\<close>

context vmcs_current
begin

lemma run_exit_vmcall:
  assumes "current m" "hw_vmread hw (VmcsGuestNW_number VmcsGuestNW.RIP) m = Inr ip"
    "unat ip + unat (ucast (exit_instruction_length info) :: u8) < 2 ^ 64"
    "exit_reason info = VMCALL" "\<not> entry_failure info"
  shows "\<exists>m'. current m' \<and>
      wrote hw [(VmcsGuestNW_number VmcsGuestNW.RIP, ip + ucast (ucast (exit_instruction_length info) :: u8))] m m' \<and>
      run_exit hw dev info (v, m) = (Ok (let r = guest_regs v in
        Hypercall (rax r) [rdi r, rsi r, rdx r, rcx r, r8 r, r9 r]), (v, m'))"
  using advance_rip_ok [OF assms(1-3)] assms(4,5)
  by (elim exE conjE) (simp add: run_exit_def prog_simps Let_def)

lemma run_exit_interrupt:
  assumes "current m" "hw_vmread hw (VmcsReadOnly32_number VMEXIT_INTERRUPTION_INFO) m = Inr i"
    "exit_reason info = EXTERNAL_INTERRUPT" "\<not> entry_failure info"
  shows "run_exit hw dev info (v, m) =
    (if bit i 31 then Ok (ExternalInterrupt (take_bit 8 i)) else Panic ''assertion failed: int_info.valid'', (v, m))"
proof -
  obtain e where e: "hw_vmread hw (VmcsReadOnly32_number VMEXIT_INTERRUPTION_ERR_CODE) m = Inr e"
    using current_read [OF assms(1)] declared_number by blast
  obtain t where "interrupt_exit_info hw m =
      (Ok \<lparr>int_vector = ucast (get_bits (ucast i :: u32) 0 8), int_type = t,
           int_err_code = (if get_bit (ucast i :: u32) 11 then Some (ucast e) else None),
           int_valid = get_bit (ucast i :: u32) 31\<rparr>, m)"
    using interrupt_exit_info_run [OF assms(2) e] by blast
  then have "on_hw (interrupt_exit_info hw) (v, m) =
      (Ok \<lparr>int_vector = ucast (get_bits (ucast i :: u32) 0 8), int_type = t,
           int_err_code = (if get_bit (ucast i :: u32) 11 then Some (ucast e) else None),
           int_valid = get_bit (ucast i :: u32) 31\<rparr>, (v, m))"
    by (rule on_hw_simps)
  moreover have "(ucast (ucast (get_bits (ucast i :: u32) 0 8) :: u8) :: u64) = take_bit 8 i"
    by (rule bit_word_eqI) (auto simp: get_bits_def bit_simps wbits)
  moreover have "get_bit (ucast i :: u32) 31 \<longleftrightarrow> bit i 31" by (simp add: get_bit_def bit_simps)
  moreover have "EXTERNAL_INTERRUPT \<noteq> VMCALL" "EXTERNAL_INTERRUPT \<noteq> IO_INSTRUCTION"
    by (simp_all flip: VmxExitReason_number_inject)
  ultimately show ?thesis
    using assms(3,4) by (simp add: run_exit_def bind_def self_def gets_def return_def panic_def)
qed

end

text \<open>
  C24. Every exit the caller sees, other than a port access: a failed entry, a hypercall with its number and six
  arguments (and RIP past the instruction), an external interrupt with its vector, an access to a
  model-specific register, with EDX:EAX for a write, and a halt for all others. Only a hypercall moves RIP; the
  registers of the vCPU never change. An external interrupt without valid interruption information panics.
\<close>

theorem run_exit_spec:
  assumes hw: "vmcs_current hw current" "current m"
    and f: "hw_vmread hw (VmcsGuestNW_number VmcsGuestNW.RIP) m = Inr ip"
      "hw_vmread hw (VmcsReadOnly32_number VMEXIT_INTERRUPTION_INFO) m = Inr i"
    and len: "unat ip + unat (ucast (exit_instruction_length info) :: u8) < 2 ^ 64"
    and no_io: "exit_reason info \<noteq> IO_INSTRUCTION"
  shows "let r = guest_regs v in
    if entry_failure info then run_exit hw dev info (v, m) = (Ok (FailEntry 0), (v, m))
    else if exit_reason info = VMCALL then
      \<exists>m'. current m' \<and>
        wrote hw [(VmcsGuestNW_number VmcsGuestNW.RIP, ip + ucast (ucast (exit_instruction_length info) :: u8))] m m' \<and>
        run_exit hw dev info (v, m) = (Ok (Hypercall (rax r) [rdi r, rsi r, rdx r, rcx r, r8 r, r9 r]), (v, m'))
    else run_exit hw dev info (v, m) =
      (if exit_reason info = EXTERNAL_INTERRUPT then
         if bit i 31 then Ok (ExternalInterrupt (take_bit 8 i)) else Panic ''assertion failed: int_info.valid''
       else if exit_reason info = MSR_READ then Ok (SysRegRead (rcx r) 0)
       else if exit_reason info = MSR_WRITE then Ok (SysRegWrite (rcx r) (get_edx_eax r))
       else Ok Halt, (v, m))"
proof -
  have edx_eax: "(rax r AND 0xffffffff) OR push_bit 32 (rdx r AND 0xffffffff) = get_edx_eax r" for r :: GeneralRegisters
    using read_edx_eax_eq [of r] by (simp add: read_edx_eax_def or.commute)
  have plain: "run_exit hw dev info (v, m) =
      (if exit_reason info = MSR_READ then Ok (SysRegRead (rcx (guest_regs v)) 0)
       else if exit_reason info = MSR_WRITE then Ok (SysRegWrite (rcx (guest_regs v)) (get_edx_eax (guest_regs v)))
       else Ok Halt, (v, m))"
    if "\<not> entry_failure info" "exit_reason info \<noteq> VMCALL" "exit_reason info \<noteq> EXTERNAL_INTERRUPT"
    using that no_io edx_eax [of "guest_regs v"] by (simp add: run_exit_def return_def Let_def)
  have failed: "run_exit hw dev info (v, m) = (Ok (FailEntry 0), (v, m))" if "entry_failure info"
    using that by (simp add: run_exit_def return_def)
  show ?thesis
    using failed plain
      vmcs_current.run_exit_vmcall [OF hw f(1) len, of dev v, unfolded Let_def]
      vmcs_current.run_exit_interrupt [OF hw f(2), of info dev v]
    unfolding Let_def by (simp del: field_numbers)
qed

theorem run_exit_spec_witness:
  "let m = ref_machine\<lparr>m_vmcs := (\<lambda>_ _. 0)(0x2000 := (\<lambda>_. 0)(0x4404 := 0x80000021))\<rparr>;
       info = \<lparr>entry_failure = False, exit_reason = EXTERNAL_INTERRUPT, exit_instruction_length = 0, guest_rip = 0\<rparr> in
   run_exit ref_hw ref_dev info (ref_vcpu, m) = (Ok (ExternalInterrupt 0x21), (ref_vcpu, m))"
proof -
  define m where "m = ref_machine\<lparr>m_vmcs := (\<lambda>_ _. 0)(0x2000 := (\<lambda>_. 0)(0x4404 := 0x80000021))\<rparr>"
  let ?info = "\<lparr>entry_failure = False, exit_reason = EXTERNAL_INTERRUPT, exit_instruction_length = 0, guest_rip = 0\<rparr>"
  have cur: "(\<lambda>m. m_cur m \<noteq> None) m" by (simp add: m_def ref_machine_def)
  have f: "hw_vmread ref_hw (VmcsGuestNW_number VmcsGuestNW.RIP) m = Inr 0"
    "hw_vmread ref_hw (VmcsReadOnly32_number VMEXIT_INTERRUPTION_INFO) m = Inr 0x80000021"
    by (simp_all add: m_def ref_vmread_def ref_machine_def)
  have reasons: "EXTERNAL_INTERRUPT \<noteq> VMCALL" "EXTERNAL_INTERRUPT \<noteq> IO_INSTRUCTION"
    by (simp_all flip: VmxExitReason_number_inject)
  have "unat (0 :: u64) + unat (ucast (exit_instruction_length ?info) :: u8) < 2 ^ 64"
    "exit_reason ?info \<noteq> IO_INSTRUCTION" by (simp_all add: reasons)
  from run_exit_spec [OF ref_current.vmcs_current_axioms cur f this, of ref_vcpu ref_dev] show ?thesis
    unfolding Let_def m_def [symmetric] by (simp add: reasons bit_numeral_rec)
qed

end
