(* ===== verification/VcpuEvents.thy ===== *)
theory VcpuEvents
  imports VcpuRun
begin

text \<open>
  Events for the guest: \<open>queue_event\<close> and \<open>inject_interrupt\<close> append to the queue of pending events,
  \<open>inject_pending_events\<close> takes at most one event from its front before a VM entry, or opens the interrupt
  window when the guest blocks interrupts.
\<close>

section \<open>The interrupt window\<close>

lemma u32_through_field: "(ucast (ucast (x :: u32) :: u64) :: u32) = x"
  by (rule bit_word_eqI) (auto simp: bit_simps)

context vmcs_current
begin

lemma set_interrupt_window_run:
  assumes "current m" "hw_vmread hw (VmcsControl32_number PRIMARY_PROCBASED_EXEC_CONTROLS) m = Inr ctrl"
  shows "\<exists>m'. set_interrupt_window hw enable m = (Ok (), m') \<and> current m' \<and>
    wrote hw [(VmcsControl32_number PRIMARY_PROCBASED_EXEC_CONTROLS,
      ucast (set_bit_to (ucast ctrl :: u32) 2 enable))] m m'"
proof -
  let ?val = "set_bit_to (ucast ctrl :: u32) 2 enable"
  obtain m' where m': "VmcsControl32_write hw PRIMARY_PROCBASED_EXEC_CONTROLS ?val m = (Ok (), m')"
    "current m'" "wrote hw [(VmcsControl32_number PRIMARY_PROCBASED_EXEC_CONTROLS, ucast ?val)] m m'"
    using VmcsControl32_write_run [OF assms(1), of PRIMARY_PROCBASED_EXEC_CONTROLS ?val]
    by (elim exE conjE) (rule that)
  have "set_interrupt_window hw enable m = (Ok (), m')"
    using assms(2) m'(1)
    by (cases enable)
      (simp_all add: set_interrupt_window_def field_read_defs prog_simps set_bit_to_def del: field_numbers)
  with m'(2,3) show ?thesis by blast
qed

end

section \<open>Injection\<close>

text \<open>
  The effect of injecting an event: the writes of \<open>inject_event\<close>, with the vector of the event in the
  interruption information.
\<close>

definition injects :: "'m hw \<Rightarrow> u8 \<times> u32 option \<Rightarrow> 'm \<Rightarrow> 'm \<Rightarrow> bool" where
  "injects hw event m m' \<longleftrightarrow>
     (\<exists>exit_err exit_len info.
        wrote hw (injection_writes (fst event) (snd event) exit_err exit_len info) m m' \<and>
        get_bits info 0 8 = ucast (fst event) \<and> bit info 31)"

text \<open>The guest accepts an interrupt: RFLAGS.IF is set and nothing blocks interrupts.\<close>

definition guest_accepts :: "'m hw \<Rightarrow> 'm \<Rightarrow> bool" where
  "guest_accepts hw m \<longleftrightarrow>
     (\<exists>rflags. hw_vmread hw (VmcsGuestNW_number RFLAGS) m = Inr rflags \<and> bit rflags 9) \<and>
     (\<exists>state. hw_vmread hw (VmcsGuest32_number INTERRUPTIBILITY_STATE) m = Inr state \<and>
        (ucast state :: u32) = 0)"

lemma injected_vector_bits:
  "get_bits (VmxInterruptInfo_bits (VmxInterruptInfo_from vector c)) 0 8 = ucast vector"
  "bit (VmxInterruptInfo_bits (VmxInterruptInfo_from vector c)) 31"
  using bit_imp_le_length [of vector]
  by (auto intro!: bit_word_eqI dest: bit_u8_type
      simp: wbits bit_VmxInterruptInfo_bits bit_simps VmxInterruptInfo_from_def)

context vmcs_current
begin

lemma inject_event_injects:
  assumes "current m"
  shows "\<exists>m'. inject_event hw (fst event) (snd event) m = (Ok (), m') \<and> current m' \<and> injects hw event m m'"
proof -
  obtain ec len where
    "hw_vmread hw (VmcsReadOnly32_number VMEXIT_INTERRUPTION_ERR_CODE) m = Inr ec"
    "hw_vmread hw (VmcsReadOnly32_number VMEXIT_INSTRUCTION_LEN) m = Inr len"
    using current_read [OF assms] declared_number by metis
  from inject_event_run [OF assms this, of "fst event" "snd event"]
  show ?thesis unfolding injects_def using injected_vector_bits by blast
qed

lemma allow_interrupt_run:
  assumes "current m"
  shows "allow_interrupt hw m = (Ok (guest_accepts hw m), m)"
proof -
  obtain rflags state where
    "hw_vmread hw (VmcsGuestNW_number RFLAGS) m = Inr rflags"
    "hw_vmread hw (VmcsGuest32_number INTERRUPTIBILITY_STATE) m = Inr state"
    using current_read [OF assms] declared_number by metis
  then show ?thesis
    by (simp add: allow_interrupt_def guest_accepts_def field_read_defs prog_simps and_flags
        del: field_numbers)
qed

lemma inject_pending_run:
  assumes cur: "current m" and front: "pending_events v = event # rest"
    and ok: "fst event < 32 \<or> guest_accepts hw m"
  shows "\<exists>m'. inject_pending_events hw (v, m) = (Ok (), (v\<lparr>pending_events := rest\<rparr>, m')) \<and>
    current m' \<and> injects hw event m m'"
proof -
  obtain m' where m': "inject_event hw (fst event) (snd event) m = (Ok (), m')" "current m'"
    "injects hw event m m'"
    using inject_event_injects [OF cur, of event] by (elim exE conjE) (rule that)
  have "(if fst event < 32 then return True else on_hw (allow_interrupt hw)) (v, m) = (Ok True, (v, m))"
    using ok allow_interrupt_run [OF cur] by (auto simp: prog_simps)
  then have "inject_pending_events hw (v, m) = (Ok (), (v\<lparr>pending_events := rest\<rparr>, m'))"
    using m'(1) front by (simp add: inject_pending_events_def bind_simps(1) prog_simps)
  with m'(2,3) show ?thesis by blast
qed

lemma inject_pending_blocked:
  assumes cur: "current m" and front: "pending_events v = event # rest"
    and blocked: "\<not> fst event < 32" "\<not> guest_accepts hw m"
    and ctrl: "hw_vmread hw (VmcsControl32_number PRIMARY_PROCBASED_EXEC_CONTROLS) m = Inr ctrl"
  shows "\<exists>m'. inject_pending_events hw (v, m) = (Ok (), (v, m')) \<and> current m' \<and>
    wrote hw [(VmcsControl32_number PRIMARY_PROCBASED_EXEC_CONTROLS,
      ucast (set_bit_to (ucast ctrl :: u32) 2 True))] m m'"
  using set_interrupt_window_run [OF cur ctrl, of True] front blocked allow_interrupt_run [OF cur]
  by (auto simp: inject_pending_events_def prog_simps simp del: field_numbers)

end

text \<open>
  C12. Injection before an entry, with a current VMCS: an empty queue changes nothing; an exception, or an
  interrupt the guest accepts, is taken from the front of the queue and written to the VM-entry
  interruption fields with its vector; an interrupt the guest blocks stays in the queue and only the
  interrupt-window bit of the primary controls is set. It never fails.
\<close>

theorem inject_pending_events_spec:
  assumes "vmcs_current hw current" "current m"
    and "hw_vmread hw (VmcsControl32_number PRIMARY_PROCBASED_EXEC_CONTROLS) m = Inr ctrl"
  shows "case pending_events v of
      [] \<Rightarrow> inject_pending_events hw (v, m) = (Ok (), (v, m))
    | event # rest \<Rightarrow>
        if fst event < 32 \<or> guest_accepts hw m then
          \<exists>m'. inject_pending_events hw (v, m) = (Ok (), (v\<lparr>pending_events := rest\<rparr>, m')) \<and>
            current m' \<and> injects hw event m m'
        else
          \<exists>m'. inject_pending_events hw (v, m) = (Ok (), (v, m')) \<and> current m' \<and>
            wrote hw [(VmcsControl32_number PRIMARY_PROCBASED_EXEC_CONTROLS,
              ucast (set_bit_to (ucast ctrl :: u32) 2 True))] m m'"
proof (cases "pending_events v")
  case Nil
  then show ?thesis by (simp add: inject_pending_events_def return_def)
next
  case (Cons event rest)
  then show ?thesis
    using vmcs_current.inject_pending_run [OF assms(1,2) Cons]
      vmcs_current.inject_pending_blocked [OF assms(1,2) Cons _ _ assms(3)]
    by (simp del: field_numbers)
qed

theorem inject_pending_events_spec_witness:
  "\<exists>m1 m2. inject_pending_events ref_hw (ref_vcpu\<lparr>pending_events := [(14, Some 2), (0x20, None)]\<rparr>, ref_machine) =
       (Ok (), (ref_vcpu\<lparr>pending_events := [(0x20, None)]\<rparr>, m1)) \<and>
     inject_pending_events ref_hw (ref_vcpu\<lparr>pending_events := [(0x20, None)]\<rparr>, ref_machine) =
       (Ok (), (ref_vcpu\<lparr>pending_events := [(0x20, None)]\<rparr>, m2)) \<and>
     hw_vmread ref_hw (VmcsControl32_number PRIMARY_PROCBASED_EXEC_CONTROLS) m2 = Inr 4"
proof -
  have cur: "(\<lambda>m. m_cur m \<noteq> None) ref_machine" by (simp add: ref_machine_def)
  have ctrl: "hw_vmread ref_hw (VmcsControl32_number PRIMARY_PROCBASED_EXEC_CONTROLS) ref_machine = Inr 0"
    by (simp add: ref_machine_def ref_vmread_def)
  have blocked: "\<not> guest_accepts ref_hw ref_machine"
    by (simp add: guest_accepts_def ref_machine_def ref_vmread_def)
  note spec = inject_pending_events_spec [OF ref_current.vmcs_current_axioms cur ctrl]
  obtain m1 where m1: "inject_pending_events ref_hw
      (ref_vcpu\<lparr>pending_events := [(14, Some 2), (0x20, None)]\<rparr>, ref_machine) =
      (Ok (), (ref_vcpu\<lparr>pending_events := [(0x20, None)]\<rparr>, m1))"
    using spec [of "ref_vcpu\<lparr>pending_events := [(14, Some 2), (0x20, None)]\<rparr>"] by auto
  obtain m2 where m2: "inject_pending_events ref_hw (ref_vcpu\<lparr>pending_events := [(0x20, None)]\<rparr>, ref_machine) =
      (Ok (), (ref_vcpu\<lparr>pending_events := [(0x20, None)]\<rparr>, m2))"
    "wrote ref_hw [(VmcsControl32_number PRIMARY_PROCBASED_EXEC_CONTROLS,
       ucast (set_bit_to (ucast (0 :: u64) :: u32) 2 True))] ref_machine m2"
    using spec [of "ref_vcpu\<lparr>pending_events := [(0x20, None)]\<rparr>"] blocked by (auto simp del: field_numbers)
  have "hw_vmread ref_hw (VmcsControl32_number PRIMARY_PROCBASED_EXEC_CONTROLS) m2 = Inr 4"
    using wrote_read [OF m2(2)] by (simp add: set_bit_to_def)
  with m1 m2(1) show ?thesis by blast
qed

section \<open>Delivery\<close>

text \<open>
  The injections before a sequence of VM entries: between two entries the guest and the host leave the
  vCPU's queue alone and may change the machine, so that entry \<open>i\<close> starts on machine \<open>ms ! i\<close>.
\<close>

primrec entries :: "'m hw \<Rightarrow> 'm list \<Rightarrow> 'l VmxVcpu \<Rightarrow> 'm list \<times> 'l VmxVcpu" where
  "entries hw [] v = ([], v)"
| "entries hw (m # ms) v =
     (case inject_pending_events hw (v, m) of
        (_, (v', m')) \<Rightarrow> (case entries hw ms v' of (ms', v'') \<Rightarrow> (m' # ms', v'')))"

context vmcs_current
begin

lemma entries_deliver:
  assumes "\<forall>m \<in> set ms. current m \<and> guest_accepts hw m" "length ms \<le> length (pending_events v)"
  shows "\<exists>ms'. entries hw ms v = (ms', v\<lparr>pending_events := drop (length ms) (pending_events v)\<rparr>) \<and>
    length ms' = length ms \<and> (\<forall>i < length ms. injects hw (pending_events v ! i) (ms ! i) (ms' ! i))"
  using assms
proof (induction ms arbitrary: v)
  case Nil
  then show ?case by simp
next
  case (Cons m ms)
  from Cons.prems(2) obtain e es where es: "pending_events v = e # es" by (cases "pending_events v") auto
  obtain m' where m': "inject_pending_events hw (v, m) = (Ok (), (v\<lparr>pending_events := es\<rparr>, m'))"
    "injects hw e m m'"
    using inject_pending_run [OF _ es, of m] Cons.prems(1) by auto
  obtain ms' where ms': "entries hw ms (v\<lparr>pending_events := es\<rparr>) =
      (ms', v\<lparr>pending_events := drop (length ms) es\<rparr>)" "length ms' = length ms"
    "\<forall>i < length ms. injects hw (es ! i) (ms ! i) (ms' ! i)"
    using Cons.IH [of "v\<lparr>pending_events := es\<rparr>"] Cons.prems es by auto
  show ?case
    using m' ms' es by (intro exI [of _ "m' # ms'"]) (auto simp: nth_Cons split: nat.split)
qed

end

text \<open>
  C10. Every queued event reaches the guest, in order: over a sequence of VM entries before each of which the
  guest accepts interrupts, entry \<open>i\<close> injects the event that was at position \<open>i\<close> of the queue, so that
  after as many entries as there are pending events the queue is empty.
\<close>

theorem pending_events_delivered:
  assumes "vmcs_current hw current"
    and "\<forall>m \<in> set ms. current m \<and> guest_accepts hw m" "length ms \<le> length (pending_events v)"
  shows "\<exists>ms'. entries hw ms v = (ms', v\<lparr>pending_events := drop (length ms) (pending_events v)\<rparr>) \<and>
    length ms' = length ms \<and> (\<forall>i < length ms. injects hw (pending_events v ! i) (ms ! i) (ms' ! i))"
  using assms by (rule vmcs_current.entries_deliver)

theorem pending_events_delivered_witness:
  "let m = ref_machine\<lparr>m_vmcs := (\<lambda>_ _. 0)(0x2000 := (\<lambda>_. 0)(VmcsGuestNW_number RFLAGS := 0x202))\<rparr>;
       v = ref_vcpu\<lparr>pending_events := [(0x20, None), (0x21, None)]\<rparr> in
   \<exists>m0 m1. entries ref_hw [m, m] v = ([m0, m1], v\<lparr>pending_events := []\<rparr>) \<and>
     injects ref_hw (0x20, None) m m0 \<and> injects ref_hw (0x21, None) m m1"
proof -
  define m where "m = ref_machine\<lparr>m_vmcs := (\<lambda>_ _. 0)(0x2000 := (\<lambda>_. 0)(VmcsGuestNW_number RFLAGS := 0x202))\<rparr>"
  define v where "v = ref_vcpu\<lparr>pending_events := [(0x20, None), (0x21, None)]\<rparr>"
  have ready: "\<forall>m' \<in> set [m, m]. (\<lambda>m. m_cur m \<noteq> None) m' \<and> guest_accepts ref_hw m'"
    by (simp add: m_def guest_accepts_def ref_machine_def ref_vmread_def bit_numeral_rec)
  have v: "pending_events v = [(0x20, None), (0x21, None)]" by (simp add: v_def)
  then have len: "length [m, m] \<le> length (pending_events v)" by simp
  obtain ms' where ms': "entries ref_hw [m, m] v = (ms', v\<lparr>pending_events := []\<rparr>)" "length ms' = 2"
    "\<forall>i < 2. injects ref_hw (pending_events v ! i) ([m, m] ! i) (ms' ! i)"
    using pending_events_delivered [OF ref_current.vmcs_current_axioms ready len] v by auto
  from ms'(2) obtain m0 m1 where "ms' = [m0, m1]"
    by (auto simp: numeral_2_eq_2 length_Suc_conv)
  then show ?thesis
    unfolding Let_def m_def [symmetric] v_def [symmetric]
    using ms'(1) spec [OF ms'(3), of 0] spec [OF ms'(3), of 1] v by simp
qed

end
