(* ===== verification/Invariants.thy ===== *)
theory Invariants
  imports XState
begin

text \<open>
  A small logic for what holds of the state however a program ends: \<open>keeps\<close> (an invariant of the state),
  \<open>preserves\<close> (an invariant of the object a method runs on, whatever happens to the machine) and \<open>leads\<close>
  (from a precondition to a postcondition of every outcome). The rules follow the combinators, so that an
  invariant of an operation is read off its definition.
\<close>

section \<open>Programs that keep an invariant\<close>

text \<open>
  \<open>keeps J p\<close>: however \<open>p\<close> ends (normally, with an error, a panic or a fault), its state satisfies \<open>J\<close>
  again; \<open>preserves I p\<close> is the same for an invariant \<open>I\<close> of the object, whatever happens to the machine.
  One rule per combinator, so that the invariant of an operation is read off its definition.
\<close>

definition keeps :: "('s \<Rightarrow> bool) \<Rightarrow> ('s, 'a) prog \<Rightarrow> bool" where
  "keeps J p \<longleftrightarrow> (\<forall>s. J s \<longrightarrow> J (snd (p s)))"

definition preserves :: "('s \<Rightarrow> bool) \<Rightarrow> ('s \<times> 'm, 'a) prog \<Rightarrow> bool" where
  "preserves I p \<longleftrightarrow> keeps (\<lambda>s. I (fst s)) p"

named_theorems keeps_rules \<open>invariants along the structure of a program\<close>

lemma keepsD: "keeps J p \<Longrightarrow> J s \<Longrightarrow> p s = (r, s') \<Longrightarrow> J s'"
  unfolding keeps_def by (metis snd_conv)

lemma preservesD: "preserves I p \<Longrightarrow> I s \<Longrightarrow> p (s, m) = (r, (s', m')) \<Longrightarrow> I s'"
  unfolding preserves_def using keepsD [of "\<lambda>s. I (fst s)" p "(s, m)" r "(s', m')"] by simp

lemma keeps_bind: "keeps J p \<Longrightarrow> (\<And>x. keeps J (k x)) \<Longrightarrow> keeps J (bind p k)"
  unfolding keeps_def bind_def by (simp add: split_beta split: res.split)

lemma keeps_basic [keeps_rules]:
  "keeps J (return x)" "keeps J (raise e)" "keeps J (panic msg)" "keeps J (lift r)"
  by (simp_all add: keeps_def prog_defs)

lemma keeps_block: "(\<And>p. p \<in> set ps \<Longrightarrow> keeps J p) \<Longrightarrow> keeps J (block ps)"
  by (induction ps) (auto intro: keeps_basic keeps_bind)

lemma preserves_basic [keeps_rules]:
  "preserves I (return x)" "preserves I (raise e)" "preserves I (panic msg)" "preserves I (lift r)"
  by (simp_all add: preserves_def keeps_basic)

lemma preserves_on_hw [keeps_rules]: "preserves I (on_hw p)"
  by (simp add: preserves_def keeps_def on_hw_def zoom_def split_beta)

lemma preserves_bind: "preserves I p \<Longrightarrow> (\<And>x. preserves I (k x)) \<Longrightarrow> preserves I (bind p k)"
  unfolding preserves_def by (rule keeps_bind)

text \<open>The object read at the start of an operation is the object the invariant holds of.\<close>

lemma preserves_bind_self [keeps_rules]:
  "(\<And>s. I s \<Longrightarrow> preserves I (k s)) \<Longrightarrow> preserves I (bind self k)"
  by (simp add: preserves_def keeps_def self_def)

lemma preserves_unwrap [keeps_rules]: "preserves I p \<Longrightarrow> preserves I (unwrap p)"
  unfolding preserves_def keeps_def unwrap_def by (simp add: split_beta split: res.split) 

lemma preserves_block [keeps_rules]: "list_all (preserves I) ps \<Longrightarrow> preserves I (block ps)"
  by (auto simp: preserves_def list_all_iff intro: keeps_block)

lemma preserves_modify [keeps_rules]: "(\<And>s. I s \<Longrightarrow> I (f s)) \<Longrightarrow> preserves I (modify_self f)"
  by (simp add: preserves_def keeps_def modify_self_def modify_def)

lemma preserves_on_field:
  "keeps J p \<Longrightarrow> (\<And>s. I s \<Longrightarrow> J (sel s)) \<Longrightarrow> (\<And>s x. I s \<Longrightarrow> J x \<Longrightarrow> I (upd (\<lambda>_. x) s)) \<Longrightarrow>
     preserves I (on_field sel upd p)"
  by (simp add: preserves_def keeps_def on_field_def zoom_def split_beta)

lemma preserves_on_part [keeps_rules]:
  "(\<And>s x. I s \<Longrightarrow> I (upd (\<lambda>_. x) s)) \<Longrightarrow> preserves I (on_part sel upd p)"
  by (simp add: preserves_def keeps_def on_part_def split_beta)

lemma preserves_if [keeps_rules]:
  "(b \<Longrightarrow> preserves I p) \<Longrightarrow> (\<not> b \<Longrightarrow> preserves I q) \<Longrightarrow> preserves I (if b then p else q)"
  by simp

lemma preserves_option [keeps_rules]:
  "(x = None \<Longrightarrow> preserves I p) \<Longrightarrow> (\<And>y. x = Some y \<Longrightarrow> preserves I (q y)) \<Longrightarrow>
     preserves I (case x of None \<Rightarrow> p | Some y \<Rightarrow> q y)"
  by (cases x) simp_all

lemma preserves_list [keeps_rules]:
  "(x = [] \<Longrightarrow> preserves I p) \<Longrightarrow> (\<And>y ys. x = y # ys \<Longrightarrow> preserves I (q y ys)) \<Longrightarrow>
     preserves I (case x of [] \<Rightarrow> p | y # ys \<Rightarrow> q y ys)"
  by (cases x) simp_all

lemma preserves_sum [keeps_rules]:
  "(\<And>y. preserves I (p y)) \<Longrightarrow> (\<And>y. preserves I (q y)) \<Longrightarrow>
     preserves I (case x of Inl y \<Rightarrow> p y | Inr y \<Rightarrow> q y)"
  by (cases x) simp_all

lemmas [keeps_rules] = preserves_bind

text \<open>Statements about every outcome of a program, from a precondition.\<close>

definition leads :: "('s \<Rightarrow> bool) \<Rightarrow> ('s, 'a) prog \<Rightarrow> ('s \<Rightarrow> bool) \<Rightarrow> bool" where
  "leads P p Q \<longleftrightarrow> (\<forall>s. P s \<longrightarrow> Q (snd (p s)))"

lemma leadsD: "leads P p Q \<Longrightarrow> P s \<Longrightarrow> p s = (r, s') \<Longrightarrow> Q s'"
  unfolding leads_def by (metis snd_conv)

lemma leads_bind:
  "leads P p R \<Longrightarrow> (\<And>x. leads R (k x) Q) \<Longrightarrow> (\<And>s. R s \<Longrightarrow> Q s) \<Longrightarrow> leads P (bind p k) Q"
  unfolding leads_def bind_def by (simp add: split_beta del: split_paired_All split: res.split)

lemma leads_keeps: "keeps P p \<Longrightarrow> leads P p P"
  by (simp add: keeps_def leads_def)

lemma keeps_on_hw: "keeps P p \<Longrightarrow> keeps (\<lambda>s. P (snd s)) (on_hw p)"
  by (simp add: keeps_def on_hw_def zoom_def split_beta)

lemma keeps_read: "(\<And>m. snd (p m) = m) \<Longrightarrow> keeps P p"
  by (simp add: keeps_def)

lemma Msr_read_state: "snd (Msr_read hw r m) = m"
  by (simp add: Msr_read_def split: option.split)

lemma keeps_Msr_read: "keeps P (Msr_read hw r)"
  by (rule keeps_read) (rule Msr_read_state)

lemma keeps_gets: "keeps P (gets f)"
  by (simp add: keeps_def gets_def)

lemma keeps_if: "keeps P p \<Longrightarrow> keeps P q \<Longrightarrow> keeps P (if b then p else q)"
  by simp

end
