(* ===== verification/Frames.thy ===== *)
theory Frames
  imports VmxStructs
begin

text \<open>
  The allocator of page frames that the VMX structures rely on. \<open>page_source\<close> is the contract of an allocator
  of addresses; \<open>frame_hw\<close> extends it to the zeroed frames of the parameter \<open>hw\<close>.
\<close>

text \<open>
  An allocator of page frames: \<open>owned\<close> are the frames in use. A frame it hands out is at a page boundary,
  was not in use, and is in use from then on; \<open>ok\<close> is the allocator's own invariant.
\<close>

locale page_source =
  fixes alloc :: "'m \<Rightarrow> u64 option \<times> 'm" and owned :: "'m \<Rightarrow> u64 set" and ok :: "'m \<Rightarrow> bool"
  assumes alloc_fresh: "ok m \<Longrightarrow> alloc m = (Some a, m') \<Longrightarrow> a \<notin> owned m"
    and alloc_owned: "ok m \<Longrightarrow> alloc m = (Some a, m') \<Longrightarrow> owned m' = insert a (owned m)"
    and alloc_aligned: "ok m \<Longrightarrow> alloc m = (Some a, m') \<Longrightarrow> a AND 0xfff = 0"
    and alloc_ok: "ok m \<Longrightarrow> alloc m = (r, m') \<Longrightarrow> ok m'"

definition frame_addr :: "'m hw \<Rightarrow> 'm \<Rightarrow> u64 option \<times> 'm" where
  "frame_addr hw m =
     (case hw_alloc_zero hw m of (Ok fr, m') \<Rightarrow> (Some (start_paddr fr), m') | (_, m') \<Rightarrow> (None, m'))"

locale frame_hw = page_source "frame_addr hw" owned ok for hw :: "'m hw" and owned ok +
  assumes zeroed: "ok m \<Longrightarrow> hw_alloc_zero hw m = (Ok fr, m') \<Longrightarrow> frame_bytes fr = replicate 4096 0"
begin

lemma alloc_zero:
  assumes "ok m" "hw_alloc_zero hw m = (Ok fr, m')"
  shows "ok m'" "start_paddr fr \<notin> owned m" "owned m' = insert (start_paddr fr) (owned m)"
    "start_paddr fr AND 0xfff = 0" "wf_frame fr"
proof -
  have "frame_addr hw m = (Some (start_paddr fr), m')" using assms(2) by (simp add: frame_addr_def)
  then show "ok m'" "start_paddr fr \<notin> owned m" "owned m' = insert (start_paddr fr) (owned m)"
    "start_paddr fr AND 0xfff = 0"
    using assms(1) alloc_fresh alloc_owned alloc_aligned alloc_ok by blast+
  show "wf_frame fr" using zeroed [OF assms] by (simp add: wf_frame_def)
qed

end

interpretation ref_frames: frame_hw ref_hw "\<lambda>m. - set (m_frames m)"
  "\<lambda>m. distinct (m_frames m) \<and> (\<forall>a \<in> set (m_frames m). a AND 0xfff = 0)"
  by unfold_locales (auto simp: frame_addr_def ref_alloc_def split: list.splits)

end
