(* ===== verification/VcpuLife.thy ===== *)
theory VcpuLife
  imports VcpuExits VcpuEvents Invariants Frames
begin

text \<open>
  The life of a vCPU: every operation of its interface (\<open>AxArchVCpu\<close> and the public methods) as one step,
  the invariants that every sequence of steps keeps whatever the processor and the devices do, and the
  history of the events of the guest.
\<close>

section \<open>Operations\<close>

datatype vcpu_op =
    SetEntry u64 | SetEptRoot u64 | SetupOp | SetupAt u64 u64 | BindOp | UnbindOp
  | RunOp | InnerRunOp
  | SetGpr usize usize | SetReturnValue usize | InjectInterrupt usize | QueueEvent u8 "u32 option"
  | SetInterruptWindow bool | SetIoIntercept u32 u32 bool | SetMsrIntercept u32 bool
  | SetStackPointer usize | AdvanceRip u8 | RegsMut GeneralRegisters

definition discard :: "('s, 'a) prog \<Rightarrow> ('s, unit) prog" where
  "discard p = bind p (\<lambda>_. return ())"

primrec exec :: "'m hw \<Rightarrow> ('l, 'm) dev \<Rightarrow> vcpu_op \<Rightarrow> ('l, 'm, unit) vprog" where
  "exec hw dev (SetEntry e) = set_entry e"
| "exec hw dev (SetEptRoot r) = set_ept_root r"
| "exec hw dev SetupOp = AxArchVCpu_setup hw"
| "exec hw dev (SetupAt r e) = VmxVcpu_setup hw r e"
| "exec hw dev BindOp = AxArchVCpu_bind hw"
| "exec hw dev UnbindOp = AxArchVCpu_unbind hw"
| "exec hw dev RunOp = discard (run hw dev)"
| "exec hw dev InnerRunOp = discard (inner_run hw dev)"
| "exec hw dev (SetGpr r x) = set_gpr r x"
| "exec hw dev (SetReturnValue x) = set_return_value x"
| "exec hw dev (InjectInterrupt vec) = inject_interrupt vec"
| "exec hw dev (QueueEvent vec c) = queue_event vec c"
| "exec hw dev (SetInterruptWindow b) = on_hw (set_interrupt_window hw b)"
| "exec hw dev (SetIoIntercept p n b) = set_io_intercept_of_range hw p n b"
| "exec hw dev (SetMsrIntercept r b) = set_msr_intercept_of_range r b"
| "exec hw dev (SetStackPointer x) = on_hw (set_stack_pointer hw x)"
| "exec hw dev (AdvanceRip n) = on_hw (advance_rip hw n)"
| "exec hw dev (RegsMut r) = modify_self (guest_regs_update (\<lambda>_. r))"

lemma preserves_handled [keeps_rules]: "preserves I p \<Longrightarrow> preserves I (handled p)"
  unfolding preserves_def keeps_def handled_def attempt_def bind_def return_def
  by (simp add: split_beta split: res.split)

lemma preserves_vm_enter [keeps_rules]:
  assumes "\<And>s x. I s \<Longrightarrow> I (s\<lparr>host_stack_top := x\<rparr>)" "\<And>s r. I s \<Longrightarrow> I (s\<lparr>guest_regs := r\<rparr>)"
  shows "preserves I (vm_enter hw instr)"
  unfolding preserves_def keeps_def vm_enter_def Let_def
  using assms by (auto simp: on_hw_pair split_beta split: sum.split VmFail.split prod.split)

lemma preserves_write_host_rsp [keeps_rules]: "preserves I (write_host_rsp hw)"
  unfolding write_host_rsp_def by (intro keeps_rules)

text \<open>\<open>inner_run\<close> after the injection of pending events.\<close>

definition enter_and_handle :: "'m hw \<Rightarrow> ('l, 'm) dev \<Rightarrow> ('l, 'm, VmxExitInfo option) vprog" where
  "enter_and_handle hw dev =
     bind (load_guest_xstate hw) (\<lambda>_.
     bind self (\<lambda>v.
     bind (if launched v then vm_enter hw VMRESUME_INSTR
           else block
             [modify_self (launched_update (\<lambda>_. True)),
              write_host_rsp hw,
              vm_enter hw VMLAUNCH_INSTR]) (\<lambda>_.
     bind (load_host_xstate hw) (\<lambda>_.
     bind (on_hw (unwrap (exit_info hw))) (\<lambda>info.
     bind (builtin_vmexit_handler hw dev info) (\<lambda>result.
       case result of
         Some (Inl e) \<Rightarrow> panic ''VmxVcpu failed to handle a VM-exit that should be handled by itself''
       | Some (Inr _) \<Rightarrow> return None
       | None \<Rightarrow> return (Some info)))))))"

lemma inner_run_split:
  "inner_run hw dev = bind (unwrap (inject_pending_events hw)) (\<lambda>_. enter_and_handle hw dev)"
  by (simp add: inner_run_def enter_and_handle_def)

text \<open>
  The operations touch the bitmaps, the registers, the queue, the launch flag, the local APIC and the
  extended state. An invariant of the rest of the vCPU is kept by all of them.
\<close>

locale vcpu_frame =
  fixes I :: "'l VmxVcpu \<Rightarrow> bool"
  assumes upd [intro]:
    "I v \<Longrightarrow> I (v\<lparr>guest_regs := r\<rparr>)" "I v \<Longrightarrow> I (v\<lparr>host_stack_top := h\<rparr>)"
    "I v \<Longrightarrow> I (v\<lparr>launched := b\<rparr>)" "I v \<Longrightarrow> I (v\<lparr>entry := e\<rparr>)" "I v \<Longrightarrow> I (v\<lparr>ept_root := e\<rparr>)"
    "I v \<Longrightarrow> I (v\<lparr>vlapic := l\<rparr>)" "I v \<Longrightarrow> I (v\<lparr>xstate := x\<rparr>)"
begin

lemma upd_fun [intro]:
  "I v \<Longrightarrow> I (guest_regs_update f v)" "I v \<Longrightarrow> I (xstate_update g v)" "I v \<Longrightarrow> I (launched_update h v)"
  "I v \<Longrightarrow> I (entry_update i v)" "I v \<Longrightarrow> I (ept_root_update j v)" "I v \<Longrightarrow> I (vlapic_update k v)"
  using upd(1) [of v "f (guest_regs v)"] upd(7) [of v "g (xstate v)"] upd(3) [of v "h (launched v)"]
    upd(4) [of v "i (entry v)"] upd(5) [of v "j (ept_root v)"] upd(6) [of v "k (vlapic v)"]
  by (cases v; simp)+

lemma preserves_xstate: "preserves I (load_guest_xstate hw)" "preserves I (load_host_xstate hw)"
  unfolding load_guest_xstate_def load_host_xstate_def by (intro keeps_rules upd; assumption)+

lemma preserves_cpuid_result: "preserves I (cpuid_result hw regs)"
  unfolding cpuid_result_def Let_def
  by (intro keeps_rules preserves_xstate)

lemma preserves_handlers:
  "preserves I (handle_cpuid hw)" "preserves I (handle_xsetbv hw)" "preserves I (handle_cr hw)"
  "preserves I (handle_apic_msr_access hw dev b msr)" "preserves I (handle_apic_access hw info)"
  "preserves I (handle_vmx_preemption_timer hw)"
  unfolding handle_cpuid_def handle_xsetbv_def handle_cr_def handle_apic_msr_access_def
    handle_apic_access_def handle_vmx_preemption_timer_def Let_def
  by (intro keeps_rules preserves_cpuid_result upd_fun; assumption)+

lemma preserves_builtin: "preserves I (builtin_vmexit_handler hw dev info)"
  unfolding builtin_vmexit_handler_def Let_def by (intro keeps_rules preserves_handlers)

lemma preserves_enter_and_handle: "preserves I (enter_and_handle hw dev)"
  unfolding enter_and_handle_def
  by (intro keeps_rules preserves_xstate preserves_builtin preserves_bind)
    (auto intro!: keeps_rules)

lemma preserves_run_exit: "preserves I (run_exit hw dev info)"
  unfolding run_exit_def Let_def by (intro keeps_rules preserves_bind)

lemma preserves_unbind: "preserves I (AxArchVCpu_unbind hw)"
  unfolding AxArchVCpu_unbind_def unbind_from_current_processor_def
  by (intro keeps_rules preserves_bind upd_fun)

end

section \<open>The memory of a vCPU\<close>

definition same_io :: "IOBitmap \<Rightarrow> IOBitmap \<Rightarrow> bool" where
  "same_io bm0 bm \<longleftrightarrow> wf_io bm \<and> IOBitmap_phys_addr bm = IOBitmap_phys_addr bm0"

definition same_msr :: "MsrBitmap \<Rightarrow> MsrBitmap \<Rightarrow> bool" where
  "same_msr bm0 bm \<longleftrightarrow> wf_msr bm \<and> MsrBitmap_phys_addr bm = MsrBitmap_phys_addr bm0"

text \<open>\<open>v\<close> still owns the VMCS and the bitmap frames of \<open>v0\<close>, each bitmap frame a whole page.\<close>

definition same_memory :: "'l VmxVcpu \<Rightarrow> 'l VmxVcpu \<Rightarrow> bool" where
  "same_memory v0 v \<longleftrightarrow>
     vmcs v = vmcs v0 \<and> same_io (io_bitmap v0) (io_bitmap v) \<and> same_msr (msr_bitmap v0) (msr_bitmap v)"

lemma slice_update_paddr: "slice_update offset len i f fr = Ok fr' \<Longrightarrow> start_paddr fr' = start_paddr fr"
  by (auto simp: slice_update_def split: if_splits)

lemma keeps_io: "keeps (same_io bm0) (IOBitmap_set_intercept n b)"
  unfolding keeps_def IOBitmap_set_intercept_def Let_def same_io_def wf_io_def IOBitmap_phys_addr_def
  by (auto dest: wf_frame_slice_update slice_update_paddr split: res.splits)

lemma keeps_io_range: "keeps (same_io bm0) (IOBitmap_set_intercept_of_range oc base n b)"
  unfolding IOBitmap_set_intercept_of_range_def
  by (intro keeps_bind keeps_basic keeps_block) (auto intro: keeps_io)

lemma keeps_msr: "keeps (same_msr bm0) (MsrBitmap_set_intercept msr w b)"
  unfolding keeps_def MsrBitmap_set_intercept_def Let_def same_msr_def wf_msr_def MsrBitmap_phys_addr_def
  by (auto dest: wf_frame_slice_update slice_update_paddr split: res.splits option.splits)

lemma preserves_memory_io: "keeps (same_io (io_bitmap v0)) p \<Longrightarrow>
    preserves (same_memory v0) (on_field io_bitmap io_bitmap_update p)"
  by (rule preserves_on_field) (simp_all add: same_memory_def)

lemma preserves_memory_msr: "keeps (same_msr (msr_bitmap v0)) p \<Longrightarrow>
    preserves (same_memory v0) (on_field msr_bitmap msr_bitmap_update p)"
  by (rule preserves_on_field) (simp_all add: same_memory_def)

interpretation memory: vcpu_frame "same_memory v0" for v0
  by unfold_locales (simp_all add: same_memory_def)

lemma memory_inject: "preserves (same_memory v0) (inject_pending_events hw)"
  unfolding inject_pending_events_def
  by (intro keeps_rules preserves_bind) (auto simp: same_memory_def intro!: keeps_rules)

lemma memory_queue: "preserves (same_memory v0) (queue_event vec c)"
  unfolding queue_event_def by (intro keeps_rules) (simp add: same_memory_def)

lemma memory_bitmaps:
  "preserves (same_memory v0) (setup_io_bitmap hw)" "preserves (same_memory v0) setup_msr_bitmap"
  "preserves (same_memory v0) (set_io_intercept_of_range hw base n b)"
  "preserves (same_memory v0) (set_msr_intercept_of_range msr b)"
  unfolding setup_io_bitmap_def setup_msr_bitmap_def set_io_intercept_of_range_def
    set_msr_intercept_of_range_def set_read_intercept_def set_write_intercept_def
  by (intro preserves_memory_io preserves_memory_msr keeps_io_range keeps_block;
      auto intro: keeps_msr)+

lemma memory_setup: "preserves (same_memory v0) (setup_vmcs hw e r)"
  unfolding setup_vmcs_def setup_vmcs_control_def bind_to_current_processor_def
    unbind_from_current_processor_def
  by (intro keeps_rules preserves_bind) (simp add: keeps_rules preserves_bind memory_bitmaps)

lemma memory_run: "preserves (same_memory v0) (inner_run hw dev)" "preserves (same_memory v0) (run hw dev)"
  unfolding run_def inner_run_split
  by (intro keeps_rules preserves_bind memory_inject memory.preserves_enter_and_handle
      memory.preserves_run_exit)+

lemma memory_exec: "preserves (same_memory v0) (exec hw dev op)"
  by (cases op)
    (simp_all add: discard_def set_entry_def set_ept_root_def AxArchVCpu_setup_def VmxVcpu_setup_def
      AxArchVCpu_bind_def bind_to_current_processor_def set_gpr_def set_return_value_def
      inject_interrupt_def memory.preserves_unbind memory_bitmaps memory_queue memory_run memory_setup
      keeps_rules preserves_bind memory.upd_fun split: option.split)

section \<open>Creation\<close>

lemma VmxRegion_new_frame:
  assumes "VmxRegion_new hw rid b m = (Ok r, m')"
  shows "\<exists>fr. hw_alloc_zero hw m = (Ok fr, m') \<and> VmxRegion_phys_addr r = Ok (start_paddr fr)"
  using assms by (auto simp: VmxRegion_new_def VmxRegion_phys_addr_def prog_elims prog_defs)

lemma read_vmcs_revision_id_state: "read_vmcs_revision_id hw m = (r, m') \<Longrightarrow> m' = m"
  by (auto simp: read_vmcs_revision_id_def VmxBasic_read_msr Msr_read_def bind_def prog_defs
      split: option.splits)

lemma VmxVcpu_newE:
  assumes new: "VmxVcpu_new hw dev vm_id vcpu_id m = (Ok v, m')"
  obtains rid region m1 io m2 msr m3 l x where
    "VmxRegion_new hw rid False m = (Ok region, m1)"
    "IOBitmap_passthrough_all hw m1 = (Ok io, m2)" "MsrBitmap_passthrough_all hw m2 = (Ok msr, m3)"
    "v = VmxVcpu.make GeneralRegisters_default 0 False None None region io msr [] l x"
proof -
  obtain rid m0 region m1 io m2 msr m3 l m4 x m5 where
    rid: "read_vmcs_revision_id hw m = (Ok rid, m0)" and
    region: "VmxRegion_new hw rid False m0 = (Ok region, m1)" and
    io: "IOBitmap_passthrough_all hw m1 = (Ok io, m2)" and
    msr: "MsrBitmap_passthrough_all hw m2 = (Ok msr, m3)" and
    "vlapic_new dev vm_id vcpu_id m3 = (Ok l, m4)" "XState_new hw m4 = (Ok x, m5)" and
    v: "(Ok \<lparr>guest_regs = GeneralRegisters_default, host_stack_top = 0, launched = False,
        entry = None, ept_root = None, vmcs = region, io_bitmap = io, msr_bitmap = msr,
        pending_events = [], vlapic = l, xstate = x\<rparr>, m5) = (Ok v, m')"
    using new unfolding VmxVcpu_new_def bind_Ok_iff return_def
    by (elim exE conjE) (rule that)
  show thesis
  proof (rule that [OF _ io msr])
    show "VmxRegion_new hw rid False m = (Ok region, m1)"
      using region read_vmcs_revision_id_state [OF rid] by simp
    show "v = VmxVcpu.make GeneralRegisters_default 0 False None None region io msr [] l x"
      using v by (simp add: VmxVcpu.make_def)
  qed
qed

text \<open>The frames of a vCPU: its VMCS, the two I/O bitmaps and the MSR bitmap.\<close>

definition vcpu_frames :: "'l VmxVcpu \<Rightarrow> u64 list" where
  "vcpu_frames v =
     [case VmxRegion_phys_addr (vmcs v) of Ok a \<Rightarrow> a | _ \<Rightarrow> 0,
      fst (IOBitmap_phys_addr (io_bitmap v)), snd (IOBitmap_phys_addr (io_bitmap v)),
      MsrBitmap_phys_addr (msr_bitmap v)]"

lemma VmxVcpu_new_frames:
  assumes hw: "frame_hw hw owned ok" "ok m" and new: "VmxVcpu_new hw dev vm_id vcpu_id m = (Ok v, m')"
  shows "(\<exists>a. VmxRegion_phys_addr (vmcs v) = Ok a) \<and> distinct (vcpu_frames v) \<and>
    (\<forall>a \<in> set (vcpu_frames v). a AND 0xfff = 0 \<and> a \<notin> owned m) \<and> same_memory v v \<and>
    pending_events v = [] \<and> \<not> launched v"
proof -
  obtain rid region m1 io m2 msr m3 l x where
    region: "VmxRegion_new hw rid False m = (Ok region, m1)" and
    io: "IOBitmap_passthrough_all hw m1 = (Ok io, m2)" and
    msr: "MsrBitmap_passthrough_all hw m2 = (Ok msr, m3)" and
    v0: "v = VmxVcpu.make GeneralRegisters_default 0 False None None region io msr [] l x"
    using new by (rule VmxVcpu_newE)
  have v: "vmcs v = region" "io_bitmap v = io" "msr_bitmap v = msr" "pending_events v = []" "\<not> launched v"
    by (simp_all add: v0 VmxVcpu.make_def)
  obtain f where f: "hw_alloc_zero hw m = (Ok f, m1)" "VmxRegion_phys_addr region = Ok (start_paddr f)"
    using VmxRegion_new_frame [OF region] by blast
  obtain a b m12 where ab: "hw_alloc_zero hw m1 = (Ok a, m12)" "hw_alloc_zero hw m12 = (Ok b, m2)"
    "io = \<lparr>io_bitmap_a_frame = a, io_bitmap_b_frame = b\<rparr>"
    using io by (auto simp: IOBitmap_passthrough_all_def prog_elims prog_defs)
  obtain g where g: "hw_alloc_zero hw m2 = (Ok g, m3)" "msr = \<lparr>msr_frame = g\<rparr>"
    using msr by (auto simp: MsrBitmap_passthrough_all_def prog_elims prog_defs)
  note s1 = frame_hw.alloc_zero [OF hw f(1)]
  note s2 = frame_hw.alloc_zero [OF hw(1) s1(1) ab(1)]
  note s3 = frame_hw.alloc_zero [OF hw(1) s2(1) ab(2)]
  note s4 = frame_hw.alloc_zero [OF hw(1) s3(1) g(1)]
  have frames: "vcpu_frames v = [start_paddr f, start_paddr a, start_paddr b, start_paddr g]"
    by (simp add: vcpu_frames_def v f(2) ab(3) g(2) IOBitmap_phys_addr_def MsrBitmap_phys_addr_def)
  have "distinct (vcpu_frames v)" "\<forall>x \<in> set (vcpu_frames v). x AND 0xfff = 0 \<and> x \<notin> owned m"
    using s1(2-4) s2(2-4) s3(2-4) s4(2-4) by (auto simp: frames)
  moreover have "same_memory v v"
    using s2(5) s3(5) s4(5)
    by (simp add: same_memory_def same_io_def same_msr_def wf_io_def wf_msr_def v ab(3) g(2))
  ultimately show ?thesis using v(4,5) by (simp add: v(1) f(2))
qed

section \<open>Life\<close>

text \<open>
  The states of a vCPU from its creation on (first argument), through any sequence of operations with any
  outcome, each on whatever machine it meets.
\<close>

inductive vcpu_life :: "'m hw \<Rightarrow> ('l, 'm) dev \<Rightarrow> ('m \<Rightarrow> bool) \<Rightarrow> 'l VmxVcpu \<Rightarrow> 'l VmxVcpu \<Rightarrow> bool"
  for hw dev ok where
  created: "ok m \<Longrightarrow> VmxVcpu_new hw dev vm_id vcpu_id m = (Ok v, m') \<Longrightarrow> vcpu_life hw dev ok v v"
| op: "vcpu_life hw dev ok v0 v \<Longrightarrow> exec hw dev op (v, m) = (r, (v', m')) \<Longrightarrow> vcpu_life hw dev ok v0 v'"

lemma vcpu_life_memory:
  assumes "vcpu_life hw dev ok v0 v" "frame_hw hw owned ok"
  shows "same_memory v0 v \<and> vcpu_frames v = vcpu_frames v0 \<and> distinct (vcpu_frames v0) \<and>
    (\<exists>a. VmxRegion_phys_addr (vmcs v0) = Ok a) \<and> (\<forall>a \<in> set (vcpu_frames v0). a AND 0xfff = 0)"
  using assms(1)
proof induction
  case (created m vm_id vcpu_id v m')
  then show ?case using VmxVcpu_new_frames [OF assms(2)] by blast
next
  case (op v0 v op m r v' m')
  have "same_memory v0 v'" by (rule preservesD [OF memory_exec _ op.hyps(2)]) (use op.IH in simp)
  with op.IH show ?case
    by (auto simp: same_memory_def same_io_def same_msr_def vcpu_frames_def)
qed

text \<open>
  C3. The memory of a vCPU: whatever operations are called, in whatever order and with whatever outcome, a
  vCPU owns for its whole life the VMCS region and the three bitmap frames it was created with. The four
  frames are different pages, each bitmap is a whole page, and the VMCS region is never uninitialised, so
  the addresses programmed into the VMCS stay those of the bitmaps the vCPU updates.
\<close>

theorem vcpu_memory_invariant:
  assumes "frame_hw hw owned ok" "vcpu_life hw dev ok v0 v"
  shows "vmcs v = vmcs v0 \<and> (\<exists>a. VmxRegion_phys_addr (vmcs v) = Ok a) \<and>
    vcpu_frames v = vcpu_frames v0 \<and> distinct (vcpu_frames v) \<and>
    (\<forall>a \<in> set (vcpu_frames v). a AND 0xfff = 0) \<and>
    wf_io (io_bitmap v) \<and> wf_msr (msr_bitmap v)"
  using vcpu_life_memory [OF assms(2,1)]
  by (simp add: same_memory_def same_io_def same_msr_def)

lemma ref_new:
  "\<exists>v. VmxVcpu_new ref_hw ref_dev i j (ref_machine\<lparr>m_frames := a # b # c # d # fs\<rparr>) =
     (Ok v, ref_machine\<lparr>m_frames := fs\<rparr>)"
proof -
  let ?m = "\<lambda>fs. ref_machine\<lparr>m_frames := fs\<rparr>" and ?z = "replicate 4096 (0 :: u8)"
  have rid: "read_vmcs_revision_id ref_hw (?m fs) = (Ok 1, ?m fs)" for fs
    by (simp add: read_vmcs_revision_id_def VmxBasic_read_msr prog_simps ref_machine_def get_bits_def
        mask_eq_exp_minus_1 Msr_read_def)
  have zero: "hw_alloc_zero ref_hw (?m (x # fs)) = (Ok \<lparr>start_paddr = x, frame_bytes = ?z\<rparr>, ?m fs)" for x fs
    by (simp add: ref_alloc_def)
  obtain r where region: "VmxRegion_new ref_hw 1 False (?m (a # b # c # d # fs)) = (Ok r, ?m (b # c # d # fs))"
    using VmxRegion_new_run [OF zero, where rid = 1 and shadow = False] by (auto simp: bit_1_iff)
  have io: "IOBitmap_passthrough_all ref_hw (?m (b # c # d # fs)) =
      (Ok \<lparr>io_bitmap_a_frame = \<lparr>start_paddr = b, frame_bytes = ?z\<rparr>,
           io_bitmap_b_frame = \<lparr>start_paddr = c, frame_bytes = ?z\<rparr>\<rparr>, ?m (d # fs))"
    by (simp add: IOBitmap_passthrough_all_def prog_simps ref_alloc_def)
  have msr: "MsrBitmap_passthrough_all ref_hw (?m (d # fs)) =
      (Ok \<lparr>msr_frame = \<lparr>start_paddr = d, frame_bytes = ?z\<rparr>\<rparr>, ?m fs)"
    by (simp add: MsrBitmap_passthrough_all_def prog_simps ref_alloc_def)
  obtain x where x: "XState_new ref_hw (?m fs) = (Ok x, ?m fs)"
    by (simp add: XState_new_def prog_simps XState_xsave_available_def XState_xsaves_available_def
        ref_machine_def ref_xcr0_read_def)
  show ?thesis
    by (simp add: VmxVcpu_new_def bind_simps(1) rid region io msr x ref_dev_def return_def)
qed

lemma ref_vcpu_created: "\<exists>v m'. VmxVcpu_new ref_hw ref_dev 0 0 ref_machine = (Ok v, m')"
proof -
  have "ref_machine = ref_machine\<lparr>m_frames := 0x10000 # 0x11000 # 0x12000 # 0x13000 # [0x14000]\<rparr>"
    by (simp add: ref_machine_def)
  then show ?thesis using ref_new by metis
qed

abbreviation (input) ref_ok :: "refm \<Rightarrow> bool" where
  "ref_ok \<equiv> \<lambda>m. distinct (m_frames m) \<and> (\<forall>a \<in> set (m_frames m). a AND 0xfff = 0)"

lemma ref_ok_machine: "ref_ok ref_machine"
  by (simp add: ref_machine_def)

theorem vcpu_memory_invariant_witness:
  "\<exists>v0 v :: (usize \<Rightarrow> usize) VmxVcpu. vcpu_life ref_hw ref_dev ref_ok v0 v \<and>
     pending_events v = pending_events v0 @ [(0x20, None)] \<and> vcpu_frames v = vcpu_frames v0 \<and>
     distinct (vcpu_frames v) \<and> wf_io (io_bitmap v)"
proof -
  obtain v0 :: "(usize \<Rightarrow> usize) VmxVcpu" and m' where
    new: "VmxVcpu_new ref_hw ref_dev 0 0 ref_machine = (Ok v0, m')"
    using ref_vcpu_created by blast
  let ?v = "v0\<lparr>pending_events := pending_events v0 @ [(0x20, None)]\<rparr>"
  have "exec ref_hw ref_dev (QueueEvent 0x20 None) (v0, ref_machine) = (Ok (), (?v, ref_machine))"
    by (simp add: queue_event_def modify_self_run)
  with vcpu_life.created [of ref_ok, OF ref_ok_machine new]
  have life: "vcpu_life ref_hw ref_dev ref_ok v0 ?v" by (rule vcpu_life.op)
  have "vcpu_life ref_hw ref_dev ref_ok v0 ?v \<and> pending_events ?v = pending_events v0 @ [(0x20, None)] \<and>
      vcpu_frames ?v = vcpu_frames v0 \<and> distinct (vcpu_frames ?v) \<and> wf_io (io_bitmap ?v)"
    using vcpu_memory_invariant [OF ref_frames.frame_hw_axioms life] life by auto
  then show ?thesis by (intro exI)
qed

section \<open>The events of the guest\<close>

text \<open>
  The event that \<open>inject_pending_events\<close> hands to the processor on machine \<open>m\<close>, if any.
\<close>

definition injected_events :: "'m hw \<Rightarrow> 'l VmxVcpu \<Rightarrow> 'm \<Rightarrow> (u8 \<times> u32 option) list" where
  "injected_events hw v m =
     (case pending_events v of
        [] \<Rightarrow> []
      | event # _ \<Rightarrow>
          (case (if fst event < 32 then return True else allow_interrupt hw) m of
             (Ok True, m1) \<Rightarrow>
               (case inject_event hw (fst event) (snd event) m1 of (Ok _, _) \<Rightarrow> [event] | _ \<Rightarrow> [])
           | _ \<Rightarrow> []))"

lemma inject_pending_events_queue:
  fixes m :: 'm
  assumes "inject_pending_events hw (v, m) = (r, (v', m'))"
  shows "pending_events v = injected_events hw v m @ pending_events v'"
proof (cases "pending_events v")
  case Nil
  then show ?thesis using assms by (auto simp: inject_pending_events_def injected_events_def return_def)
next
  case (Cons event rest)
  define allow :: "('m, bool) prog" where "allow = (if fst event < 32 then return True else allow_interrupt hw)"
  have lift: "(if fst event < 32 then return True else on_hw (allow_interrupt hw)) = on_hw allow"
    by (auto simp: allow_def on_hw_def zoom_def return_def fun_eq_iff)
  have run: "bind (on_hw allow) (\<lambda>a. if a
        then block [on_hw (inject_event hw (fst event) (snd event)), modify_self (pending_events_update tl)]
        else on_hw (set_interrupt_window hw True)) (v, m) = (r, (v', m'))"
    using assms Cons by (simp add: inject_pending_events_def lift)
  obtain ra m1 where allow: "allow m = (ra, m1)" by (metis surj_pair)
  obtain ri m2 where inject: "inject_event hw (fst event) (snd event) m1 = (ri, m2)" by (metis surj_pair)
  have "injected_events hw v m = (if ra = Ok True \<and> (\<exists>x. ri = Ok x) then [event] else [])"
    using allow inject
    by (simp add: injected_events_def Cons allow_def [symmetric] split: res.split bool.split)
  moreover have "pending_events v' = (if ra = Ok True \<and> (\<exists>x. ri = Ok x) then rest else event # rest)"
    using run allow inject Cons
    by (cases ra; cases ri)
      (auto simp: bind_def on_hw_pair modify_self_run return_def split: prod.splits if_splits)
  ultimately show ?thesis using Cons by simp
qed

text \<open>The queue after an operation other than a run and the queue operations.\<close>

interpretation queue: vcpu_frame "\<lambda>v. pending_events v = q" for q
  by unfold_locales simp_all

lemma queue_bitmaps:
  "preserves (\<lambda>v. pending_events v = q) (setup_io_bitmap hw)"
  "preserves (\<lambda>v. pending_events v = q) setup_msr_bitmap"
  "preserves (\<lambda>v. pending_events v = q) (set_io_intercept_of_range hw base n b)"
  "preserves (\<lambda>v. pending_events v = q) (set_msr_intercept_of_range msr b)"
  unfolding setup_io_bitmap_def setup_msr_bitmap_def set_io_intercept_of_range_def
    set_msr_intercept_of_range_def
  by (rule preserves_on_field [where J = "\<lambda>_. True"]; simp add: keeps_def)+

lemma queue_setup: "preserves (\<lambda>v. pending_events v = q) (setup_vmcs hw e r)"
  unfolding setup_vmcs_def setup_vmcs_control_def bind_to_current_processor_def
    unbind_from_current_processor_def
  by (intro keeps_rules preserves_bind) (simp add: keeps_rules preserves_bind queue_bitmaps)

fun queues_or_runs :: "vcpu_op \<Rightarrow> bool" where
  "queues_or_runs RunOp = True"
| "queues_or_runs InnerRunOp = True"
| "queues_or_runs (QueueEvent _ _) = True"
| "queues_or_runs (InjectInterrupt _) = True"
| "queues_or_runs _ = False"

lemma queue_exec: "\<not> queues_or_runs op \<Longrightarrow> preserves (\<lambda>v. pending_events v = q) (exec hw dev op)"
  by (cases op)
    (simp_all add: set_entry_def set_ept_root_def AxArchVCpu_setup_def VmxVcpu_setup_def
      AxArchVCpu_bind_def bind_to_current_processor_def set_gpr_def set_return_value_def
      queue.preserves_unbind queue_bitmaps queue_setup keeps_rules preserves_bind queue.upd_fun
      split: option.split)

lemma unwrap_snd: "snd (unwrap p s) = snd (p s)"
  by (simp add: unwrap_def split_beta split: res.split)

lemma inner_run_queue:
  assumes "inner_run hw dev (v, m) = (r, (v', m'))"
  shows "pending_events v = injected_events hw v m @ pending_events v'"
proof -
  obtain r1 v1 m1 where inj: "inject_pending_events hw (v, m) = (r1, (v1, m1))" by (metis surj_pair)
  have q: "pending_events v = injected_events hw v m @ pending_events v1"
    by (rule inject_pending_events_queue [OF inj])
  obtain r2 where un: "unwrap (inject_pending_events hw) (v, m) = (r2, (v1, m1))"
    using unwrap_snd [of "inject_pending_events hw" "(v, m)"] inj by (metis snd_conv surj_pair)
  have "pending_events v' = pending_events v1"
  proof (cases r2)
    case (Ok u)
    then have "enter_and_handle hw dev (v1, m1) = (r, (v', m'))"
      using assms un by (simp add: inner_run_split bind_simps)
    then show ?thesis by (rule preservesD [OF queue.preserves_enter_and_handle refl])
  qed (use assms un in \<open>simp_all add: inner_run_split bind_simps\<close>)
  with q show ?thesis by simp
qed

lemma run_queue:
  assumes "run hw dev (v, m) = (r, (v', m'))"
  shows "pending_events v = injected_events hw v m @ pending_events v'"
proof -
  obtain r1 v1 m1 where inner: "inner_run hw dev (v, m) = (r1, (v1, m1))" by (metis surj_pair)
  have "pending_events v' = pending_events v1"
  proof (cases r1)
    case (Ok e)
    then have step: "(case e of Some info \<Rightarrow> run_exit hw dev info | None \<Rightarrow> return Nothing) (v1, m1) =
        (r, (v', m'))"
      using assms inner by (simp add: run_def bind_simps)
    have keep: "preserves (\<lambda>v. pending_events v = pending_events v1)
        (case e of Some info \<Rightarrow> run_exit hw dev info | None \<Rightarrow> return Nothing)"
      by (intro keeps_rules queue.preserves_run_exit)
    show ?thesis by (rule preservesD [OF keep refl step])
  qed (use assms inner in \<open>simp_all add: run_def bind_simps\<close>)
  with inner_run_queue [OF inner] show ?thesis by simp
qed

text \<open>
  Histories: the events queued so far and the events handed to the processor so far, along a sequence of
  operations.
\<close>

inductive event_history ::
  "'m hw \<Rightarrow> ('l, 'm) dev \<Rightarrow> 'l VmxVcpu \<Rightarrow> (u8 \<times> u32 option) list \<Rightarrow> (u8 \<times> u32 option) list \<Rightarrow> bool"
  for hw dev where
  created: "VmxVcpu_new hw dev vm_id vcpu_id m = (Ok v, m') \<Longrightarrow> event_history hw dev v [] []"
| queued: "event_history hw dev v q i \<Longrightarrow> exec hw dev (QueueEvent vec c) (v, m) = (r, (v', m')) \<Longrightarrow>
    event_history hw dev v' (q @ [(vec, c)]) i"
| interrupt: "event_history hw dev v q i \<Longrightarrow> exec hw dev (InjectInterrupt vec) (v, m) = (r, (v', m')) \<Longrightarrow>
    event_history hw dev v' (if vec = 0 then q else q @ [(ucast vec, None)]) i"
| ran: "event_history hw dev v q i \<Longrightarrow> op \<in> {RunOp, InnerRunOp} \<Longrightarrow>
    exec hw dev op (v, m) = (r, (v', m')) \<Longrightarrow>
    event_history hw dev v' q (i @ injected_events hw v m)"
| other: "event_history hw dev v q i \<Longrightarrow> \<not> queues_or_runs op \<Longrightarrow>
    exec hw dev op (v, m) = (r, (v', m')) \<Longrightarrow> event_history hw dev v' q i"

lemma discard_snd: "snd (discard p s) = snd (p s)"
  by (simp add: discard_def bind_def return_def split_beta split: res.split)

lemma exec_run_queue:
  assumes "op \<in> {RunOp, InnerRunOp}" "exec hw dev op (v, m) = (r, (v', m'))"
  shows "pending_events v = injected_events hw v m @ pending_events v'"
proof (cases "op = RunOp")
  case True
  then have "snd (run hw dev (v, m)) = (v', m')"
    using assms(2) discard_snd [of "run hw dev" "(v, m)"] by simp
  then show ?thesis by (metis run_queue prod.collapse)
next
  case False
  then have "snd (inner_run hw dev (v, m)) = (v', m')"
    using assms discard_snd [of "inner_run hw dev" "(v, m)"] by simp
  then show ?thesis by (metis inner_run_queue prod.collapse)
qed

text \<open>
  C2. Events are neither lost, nor duplicated, nor reordered: along every sequence of operations of a vCPU,
  with any outcomes, the events queued so far are the events already handed to the processor followed by
  the pending ones. An interrupt is queued with its vector truncated to eight bits.
\<close>

theorem event_fifo:
  assumes "event_history hw dev v q i"
  shows "q = i @ pending_events v"
  using assms
proof induction
  case (created vm_id vcpu_id m v m')
  then show ?case by (auto simp: VmxVcpu.make_def elim: VmxVcpu_newE)
next
  case (queued v q i vec c m r v' m')
  then show ?case by (auto simp: queue_event_def modify_self_run)
next
  case (interrupt v q i vec m r v' m')
  then show ?case
    by (auto simp: inject_interrupt_def queue_event_def modify_self_run panic_def split: if_splits)
next
  case (ran v q i op m r v' m')
  then show ?case using exec_run_queue [OF ran.hyps(2,3)] by simp
next
  case (other v q i op m r v' m')
  then show ?case using preservesD [OF queue_exec [OF other.hyps(2)] refl other.hyps(3)] by simp
qed

theorem event_fifo_witness:
  "\<exists>v :: (usize \<Rightarrow> usize) VmxVcpu.
     event_history ref_hw ref_dev v [(14, Some 2)] [(14, Some 2)] \<and> pending_events v = []"
proof -
  obtain v0 :: "(usize \<Rightarrow> usize) VmxVcpu" and m' where
    new: "VmxVcpu_new ref_hw ref_dev 0 0 ref_machine = (Ok v0, m')"
    using ref_vcpu_created by blast
  let ?v = "v0\<lparr>pending_events := pending_events v0 @ [(14, Some 2)]\<rparr>"
  have "pending_events v0 = []" using event_fifo [OF event_history.created [OF new]] by simp
  moreover have "exec ref_hw ref_dev (QueueEvent 14 (Some 2)) (v0, ref_machine) = (Ok (), (?v, ref_machine))"
    by (simp add: queue_event_def modify_self_run)
  from event_history.queued [OF event_history.created [OF new] this]
  have queued: "event_history ref_hw ref_dev ?v [(14, Some 2)] []" by simp
  obtain r v' m'' where ran: "exec ref_hw ref_dev InnerRunOp (?v, ref_machine) = (r, (v', m''))"
    by (metis surj_pair)
  obtain m1 where "inject_event ref_hw 14 (Some 2) ref_machine = (Ok (), m1)"
    using ref_current.inject_event_injects [of ref_machine "(14, Some 2)"] by (auto simp: ref_machine_def)
  then have "injected_events ref_hw ?v ref_machine = [(14, Some 2)]"
    using \<open>pending_events v0 = []\<close> by (simp add: injected_events_def return_def)
  with event_history.ran [OF queued _ ran]
  have hist: "event_history ref_hw ref_dev v' [(14, Some 2)] [(14, Some 2)]" by simp
  with event_fifo [OF hist] show ?thesis by auto
qed

end
