(* ===== verification/VcpuFrames.thy ===== *)
theory VcpuFrames
  imports VcpuLife
begin

text \<open>
  Invariants that speak of the vCPU and of the machine together. \<open>both I J\<close> is an invariant \<open>I\<close> of the object and
  \<open>J\<close> of the machine. What a program does to \<open>J\<close> is reduced to the instructions it executes: \<open>vmcs_quiet\<close> is the
  contract that VMWRITE and INVEPT keep \<open>J\<close>, \<open>quiet_hw\<close> adds WRMSR and XSETBV, and \<open>vcpu_quiet\<close> adds the emulated
  local APIC and the fields of the vCPU that \<open>I\<close> must not depend on. The clients are the properties about the
  launch state, about the extended state of the host and about the memory of several vCPUs.
\<close>

section \<open>Runs that return\<close>

text \<open>The call came back to its caller: neither a panic nor a fault of the processor.\<close>

definition returns :: "'a res \<Rightarrow> bool" where
  "returns r \<longleftrightarrow> (case r of Ok _ \<Rightarrow> True | Err _ \<Rightarrow> True | _ \<Rightarrow> False)"

text \<open>\<open>ends P p Q\<close>: from \<open>P\<close>, if \<open>p\<close> returns to its caller (with a value or an error), then in \<open>Q\<close>.\<close>

definition ends :: "('s \<Rightarrow> bool) \<Rightarrow> ('s, 'a) prog \<Rightarrow> ('s \<Rightarrow> bool) \<Rightarrow> bool" where
  "ends P p Q \<longleftrightarrow> (\<forall>s r s'. P s \<longrightarrow> p s = (r, s') \<longrightarrow> returns r \<longrightarrow> Q s')"

text \<open>Programs that give a value, a panic or a fault but no error.\<close>

definition no_err :: "('s, 'a) prog \<Rightarrow> bool" where
  "no_err p \<longleftrightarrow> (\<forall>s e s'. p s \<noteq> (Err e, s'))"

lemma endsD: "ends P p Q \<Longrightarrow> P s \<Longrightarrow> p s = (r, s') \<Longrightarrow> returns r \<Longrightarrow> Q s'"
  unfolding ends_def by blast

lemma ends_keeps: "keeps P p \<Longrightarrow> ends P p P"
  unfolding ends_def by (blast dest: keepsD)

lemma ends_weaken: "ends P' p Q \<Longrightarrow> (\<And>s. P s \<Longrightarrow> P' s) \<Longrightarrow> ends P p Q"
  unfolding ends_def by blast

lemma ends_strengthen: "ends P p Q' \<Longrightarrow> (\<And>s. Q' s \<Longrightarrow> Q s) \<Longrightarrow> ends P p Q"
  unfolding ends_def by blast

lemma bind_cases:
  assumes "bind p k s = (r, s')"
  obtains x s1 where "p s = (Ok x, s1)" "k x s1 = (r, s')"
    | e where "p s = (Err e, s')" "r = Err e"
    | r1 where "p s = (r1, s')" "\<not> returns r1" "\<not> returns r"
  using assms
  by (cases "p s"; cases "fst (p s)") (auto simp: bind_def returns_def)

lemma ends_bind_cases:
  assumes "\<And>s x s'. P s \<Longrightarrow> p s = (Ok x, s') \<Longrightarrow> R x s'" "\<And>s e s'. P s \<Longrightarrow> p s = (Err e, s') \<Longrightarrow> Q s'"
    and "\<And>x. ends (R x) (k x) Q"
  shows "ends P (bind p k) Q"
  unfolding ends_def
proof (intro allI impI)
  fix s r s'
  assume P: "P s" and run: "bind p k s = (r, s')" and "returns r"
  from run show "Q s'"
  proof (cases rule: bind_cases)
    case (1 x s1)
    then show ?thesis using assms(1) [OF P] endsD [OF assms(3)] \<open>returns r\<close> by blast
  next
    case (2 e)
    show ?thesis by (rule assms(2) [OF P 2(1)])
  qed (use \<open>returns r\<close> in blast)
qed

lemma ends_bind_gen:
  assumes "ends P p R" "\<And>x. ends R (k x) Q" "no_err p \<or> (\<forall>s. R s \<longrightarrow> Q s)"
  shows "ends P (bind p k) Q"
  using endsD [OF assms(1)] assms(2,3)
  by (intro ends_bind_cases [where R = "\<lambda>_. R"]) (auto simp: returns_def no_err_def)

lemma ends_bind:
  "ends P p R \<Longrightarrow> (\<And>x. ends R (k x) Q) \<Longrightarrow> (\<And>s. R s \<Longrightarrow> Q s) \<Longrightarrow> ends P (bind p k) Q"
  by (rule ends_bind_gen) auto

lemma ends_bind_ok: "ends P p R \<Longrightarrow> (\<And>x. ends R (k x) Q) \<Longrightarrow> no_err p \<Longrightarrow> ends P (bind p k) Q"
  by (rule ends_bind_gen) auto

lemma ends_seq: "ends P p P \<Longrightarrow> (\<And>x. ends P (k x) P) \<Longrightarrow> ends P (bind p k) P"
  by (rule ends_bind)

lemma ends_self: "(\<And>v. ends (\<lambda>s. P s \<and> fst s = v) (k v) Q) \<Longrightarrow> ends P (bind self k) Q"
  unfolding ends_def self_def gets_def bind_def by simp

lemma ends_discard: "ends P q Q \<Longrightarrow> ends P (discard q) Q"
  unfolding discard_def by (rule ends_bind) (auto intro: ends_keeps keeps_basic)

lemma ends_handled: "ends P q Q \<Longrightarrow> ends P (handled q) Q"
  unfolding ends_def handled_def attempt_def bind_def return_def returns_def
  by (auto split: prod.splits res.splits)

lemma ends_if: "ends P p Q \<Longrightarrow> ends P q Q \<Longrightarrow> ends P (if b then p else q) Q"
  by simp

lemma no_err_bind: "no_err p \<Longrightarrow> (\<And>x. no_err (k x)) \<Longrightarrow> no_err (bind p k)"
  unfolding no_err_def
proof (intro allI notI)
  fix s e s'
  assume no: "\<forall>s e s'. p s \<noteq> (Err e, s')" "\<And>x. \<forall>s e s'. k x s \<noteq> (Err e, s')"
  assume "bind p k s = (Err e, s')"
  then show False by (cases rule: bind_cases) (use no in \<open>auto simp: returns_def\<close>)
qed

lemma no_err_basic: "no_err (return x)" "no_err (gets f)" "no_err (modify_self g)" "no_err self" "no_err (block [])"
  by (simp_all add: no_err_def return_def gets_def modify_self_def modify_def self_def)

lemma no_err_Cons: "no_err p \<Longrightarrow> no_err (block ps) \<Longrightarrow> no_err (block (p # ps))"
  by (simp add: no_err_bind)

lemma no_err_unwrap: "no_err (unwrap p)"
  by (auto simp: no_err_def unwrap_def split: prod.splits res.splits)

lemma no_err_on_hw: "no_err p \<Longrightarrow> no_err (on_hw p)"
  by (auto simp: no_err_def on_hw_def zoom_def split: prod.splits)

lemma no_err_on_part: "no_err p \<Longrightarrow> no_err (on_part sel upd p)"
  by (auto simp: no_err_def on_part_def split: prod.splits)

lemma no_err_if: "no_err p \<Longrightarrow> no_err q \<Longrightarrow> no_err (if b then p else q)"
  by simp

lemma no_err_instr: "no_err (Msr_read hw r)" "no_err (Msr_write hw r x)" "no_err (xcr0_read hw)" "no_err (xcr0_write hw x)"
  by (simp_all add: no_err_def Msr_read_def Msr_write_def xcr0_read_def xcr0_write_def split: option.split)

lemmas no_err_rules = no_err_bind no_err_basic no_err_Cons no_err_unwrap no_err_on_hw no_err_on_part no_err_if
  no_err_instr

lemma no_err_xstate: "no_err (load_guest_xstate hw)" "no_err (load_host_xstate hw)"
  unfolding load_guest_xstate_def load_host_xstate_def switch_to_guest_def switch_to_host_def
  by (intro no_err_rules)+

section \<open>Entering the guest\<close>

text \<open>The choice of the entry instruction in \<open>inner_run\<close>.\<close>

definition entry_step :: "'m hw \<Rightarrow> 'l VmxVcpu \<Rightarrow> ('l, 'm, unit) vprog" where
  "entry_step hw v =
     (if launched v then vm_enter hw VMRESUME_INSTR
      else block
        [modify_self (launched_update (\<lambda>_. True)),
         write_host_rsp hw,
         vm_enter hw VMLAUNCH_INSTR])"

lemma vmx_entry_failed_diverges: "vmx_entry_failed hw m = (r, m') \<Longrightarrow> \<not> returns r"
  unfolding vmx_entry_failed_def instruction_error_def
  by (cases "VmcsReadOnly32_read hw VM_INSTRUCTION_ERROR m"; cases "fst (VmcsReadOnly32_read hw VM_INSTRUCTION_ERROR m)")
    (auto simp: bind_def unwrap_def return_def panic_def returns_def)

lemma vm_enter_returns:
  assumes "vm_enter hw instr (v, m) = (r, (v', m'))" "returns r"
  shows "\<exists>regs. hw_vm_entry hw instr (guest_regs v) m = (Inr regs, m') \<and> r = Ok () \<and>
    v' = v\<lparr>host_stack_top := hw_saved_rsp hw m, guest_regs := regs\<rparr>"
  using assms
  by (auto simp: vm_enter_def on_hw_pair Let_def returns_def dest: vmx_entry_failed_diverges
      split: sum.splits VmFail.splits prod.splits)

lemma no_err_vm_enter: "no_err (vm_enter hw instr)"
proof (unfold no_err_def, intro allI notI)
  fix s e s'
  assume run: "vm_enter hw instr s = (Err e, s')"
  obtain v m v' m' where "s = (v, m)" "s' = (v', m')" by (metis surj_pair)
  with run vm_enter_returns [of hw instr v m "Err e" v' m'] show False by (simp add: returns_def)
qed

lemma no_err_entry_step: "no_err (entry_step hw v)"
  unfolding entry_step_def write_host_rsp_def by (intro no_err_rules no_err_vm_enter)

lemma enter_and_handle_ends:
  assumes "ends P (load_guest_xstate hw) P1"
    and "\<And>v. ends (\<lambda>s. P1 s \<and> fst s = v) (entry_step hw v) P2"
    and "ends P2 (load_host_xstate hw) Q"
    and "keeps Q (on_hw (unwrap (exit_info hw)))"
    and "\<And>info. ends Q (builtin_vmexit_handler hw dev info) Q"
  shows "ends P (enter_and_handle hw dev) Q"
  unfolding enter_and_handle_def entry_step_def [symmetric]
proof (rule ends_bind_ok [OF assms(1)], rule ends_self, rule ends_bind_ok [OF assms(2)], rule ends_bind_ok [OF assms(3)])
  fix x y v z
  show "ends Q (bind (on_hw (unwrap (exit_info hw))) (\<lambda>info. bind (builtin_vmexit_handler hw dev info) (\<lambda>result.
      case result of None \<Rightarrow> return (Some info)
      | Some (Inl e) \<Rightarrow> panic ''VmxVcpu failed to handle a VM-exit that should be handled by itself''
      | Some (Inr _) \<Rightarrow> return None))) Q"
    by (intro ends_seq [OF ends_keeps [OF assms(4)]] ends_seq [OF assms(5)] ends_keeps)
      (auto simp: keeps_basic split: option.split sum.split)
qed (rule no_err_xstate no_err_entry_step)+

text \<open>The steps of a call of \<open>inner_run\<close> that comes back.\<close>

lemma bind_no_err_steps:
  assumes "bind p k s = (r, s')" "returns r" "no_err p"
  obtains x s1 where "p s = (Ok x, s1)" "k x s1 = (r, s')"
  using assms(1) by (cases rule: bind_cases) (use assms(2,3) in \<open>auto simp: no_err_def intro: that\<close>)

lemma exit_info_Ok:
  assumes "exit_info hw m = (Ok info, m')"
  obtains raw where "hw_vmread hw (VmcsReadOnly32_number EXIT_REASON) m = Inr raw" "m' = m"
    "VmxExitReason_number (exit_reason info) = take_bit 16 (ucast raw)" "entry_failure info = bit raw 31"
proof -
  obtain raw len ip where reads: "hw_vmread hw (VmcsReadOnly32_number EXIT_REASON) m = Inr raw"
    "hw_vmread hw (VmcsReadOnly32_number VMEXIT_INSTRUCTION_LEN) m = Inr len"
    "hw_vmread hw (VmcsGuestNW_number VmcsGuestNW.RIP) m = Inr ip"
    using assms unfolding exit_info_def field_read_defs
    by (auto simp: bind_Ok_iff prog_elims panic_def simp del: field_numbers split: option.splits)
  from exit_info_spec [OF this] assms show thesis using reads(1) by (auto split: if_splits intro: that)
qed

abbreviation (input) handle_exit :: "'m hw \<Rightarrow> ('l, 'm) dev \<Rightarrow> VmxExitInfo \<Rightarrow> ('l, 'm, VmxExitInfo option) vprog" where
  "handle_exit hw dev info \<equiv> bind (builtin_vmexit_handler hw dev info) (\<lambda>result.
     case result of
       Some (Inl e) \<Rightarrow> panic ''VmxVcpu failed to handle a VM-exit that should be handled by itself''
     | Some (Inr _) \<Rightarrow> return None
     | None \<Rightarrow> return (Some info))"

lemma inner_run_steps:
  fixes s :: "'l VmxVcpu \<times> 'm"
  assumes "inner_run hw dev s = (r, s')" "returns r"
  obtains s1 s2 s3 s4 info q where "unwrap (inject_pending_events hw) s = (Ok (), s1)" "load_guest_xstate hw s1 = (Ok (), s2)"
    "entry_step hw (fst s2) s2 = (Ok (), s3)" "load_host_xstate hw s3 = (Ok (), s4)" "exit_info hw (snd s4) = (Ok info, snd s4)"
    "builtin_vmexit_handler hw dev info s4 = (q, s')" "returns q"
    "r = (case q of Ok None \<Rightarrow> Ok (Some info) | Ok (Some _) \<Rightarrow> Ok None | Err e \<Rightarrow> Err e)"
proof -
  note step = bind_no_err_steps [OF _ assms(2)]
  let ?host = "bind (load_host_xstate hw) (\<lambda>_. bind (on_hw (unwrap (exit_info hw))) (handle_exit hw dev))"
  obtain s1 where s1: "unwrap (inject_pending_events hw) s = (Ok (), s1)" "enter_and_handle hw dev s1 = (r, s')"
    using assms(1) unfolding inner_run_split by (rule step [OF _ no_err_unwrap]) simp
  obtain s2 where s2: "load_guest_xstate hw s1 = (Ok (), s2)" "bind self (\<lambda>v. bind (entry_step hw v) (\<lambda>_. ?host)) s2 = (r, s')"
    using s1(2) unfolding enter_and_handle_def entry_step_def [symmetric] by (rule step [OF _ no_err_xstate(1)]) simp
  then have "bind (entry_step hw (fst s2)) (\<lambda>_. ?host) s2 = (r, s')"
    by (simp add: bind_def [of self] self_def gets_def)
  then obtain s3 where s3: "entry_step hw (fst s2) s2 = (Ok (), s3)" "?host s3 = (r, s')"
    by (rule step [OF _ no_err_entry_step]) simp
  then obtain s4 where s4: "load_host_xstate hw s3 = (Ok (), s4)" "bind (on_hw (unwrap (exit_info hw))) (handle_exit hw dev) s4 = (r, s')"
    by - (rule step [OF _ no_err_xstate(2)], simp_all)
  then obtain info s5 where s5: "on_hw (unwrap (exit_info hw)) s4 = (Ok info, s5)" "handle_exit hw dev info s5 = (r, s')"
    by - (rule step [OF _ no_err_on_hw [OF no_err_unwrap]])
  have info: "exit_info hw (snd s4) = (Ok info, snd s4)" "s5 = s4"
    using s5(1) by (cases s4; auto simp: on_hw_pair unwrap_def elim: exit_info_Ok split: prod.splits res.splits)+
  from s5(2) [unfolded info(2)] show thesis
  proof (cases rule: bind_cases)
    case (1 x s6)
    then show thesis using assms(2)
      by (intro that [OF s1(1) s2(1) s3(1) s4(1) info(1), of "Ok x"])
        (auto simp: return_def panic_def returns_def split: option.splits sum.splits)
  next
    case (2 e)
    then show thesis by (intro that [OF s1(1) s2(1) s3(1) s4(1) info(1), of "Err e"]) (simp_all add: returns_def)
  qed (use assms(2) in blast)
qed

lemma not_builtin:
  "\<not> builtin_exit v info \<Longrightarrow> builtin_vmexit_handler hw dev info (v, m) = (Ok None, (v, m))"
  unfolding builtin_vmexit_handler_def builtin_exit_def Let_def by (auto simp: return_def)

section \<open>Programs of the machine\<close>

named_theorems machine_rules \<open>machine programs that keep an invariant of the machine\<close>

lemma keeps_option:
  "(\<And>y. keeps J (q y)) \<Longrightarrow> keeps J p \<Longrightarrow> keeps J (case x of None \<Rightarrow> p | Some y \<Rightarrow> q y)"
  by (cases x) simp_all

lemma keeps_prod: "(\<And>a b. keeps J (p a b)) \<Longrightarrow> keeps J (case x of (a, b) \<Rightarrow> p a b)"
  by (cases x) simp

lemma keeps_sum: "(\<And>y. keeps J (p y)) \<Longrightarrow> (\<And>y. keeps J (q y)) \<Longrightarrow> keeps J (case x of Inl y \<Rightarrow> p y | Inr y \<Rightarrow> q y)"
  by (cases x) simp_all

lemma keeps_list: "keeps J p \<Longrightarrow> (\<And>y ys. keeps J (q y ys)) \<Longrightarrow> keeps J (case x of [] \<Rightarrow> p | y # ys \<Rightarrow> q y ys)"
  by (cases x) simp_all

lemma keeps_unwrap: "keeps J p \<Longrightarrow> keeps J (unwrap p)"
  unfolding keeps_def unwrap_def by (simp add: split_beta split: res.split)

lemma keeps_Nil: "keeps J (block [])"
  by (simp add: keeps_basic)

lemma keeps_Cons: "keeps J p \<Longrightarrow> keeps J (block ps) \<Longrightarrow> keeps J (block (p # ps))"
  by (simp add: keeps_bind)

lemma keeps_self: "(\<And>v. keeps J (k v)) \<Longrightarrow> keeps J (bind self k)"
  by (rule keeps_bind) (simp_all add: self_def keeps_gets)

lemma keeps_handled: "keeps J q \<Longrightarrow> keeps J (handled q)"
  unfolding keeps_def handled_def attempt_def bind_def return_def
  by (simp add: split_beta split: res.split)

lemma keeps_vmcs_read: "keeps J (vmcs_read hw f)"
  by (rule keeps_read) simp

lemma keeps_map_err_ax:
  "(\<And>m r m'. instr m = (r, m') \<Longrightarrow> J m \<Longrightarrow> J m') \<Longrightarrow> keeps J (map_err_ax hw instr)"
  unfolding keeps_def map_err_ax_def by (auto split: prod.split sum.split)

lemma keeps_xcr0_read: "keeps J (xcr0_read hw)"
  by (simp add: keeps_def xcr0_read_def split: option.split)

lemmas [machine_rules] = keeps_basic keeps_if keeps_option keeps_prod keeps_unwrap keeps_Nil keeps_Cons
  keeps_gets keeps_Msr_read keeps_vmcs_read keeps_xcr0_read keeps_bind

locale vmcs_quiet =
  fixes hw :: "'m hw" and J :: "'m \<Rightarrow> bool"
  assumes quiet_vmwrite: "J m \<Longrightarrow> hw_vmwrite hw f x m = (r, m') \<Longrightarrow> J m'"
    and quiet_invept: "J m \<Longrightarrow> hw_invept hw t d m = Some m' \<Longrightarrow> J m'"
begin

lemma keeps_vmcs_write: "keeps J (vmcs_write hw f x)"
  unfolding vmcs_write_def by (rule keeps_map_err_ax) (rule quiet_vmwrite)

lemma keeps_invept: "keeps J (map_err_ax hw (invept hw t e))"
  by (rule keeps_map_err_ax) (auto simp: invept_def Let_def dest: quiet_invept split: option.splits)

lemmas writes_keep = keeps_vmcs_write keeps_invept

lemma keeps_set_cr: "keeps J (set_cr hw i x)"
  unfolding set_cr_def field_write_defs Let_def by (intro machine_rules writes_keep)

lemma keeps_setup_host: "keeps J (setup_vmcs_host hw)"
  unfolding setup_vmcs_host_def field_write_defs get_tr_base_def table_entry_def Let_def
  by (intro machine_rules writes_keep)

lemma keeps_setup_guest: "keeps J (setup_vmcs_guest hw e)"
  unfolding setup_vmcs_guest_def set_guest_segment_def field_write_defs
  by (intro machine_rules writes_keep keeps_set_cr)

lemma keeps_setup_controls: "keeps J (setup_exec_controls hw r g)"
  unfolding setup_exec_controls_def set_control_from_def set_control_def set_ept_pointer_def
    field_write_defs Let_def
  by (intro machine_rules writes_keep)

lemma keeps_setup_bitmaps: "keeps J (setup_bitmap_fields hw v)"
  unfolding setup_bitmap_fields_def field_write_defs by (intro machine_rules writes_keep)

lemma keeps_small:
  "keeps J (advance_rip hw n)" "keeps J (set_interrupt_window hw b)" "keeps J (inject_event hw vec c)"
  "keeps J (allow_interrupt hw)" "keeps J (stack_pointer hw)" "keeps J (set_stack_pointer hw x)"
  "keeps J (update_efer hw)" "keeps J (cr_access_info hw)" "keeps J (apic_access_exit_info hw)"
  "keeps J (exit_info hw)" "keeps J (io_exit_info hw)" "keeps J (interrupt_exit_info hw)"
  unfolding advance_rip_def set_interrupt_window_def inject_event_def allow_interrupt_def stack_pointer_def
    set_stack_pointer_def update_efer_def cr_access_info_def apic_access_exit_info_def exit_info_def
    io_exit_info_def interrupt_exit_info_def set_control_def field_write_defs field_read_defs Let_def
  by (intro machine_rules writes_keep)+

lemmas quiet_rules = machine_rules writes_keep keeps_set_cr keeps_small keeps_setup_host keeps_setup_guest
  keeps_setup_controls keeps_setup_bitmaps

end

locale msr_quiet =
  fixes hw :: "'m hw" and J :: "'m \<Rightarrow> bool"
  assumes quiet_wrmsr: "J m \<Longrightarrow> hw_wrmsr hw n x m = Some m' \<Longrightarrow> J m'"
    and quiet_xsetbv: "J m \<Longrightarrow> hw_xcr0_write hw x m = Some m' \<Longrightarrow> J m'"
begin

lemma keeps_Msr_write: "keeps J (Msr_write hw r x)"
  unfolding keeps_def Msr_write_def using quiet_wrmsr by (auto split: option.split)

lemma keeps_xcr0_write: "keeps J (xcr0_write hw x)"
  unfolding keeps_def xcr0_write_def using quiet_xsetbv by (auto split: option.split)

lemma keeps_switch: "keeps (\<lambda>s. J (snd s)) (switch_to_guest hw)" "keeps (\<lambda>s. J (snd s)) (switch_to_host hw)"
  unfolding switch_to_guest_def switch_to_host_def
  by (intro keeps_self machine_rules keeps_on_hw keeps_Msr_write keeps_xcr0_write;
      simp add: keeps_def modify_self_def modify_def)+

end

locale quiet_hw = vmcs_quiet hw J + msr_quiet hw J for hw :: "'m hw" and J

section \<open>Methods of the vCPU\<close>

definition both :: "('s \<Rightarrow> bool) \<Rightarrow> ('m \<Rightarrow> bool) \<Rightarrow> 's \<times> 'm \<Rightarrow> bool" where
  "both I J s \<longleftrightarrow> I (fst s) \<and> J (snd s)"

lemma both_pair [simp]: "both I J (v, m) \<longleftrightarrow> I v \<and> J m"
  by (simp add: both_def)

lemma keeps_both_hw: "keeps J q \<Longrightarrow> keeps (both I J) (on_hw q)"
  by (simp add: keeps_def both_def on_hw_def zoom_def split_beta)

lemma keeps_both_modify: "(\<And>v. I v \<Longrightarrow> I (f v)) \<Longrightarrow> keeps (both I J) (modify_self f)"
  by (simp add: keeps_def both_def modify_self_def modify_def)

lemma keeps_both_field: "(\<And>v x. I v \<Longrightarrow> I (upd (\<lambda>_. x) v)) \<Longrightarrow> keeps (both I J) (on_field sel upd q)"
  by (simp add: keeps_def both_def on_field_def zoom_def split_beta)

lemma keeps_both_part:
  "(\<And>v x. I v \<Longrightarrow> I (upd (\<lambda>_. x) v)) \<Longrightarrow> keeps (\<lambda>s. J (snd s)) q \<Longrightarrow> keeps (both I J) (on_part sel upd q)"
  by (simp add: keeps_def both_def on_part_def split_beta)

lemmas both_rules = keeps_self keeps_handled keeps_sum keeps_list keeps_both_hw keeps_both_modify keeps_both_field

context vmcs_quiet
begin

lemma keeps_both_inject:
  "(\<And>v f. I v \<Longrightarrow> I (pending_events_update f v)) \<Longrightarrow> keeps (both I J) (inject_pending_events hw)"
  unfolding inject_pending_events_def by (intro both_rules quiet_rules)

lemma keeps_both_host_rsp: "keeps (both I J) (write_host_rsp hw)"
  unfolding write_host_rsp_def VmcsHostNW_write_def by (intro both_rules quiet_rules machine_rules writes_keep)

end

context msr_quiet
begin

lemma keeps_both_xstate:
  assumes "\<And>v x. I v \<Longrightarrow> I (xstate_update (\<lambda>_. x) v)"
  shows "keeps (both I J) (load_guest_xstate hw)" "keeps (both I J) (load_host_xstate hw)"
  unfolding load_guest_xstate_def load_host_xstate_def
  by (intro keeps_both_part keeps_switch assms; assumption)+

end

locale vcpu_quiet = vmcs_quiet hw J for hw :: "'m hw" and J +
  fixes dev :: "('l, 'm) dev" and I :: "'l VmxVcpu \<Rightarrow> bool"
  assumes quiet_fields:
      "I v \<Longrightarrow> I (guest_regs_update f1 v)" "I v \<Longrightarrow> I (pending_events_update f2 v)"
      "I v \<Longrightarrow> I (io_bitmap_update f3 v)" "I v \<Longrightarrow> I (msr_bitmap_update f4 v)"
      "I v \<Longrightarrow> I (entry_update f5 v)" "I v \<Longrightarrow> I (ept_root_update f6 v)" "I v \<Longrightarrow> I (vlapic_update f7 v)"
      "I v \<Longrightarrow> I (xstate_update (guest_xcr0_update f8) v)"
    and quiet_vlapic_read: "J m \<Longrightarrow> vlapic_read dev off w (l, m) = (res1, (l', m')) \<Longrightarrow> J m'"
    and quiet_vlapic_write: "J m \<Longrightarrow> vlapic_write dev off w y (l, m) = (res2, (l', m')) \<Longrightarrow> J m'"
begin

lemma keeps_vlapic: "keeps (\<lambda>s. J (snd s)) (vlapic_read dev off w)" "keeps (\<lambda>s. J (snd s)) (vlapic_write dev off w y)"
  unfolding keeps_def
  by (auto intro: quiet_vlapic_read [OF _ prod_eqI] quiet_vlapic_write [OF _ prod_eqI] simp: prod_eq_iff)

lemmas keeps_inject = keeps_both_inject [of I, OF quiet_fields(2)]

lemma keeps_apic: "keeps (both I J) (handle_apic_msr_access hw dev wr msr)"
  unfolding handle_apic_msr_access_def
  by (intro both_rules quiet_rules keeps_both_part keeps_vlapic; (rule quiet_fields; assumption))

lemma keeps_handlers:
  "keeps (both I J) (handle_xsetbv hw)" "keeps (both I J) (handle_cr hw)"
  "keeps (both I J) (handle_apic_access hw info)" "keeps (both I J) (handle_vmx_preemption_timer hw)"
  "keeps (both I J) (run_exit hw dev info)"
  unfolding handle_xsetbv_def handle_cr_def handle_apic_access_def handle_vmx_preemption_timer_def run_exit_def
    VmcsGuest32_write_def Let_def
  by (intro both_rules quiet_rules; (rule quiet_fields; assumption))+

text \<open>CPUID may switch the extended state; the other exits are handled without it.\<close>

lemma builtin_ends:
  assumes "\<And>regs. ends (both I J) (cpuid_result hw regs) (both I J)"
  shows "ends (both I J) (builtin_vmexit_handler hw dev info) (both I J)"
proof -
  have keep: "ends (both I J) (handled q) (both I J)" if "keeps (both I J) q" for q
    by (intro ends_handled ends_keeps that)
  have cpuid: "ends (both I J) (handle_cpuid hw) (both I J)"
    unfolding handle_cpuid_def
  proof (rule ends_self)
    fix v
    have "keeps (both I J) (bind (modify_self (guest_regs_update (f res))) (\<lambda>_. on_hw (advance_rip hw n)))" for f res n
      by (intro both_rules quiet_rules; (rule quiet_fields; assumption))
    then show "ends (\<lambda>s. both I J s \<and> fst s = v) (bind (cpuid_result hw (guest_regs v)) (\<lambda>res.
        bind (modify_self (guest_regs_update (\<lambda>r. r\<lparr>rax := ucast (eax res), rbx := ucast (ebx res),
          rcx := ucast (ecx res), rdx := ucast (edx res)\<rparr>))) (\<lambda>_. on_hw (advance_rip hw 2)))) (both I J)"
      by (intro ends_weaken [OF ends_seq [OF assms ends_keeps]]) simp_all
  qed
  show ?thesis
    unfolding builtin_vmexit_handler_def Let_def
    by (rule ends_self, rule ends_weaken [of "both I J"],
        intro ends_if keep ends_handled [OF cpuid] keeps_handlers keeps_apic keeps_both_hw keeps_small
          ends_keeps [OF keeps_basic(1)]) simp
qed

text \<open>The operations that use neither the extended state nor VMCLEAR, VMPTRLD and VM entry.\<close>

lemma keeps_setters:
  "keeps (both I J) (set_entry e)" "keeps (both I J) (set_ept_root r)" "keeps (both I J) (set_gpr i x)"
  "keeps (both I J) (set_return_value x)" "keeps (both I J) (inject_interrupt x)" "keeps (both I J) (queue_event vec c)"
  "keeps (both I J) (set_io_intercept_of_range hw base n b)" "keeps (both I J) (set_msr_intercept_of_range msr b)"
  "keeps (both I J) (setup_io_bitmap hw)" "keeps (both I J) setup_msr_bitmap"
  "keeps (both I J) (modify_self (guest_regs_update f))"
  unfolding set_entry_def set_ept_root_def set_gpr_def set_return_value_def inject_interrupt_def queue_event_def
    set_io_intercept_of_range_def set_msr_intercept_of_range_def setup_io_bitmap_def setup_msr_bitmap_def
  by (intro both_rules quiet_rules; (rule quiet_fields; assumption))+

lemma keeps_setup_control: "keeps (both I J) (setup_vmcs_control hw r g)"
  unfolding setup_vmcs_control_def by (intro keeps_setters both_rules quiet_rules)

end

section \<open>Operations by kind\<close>

fun is_setup :: "vcpu_op \<Rightarrow> bool" where
  "is_setup SetupOp = True"
| "is_setup (SetupAt _ _) = True"
| "is_setup _ = False"

fun is_run :: "vcpu_op \<Rightarrow> bool" where
  "is_run RunOp = True"
| "is_run InnerRunOp = True"
| "is_run _ = False"

lemma map_err_ax_Ok: "map_err_ax hw instr m = (Ok x, m') \<Longrightarrow> instr m = (Inr x, m')"
  by (simp add: map_err_ax_Ok_iff)

text \<open>The part of \<open>setup_vmcs\<close> up to the final unbinding.\<close>

definition setup_bound :: "'m hw \<Rightarrow> u64 \<Rightarrow> u64 \<Rightarrow> u64 \<Rightarrow> ('l, 'm, unit) vprog" where
  "setup_bound hw q e r =
     block [on_hw (map_err_ax hw (hw_vmclear hw q)), bind_to_current_processor hw, setup_msr_bitmap,
       on_hw (setup_vmcs_guest hw e), setup_vmcs_control hw r True]"

lemma bind_return_right: "bind p return = p"
  by (auto simp: bind_def return_def fun_eq_iff split: prod.split res.split)

lemma setup_vmcs_split:
  "setup_vmcs hw e r = bind self (\<lambda>v. bind (lift (VmxRegion_phys_addr (vmcs v))) (\<lambda>q.
     bind (setup_bound hw q e r) (\<lambda>_. unbind_from_current_processor hw)))"
  by (simp add: setup_vmcs_def setup_bound_def bind_assoc bind_return_right)

lemma exec_setup_cases:
  "is_setup op \<Longrightarrow> (\<exists>e q. exec hw dev op (v, m) = setup_vmcs hw e q (v, m)) \<or>
     exec hw dev op (v, m) = (Panic ''unwrap'', (v, m))"
  by (cases op) (auto simp: AxArchVCpu_setup_def VmxVcpu_setup_def self_def gets_def bind_def panic_def
      split: option.split)

end
