(* ===== verification/RefRun.thy ===== *)
theory RefRun
  imports VcpuFrames
begin

text \<open>
  One run of the reference machine: the guest halts at once and the exit is passed to the caller. The witnesses
  about whole runs use it.
\<close>

definition halting :: refm where
  "halting = ref_machine\<lparr>m_guest := [(GeneralRegisters_default, [(0x4402, 12)])]\<rparr>"

text \<open>A vCPU whose guest has other values in XCR0 and IA32_XSS than the host.\<close>

definition run_xstate :: XState where
  "run_xstate = \<lparr>host_xcr0 = 0, guest_xcr0 = 3, host_xss = 0, guest_xss = 0x100,
     xsave_available = True, xsaves_available = True\<rparr>"

definition run_vcpu :: "(usize \<Rightarrow> usize) VmxVcpu" where
  "run_vcpu = ref_vcpu\<lparr>xstate := run_xstate\<rparr>"

lemma run_vcpu_sel: "pending_events run_vcpu = []" "\<not> launched run_vcpu" "xstate run_vcpu = run_xstate"
  "vmcs run_vcpu = vmcs ref_vcpu" "io_bitmap run_vcpu = io_bitmap ref_vcpu"
  "msr_bitmap run_vcpu = msr_bitmap ref_vcpu"
  by (simp_all add: run_vcpu_def ref_vcpu_def)

lemma no_events: "pending_events v = [] \<Longrightarrow> unwrap (inject_pending_events hw) (v, m) = (Ok (), (v, m))"
  by (simp add: inject_pending_events_def self_def gets_def bind_def return_def unwrap_def)

lemma ref_load_guest:
  assumes "xsave_available (xstate v)" "xsaves_available (xstate v)" "ref_xcr0_read m = Some c" "m_msr m 0xda0 = Some s"
  shows "load_guest_xstate ref_hw (v, m) = (Ok (), (v\<lparr>xstate := (xstate v)\<lparr>host_xcr0 := c, host_xss := s\<rparr>\<rparr>,
    m\<lparr>m_xcr0 := Some (guest_xcr0 (xstate v) AND 0x2ff), m_msr := (m_msr m)(0xda0 \<mapsto> guest_xss (xstate v))\<rparr>))"
  using assms
  by (simp add: load_guest_xstate_def switch_to_guest_def on_part_def prog_simps on_hw_pair xcr0_read_def
      xcr0_write_def Msr_read_def Msr_write_def ref_xcr0_write_def ref_wrmsr_def)

lemma ref_load_host:
  assumes "xsave_available (xstate v)" "xsaves_available (xstate v)" "ref_xcr0_read m = Some c" "m_msr m 0xda0 = Some s"
  shows "load_host_xstate ref_hw (v, m) = (Ok (), (v\<lparr>xstate := (xstate v)\<lparr>guest_xcr0 := c, guest_xss := s\<rparr>\<rparr>,
    m\<lparr>m_xcr0 := Some (host_xcr0 (xstate v) AND 0x2ff), m_msr := (m_msr m)(0xda0 \<mapsto> host_xss (xstate v))\<rparr>))"
  using assms
  by (simp add: load_host_xstate_def switch_to_host_def on_part_def prog_simps on_hw_pair xcr0_read_def
      xcr0_write_def Msr_read_def Msr_write_def ref_xcr0_write_def ref_wrmsr_def)

lemma ref_write_rsp:
  assumes "m_cur m = Some p"
  shows "write_host_rsp ref_hw (v, m) =
    (Ok (), (v, m\<lparr>m_vmcs := (m_vmcs m)(p := (m_vmcs m p)(0x6c14 := 0x9080))\<rparr>))"
  using assms
  by (simp add: write_host_rsp_def self_def bind_def gets_def on_hw_pair VmcsHostNW_write_def vmcs_write_def map_err_ax_def ref_vmwrite_def get_bits_def unwrap_def
      mask_eq_exp_minus_1 field_width_def take_bit_word_eq_self)

lemma ref_exit_info:
  assumes "m_cur m = Some p" "m_vmcs m p 0x4402 = raw" "VmxExitReason_number rsn = take_bit 16 (ucast raw)"
  obtains i where "on_hw (unwrap (exit_info ref_hw)) (v, m) = (Ok i, (v, m))" "exit_reason i = rsn" "entry_failure i = bit raw 31"
proof -
  have rd: "hw_vmread ref_hw f m = Inr (m_vmcs m p f)" for f using assms(1) by (simp add: ref_vmread_def)
  have raw: "m_vmcs m p (VmcsReadOnly32_number EXIT_REASON) = raw" using assms(2) by simp
  have "\<exists>r. VmxExitReason_number r = take_bit 16 (ucast raw)" using assms(3) by blast
  then obtain i where i: "exit_info ref_hw m = (Ok i, m)" "VmxExitReason_number (exit_reason i) = VmxExitReason_number rsn"
    "entry_failure i = bit raw 31"
    using exit_info_spec [OF rd rd rd] unfolding raw assms(3) by (auto split: if_splits)
  then have "on_hw (unwrap (exit_info ref_hw)) (v, m) = (Ok i, (v, m))" by (simp add: on_hw_pair unwrap_def)
  moreover have "exit_reason i = rsn" using i(2) by (simp only: VmxExitReason_number_inject)
  ultimately show thesis using i(3) by (rule that)
qed

text \<open>The guest leaves \<open>raw\<close> as its exit reason, one that is passed to the caller.\<close>

definition exiting :: "u64 \<Rightarrow> refm" where
  "exiting raw = ref_machine\<lparr>m_guest := [(GeneralRegisters_default, [(0x4402, raw)])]\<rparr>"

lemma exiting_run:
  assumes v: "pending_events v = []" "\<not> launched v" "xstate v = run_xstate"
    and raw: "VmxExitReason_number rsn = take_bit 16 (ucast raw)" "ref_entry_ok raw"
    and passed: "\<And>w i. exit_reason i = rsn \<Longrightarrow> \<not> builtin_exit (w :: (usize \<Rightarrow> usize) VmxVcpu) i"
  shows "\<exists>i v' m'. inner_run ref_hw ref_dev (v, exiting raw) = (Ok (Some i), (v', m')) \<and> launched v' \<and>
    guest_xcr0 (xstate v') = 3 \<and> m_xcr0 m' = Some 7 \<and> entry_failure i = bit raw 31 \<and> m_cur m' = Some 0x2000"
proof -
  let ?s = "0xffffffff00000000 :: u64"
  have m: "ref_xcr0_read (exiting raw) = Some 7" "m_msr (exiting raw) 0xda0 = Some ?s" "m_cur (exiting raw) = Some 0x2000"
    "m_guest (exiting raw) = [(GeneralRegisters_default, [(0x4402, raw)])]" "m_launched (exiting raw) = (\<lambda>_. False)"
    "bit (m_cr4 (exiting raw)) 18" "m_vmx_on (exiting raw)"
    by (simp_all add: exiting_def ref_machine_def ref_xcr0_read_def bit_numeral_rec)
  define v1 where "v1 = v\<lparr>xstate := run_xstate\<lparr>host_xcr0 := 7, host_xss := ?s\<rparr>\<rparr>"
  define m1 where "m1 = (exiting raw)\<lparr>m_xcr0 := Some 3, m_msr := (m_msr (exiting raw))(0xda0 \<mapsto> 0x100)\<rparr>"
  have guest: "load_guest_xstate ref_hw (v, exiting raw) = (Ok (), (v1, m1))"
    using ref_load_guest [of v "exiting raw" 7 ?s] m v by (simp add: run_xstate_def v1_def m1_def)
  define m2 where "m2 = m1\<lparr>m_vmcs := (m_vmcs m1)(0x2000 := (m_vmcs m1 0x2000)(0x6c14 := 0x9080))\<rparr>"
  have rsp: "write_host_rsp ref_hw (v1\<lparr>launched := True\<rparr>, m1) = (Ok (), (v1\<lparr>launched := True\<rparr>, m2))"
    using ref_write_rsp [of m1 "0x2000"] m(3) by (simp add: m1_def m2_def)
  define v3 where "v3 = v1\<lparr>launched := True, host_stack_top := 0x7ff00, guest_regs := GeneralRegisters_default\<rparr>"
  define m3 where "m3 = m2\<lparr>m_guest := [], m_launched := (m_launched m2)(0x2000 := \<not> bit raw 31),
    m_vmcs := (m_vmcs m2)(0x2000 := (m_vmcs m2 0x2000)(0x4402 := raw))\<rparr>"
  have "ref_vm_entry VMLAUNCH_INSTR regs m2 = (Inr GeneralRegisters_default, m3)" for regs
    using m raw(2) by (simp add: ref_vm_entry_def m3_def m2_def m1_def)
  then have enter: "vm_enter ref_hw VMLAUNCH_INSTR (v1\<lparr>launched := True\<rparr>, m2) = (Ok (), (v3, m3))"
    by (simp add: vm_enter_def Let_def v3_def)
  define v4 where "v4 = v3\<lparr>xstate := (xstate v3)\<lparr>guest_xcr0 := 3, guest_xss := 0x100\<rparr>\<rparr>"
  define m4 where "m4 = m3\<lparr>m_xcr0 := Some 7, m_msr := (m_msr m3)(0xda0 \<mapsto> ?s)\<rparr>"
  have x3: "ref_xcr0_read m3 = Some 3" "m_msr m3 0xda0 = Some 0x100" "xsave_available (xstate v3)"
    "xsaves_available (xstate v3)" "host_xcr0 (xstate v3) = 7" "host_xss (xstate v3) = ?s"
    using m(6) by (simp_all add: m3_def m2_def m1_def ref_xcr0_read_def v3_def v1_def run_xstate_def)
  have host: "load_host_xstate ref_hw (v3, m3) = (Ok (), (v4, m4))"
    using ref_load_host [of v3 m3 3 "0x100"] x3 by (simp add: v4_def m4_def)
  have m4: "m_cur m4 = Some 0x2000" "m_vmcs m4 0x2000 0x4402 = raw" "m_xcr0 m4 = Some 7"
    using m(3) by (simp_all add: m4_def m3_def m2_def m1_def)
  obtain i where info: "on_hw (unwrap (exit_info ref_hw)) (v4, m4) = (Ok i, (v4, m4))" "exit_reason i = rsn"
    "entry_failure i = bit raw 31"
    using m4(1,2) raw(1) by (rule ref_exit_info)
  have h: "builtin_vmexit_handler ref_hw ref_dev i (v4, m4) = (Ok None, (v4, m4))"
    by (rule not_builtin [OF passed [OF info(2)]])
  have l1: "\<not> launched v1" using v(2) by (simp add: v1_def)
  have "inner_run ref_hw ref_dev (v, exiting raw) = (Ok (Some i), (v4, m4))"
    by (simp add: inner_run_def bind_def self_def gets_def modify_self_run return_def no_events [OF v(1)] guest l1
        rsp enter host info(1) h)
  moreover have "launched v4" "guest_xcr0 (xstate v4) = 3" by (simp_all add: v4_def v3_def)
  ultimately show ?thesis using m4(1,3) info(3) by blast
qed

lemma halting_run:
  assumes "pending_events v = []" "\<not> launched v" "xstate v = run_xstate"
  shows "\<exists>i v' m'. inner_run ref_hw ref_dev (v, halting) = (Ok (Some i), (v', m')) \<and> launched v' \<and>
    guest_xcr0 (xstate v') = 3 \<and> m_xcr0 m' = Some 7 \<and> \<not> entry_failure i"
proof -
  have "halting = exiting 12" by (simp add: halting_def exiting_def)
  then show ?thesis
    using exiting_run [OF assms, of HLT 12] by (auto simp: ref_entry_ok_def builtin_exit_def bit_numeral_rec)
qed

end
