(* ===== verification/VcpuSetup.thy ===== *)
theory VcpuSetup
  imports Vcpu
begin

text \<open>
  \<open>setup_vmcs\<close> as a whole. What it needs of the processor is the locale \<open>vmcs_bind\<close>: in VMX operation VMCLEAR
  and VMPTRLD succeed on the region of the vCPU (a page, with the revision identifier of the processor, that is not the VMXON
  region), and VMPTRLD makes the region's VMCS current.
\<close>

locale vmcs_bind = ept_hw hw current eptp_ok for hw :: "'m hw" and current eptp_ok +
  fixes vmx_on :: "'m \<Rightarrow> bool" and region :: u64
  assumes vmclear_ok: "vmx_on m \<Longrightarrow>
      \<exists>m'. hw_vmclear hw region m = (Inr (), m') \<and> vmx_on m' \<and> host_view hw m' = host_view hw m"
    and vmptrld_ok: "vmx_on m \<Longrightarrow>
      \<exists>m'. hw_vmptrld hw region m = (Inr (), m') \<and> current m' \<and> host_view hw m' = host_view hw m"
    and current_on: "current m \<Longrightarrow> vmx_on m"

lemma ref_bind_at:
  assumes "p AND 0xfff = 0"
  shows "vmcs_bind ref_hw (\<lambda>m. m_cur m = Some p \<and> m_vmx_on m) ref_eptp_ok m_vmx_on p"
proof -
  have vmwrite: "\<exists>m'. hw_vmwrite ref_hw f v m = (Inr (), m') \<and> m_cur m' = Some p \<and> m_vmx_on m'"
    if "m_cur m = Some p \<and> m_vmx_on m" "writable_field f" for f v m
    using ref_current.current_write [of m f v] that by (auto simp: ref_vmwrite_def split: option.splits if_splits)
  show ?thesis
    by unfold_locales
      (use assms ref_current.current_read vmwrite in
        \<open>auto simp: ref_invept_run ref_wrote_rflags ref_vmclear_def ref_vmptrld_def host_view_def ref_xcr0_read_def\<close>)
qed

interpretation ref_bind: vmcs_bind ref_hw "\<lambda>m. m_cur m = Some 0x2000 \<and> m_vmx_on m" ref_eptp_ok m_vmx_on "0x2000"
  by (rule ref_bind_at) simp

text \<open>The MSRs that \<open>setup_vmcs\<close> reads.\<close>

definition setup_msrs :: "Msr list" where
  "setup_msrs = control_msrs @ [Msr.IA32_PAT, Msr.IA32_EFER, IA32_FS_BASE, IA32_GS_BASE,
     IA32_VMX_CR0_FIXED1, IA32_VMX_CR0_FIXED0, IA32_VMX_CR4_FIXED1, IA32_VMX_CR4_FIXED0]"

text \<open>The VMCS fields of a vCPU that has been set up.\<close>

definition vmcs_area ::
  "'m hw \<Rightarrow> 'm \<Rightarrow> (Msr \<Rightarrow> u64) \<Rightarrow> u64 \<Rightarrow> u64 \<Rightarrow> u64 \<Rightarrow> 'l VmxVcpu \<Rightarrow> (u32 \<times> u64) list" where
  "vmcs_area hw m msr tr_base entry_addr root v =
     host_area hw m (msr Msr.IA32_PAT) (msr Msr.IA32_EFER) (msr IA32_FS_BASE) (msr IA32_GS_BASE) tr_base @
     cr0_writes (msr IA32_VMX_CR0_FIXED1 AND NOT (CR0_NOT_WRITE_THROUGH OR CR0_CACHE_DISABLE))
       (msr IA32_VMX_CR0_FIXED0 AND NOT (CR0_PAGING OR CR0_PE))
       (CR0_NOT_WRITE_THROUGH OR CR0_CACHE_DISABLE OR CR0_EXTENSION_TYPE) @
     cr4_writes (msr IA32_VMX_CR4_FIXED1) (msr IA32_VMX_CR4_FIXED0) (0 OR CR4_VMXE) @
     guest_reset entry_addr (msr Msr.IA32_PAT) @
     control_area hw m msr root @ bitmap_area v"


lemma writes_run:
  assumes "writes hw current m0 p ws" "current m" "host_view hw m = host_view hw m0"
  obtains m' where "p m = (Ok (), m')" "current m'" "wrote hw ws m m'" "host_view hw m' = host_view hw m0"
  using assms by (auto simp: writes_def wrote_host)

context vmcs_bind
begin

text \<open>The host area, the guest area and the execution controls.\<close>

lemma area_writes:
  assumes msrs: "\<And>r. r \<in> set setup_msrs \<Longrightarrow> hw_rdmsr hw (Msr_number r) m = Some (msr r)"
    and caps: "control_caps_ok hw m msr" and root: "eptp_ok (EPTPointer_from_table_phys root)"
    and tr: "\<And>m1. host_view hw m1 = host_view hw m \<Longrightarrow>
      get_tr_base hw (hw_segment hw SEG_TR m) (hw_sgdt hw m) m1 = (Ok tr_base, m1)"
  shows "writes hw current m (setup_vmcs_host hw) (host_area hw m (msr Msr.IA32_PAT) (msr Msr.IA32_EFER)
      (msr IA32_FS_BASE) (msr IA32_GS_BASE) tr_base)"
    "writes hw current m (setup_vmcs_guest hw entry_addr)
      (cr0_writes (msr IA32_VMX_CR0_FIXED1 AND NOT (CR0_NOT_WRITE_THROUGH OR CR0_CACHE_DISABLE))
         (msr IA32_VMX_CR0_FIXED0 AND NOT (CR0_PAGING OR CR0_PE))
         (CR0_NOT_WRITE_THROUGH OR CR0_CACHE_DISABLE OR CR0_EXTENSION_TYPE) @
       cr4_writes (msr IA32_VMX_CR4_FIXED1) (msr IA32_VMX_CR4_FIXED0) (0 OR CR4_VMXE) @
       guest_reset entry_addr (msr Msr.IA32_PAT))"
    "writes hw current m (setup_exec_controls hw root True) (control_area hw m msr root)"
proof -
  have msr: "hw_rdmsr hw (Msr_number r) m = Some (msr r)"
    if "r \<in> set control_msrs \<union> {Msr.IA32_PAT, Msr.IA32_EFER, IA32_FS_BASE, IA32_GS_BASE, IA32_VMX_CR0_FIXED1,
      IA32_VMX_CR0_FIXED0, IA32_VMX_CR4_FIXED1, IA32_VMX_CR4_FIXED0}" for r
    using that by (intro msrs) (auto simp: setup_msrs_def)
  show "writes hw current m (setup_vmcs_host hw) (host_area hw m (msr Msr.IA32_PAT) (msr Msr.IA32_EFER)
      (msr IA32_FS_BASE) (msr IA32_GS_BASE) tr_base)"
    by (rule setup_vmcs_host_writes [OF msr msr msr msr tr]) simp_all
  show "writes hw current m (setup_vmcs_guest hw entry_addr)
      (cr0_writes (msr IA32_VMX_CR0_FIXED1 AND NOT (CR0_NOT_WRITE_THROUGH OR CR0_CACHE_DISABLE))
         (msr IA32_VMX_CR0_FIXED0 AND NOT (CR0_PAGING OR CR0_PE))
         (CR0_NOT_WRITE_THROUGH OR CR0_CACHE_DISABLE OR CR0_EXTENSION_TYPE) @
       cr4_writes (msr IA32_VMX_CR4_FIXED1) (msr IA32_VMX_CR4_FIXED0) (0 OR CR4_VMXE) @
       guest_reset entry_addr (msr Msr.IA32_PAT))"
    by (rule setup_vmcs_guest_writes [OF msr msr msr msr msr]) simp_all
  show "writes hw current m (setup_exec_controls hw root True) (control_area hw m msr root)"
    by (rule control_area_writes [OF _ caps root]) (simp add: msr)
qed

lemma bind_run:
  assumes "vmx_on m1" "host_view hw m1 = host_view hw m" "VmxRegion_phys_addr (vmcs v) = Ok region"
    and host: "writes hw current m (setup_vmcs_host hw) ws"
  obtains m2 m' where "hw_vmptrld hw region m1 = (Inr (), m2)" "bind_to_current_processor hw (v, m1) = (Ok (), (v, m'))" "current m2"
    "current m'" "wrote hw ws m2 m'" "host_view hw m' = host_view hw m"
proof -
  obtain m2 where m2: "hw_vmptrld hw region m1 = (Inr (), m2)" "current m2" "host_view hw m2 = host_view hw m"
    using vmptrld_ok [OF assms(1)] assms(2) by auto
  obtain m' where m': "setup_vmcs_host hw m2 = (Ok (), m')" "current m'" "wrote hw ws m2 m'"
    "host_view hw m' = host_view hw m"
    using host m2(2,3) by (rule writes_run)
  have "bind_to_current_processor hw (v, m1) = (Ok (), (v, m'))"
    using m2(1) m'(1) assms(3) by (simp add: bind_to_current_processor_def prog_simps map_err_ax_def)
  with m2(1) show thesis using m2(2) m'(2-4) by (rule that)
qed

lemma control_run:
  assumes "current m1" "host_view hw m1 = host_view hw m" "wf_io (io_bitmap v)"
    and "writes hw current m (setup_exec_controls hw root True) ws"
  obtains io m' where "setup_vmcs_control hw root True (v, m1) = (Ok (), (v\<lparr>io_bitmap := io\<rparr>, m'))"
    "current m'" "wrote hw (ws @ bitmap_area (v\<lparr>io_bitmap := io\<rparr>)) m1 m'" "host_view hw m' = host_view hw m"
    "wf_io io" "\<forall>j < 0x10000. io_intercepted io j = (j = 0x604 \<or> io_intercepted (io_bitmap v) j)"
proof -
  obtain m2 where m2: "setup_exec_controls hw root True m1 = (Ok (), m2)" "current m2" "wrote hw ws m1 m2"
    "host_view hw m2 = host_view hw m"
    using assms(4,1,2) by (rule writes_run)
  obtain io where io: "setup_io_bitmap hw (v, m2) = (Ok (), (v\<lparr>io_bitmap := io\<rparr>, m2))" "wf_io io"
    "\<forall>j < 0x10000. io_intercepted io j = (j = 0x604 \<or> io_intercepted (io_bitmap v) j)"
    using setup_io_bitmap_run [OF assms(3), of hw m2] by (elim exE conjE) (rule that)
  obtain m' where m': "setup_bitmap_fields hw (v\<lparr>io_bitmap := io\<rparr>) m2 = (Ok (), m')" "current m'"
    "wrote hw (bitmap_area (v\<lparr>io_bitmap := io\<rparr>)) m2 m'" "host_view hw m' = host_view hw m"
    using bitmap_area_writes m2(2,4) by (rule writes_run)
  have "setup_vmcs_control hw root True (v, m1) = (Ok (), (v\<lparr>io_bitmap := io\<rparr>, m'))"
    using m2(1) io(1) m'(1) by (simp add: setup_vmcs_control_def prog_simps)
  then show thesis using m'(2) wrote_append [OF m2(3) m'(3)] m'(4) io(2,3) by (rule that)
qed

lemma setup_run:
  assumes m: "vmx_on m" and v: "VmxRegion_phys_addr (vmcs v) = Ok region"
    "wf_io (io_bitmap v)" "wf_msr (msr_bitmap v)"
    and host: "writes hw current m (setup_vmcs_host hw) ws1"
    and guest: "writes hw current m (setup_vmcs_guest hw entry_addr) ws2"
    and control: "writes hw current m (setup_exec_controls hw root True) ws3"
  obtains io ms m0 m1 m' where
    "setup_vmcs hw entry_addr root (v, m) = (Ok (), (v\<lparr>io_bitmap := io, msr_bitmap := ms\<rparr>, m'))"
    "current m0" "current m1" "wrote hw (ws1 @ ws2 @ ws3 @ bitmap_area (v\<lparr>io_bitmap := io, msr_bitmap := ms\<rparr>)) m0 m1"
    "hw_vmclear hw region m1 = (Inr (), m')" "vmx_on m'" "host_view hw m' = host_view hw m" "wf_io io" "wf_msr ms"
    "\<forall>j < 0x10000. io_intercepted io j = (j = 0x604 \<or> io_intercepted (io_bitmap v) j)"
    "\<forall>j w. msr_covered j \<longrightarrow> msr_intercepted ms j w =
       (j = 0xe1 \<or> (0x800 \<le> j \<and> j \<le> 0x83f) \<or> msr_intercepted (msr_bitmap v) j w)"
proof -
  obtain c where c: "hw_vmclear hw region m = (Inr (), c)" "vmx_on c" "host_view hw c = host_view hw m"
    using vmclear_ok [OF m] by auto
  obtain m0 b where b: "bind_to_current_processor hw (v, c) = (Ok (), (v, b))" "current m0" "current b"
    "wrote hw ws1 m0 b" "host_view hw b = host_view hw m"
    using c(2,3) v(1) host by (rule bind_run)
  obtain ms where ms: "setup_msr_bitmap (v, b) = (Ok (), (v\<lparr>msr_bitmap := ms\<rparr>, b))" "wf_msr ms"
    "\<forall>j w. msr_covered j \<longrightarrow> msr_intercepted ms j w =
       (j = 0xe1 \<or> (0x800 \<le> j \<and> j \<le> 0x83f) \<or> msr_intercepted (msr_bitmap v) j w)"
    using setup_msr_bitmap_run [OF v(3), of b] by (elim exE conjE) (rule that)
  obtain g where g: "setup_vmcs_guest hw entry_addr b = (Ok (), g)" "current g" "wrote hw ws2 b g"
    "host_view hw g = host_view hw m"
    using guest b(3,5) by (rule writes_run)
  let ?v = "v\<lparr>msr_bitmap := ms\<rparr>"
  have "wf_io (io_bitmap ?v)" by (simp add: v(2))
  with g(2,4) obtain io m1 where io: "setup_vmcs_control hw root True (?v, g) = (Ok (), (?v\<lparr>io_bitmap := io\<rparr>, m1))"
    "current m1" "wrote hw (ws3 @ bitmap_area (?v\<lparr>io_bitmap := io\<rparr>)) g m1" "host_view hw m1 = host_view hw m"
    "wf_io io" "\<forall>j < 0x10000. io_intercepted io j = (j = 0x604 \<or> io_intercepted (io_bitmap ?v) j)"
    using control by (rule control_run)
  obtain m' where u: "hw_vmclear hw region m1 = (Inr (), m')" "vmx_on m'" "host_view hw m' = host_view hw m"
    using vmclear_ok [OF current_on [OF io(2)]] io(4) by auto
  have run: "setup_vmcs hw entry_addr root (v, m) = (Ok (), (v\<lparr>io_bitmap := io, msr_bitmap := ms\<rparr>, m'))"
    using c(1) b(1) ms(1) g(1) io(1) u(1) v(1)
    by (simp add: setup_vmcs_def unbind_from_current_processor_def prog_simps map_err_ax_def)
  have wrote: "wrote hw (ws1 @ ws2 @ ws3 @ bitmap_area (v\<lparr>io_bitmap := io, msr_bitmap := ms\<rparr>)) m0 m1"
    using wrote_append [OF b(4) wrote_append [OF g(3) io(3)]] by (simp add: bitmap_area_def)
  from run b(2) io(2) wrote u io(5) ms(2) io(6) [simplified] ms(3) show thesis by (rule that)
qed

lemma setup_area:
  assumes m: "vmx_on m"
    and v: "VmxRegion_phys_addr (vmcs v) = Ok region" "wf_io (io_bitmap v)" "wf_msr (msr_bitmap v)"
    and msrs: "\<And>r. r \<in> set setup_msrs \<Longrightarrow> hw_rdmsr hw (Msr_number r) m = Some (msr r)"
    and caps: "control_caps_ok hw m msr" and root: "eptp_ok (EPTPointer_from_table_phys root)"
    and tr: "\<And>m1. host_view hw m1 = host_view hw m \<Longrightarrow>
      get_tr_base hw (hw_segment hw SEG_TR m) (hw_sgdt hw m) m1 = (Ok tr_base, m1)"
  shows "\<exists>io ms m0 m1 m'.
    setup_vmcs hw entry_addr root (v, m) = (Ok (), (v\<lparr>io_bitmap := io, msr_bitmap := ms\<rparr>, m')) \<and>
    current m0 \<and> current m1 \<and>
    wrote hw (vmcs_area hw m msr tr_base entry_addr root (v\<lparr>io_bitmap := io, msr_bitmap := ms\<rparr>)) m0 m1 \<and>
    hw_vmclear hw region m1 = (Inr (), m') \<and> vmx_on m' \<and> host_view hw m' = host_view hw m \<and>
    wf_io io \<and> wf_msr ms \<and>
    (\<forall>j < 0x10000. io_intercepted io j = (j = 0x604 \<or> io_intercepted (io_bitmap v) j)) \<and>
    (\<forall>j w. msr_covered j \<longrightarrow> msr_intercepted ms j w =
       (j = 0xe1 \<or> (0x800 \<le> j \<and> j \<le> 0x83f) \<or> msr_intercepted (msr_bitmap v) j w))"
  unfolding vmcs_area_def append_assoc
  by (rule setup_run [OF m v area_writes [OF msrs caps root tr]]) (simp | blast)+

end

text \<open>
  C11. Setting up a vCPU: in VMX operation, with a VMCS region that the processor accepts, well-formed bitmaps, readable MSRs,
  capabilities that admit the controls the code asks for and an EPT root whose pointer the processor accepts, \<open>setup_vmcs\<close> runs to its end without an error. It leaves
  the VMCS with the host, guest and control area and the bitmap addresses of this vCPU, clears it last (so that
  the vCPU can be bound on any processor), leaves the processor in VMX operation with the registers of the host
  unchanged, and of the vCPU changes the bitmaps only: the QEMU exit port and the intercepted MSRs are added.
\<close>

theorem setup_vmcs_spec:
  assumes hw: "vmcs_bind hw current eptp_ok vmx_on p" "vmx_on m"
    and v: "VmxRegion_phys_addr (vmcs v) = Ok p" "wf_io (io_bitmap v)" "wf_msr (msr_bitmap v)"
    and msrs: "\<And>r. r \<in> set setup_msrs \<Longrightarrow> hw_rdmsr hw (Msr_number r) m = Some (msr r)"
    and caps: "control_caps_ok hw m msr" and root: "eptp_ok (EPTPointer_from_table_phys root)"
    and tr: "\<And>m1. host_view hw m1 = host_view hw m \<Longrightarrow>
      get_tr_base hw (hw_segment hw SEG_TR m) (hw_sgdt hw m) m1 = (Ok tr_base, m1)"
  shows "\<exists>io ms m0 m1 m'.
    setup_vmcs hw entry_addr root (v, m) = (Ok (), (v\<lparr>io_bitmap := io, msr_bitmap := ms\<rparr>, m')) \<and>
    current m0 \<and> current m1 \<and>
    wrote hw (vmcs_area hw m msr tr_base entry_addr root (v\<lparr>io_bitmap := io, msr_bitmap := ms\<rparr>)) m0 m1 \<and>
    hw_vmclear hw p m1 = (Inr (), m') \<and> vmx_on m' \<and> host_view hw m' = host_view hw m \<and>
    wf_io io \<and> wf_msr ms \<and>
    (\<forall>j < 0x10000. io_intercepted io j = (j = 0x604 \<or> io_intercepted (io_bitmap v) j)) \<and>
    (\<forall>j w. msr_covered j \<longrightarrow> msr_intercepted ms j w =
       (j = 0xe1 \<or> (0x800 \<le> j \<and> j \<le> 0x83f) \<or> msr_intercepted (msr_bitmap v) j w))"
  by (rule vmcs_bind.setup_area [OF hw v msrs caps root tr])

lemma ref_setup:
  defines "msr \<equiv> \<lambda>r. the (m_msr ref_machine (Msr_number r))"
  shows "hw_rdmsr ref_hw (Msr_number r) ref_machine = Some (msr r)"
    and "control_caps_ok ref_hw ref_machine msr"
    and "get_tr_base ref_hw (hw_segment ref_hw SEG_TR ref_machine) (hw_sgdt ref_hw ref_machine) m1 =
      (Ok 0x6700000000, m1)"
    and "VmxRegion_phys_addr (vmcs ref_vcpu) = Ok 0x2000" "wf_io (io_bitmap ref_vcpu)" "wf_msr (msr_bitmap ref_vcpu)"
proof -
  show "hw_rdmsr ref_hw (Msr_number r) ref_machine = Some (msr r)"
    by (simp add: msr_def ref_machine_def)
  show "control_caps_ok ref_hw ref_machine msr"
    by (simp add: msr_def control_caps_ok_def cap_allows_def secondary_controls_def ref_machine_def Let_def)
  show "get_tr_base ref_hw (hw_segment ref_hw SEG_TR ref_machine) (hw_sgdt ref_hw ref_machine) m1 =
      (Ok 0x6700000000, m1)"
    by (simp add: get_tr_base_def table_entry_def get_bits_def prog_simps mask_eq_exp_minus_1)
qed (simp_all add: ref_vcpu_def VmxRegion_phys_addr_def wf_zero_io wf_zero_msr)

lemmas ref_areas = ref_bind.area_writes [OF ref_setup(1,2) ref_eptp_from_table ref_setup(3)]

theorem setup_vmcs_spec_witness:
  "\<exists>io ms m'. setup_vmcs ref_hw 0x8000 0x7000 (ref_vcpu, ref_machine) =
       (Ok (), (ref_vcpu\<lparr>io_bitmap := io, msr_bitmap := ms\<rparr>, m')) \<and>
     io_intercepted io 0x604 \<and> msr_intercepted ms 0x808 True \<and> m_vmx_on m'"
proof -
  have on: "m_vmx_on ref_machine" by (simp add: ref_machine_def)
  obtain io ms m' where run: "setup_vmcs ref_hw 0x8000 0x7000 (ref_vcpu, ref_machine) =
      (Ok (), (ref_vcpu\<lparr>io_bitmap := io, msr_bitmap := ms\<rparr>, m'))" and "m_vmx_on m'"
    and io: "\<forall>j < 0x10000. io_intercepted io j = (j = 0x604 \<or> io_intercepted (io_bitmap ref_vcpu) j)"
    and ms: "\<forall>j w. msr_covered j \<longrightarrow> msr_intercepted ms j w =
       (j = 0xe1 \<or> (0x800 \<le> j \<and> j \<le> 0x83f) \<or> msr_intercepted (msr_bitmap ref_vcpu) j w)"
    using setup_vmcs_spec [OF ref_bind.vmcs_bind_axioms on ref_setup(4-6,1,2) ref_eptp_from_table [of "0x7000"] ref_setup(3), of "0x8000"]
    by (elim exE conjE) (rule that)
  have "io_intercepted io 0x604" using io by simp
  moreover have "msr_intercepted ms 0x808 True" using ms by (simp add: msr_covered_def)
  ultimately show ?thesis using run \<open>m_vmx_on m'\<close> by (intro exI conjI)
qed

end
