(* ===== verification/VcpuLaunch.thy ===== *)
theory VcpuLaunch
  imports RefRun VcpuSetup
begin

text \<open>
  The launch state of a VMCS. The processor accepts VMLAUNCH only on a clear VMCS and VMRESUME only on a
  launched one; the vCPU remembers the state in its field \<open>launched\<close>. An entry that fails while the state of the guest is loaded
  comes back like an exit, with bit 31 of the exit reason set, and does not change the launch state; the code sets
  \<open>launched\<close> before it executes VMLAUNCH and does not take it back. What the code relies on is the locale
  \<open>launch_hw\<close>; the invariant is that the field agrees with the processor, except after such a failure.
\<close>

section \<open>What the processor promises\<close>

definition entry_failed :: "'m hw \<Rightarrow> 'm \<Rightarrow> bool" where
  "entry_failed hw m \<longleftrightarrow> (case hw_vmread hw (VmcsReadOnly32_number EXIT_REASON) m of Inr raw \<Rightarrow> bit raw 31 | Inl _ \<Rightarrow> False)"

text \<open>The basic reasons of a failed entry: invalid guest state, MSR loading, a machine check.\<close>

definition failure_reasons :: "VmxExitReason list" where
  "failure_reasons = [INVALID_GUEST_STATE, MSR_LOAD_FAIL, MCE_DURING_VMENTRY]"

locale launch_hw =
  fixes hw :: "'m hw" and dev :: "('l, 'm) dev"
    and is_launched :: "u64 \<Rightarrow> 'm \<Rightarrow> bool" and cur :: "'m \<Rightarrow> u64 option"
  assumes vmwrite: "hw_vmwrite hw f x m = (r, m') \<Longrightarrow> is_launched a m' = is_launched a m \<and> cur m' = cur m"
    and wrmsr: "hw_wrmsr hw n x m = Some m' \<Longrightarrow> is_launched a m' = is_launched a m \<and> cur m' = cur m \<and>
      hw_vmread hw f m' = hw_vmread hw f m"
    and xsetbv: "hw_xcr0_write hw x m = Some m' \<Longrightarrow> is_launched a m' = is_launched a m \<and> cur m' = cur m \<and>
      hw_vmread hw f m' = hw_vmread hw f m"
    and invept: "hw_invept hw t d m = Some m' \<Longrightarrow> is_launched a m' = is_launched a m \<and> cur m' = cur m"
    and vmptrld: "hw_vmptrld hw p m = (r, m') \<Longrightarrow> is_launched a m' = is_launched a m"
    and vmclear: "hw_vmclear hw p m = (Inr (), m') \<Longrightarrow> is_launched a m' = (a \<noteq> p \<and> is_launched a m)"
    and vmclear_fail: "hw_vmclear hw p m = (Inl e, m') \<Longrightarrow> is_launched a m' = is_launched a m"
    and vmlaunch: "hw_vm_entry hw VMLAUNCH_INSTR regs m = (Inr g, m') \<Longrightarrow> cur m = Some p \<Longrightarrow>
      \<not> is_launched p m \<and> is_launched p m' = (\<not> entry_failed hw m')"
    and vmresume: "hw_vm_entry hw VMRESUME_INSTR regs m = (Inr g, m') \<Longrightarrow> cur m = Some p \<Longrightarrow>
      is_launched p m \<and> is_launched p m'"
    and failure: "hw_vm_entry hw instr regs m = (Inr g, m') \<Longrightarrow> entry_failed hw m' \<Longrightarrow>
      hw_vmread hw (VmcsReadOnly32_number EXIT_REASON) m' = Inr raw \<Longrightarrow>
      take_bit 16 (ucast raw) \<in> VmxExitReason_number ` set failure_reasons"
    and vlapic_ops: "vlapic_read dev off w (l, m) = (res1, (l', m')) \<Longrightarrow> is_launched a m' = is_launched a m"
      "vlapic_write dev off w y (l, m) = (res2, (l', m')) \<Longrightarrow> is_launched a m' = is_launched a m"

lemma ref_failed_reason:
  assumes "ref_vm_entry instr regs m = (Inr g, m')" "entry_failed ref_hw m'" "hw_vmread ref_hw (VmcsReadOnly32_number EXIT_REASON) m' = Inr raw"
  shows "take_bit 16 (ucast raw) \<in> VmxExitReason_number ` set failure_reasons"
proof -
  have "ref_entry_ok raw" "bit raw 31"
    using assms by (auto simp: ref_vm_entry_def ref_vmread_def entry_failed_def Let_def split: if_splits option.splits list.splits)
  then have "take_bit 16 raw \<in> {33, 34, 41}" by (simp add: ref_entry_ok_def)
  then have "(ucast (take_bit 16 raw) :: u32) \<in> {33, 34, 41}" by auto
  moreover have "take_bit 16 (ucast raw :: u32) = ucast (take_bit 16 raw)"
    by (rule bit_word_eqI) (auto simp: bit_simps)
  ultimately show ?thesis by (auto simp: failure_reasons_def)
qed

interpretation ref_launch: launch_hw ref_hw ref_dev "\<lambda>a m. m_launched m a" m_cur
proof (unfold_locales, goal_cases)
  case (10 instr regs m g m' raw)
  then show ?case by (intro ref_failed_reason) simp_all
qed (auto simp: ref_vmwrite_def ref_wrmsr_def ref_xcr0_write_def ref_vmptrld_def ref_vmclear_def ref_vm_entry_def
      ref_invept_def ref_vmread_def ref_dev_def entry_failed_def Let_def bind_def prog_defs
      split: option.splits if_splits list.splits)

text \<open>The vCPU whose VMCS is at \<open>p\<close>, with its launch flag.\<close>

abbreviation (input) flagged :: "u64 \<Rightarrow> bool \<Rightarrow> 'l VmxVcpu \<Rightarrow> bool" where
  "flagged p b \<equiv> \<lambda>v. VmxRegion_phys_addr (vmcs v) = Ok p \<and> launched v = b"

section \<open>Running\<close>

text \<open>The result of \<open>inner_run\<close> tells whether the entry has failed.\<close>

definition reports_failure :: "VmxExitInfo option res \<Rightarrow> bool" where
  "reports_failure r \<longleftrightarrow> (case r of Ok (Some info) \<Rightarrow> entry_failure info | _ \<Rightarrow> False)"

text \<open>No instruction but VM entry and VMCLEAR changes a launch state.\<close>

sublocale launch_hw \<subseteq> state: quiet_hw hw "\<lambda>m. is_launched p m = b" for p b
  by unfold_locales (use vmwrite wrmsr xsetbv invept in \<open>metis+\<close>)

sublocale launch_hw \<subseteq> ready: quiet_hw hw "\<lambda>m. is_launched p m = b \<and> cur m = Some p" for p b
  by unfold_locales (use vmwrite wrmsr xsetbv invept in \<open>metis+\<close>)

sublocale launch_hw \<subseteq> report: msr_quiet hw "\<lambda>m. is_launched p m = b \<and> hw_vmread hw f m = z" for p b f z
  by unfold_locales (use wrmsr xsetbv in \<open>metis+\<close>)

sublocale launch_hw \<subseteq> vcpu: vcpu_quiet hw "\<lambda>m. is_launched p m = b" dev "flagged p c" for p b c
  by unfold_locales (use vlapic_ops in \<open>auto\<close>)

context launch_hw
begin

text \<open>The launch flag is \<open>c\<close>, the launch state of the VMCS is \<open>b\<close>.\<close>

abbreviation (input) in_state :: "u64 \<Rightarrow> bool \<Rightarrow> bool \<Rightarrow> 'l VmxVcpu \<times> 'm \<Rightarrow> bool" where
  "in_state p c b \<equiv> both (flagged p c) (\<lambda>m. is_launched p m = b)"

abbreviation (input) entering :: "u64 \<Rightarrow> bool \<Rightarrow> bool \<Rightarrow> 'l VmxVcpu \<times> 'm \<Rightarrow> bool" where
  "entering p c b \<equiv> both (flagged p c) (\<lambda>m. is_launched p m = b \<and> cur m = Some p)"

text \<open>
  The entry. An entry that comes back needs a launch flag that is right; VMLAUNCH launches the VMCS unless the entry has failed.
\<close>

lemma entry_outcome:
  assumes "entering p c b s" "entry_step hw (fst s) s = (Ok (), s')"
  shows "b = c \<and> in_state p True (c \<or> \<not> entry_failed hw (snd s')) s' \<and>
    (\<exists>instr regs m g. hw_vm_entry hw instr regs m = (Inr g, snd s'))"
proof -
  obtain v m where s: "s = (v, m)" by (cases s)
  have enter: "in_state p True (c' \<or> \<not> entry_failed hw (snd s')) s' \<and> b = c' \<and> (\<exists>instr regs m g. hw_vm_entry hw instr regs m = (Inr g, snd s'))"
    if "vm_enter hw instr (v', m') = (Ok (), s')" "entering p True b (v', m')" "c' = (instr = VMRESUME_INSTR)" for instr v' m' c'
    using that vm_enter_returns [of hw instr v' m' "Ok ()" "fst s'" "snd s'"] vmlaunch [of _ m' _ "snd s'" p] vmresume [of _ m' _ "snd s'" p]
    by (cases instr; cases s') (auto simp: returns_def)
  show ?thesis
  proof (cases c)
    case True
    then show ?thesis using assms enter [of VMRESUME_INSTR v m True] by (auto simp: s entry_step_def)
  next
    case False
    let ?w = "v\<lparr>launched := True\<rparr>"
    obtain v1 m1 where w: "write_host_rsp hw (?w, m) = (Ok (), (v1, m1))" "vm_enter hw VMLAUNCH_INSTR (v1, m1) = (Ok (), s')"
      using assms False by (auto simp: s entry_step_def bind_Ok_iff modify_self_run return_def)
    have "entering p True b (v1, m1)"
      by (rule keepsD [OF ready.keeps_both_host_rsp _ w(1)]) (use assms(1) in \<open>simp add: s\<close>)
    from enter [OF w(2) this, of False] False show ?thesis by simp
  qed
qed

lemma not_failure_builtin:
  assumes "VmxExitReason_number (exit_reason info) \<in> VmxExitReason_number ` set failure_reasons"
  shows "\<not> builtin_exit v info"
proof -
  have "exit_reason info \<in> set failure_reasons" using assms VmxExitReason_number_inject by auto
  then show ?thesis by (auto simp: failure_reasons_def builtin_exit_def)
qed

lemma keeps_cpuid_result: "keeps (in_state p c b) (cpuid_result hw regs)"
  unfolding cpuid_result_def Let_def by (intro both_rules machine_rules state.keeps_both_xstate; simp)

lemma inner_run_outcome:
  assumes "entering p c b s" "inner_run hw dev s = (r, s')" "returns r"
  shows "b = c \<and> in_state p True (c \<or> \<not> reports_failure r) s'"
proof -
  obtain s1 s2 s3 s4 info q where steps: "unwrap (inject_pending_events hw) s = (Ok (), s1)" "load_guest_xstate hw s1 = (Ok (), s2)"
    "entry_step hw (fst s2) s2 = (Ok (), s3)" "load_host_xstate hw s3 = (Ok (), s4)" "exit_info hw (snd s4) = (Ok info, snd s4)"
    "builtin_vmexit_handler hw dev info s4 = (q, s')" "returns q"
    "r = (case q of Ok None \<Rightarrow> Ok (Some info) | Ok (Some _) \<Rightarrow> Ok None | Err e \<Rightarrow> Err e)"
    using assms(2,3) by (rule inner_run_steps)
  have keep: "keeps (entering p c b) (unwrap (inject_pending_events hw))" "keeps (entering p c b) (load_guest_xstate hw)"
    by (rule keeps_unwrap, rule ready.keeps_both_inject, simp) (rule ready.keeps_both_xstate, simp)
  have "entering p c b s2" using keepsD [OF keep(2) keepsD [OF keep(1) assms(1) steps(1)] steps(2)] .
  then have e: "b = c" "in_state p True (c \<or> \<not> entry_failed hw (snd s3)) s3"
    "\<exists>instr regs m g. hw_vm_entry hw instr regs m = (Inr g, snd s3)"
    using entry_outcome [OF _ steps(3)] by blast+
  let ?f = "VmcsReadOnly32_number EXIT_REASON"
  have "both (flagged p True) (\<lambda>m. is_launched p m = (c \<or> \<not> entry_failed hw (snd s3)) \<and>
      hw_vmread hw ?f m = hw_vmread hw ?f (snd s3)) s4"
    by (rule keepsD [OF report.keeps_both_xstate(2) _ steps(4)]) (use e(2) in \<open>simp_all add: both_def\<close>)
  then have s4: "in_state p True (c \<or> \<not> entry_failed hw (snd s3)) s4" "hw_vmread hw ?f (snd s4) = hw_vmread hw ?f (snd s3)"
    by (simp_all add: both_def)
  obtain raw where raw: "hw_vmread hw ?f (snd s3) = Inr raw" "VmxExitReason_number (exit_reason info) = take_bit 16 (ucast raw)"
    "entry_failure info = entry_failed hw (snd s3)"
    using exit_info_Ok [OF steps(5)] s4(2) by (auto simp: entry_failed_def simp del: field_numbers)
  show ?thesis
  proof (cases "entry_failed hw (snd s3)")
    case True
    then have "\<not> builtin_exit (fst s4) info"
      using e(3) failure [OF _ True raw(1)] by (intro not_failure_builtin) (auto simp: raw(2))
    then have "q = Ok None" "s' = s4" using not_builtin [of "fst s4" info hw dev "snd s4"] steps(6) by simp_all
    then show ?thesis using e(1) s4(1) raw(3) steps(8) by (simp add: reports_failure_def)
  next
    case False
    then have "in_state p True True s4" using s4(1) by simp
    then have "in_state p True True s'"
      by (rule endsD [OF vcpu.builtin_ends [OF ends_keeps [OF keeps_cpuid_result]] _ steps(6,7)])
    moreover have "\<not> reports_failure r"
      using False raw(3) steps(7,8) by (auto simp: reports_failure_def returns_def split: res.splits option.splits)
    ultimately show ?thesis using e(1) by simp
  qed
qed

lemma run_exit_FailEntry:
  assumes "run_exit hw dev info s = (r, s')"
  shows "r = Ok (FailEntry 0) \<longleftrightarrow> entry_failure info"
proof (cases "entry_failure info")
  case True
  then show ?thesis using assms by (simp add: run_exit_def bind_def self_def gets_def return_def)
next
  case False
  have "io_exit_reason dev io regs \<noteq> FailEntry 0" for io regs by (simp add: io_exit_reason_def split: option.split)
  then have "run_exit hw dev info s \<noteq> (Ok (FailEntry 0), s')"
    using False by (auto simp: run_exit_def Let_def bind_Ok_iff return_def panic_def split: if_splits)
  with False assms show ?thesis by auto
qed

lemma run_outcome:
  assumes "entering p c b s" "run hw dev s = (r, s')" "returns r"
  shows "b = c \<and> in_state p True (c \<or> r \<noteq> Ok (FailEntry 0)) s'"
  using assms(2) unfolding run_def
proof (cases rule: bind_cases)
  case (1 x s1)
  then have inner: "b = c" "in_state p True (c \<or> \<not> reports_failure (Ok x)) s1"
    using inner_run_outcome [OF assms(1)] by (auto simp: returns_def)
  show ?thesis
  proof (cases x)
    case None
    then show ?thesis using inner 1(2) by (auto simp: reports_failure_def return_def)
  next
    case (Some info)
    then have run: "run_exit hw dev info s1 = (r, s')" using 1(2) by simp
    then have "in_state p True (c \<or> \<not> reports_failure (Ok x)) s'"
      by (rule keepsD [OF vcpu.keeps_handlers(5) inner(2)])
    then show ?thesis using inner(1) run_exit_FailEntry [OF run] Some by (simp add: reports_failure_def)
  qed
next
  case (2 e)
  then show ?thesis using inner_run_outcome [OF assms(1) 2(1)] by (simp add: returns_def reports_failure_def)
qed (use assms(3) in blast)

section \<open>Binding, setting up and the other operations\<close>

lemma keeps_vmptrld: "keeps (\<lambda>m. is_launched p m = c) (map_err_ax hw (hw_vmptrld hw q))"
  by (rule keeps_map_err_ax) (metis vmptrld)

lemma keeps_vmclear: "keeps (\<lambda>m. is_launched p m = False) (map_err_ax hw (hw_vmclear hw q))"
  by (rule keeps_map_err_ax) (metis (full_types) old.unit.exhaust sum.exhaust vmclear vmclear_fail)

lemma keeps_bind_to: "keeps (in_state p c b) (bind_to_current_processor hw)"
  unfolding bind_to_current_processor_def
  by (intro both_rules keeps_bind machine_rules keeps_vmptrld state.keeps_setup_host)

lemma unbind_clears:
  assumes "unbind_from_current_processor hw (v, m) = (Ok (), (v', m'))" "VmxRegion_phys_addr (vmcs v) = Ok p"
  shows "v' = v \<and> \<not> is_launched p m'"
proof -
  have "v' = v" "map_err_ax hw (hw_vmclear hw p) m = (Ok (), m')"
    using assms by (auto simp: unbind_from_current_processor_def bind_def self_def gets_def lift_def on_hw_pair
        split: prod.splits)
  then show ?thesis using vmclear [of p m m' p] map_err_ax_Ok [of hw "hw_vmclear hw p" m "()" m'] by simp
qed

lemma AxArchVCpu_unbind_clears:
  assumes "AxArchVCpu_unbind hw (v, m) = (Ok (), (v', m'))" "VmxRegion_phys_addr (vmcs v) = Ok p"
  shows "in_state p False False (v', m')"
  using assms unbind_clears [of "v\<lparr>launched := False\<rparr>" m v' m' p]
  by (auto simp: AxArchVCpu_unbind_def bind_def modify_self_run)

lemma keeps_setup_vmcs: "keeps (in_state p c False) (setup_vmcs hw e r)"
  unfolding setup_vmcs_def setup_msr_bitmap_def setup_vmcs_control_def setup_io_bitmap_def
    unbind_from_current_processor_def
  by (intro both_rules keeps_Nil keeps_Cons keeps_bind keeps_basic keeps_bind_to keeps_vmclear
      state.keeps_setup_guest state.keeps_setup_controls state.keeps_setup_bitmaps; simp)

lemma setup_vmcs_clears:
  assumes run: "setup_vmcs hw e r (v, m) = (Ok (), (v', m'))"
    and v: "VmxRegion_phys_addr (vmcs v) = Ok p" "\<not> launched v"
  shows "in_state p False False (v', m')"
proof -
  have "keeps (both (flagged p False) (\<lambda>_. True)) (setup_bound hw p e r)"
    unfolding setup_bound_def bind_to_current_processor_def setup_msr_bitmap_def setup_vmcs_control_def
      setup_io_bitmap_def
    by (intro both_rules keeps_Nil keeps_Cons keeps_bind keeps_basic; simp add: keeps_def)
  note keep = keepsD [OF this]
  obtain v1 m1 where b: "setup_bound hw p e r (v, m) = (Ok (), (v1, m1))"
    and u: "unbind_from_current_processor hw (v1, m1) = (Ok (), (v', m'))"
    using run v(1) by (auto simp: setup_vmcs_split self_def gets_def lift_def bind_def
        split: prod.splits res.splits)
  have "both (flagged p False) (\<lambda>_. True) (v1, m1)"
    by (rule keep [OF _ b]) (simp add: v)
  then show ?thesis using unbind_clears [OF u] by auto
qed

lemma setup_ends:
  assumes op: "is_setup op" "exec hw dev op (v, m) = (r, (v', m'))"
    and v: "VmxRegion_phys_addr (vmcs v) = Ok p" "\<not> launched v"
    and r: "r = Ok () \<or> \<not> is_launched p m"
  shows "in_state p False False (v', m')"
  using exec_setup_cases [OF op(1), of hw dev v m]
proof (elim disjE exE)
  fix e q
  assume "exec hw dev op (v, m) = setup_vmcs hw e q (v, m)"
  then have run: "setup_vmcs hw e q (v, m) = (r, (v', m'))" using op(2) by simp
  from r show ?thesis
  proof
    assume "r = Ok ()"
    then show ?thesis using setup_vmcs_clears run v by blast
  next
    assume "\<not> is_launched p m"
    then show ?thesis by (intro keepsD [OF keeps_setup_vmcs _ run]) (simp add: v)
  qed
qed (use op(2) v r in simp)

lemma keeps_exec:
  "\<not> is_setup op \<Longrightarrow> \<not> is_run op \<Longrightarrow> op \<noteq> UnbindOp \<Longrightarrow> keeps (in_state p c b) (exec hw dev op)"
  by (cases op)
    (simp_all add: AxArchVCpu_bind_def vcpu.keeps_setters keeps_bind_to keeps_both_hw state.keeps_small)

end

section \<open>The launch protocol\<close>

text \<open>
  A vCPU that has been set up, and what happens to it until it is dropped. The caller may use every operation,
  with three obligations: \<open>setup\<close> only before the vCPU has run (or after an unbinding), a run only while the VMCS
  is current, and no further use after an unbinding that failed. Between the operations other code may change
  the machine, except for the launch state of this VMCS. The vCPU is given up when a call panics or faults. The flag \<open>failed\<close>
  records what the caller has seen: the first run since the VMCS was cleared reported that the entry failed (\<open>FailEntry\<close> from \<open>run\<close>, exit
  information with \<open>entry_failure\<close> from \<open>inner_run\<close>), and the vCPU has not been unbound since.
\<close>

inductive launch_life ::
  "'m hw \<Rightarrow> ('l, 'm) dev \<Rightarrow> (u64 \<Rightarrow> 'm \<Rightarrow> bool) \<Rightarrow> ('m \<Rightarrow> u64 option) \<Rightarrow> u64 \<Rightarrow> bool \<Rightarrow> 'l VmxVcpu \<Rightarrow> 'm \<Rightarrow> bool"
  for hw dev is_launched cur p where
  set_up: "VmxRegion_phys_addr (vmcs v) = Ok p \<Longrightarrow> \<not> launched v \<Longrightarrow> is_setup op \<Longrightarrow>
    exec hw dev op (v, m) = (Ok (), (v', m')) \<Longrightarrow> launch_life hw dev is_launched cur p False v' m'"
| op: "launch_life hw dev is_launched cur p failed v m \<Longrightarrow> \<not> is_run op \<Longrightarrow>
    exec hw dev op (v, m) = (r, (v', m')) \<Longrightarrow> returns r \<Longrightarrow>
    (is_setup op \<longrightarrow> \<not> launched v) \<Longrightarrow> (op = UnbindOp \<longrightarrow> r = Ok ()) \<Longrightarrow>
    launch_life hw dev is_launched cur p (failed \<and> op \<noteq> UnbindOp) v' m'"
| run: "launch_life hw dev is_launched cur p failed v m \<Longrightarrow> cur m = Some p \<Longrightarrow>
    run hw dev (v, m) = (e, (v', m')) \<Longrightarrow> returns e \<Longrightarrow>
    launch_life hw dev is_launched cur p (\<not> launched v \<and> e = Ok (FailEntry 0)) v' m'"
| inner_run: "launch_life hw dev is_launched cur p failed v m \<Longrightarrow> cur m = Some p \<Longrightarrow>
    inner_run hw dev (v, m) = (i, (v', m')) \<Longrightarrow> returns i \<Longrightarrow>
    launch_life hw dev is_launched cur p (\<not> launched v \<and> reports_failure i) v' m'"
| elsewhere: "launch_life hw dev is_launched cur p failed v m \<Longrightarrow> is_launched p m' = is_launched p m \<Longrightarrow>
    launch_life hw dev is_launched cur p failed v m'"

context launch_hw
begin

text \<open>The launch flag is set when the VMCS is launched and when its launch has failed.\<close>

abbreviation (input) agree :: "u64 \<Rightarrow> bool \<Rightarrow> 'l VmxVcpu \<times> 'm \<Rightarrow> bool" where
  "agree p failed s \<equiv> VmxRegion_phys_addr (vmcs (fst s)) = Ok p \<and>
     launched (fst s) = (is_launched p (snd s) \<or> failed) \<and> \<not> (is_launched p (snd s) \<and> failed)"

lemma exec_agrees:
  assumes agree: "agree p failed (v, m)" and run: "exec hw dev op (v, m) = (r, (v', m'))" "\<not> is_run op"
    and guards: "is_setup op \<longrightarrow> \<not> launched v" "op = UnbindOp \<longrightarrow> r = Ok ()"
  shows "agree p (failed \<and> op \<noteq> UnbindOp) (v', m')"
proof -
  consider "is_setup op" | "op = UnbindOp" | "\<not> is_setup op" "op \<noteq> UnbindOp" by blast
  then show ?thesis
  proof cases
    case 1
    then show ?thesis using setup_ends [OF 1 run(1)] agree guards(1) by auto
  next
    case 2
    then show ?thesis using AxArchVCpu_unbind_clears [of v m v' m' p] run guards(2) agree by auto
  next
    case 3
    note keep = keepsD [OF keeps_exec [OF 3(1) run(2) 3(2)]]
    have "in_state p (launched v) (is_launched p m) (v', m')" by (rule keep [OF _ run(1)]) (use agree in simp)
    then show ?thesis using agree 3 by simp
  qed
qed

lemma life_agrees: "launch_life hw dev is_launched cur p failed v m \<Longrightarrow> agree p failed (v, m)"
proof (induction rule: launch_life.induct)
  case (set_up v op m v' m')
  then show ?case using setup_ends [OF set_up(3,4,1,2)] by simp
next
  case (op failed v m op r v' m')
  then show ?case by (intro exec_agrees [OF op.IH op.hyps(3,2)])
next
  case (run failed v m e v' m')
  then show ?case using run_outcome [of p "launched v" "is_launched p m" "(v, m)" e "(v', m')"] by auto
next
  case (inner_run failed v m i v' m')
  then show ?case using inner_run_outcome [of p "launched v" "is_launched p m" "(v, m)" i "(v', m')"] by auto
qed simp

lemma life_entry:
  assumes "launch_life hw dev is_launched cur p False v m" "cur m = Some p" "hw_vm_entry hw instr regs m = (Inr g, m')"
  shows "instr = (if launched v then VMRESUME_INSTR else VMLAUNCH_INSTR)"
  using life_agrees [OF assms(1)] vmlaunch [of regs m g m' p] vmresume [of regs m g m' p] assms(2,3)
  by (cases instr) auto

lemma life_failed:
  assumes "launch_life hw dev is_launched cur p True v m" "cur m = Some p" "run hw dev (v, m) = (r, s')"
  shows "\<not> returns r"
  using life_agrees [OF assms(1)] run_outcome [OF _ assms(3), of p True False] assms(2) by auto

end

text \<open>
  C4. The launch protocol: as long as its caller meets the three obligations (\<open>setup\<close> only while \<open>launched\<close> is clear, a run only while the
  vCPU's own VMCS is current, no use after an unbinding that failed), the \<open>launched\<close> field of a vCPU
  that has been set up is the launch state the processor keeps for its VMCS, unless the vCPU's first entry failed. So the
  instruction the vCPU chooses for its next run, VMRESUME when \<open>launched\<close> is set and VMLAUNCH otherwise, is the only one of
  the two that the processor can execute. After a first entry that failed, which its run has reported, the field is set although the VMCS is clear, and no further run
  comes back to its caller before the vCPU is unbound.
\<close>

theorem launch_protocol:
  assumes "launch_hw hw dev is_launched cur" "launch_life hw dev is_launched cur p failed v m"
  shows "VmxRegion_phys_addr (vmcs v) = Ok p \<and> launched v = (is_launched p m \<or> failed) \<and> \<not> (is_launched p m \<and> failed) \<and>
    (\<forall>instr regs g m'. \<not> failed \<and> cur m = Some p \<and> hw_vm_entry hw instr regs m = (Inr g, m') \<longrightarrow>
       instr = (if launched v then VMRESUME_INSTR else VMLAUNCH_INSTR)) \<and>
    (\<forall>r s'. failed \<and> cur m = Some p \<and> run hw dev (v, m) = (r, s') \<longrightarrow> \<not> returns r)"
  using launch_hw.life_agrees [OF assms] launch_hw.life_entry [OF assms(1), of p v m] launch_hw.life_failed [OF assms(1), of p v m] assms(2)
  by auto

theorem launch_protocol_witness:
  "\<exists>v m v' m'. launch_life ref_hw ref_dev (\<lambda>a m. m_launched m a) m_cur 0x2000 False v m \<and> launched v \<and> m_launched m 0x2000 \<and>
     launch_life ref_hw ref_dev (\<lambda>a m. m_launched m a) m_cur 0x2000 True v' m' \<and> launched v' \<and> \<not> m_launched m' 0x2000 \<and>
     \<not> returns (fst (run ref_hw ref_dev (v', m')))"
proof -
  let ?life = "launch_life ref_hw ref_dev (\<lambda>a m. m_launched m a) m_cur 0x2000"
  have on: "m_vmx_on ref_machine" by (simp add: ref_machine_def)
  note plain = ref_setup(4-6) [folded run_vcpu_sel(4-6)] and protocol = launch_protocol [OF ref_launch.launch_hw_axioms]
  obtain io ms m1 where run: "setup_vmcs ref_hw 0x8000 0x7000 (run_vcpu, ref_machine) =
      (Ok (), (run_vcpu\<lparr>io_bitmap := io, msr_bitmap := ms\<rparr>, m1))"
    by (rule ref_bind.setup_run [OF on plain ref_areas]) (rule that)
  let ?v = "run_vcpu\<lparr>io_bitmap := io, msr_bitmap := ms\<rparr>"
  have set_up: "?life False ?v m1"
    by (rule launch_life.set_up [of run_vcpu _ "SetupAt 0x7000 0x8000" _ _ ref_machine])
      (simp_all add: plain(1) run_vcpu_sel(2) VmxVcpu_setup_def run)
  have "\<not> m_launched m1 0x2000" using protocol [OF set_up] by (simp add: run_vcpu_sel(2))
  then have life: "?life False ?v (exiting raw)" for raw
    by (intro launch_life.elsewhere [OF set_up]) (simp add: exiting_def ref_machine_def)
  have first: "\<exists>v m. ?life (bit raw 31) v m \<and> launched v \<and> m_cur m = Some 0x2000"
    if "VmxExitReason_number rsn = take_bit 16 (ucast raw)" "ref_entry_ok raw"
      "\<And>w i. exit_reason i = rsn \<Longrightarrow> \<not> builtin_exit (w :: (usize \<Rightarrow> usize) VmxVcpu) i" for raw rsn
  proof -
    note raw = that
    obtain i v m where r: "inner_run ref_hw ref_dev (?v, exiting raw) = (Ok (Some i), (v, m))" "launched v"
      "entry_failure i = bit raw 31" "m_cur m = Some 0x2000"
      using exiting_run [OF _ _ _ raw, of ?v] by (auto simp: run_vcpu_sel)
    then show ?thesis
      using launch_life.inner_run [OF life _ r(1)]
      by (auto simp: returns_def reports_failure_def run_vcpu_sel exiting_def ref_machine_def)
  qed
  obtain v m where ok: "?life False v m" "launched v"
    using first [of HLT 12] by (auto simp: ref_entry_ok_def builtin_exit_def bit_numeral_rec)
  obtain v' m' where fl: "?life True v' m'" "launched v'" "m_cur m' = Some 0x2000"
    using first [of INVALID_GUEST_STATE "0x80000021"] by (auto simp: ref_entry_ok_def builtin_exit_def bit_numeral_rec)
  have "\<not> returns (fst (run ref_hw ref_dev (v', m')))"
    using protocol [OF fl(1)] fl(3) by (cases "run ref_hw ref_dev (v', m')") auto
  then show ?thesis using protocol [OF ok(1)] ok protocol [OF fl(1)] fl by blast
qed

end
