(* ===== verification/VcpuHost.thy ===== *)
theory VcpuHost
  imports RefRun
begin

text \<open>
  The extended state of the host across a run of the guest. \<open>XState\<close> shows that the two switches are inverse to
  each other; here they are followed through \<open>inner_run\<close> and \<open>run\<close> as a whole, with everything that happens in
  between: event injection, the guest itself, and the exit handlers, of which CPUID switches once more.
\<close>

text \<open>
  The processor and the local APIC as far as the extended state is concerned: VMWRITE, INVEPT and the emulation of
  the local APIC leave XCR0 and IA32_XSS alone. Nothing is said about VM entry: the guest may load any values.
\<close>

locale xstate_isolated = xstate_hw hw for hw :: "'m hw" +
  fixes dev :: "('l, 'm) dev"
  assumes vmwrite_x: "hw_vmwrite hw f x m = (r, m') \<Longrightarrow> xregs hw m' = xregs hw m"
    and invept_x: "hw_invept hw t d m = Some m' \<Longrightarrow> xregs hw m' = xregs hw m"
    and vlapic_read_x: "vlapic_read dev off w (l, m) = (res1, (l', m')) \<Longrightarrow> xregs hw m' = xregs hw m"
    and vlapic_write_x: "vlapic_write dev off w y (l, m) = (res2, (l', m')) \<Longrightarrow> xregs hw m' = xregs hw m"

interpretation ref_isolated: xstate_isolated ref_hw ref_dev
  by unfold_locales
    (auto simp: xregs_def ref_vmwrite_def ref_invept_def ref_xcr0_read_def ref_dev_def bind_def prog_defs
      split: option.splits if_splits)

text \<open>The registers that a vCPU switches: XCR0 with \<open>a\<close>, IA32_XSS with \<open>b\<close>.\<close>

abbreviation (input) switches :: "bool \<Rightarrow> bool \<Rightarrow> 'l VmxVcpu \<Rightarrow> bool" where
  "switches a b \<equiv> \<lambda>v. xsave_available (xstate v) = a \<and> xsaves_available (xstate v) = b"

definition holds_x :: "'m hw \<Rightarrow> bool \<Rightarrow> bool \<Rightarrow> u64 option \<times> u64 option \<Rightarrow> 'm \<Rightarrow> bool" where
  "holds_x hw a b X m \<longleftrightarrow> (a \<longrightarrow> fst (xregs hw m) = fst X) \<and> (a \<and> b \<longrightarrow> snd (xregs hw m) = snd X)"

text \<open>The vCPU has saved the values \<open>X\<close> of the host.\<close>

definition saved_x :: "'m hw \<Rightarrow> bool \<Rightarrow> bool \<Rightarrow> u64 option \<times> u64 option \<Rightarrow> 'l VmxVcpu \<Rightarrow> bool" where
  "saved_x hw a b X v \<longleftrightarrow> switches a b v \<and>
     (a \<longrightarrow> fst X = Some (host_xcr0 (xstate v)) \<and> host_xcr0 (xstate v) AND xcr0_all hw = host_xcr0 (xstate v)) \<and>
     (a \<and> b \<longrightarrow> snd X = Some (host_xss (xstate v)))"

sublocale xstate_isolated \<subseteq> x: vcpu_quiet hw "holds_x hw a b X" dev "switches a b" for a b X
  by unfold_locales (auto simp: holds_x_def vmwrite_x dest: invept_x vlapic_read_x vlapic_write_x)

context xstate_isolated
begin

abbreviation (input) host_x :: "bool \<Rightarrow> bool \<Rightarrow> u64 option \<times> u64 option \<Rightarrow> 'l VmxVcpu \<times> 'm \<Rightarrow> bool" where
  "host_x a b X \<equiv> both (switches a b) (holds_x hw a b X)"

abbreviation (input) guest_x :: "bool \<Rightarrow> bool \<Rightarrow> u64 option \<times> u64 option \<Rightarrow> 'l VmxVcpu \<times> 'm \<Rightarrow> bool" where
  "guest_x a b X \<equiv> both (saved_x hw a b X) (\<lambda>_. True)"

lemma load_guest_saves: "ends (host_x a b X) (load_guest_xstate hw) (guest_x a b X)"
  unfolding ends_def
  by (auto simp: load_guest_xstate_def on_part_def switch_to_guest_def bind_def self_def gets_def on_hw_pair
      modify_self_run xcr0_read_def xcr0_write_def Msr_read_def Msr_write_def return_def returns_def
      holds_x_def saved_x_def xregs_def xcr0_write_rdmsr dest: xcr0_read_flags
      simp del: Msr_number.simps split: option.splits if_splits prod.splits)

lemma load_host_restores: "ends (guest_x a b X) (load_host_xstate hw) (host_x a b X)"
  unfolding ends_def
  by (auto simp: load_host_xstate_def on_part_def switch_to_host_def bind_def self_def gets_def on_hw_pair
      modify_self_run xcr0_read_def xcr0_write_def Msr_read_def Msr_write_def return_def returns_def
      holds_x_def saved_x_def xregs_def xcr0_write_read xss_write_xcr0 dest: xss_write_read
      simp del: Msr_number.simps split: option.splits if_splits prod.splits)


lemma cpuid_restores: "ends (host_x a b X) (cpuid_result hw regs) (host_x a b X)"
proof -
  have query: "ends P (on_hw (gets f)) P" for P and f :: "'m \<Rightarrow> 'a"
    by (rule ends_keeps) (simp add: keeps_def on_hw_def zoom_def gets_def)
  have ret: "ends P (return x) P" for P :: "'l VmxVcpu \<times> 'm \<Rightarrow> bool" and x :: CpuIdResult
    by (rule ends_keeps) (rule keeps_basic)
  have switch: "ends (host_x a b X) (bind (load_guest_xstate hw) (\<lambda>_. bind (on_hw (gets f)) (\<lambda>res.
      bind (load_host_xstate hw) (\<lambda>_. return res)))) (host_x a b X)" for f :: "'m \<Rightarrow> CpuIdResult"
    by (rule ends_bind_ok [OF load_guest_saves ends_bind_ok [OF query ends_bind_ok [OF load_host_restores ret]]])
      (rule no_err_xstate no_err_on_hw no_err_basic)+
  show ?thesis
    unfolding cpuid_result_def Let_def by (intro ends_if switch ends_seq query ret)
qed

lemma entry_keeps_saved: "ends (\<lambda>s. guest_x a b X s \<and> fst s = v) (entry_step hw v) (guest_x a b X)"
proof -
  have enter: "ends (guest_x a b X) (vm_enter hw instr) (guest_x a b X)" for instr
    unfolding ends_def by (auto simp: saved_x_def dest!: vm_enter_returns)
  have flag: "keeps (guest_x a b X) (modify_self (launched_update f))" for f
    by (rule keeps_both_modify) (simp add: saved_x_def)
  have wr: "keeps (guest_x a b X) (write_host_rsp hw)"
    unfolding write_host_rsp_def by (intro both_rules) (simp add: keeps_def)
  have "ends (guest_x a b X) (entry_step hw v) (guest_x a b X)"
    unfolding entry_step_def block.simps
    by (intro ends_if enter ends_seq ends_keeps [OF flag] ends_keeps [OF wr] ends_keeps [OF keeps_basic(1)])
  then show ?thesis by (rule ends_weaken) simp
qed

lemma inner_run_restores: "ends (host_x a b X) (inner_run hw dev) (host_x a b X)"
  unfolding inner_run_split
proof (rule ends_seq)
  show "ends (host_x a b X) (unwrap (inject_pending_events hw)) (host_x a b X)"
    by (intro ends_keeps keeps_unwrap x.keeps_inject)
  show "ends (host_x a b X) (enter_and_handle hw dev) (host_x a b X)"
  proof (rule enter_and_handle_ends [OF load_guest_saves entry_keeps_saved load_host_restores])
    show "keeps (host_x a b X) (on_hw (unwrap (exit_info hw)))"
      by (intro keeps_both_hw keeps_unwrap x.keeps_small)
  qed (rule x.builtin_ends, rule cpuid_restores)
qed

lemma run_restores: "ends (host_x a b X) (run hw dev) (host_x a b X)"
  unfolding run_def
  by (rule ends_seq [OF inner_run_restores])
    (intro ends_keeps keeps_option x.keeps_handlers keeps_basic)

end

text \<open>
  C9. The extended state of the host survives every run: when \<open>run\<close> or \<open>inner_run\<close> returns, with whatever result and
  whatever the guest and the exit handlers have done in between, XCR0 holds what it held before if the vCPU
  switches it, and so does IA32_XSS. The guest never leaves its own values behind.
\<close>

theorem run_restores_host_xstate:
  assumes hw: "xstate_isolated hw dev"
    and run: "exec hw dev op (v, m) = (r, (v', m'))" "is_run op" "returns r"
  shows "(xsave_available (xstate v) \<longrightarrow> hw_xcr0_read hw m' = hw_xcr0_read hw m) \<and>
    (xsave_available (xstate v) \<and> xsaves_available (xstate v) \<longrightarrow>
       hw_rdmsr hw (Msr_number Msr.IA32_XSS) m' = hw_rdmsr hw (Msr_number Msr.IA32_XSS) m) \<and>
    xsave_available (xstate v') = xsave_available (xstate v) \<and>
    xsaves_available (xstate v') = xsaves_available (xstate v)"
proof -
  let ?a = "xsave_available (xstate v)" and ?b = "xsaves_available (xstate v)"
  let ?H = "both (switches ?a ?b) (holds_x hw ?a ?b (xregs hw m))"
  have "ends ?H (exec hw dev op) ?H"
    using run(2) ends_discard [OF xstate_isolated.run_restores [OF hw]]
      ends_discard [OF xstate_isolated.inner_run_restores [OF hw]]
    by (cases op) simp_all
  from endsD [OF this _ run(1,3)] show ?thesis by (simp add: holds_x_def xregs_def del: Msr_number.simps)
qed

theorem run_restores_host_xstate_witness:
  "\<exists>v' m'. exec ref_hw ref_dev InnerRunOp (run_vcpu, halting) = (Ok (), (v', m')) \<and>
     guest_xcr0 (xstate run_vcpu) \<noteq> the (hw_xcr0_read ref_hw halting) \<and>
     hw_xcr0_read ref_hw m' = hw_xcr0_read ref_hw halting"
proof -
  obtain i v' m' where "inner_run ref_hw ref_dev (run_vcpu, halting) = (Ok (Some i), (v', m'))"
    using halting_run [of run_vcpu] by (auto simp: run_vcpu_sel)
  then have run: "exec ref_hw ref_dev InnerRunOp (run_vcpu, halting) = (Ok (), (v', m'))"
    by (simp add: discard_def bind_def return_def)
  have "guest_xcr0 (xstate run_vcpu) \<noteq> the (hw_xcr0_read ref_hw halting)"
    by (simp add: run_vcpu_sel run_xstate_def halting_def ref_machine_def ref_xcr0_read_def bit_numeral_rec)
  with run run_restores_host_xstate [OF ref_isolated.xstate_isolated_axioms run] show ?thesis
    by (auto simp: returns_def run_vcpu_sel run_xstate_def)
qed

end
