(* ===== verification/VcpuApi.thy ===== *)
theory VcpuApi
  imports VcpuFrames
begin

text \<open>
  The methods of \<open>VmxVcpu\<close> that only pass on a function of \<open>src/vmx/vmcs.rs\<close>, the accessors of the guest registers, and
  the constructor of the interface \<open>AxArchVCpu\<close> (\<open>src/vmx/vcpu.rs\<close>).
\<close>

definition VmxVcpu_exit_info :: "'m hw \<Rightarrow> ('l, 'm, VmxExitInfo) vprog" where
  "VmxVcpu_exit_info hw = on_hw (exit_info hw)"

definition VmxVcpu_raw_interrupt_exit_info :: "'m hw \<Rightarrow> ('l, 'm, u32) vprog" where
  "VmxVcpu_raw_interrupt_exit_info hw = on_hw (raw_interrupt_exit_info hw)"

definition VmxVcpu_interrupt_exit_info :: "'m hw \<Rightarrow> ('l, 'm, VmxInterruptInfo) vprog" where
  "VmxVcpu_interrupt_exit_info hw = on_hw (interrupt_exit_info hw)"

definition VmxVcpu_io_exit_info :: "'m hw \<Rightarrow> ('l, 'm, VmxIoExitInfo) vprog" where
  "VmxVcpu_io_exit_info hw = on_hw (io_exit_info hw)"

definition VmxVcpu_nested_page_fault_info :: "'m hw \<Rightarrow> ('l, 'm, NestedPageFaultInfo) vprog" where
  "VmxVcpu_nested_page_fault_info hw = on_hw (ept_violation_info hw)"

definition VmxVcpu_apic_access_exit_info :: "'m hw \<Rightarrow> ('l, 'm, ApicAccessExitInfo) vprog" where
  "VmxVcpu_apic_access_exit_info hw = on_hw (apic_access_exit_info hw)"

text \<open>\<open>regs_mut\<close> hands out a reference; \<open>f\<close> is what the caller does with the registers behind it.\<close>

definition VmxVcpu_regs :: "('l, 'm, GeneralRegisters) vprog" where
  "VmxVcpu_regs = bind self (\<lambda>v. return (guest_regs v))"

definition VmxVcpu_regs_mut :: "(GeneralRegisters \<Rightarrow> GeneralRegisters) \<Rightarrow> ('l, 'm, unit) vprog" where
  "VmxVcpu_regs_mut f = modify_self (guest_regs_update f)"

definition AxArchVCpu_new :: "'m hw \<Rightarrow> ('l, 'm) dev \<Rightarrow> usize \<Rightarrow> usize \<Rightarrow> unit \<Rightarrow> ('m, 'l VmxVcpu) prog" where
  "AxArchVCpu_new hw dev vm_id vcpu_id config = VmxVcpu_new hw dev vm_id vcpu_id"

text \<open>Whatever the processor answers, reading exit information keeps every property of the vCPU and of the machine: it changes neither.\<close>

lemma exit_accessors_read_only:
  "keeps (both I J) (VmxVcpu_exit_info hw)" "keeps (both I J) (VmxVcpu_raw_interrupt_exit_info hw)"
  "keeps (both I J) (VmxVcpu_interrupt_exit_info hw)" "keeps (both I J) (VmxVcpu_io_exit_info hw)"
  "keeps (both I J) (VmxVcpu_nested_page_fault_info hw)" "keeps (both I J) (VmxVcpu_apic_access_exit_info hw)"
  unfolding VmxVcpu_exit_info_def VmxVcpu_raw_interrupt_exit_info_def VmxVcpu_interrupt_exit_info_def
    VmxVcpu_io_exit_info_def VmxVcpu_nested_page_fault_info_def VmxVcpu_apic_access_exit_info_def exit_info_def
    raw_interrupt_exit_info_def interrupt_exit_info_def io_exit_info_def ept_violation_info_def apic_access_exit_info_def
    field_read_defs Let_def
  by (intro keeps_both_hw machine_rules)+

lemma regs_mut_regs:
  "bind (VmxVcpu_regs_mut f) (\<lambda>_. VmxVcpu_regs) (v, m) =
     (Ok (f (guest_regs v)), (v\<lparr>guest_regs := f (guest_regs v)\<rparr>, m))"
  by (simp add: VmxVcpu_regs_mut_def VmxVcpu_regs_def bind_def modify_self_run self_def gets_def return_def)

end
