(* ===== verification/VcpuLive.thy ===== *)
theory VcpuLive
  imports RefRun
begin

text \<open>
  One call of \<open>run\<close> (\<open>src/vmx/vcpu.rs\<close>) as a whole: nothing before the entry can fail, and once the guest has exited for a
  reason the code knows, the exit is read and handled in the host's extended state. The steps of \<open>inner_run\<close>
  are followed on a machine that satisfies the laws of the VMCS and of the extended state at the same time.
\<close>

text \<open>The extended-state registers are no part of the VMCS.\<close>

locale run_hw = vmcs_current hw current + xstate_live hw xcr0_ok xss_ok
  for hw :: "'m hw" and current xcr0_ok xss_ok +
  assumes xcr0_vmcs: "hw_xcr0_write hw x m = Some m' \<Longrightarrow>
      (current m' \<longleftrightarrow> current m) \<and> hw_vmread hw f m' = hw_vmread hw f m"
    and xss_vmcs: "hw_wrmsr hw (Msr_number Msr.IA32_XSS) x m = Some m' \<Longrightarrow>
      (current m' \<longleftrightarrow> current m) \<and> hw_vmread hw f m' = hw_vmread hw f m"

interpretation ref_run: run_hw ref_hw "\<lambda>m. m_cur m \<noteq> None" "\<lambda>_. True" "\<lambda>_. True"
  by unfold_locales
    (auto simp: ref_xcr0_write_def ref_wrmsr_def ref_vmread_def split: if_splits option.splits)

text \<open>The part of \<open>inner_run\<close> before the entry instruction, and what \<open>run\<close> does with an exit.\<close>

definition before_entry :: "'m hw \<Rightarrow> ('l, 'm, entry_instr) vprog" where
  "before_entry hw =
     bind (unwrap (inject_pending_events hw)) (\<lambda>_.
     bind (load_guest_xstate hw) (\<lambda>_.
     bind self (\<lambda>v.
       if launched v then return VMRESUME_INSTR
       else bind (modify_self (launched_update (\<lambda>_. True))) (\<lambda>_.
         bind (write_host_rsp hw) (\<lambda>_.
         return VMLAUNCH_INSTR)))))"


definition after_exit :: "'m hw \<Rightarrow> ('l, 'm) dev \<Rightarrow> VmxExitInfo \<Rightarrow> ('l, 'm, AxVCpuExitReason) vprog" where
  "after_exit hw dev info =
     bind (builtin_vmexit_handler hw dev info) (\<lambda>result.
       case result of
         Some (Inl e) \<Rightarrow> panic ''VmxVcpu failed to handle a VM-exit that should be handled by itself''
       | Some (Inr _) \<Rightarrow> return Nothing
       | None \<Rightarrow> run_exit hw dev info)"

lemma after_exit_run:
  "after_exit hw dev = (\<lambda>info. bind (builtin_vmexit_handler hw dev info) (\<lambda>result. bind
     (case result of
         Some (Inl e) \<Rightarrow> panic ''VmxVcpu failed to handle a VM-exit that should be handled by itself''
       | Some (Inr _) \<Rightarrow> return None
       | None \<Rightarrow> return (Some info))
     (\<lambda>r. case r of Some info \<Rightarrow> run_exit hw dev info | None \<Rightarrow> return Nothing)))"
  by (intro ext) (auto simp: after_exit_def bind_def return_def panic_def split: prod.splits res.splits option.splits sum.splits)

text \<open>The exit reason that the processor has recorded is one the code knows.\<close>

definition known_exit :: "'m hw \<Rightarrow> 'm \<Rightarrow> bool" where
  "known_exit hw m \<longleftrightarrow> (\<exists>raw r. hw_vmread hw (VmcsReadOnly32_number EXIT_REASON) m = Inr raw \<and>
     VmxExitReason_number r = take_bit 16 (ucast raw))"

lemma host_view_xregs: "host_view hw m' = host_view hw m \<Longrightarrow> xregs hw m' = xregs hw m"
  by (auto simp: host_view_def xregs_def dest: fun_cong)

lemma accessible_xregs:
  "xregs hw m' = xregs hw m \<Longrightarrow> xstate_accessible hw x m' = xstate_accessible hw x m"
  by (simp add: xregs_def xstate_accessible_def del: Msr_number.simps)

context run_hw
begin

lemma switch_vmcs:
  "switch_to_guest hw (x, m) = (Ok (), (x', m')) \<Longrightarrow>
    (current m' \<longleftrightarrow> current m) \<and> hw_vmread hw f m' = hw_vmread hw f m"
  by (auto simp: switch_to_guest_def bind_def self_def gets_def on_hw_pair modify_self_run xcr0_read_def
      xcr0_write_def Msr_read_def Msr_write_def return_def xcr0_vmcs xss_vmcs
      simp del: Msr_number.simps split: option.splits if_splits prod.splits)

lemma switch_back_vmcs:
  "switch_to_host hw (x, m) = (Ok (), (x', m')) \<Longrightarrow>
    (current m' \<longleftrightarrow> current m) \<and> hw_vmread hw f m' = hw_vmread hw f m"
  using switch_vmcs [of "swapped x" m "swapped x'" m' f]
  by (cases "switch_to_guest hw (swapped x, m)") (auto simp: switch_to_host_swapped)

lemma inject_live:
  assumes "current m"
  shows "\<exists>es m'. unwrap (inject_pending_events hw) (v, m) = (Ok (), (v\<lparr>pending_events := es\<rparr>, m')) \<and>
    current m' \<and> xregs hw m' = xregs hw m"
proof (cases "pending_events v")
  case Nil
  then have "v\<lparr>pending_events := []\<rparr> = v" by simp
  then show ?thesis using assms no_events [OF Nil, of hw m] by (intro exI [of _ "[]"] exI [of _ m]) simp
next
  case (Cons event rest)
  show ?thesis
  proof (cases "fst event < 32 \<or> guest_accepts hw m")
    case True
    obtain m' where m': "inject_pending_events hw (v, m) = (Ok (), (v\<lparr>pending_events := rest\<rparr>, m'))" "current m'"
      "injects hw event m m'"
      using inject_pending_run [OF assms Cons True] by (elim exE conjE) (rule that)
    have "xregs hw m' = xregs hw m"
      using m'(3) unfolding injects_def by (elim exE conjE) (rule host_view_xregs [OF wrote_host])
    with m' show ?thesis by (intro exI [of _ rest] exI [of _ m']) (simp add: unwrap_def)
  next
    case False
    obtain ctrl where ctrl: "hw_vmread hw (VmcsControl32_number PRIMARY_PROCBASED_EXEC_CONTROLS) m = Inr ctrl"
      using current_read [OF assms] declared_number by blast
    obtain m' where m': "inject_pending_events hw (v, m) = (Ok (), (v, m'))" "current m'"
      "wrote hw [(VmcsControl32_number PRIMARY_PROCBASED_EXEC_CONTROLS, ucast (set_bit_to (ucast ctrl :: u32) 2 True))] m m'"
      using inject_pending_blocked [OF assms Cons _ _ ctrl] False
      by (auto simp del: field_numbers)
    have "v\<lparr>pending_events := event # rest\<rparr> = v" using Cons by simp
    then show ?thesis
      using m'(1,2) host_view_xregs [OF wrote_host [OF m'(3)]]
      by (intro exI [of _ "event # rest"] exI [of _ m']) (simp add: unwrap_def)
  qed
qed

lemma host_rsp_live:
  assumes "current m"
  obtains m' where "write_host_rsp hw (v, m) = (Ok (), (v, m'))" "current m'"
    "wrote hw [(VmcsHostNW_number VmcsHostNW.RSP, hw_host_stack_top_addr hw (region_frame (vmcs v)) m)] m m'"
    "hw_vmwrite hw (VmcsHostNW_number VmcsHostNW.RSP) (hw_host_stack_top_addr hw (region_frame (vmcs v)) m) m = (Inr (), m')"
proof -
  obtain m' where m': "VmcsHostNW_write hw VmcsHostNW.RSP (hw_host_stack_top_addr hw (region_frame (vmcs v)) m) m = (Ok (), m')"
    "current m'"
    "wrote hw [(VmcsHostNW_number VmcsHostNW.RSP, ucast (hw_host_stack_top_addr hw (region_frame (vmcs v)) m))] m m'"
    using VmcsHostNW_write_run [OF assms, of VmcsHostNW.RSP "hw_host_stack_top_addr hw (region_frame (vmcs v)) m"]
    by (elim exE conjE) (rule that)
  have "hw_vmwrite hw (VmcsHostNW_number VmcsHostNW.RSP) (hw_host_stack_top_addr hw (region_frame (vmcs v)) m) m = (Inr (), m')"
    using m'(1) unfolding VmcsHostNW_write_def vmcs_write_def by (simp add: map_err_ax_Ok_iff del: field_numbers)
  with m' show thesis
    by (intro that [of m']) (simp_all add: write_host_rsp_def self_def bind_def gets_def on_hw_pair unwrap_def
        del: field_numbers)
qed

lemma load_guest_live:
  assumes "current m" "xstate_accessible hw (xstate v) m"
    "xvalues_legal hw xcr0_ok xss_ok (xstate v) (guest_xcr0 (xstate v)) (guest_xss (xstate v))"
  obtains m' where "load_guest_xstate hw (v, m) = (Ok (), (v\<lparr>xstate := host_saved (xregs hw m) (xstate v)\<rparr>, m'))"
    "current m'"
    "xregs hw m' = xregs_loaded (xstate v) (guest_xcr0 (xstate v)) (guest_xss (xstate v)) (xregs hw m)"
proof -
  obtain m' where m': "switch_to_guest hw (xstate v, m) = (Ok (), (host_saved (xregs hw m) (xstate v), m'))"
    "xregs hw m' = xregs_loaded (xstate v) (guest_xcr0 (xstate v)) (guest_xss (xstate v)) (xregs hw m)"
    using switch_to_guest_run [OF assms(2,3)] by (elim exE conjE) (rule that)
  moreover have "current m'" using switch_vmcs [OF m'(1)] assms(1) by blast
  ultimately show thesis by (intro that [of m']) (simp_all add: load_guest_xstate_def on_part_simps)
qed

text \<open>After the guest: the host's values are restored, the exit information can be read.\<close>

lemma load_host_live:
  assumes "current m" "xstate_accessible hw (xstate v) m"
    "xvalues_legal hw xcr0_ok xss_ok (xstate v) (host_xcr0 (xstate v)) (host_xss (xstate v))"
  obtains x m' where "load_host_xstate hw (v, m) = (Ok (), (v\<lparr>xstate := x\<rparr>, m'))" "current m'"
    "xregs hw m' = xregs_loaded (xstate v) (host_xcr0 (xstate v)) (host_xss (xstate v)) (xregs hw m)"
    "\<And>f. hw_vmread hw f m' = hw_vmread hw f m"
proof -
  obtain m' where m': "switch_to_host hw (xstate v, m) =
      (Ok (), (swapped (host_saved (xregs hw m) (swapped (xstate v))), m'))"
    "xregs hw m' = xregs_loaded (xstate v) (host_xcr0 (xstate v)) (host_xss (xstate v)) (xregs hw m)"
    using switch_to_host_run [OF assms(2,3)] by (elim exE conjE) (rule that)
  moreover have "current m'" "\<And>f. hw_vmread hw f m' = hw_vmread hw f m"
    using switch_back_vmcs [OF m'(1)] assms(1) by blast+
  ultimately show thesis by (intro that [of _ m']) (simp_all add: load_host_xstate_def on_part_simps)
qed

text \<open>CPUID leaf 0xd is asked in the guest's extended state.\<close>

lemma cpuid_switched:
  fixes v :: "'l VmxVcpu"
  assumes cur: "current m" and acc: "xstate_accessible hw (xstate v) m"
    and legal: "xvalues_legal hw xcr0_ok xss_ok (xstate v) (guest_xcr0 (xstate v)) (guest_xss (xstate v))"
    and leaf: "(ucast (rax regs) :: u32) = 0xd"
  obtains mq m' where "cpuid_result hw regs (v, m) =
      (Ok (hw_cpuid hw 0xd (ucast (rcx regs)) mq), (v\<lparr>xstate := host_saved (xregs hw m) (xstate v)\<rparr>, m'))" "current m'"
    "xregs hw mq = xregs_loaded (xstate v) (guest_xcr0 (xstate v)) (guest_xss (xstate v)) (xregs hw m)"
    "xregs hw m' = xregs hw m" "\<And>f. hw_vmread hw f m' = hw_vmread hw f m"
proof -
  let ?x = "xstate v" and ?x1 = "host_saved (xregs hw m) (xstate v)"
  obtain mq where mq: "switch_to_guest hw (?x, m) = (Ok (), (?x1, mq))"
    "xregs hw mq = xregs_loaded ?x (guest_xcr0 ?x) (guest_xss ?x) (xregs hw m)"
    using switch_to_guest_run [OF acc legal] by (elim exE conjE) (rule that)
  have vmcs: "current mq" "\<And>f. hw_vmread hw f mq = hw_vmread hw f m" using switch_vmcs [OF mq(1)] cur by blast+
  have acc1: "xstate_accessible hw ?x1 mq"
    using mq(2) by (auto simp: xstate_accessible_def host_saved_def xregs_def xregs_loaded_def)
  have legal1: "xvalues_legal hw xcr0_ok xss_ok ?x1 (host_xcr0 ?x1) (host_xss ?x1)"
    using xregs_legal [OF acc] by (simp add: host_saved_def xvalues_legal_def)
  have again: "swapped (host_saved (xregs hw mq) (swapped ?x1)) = ?x1"
    by (simp add: mq(2) swapped_def host_saved_def xregs_loaded_def)
  obtain m' where m': "switch_to_host hw (?x1, mq) = (Ok (), (?x1, m'))"
    "xregs hw m' = xregs_loaded ?x1 (host_xcr0 ?x1) (host_xss ?x1) (xregs hw mq)"
    using switch_to_host_run [OF acc1 legal1] unfolding again by (elim exE conjE) (rule that)
  have vmcs': "current m'" "\<And>f. hw_vmread hw f m' = hw_vmread hw f m" using switch_back_vmcs [OF m'(1)] vmcs by simp_all
  have same: "xregs hw m' = xregs hw m"
    using m'(2) mq(2) acc by (auto simp: host_saved_def xregs_loaded_def xregs_def xstate_accessible_def)
  have "cpuid_result hw regs (v, m) = (Ok (hw_cpuid hw 0xd (ucast (rcx regs)) mq), (v\<lparr>xstate := ?x1\<rparr>, m'))"
    using mq(1) m'(1)
    by (simp add: cpuid_result_def leaf Let_def load_guest_xstate_def load_host_xstate_def on_part_simps bind_def on_hw_pair gets_def return_def)
  then show thesis using vmcs'(1) mq(2) same vmcs'(2) by (rule that)
qed

lemma exit_info_live:
  assumes "current m" "known_exit hw m"
  obtains info where "exit_info hw m = (Ok info, m)"
proof -
  obtain raw len ip where f: "hw_vmread hw (VmcsReadOnly32_number EXIT_REASON) m = Inr raw"
    "hw_vmread hw (VmcsReadOnly32_number VMEXIT_INSTRUCTION_LEN) m = Inr len"
    "hw_vmread hw (VmcsGuestNW_number VmcsGuestNW.RIP) m = Inr ip"
    using current_read [OF assms(1)] declared_number by metis
  moreover have "\<exists>r. VmxExitReason_number r = take_bit 16 (ucast raw)"
    using assms(2) f(1) unfolding known_exit_def by auto
  ultimately show thesis using exit_info_spec [OF f] that by auto
qed

text \<open>Back from the guest: the host's registers are restored and the exit information is read.\<close>

lemma return_live:
  assumes m3: "current m3" "known_exit hw m3" "xstate_accessible hw x m3" and acc: "xstate_accessible hw x m"
    and v2: "xstate v2 = host_saved (xregs hw m) x"
  obtains info y m' where "load_host_xstate hw (v2, m3) = (Ok (), (v2\<lparr>xstate := y\<rparr>, m'))" "current m'"
    "exit_info hw m' = (Ok info, m')" "\<And>f. hw_vmread hw f m' = hw_vmread hw f m3"
    "xsave_available x \<longrightarrow> fst (xregs hw m') = fst (xregs hw m)"
    "xsave_available x \<and> xsaves_available x \<longrightarrow> snd (xregs hw m') = snd (xregs hw m)"
proof -
  have acc2: "xstate_accessible hw (xstate v2) m3" using m3(3) by (simp add: v2 host_saved_def xstate_accessible_def)
  have legal2: "xvalues_legal hw xcr0_ok xss_ok (xstate v2) (host_xcr0 (xstate v2)) (host_xss (xstate v2))"
    using xregs_legal [OF acc] by (simp add: v2 host_saved_def xvalues_legal_def)
  obtain y m' where m': "load_host_xstate hw (v2, m3) = (Ok (), (v2\<lparr>xstate := y\<rparr>, m'))" "current m'"
    "xregs hw m' = xregs_loaded (xstate v2) (host_xcr0 (xstate v2)) (host_xss (xstate v2)) (xregs hw m3)"
    "\<And>f. hw_vmread hw f m' = hw_vmread hw f m3"
    by (rule load_host_live [OF m3(1) acc2 legal2]) (rule that)
  have "known_exit hw m'" using m3(2) m'(4) unfolding known_exit_def by simp
  with m'(2) obtain info where info: "exit_info hw m' = (Ok info, m')" by (rule exit_info_live)
  have "xsave_available x \<longrightarrow> fst (xregs hw m') = fst (xregs hw m)"
    "xsave_available x \<and> xsaves_available x \<longrightarrow> snd (xregs hw m') = snd (xregs hw m)"
    using m'(3) acc by (auto simp: v2 host_saved_def xregs_loaded_def xregs_def xstate_accessible_def)
  then show thesis by (rule that [OF m'(1,2) info m'(4)])
qed

text \<open>Nothing before the entry fails.\<close>

lemma before_entry_live:
  fixes v :: "'l VmxVcpu"
  assumes cur: "current m" and acc: "xstate_accessible hw (xstate v) m"
    and legal: "xvalues_legal hw xcr0_ok xss_ok (xstate v) (guest_xcr0 (xstate v)) (guest_xss (xstate v))"
  obtains v2 m2 where
    "before_entry hw (v, m) = (Ok (if launched v then VMRESUME_INSTR else VMLAUNCH_INSTR), (v2, m2))" "current m2" "launched v2"
    "guest_regs v2 = guest_regs v" "xstate v2 = host_saved (xregs hw m) (xstate v)"
    "xregs hw m2 = xregs_loaded (xstate v) (guest_xcr0 (xstate v)) (guest_xss (xstate v)) (xregs hw m)"
proof -
  let ?x = "xstate v"
  obtain es m0 where m0: "unwrap (inject_pending_events hw) (v, m) = (Ok (), (v\<lparr>pending_events := es\<rparr>, m0))"
    "current m0" "xregs hw m0 = xregs hw m"
    using inject_live [OF cur, of v] by (elim exE conjE) (rule that)
  let ?v1 = "v\<lparr>pending_events := es, xstate := host_saved (xregs hw m) ?x\<rparr>"
  have "xstate_accessible hw ?x m0" using acc accessible_xregs [OF m0(3)] by simp
  then obtain m1 where m1: "load_guest_xstate hw (v\<lparr>pending_events := es\<rparr>, m0) = (Ok (), (?v1, m1))" "current m1"
    "xregs hw m1 = xregs_loaded ?x (guest_xcr0 ?x) (guest_xss ?x) (xregs hw m)"
    using load_guest_live [OF m0(2), of "v\<lparr>pending_events := es\<rparr>"] legal m0(3) by auto
  show thesis
  proof (cases "launched v")
    case True
    then show thesis using m0(1) m1
      by (intro that [of ?v1 m1]) (simp_all add: before_entry_def bind_def self_def gets_def return_def)
  next
    case False
    let ?w = "?v1\<lparr>launched := True\<rparr>"
    obtain m2 where m2: "write_host_rsp hw (?w, m1) = (Ok (), (?w, m2))" "current m2"
      "wrote hw [(VmcsHostNW_number VmcsHostNW.RSP, hw_host_stack_top_addr hw (region_frame (vmcs ?w)) m1)] m1 m2"
      using m1(2) by (rule host_rsp_live)
    then show thesis using False m0(1) m1 m2(1,2) host_view_xregs [OF wrote_host [OF m2(3)]]
      by (intro that [of "?v1\<lparr>launched := True\<rparr>" m2])
        (simp_all add: before_entry_def bind_def self_def gets_def modify_self_run return_def)
  qed
qed

end

section \<open>CPUID\<close>

text \<open>
  C22. CPUID: the handler advances RIP by the two bytes of the instruction and loads the
  four result registers, zero-extended, with the view of the processor's answer: leaf 1 shows a
  hypervisor and no VMX, leaf 7 no WAITPKG and no five-level paging, leaves 0x40000000 and 0x40000001 the
  vendor string and no features, leaf 0x16 a default frequency when the processor reports none, every
  other leaf the processor's answer. EDX of leaf 1, with its machine-check bit, is the processor's. For leaf 0xd, whose answer depends
  on XCR0 and IA32_XSS, the processor is asked with the guest's values loaded (which have to be legal), and the host's values are back in place
  afterwards; the vCPU has saved them. No other register, no other field of the VMCS and nothing else of the vCPU changes.
\<close>

theorem handle_cpuid_spec:
  fixes v :: "'l VmxVcpu"
  assumes hw: "vmcs_current hw current" "current m"
    and ip: "hw_vmread hw (VmcsGuestNW_number VmcsGuestNW.RIP) m = Inr ip" "unat ip + 2 < 2 ^ 64"
    and leaf: "leaf = ucast (rax (guest_regs v))"
    and live: "leaf = 0xd \<longrightarrow> run_hw hw current xcr0_ok xss_ok \<and> xstate_accessible hw (xstate v) m \<and>
      xvalues_legal hw xcr0_ok xss_ok (xstate v) (guest_xcr0 (xstate v)) (guest_xss (xstate v))"
  shows "\<exists>res mq x m'. handle_cpuid hw (v, m) =
      (Ok (), (v\<lparr>xstate := x, guest_regs := (guest_regs v)\<lparr>rax := ucast (eax res), rbx := ucast (ebx res),
         rcx := ucast (ecx res), rdx := ucast (edx res)\<rparr>\<rparr>, m')) \<and> current m' \<and>
    cpuid_view leaf (rcx (guest_regs v)) (hw_cpuid hw leaf (ucast (rcx (guest_regs v))) mq) res \<and>
    (\<forall>g. full_field g \<longrightarrow> hw_vmread hw g m' =
       (if g = VmcsGuestNW_number VmcsGuestNW.RIP then Inr (ip + 2) else hw_vmread hw g m)) \<and>
    xregs hw m' = xregs hw m \<and>
    (if leaf = 0xd
     then xregs hw mq = xregs_loaded (xstate v) (guest_xcr0 (xstate v)) (guest_xss (xstate v)) (xregs hw m) \<and>
       x = host_saved (xregs hw m) (xstate v)
     else mq = m \<and> x = xstate v \<and> wrote hw [(VmcsGuestNW_number VmcsGuestNW.RIP, ip + 2)] m m')"
proof -
  let ?regs = "guest_regs v"
  have "\<exists>res mq x m1. cpuid_result hw ?regs (v, m) = (Ok res, (v\<lparr>xstate := x\<rparr>, m1)) \<and> current m1 \<and>
      cpuid_view leaf (rcx ?regs) (hw_cpuid hw leaf (ucast (rcx ?regs)) mq) res \<and>
      (\<forall>g. hw_vmread hw g m1 = hw_vmread hw g m) \<and> xregs hw m1 = xregs hw m \<and>
      (if leaf = 0xd
       then xregs hw mq = xregs_loaded (xstate v) (guest_xcr0 (xstate v)) (guest_xss (xstate v)) (xregs hw m) \<and>
         x = host_saved (xregs hw m) (xstate v)
       else mq = m \<and> x = xstate v \<and> m1 = m)"
  proof (cases "leaf = 0xd")
    case True
    with live leaf have l: "run_hw hw current xcr0_ok xss_ok" "xstate_accessible hw (xstate v) m"
      "xvalues_legal hw xcr0_ok xss_ok (xstate v) (guest_xcr0 (xstate v)) (guest_xss (xstate v))" "ucast (rax ?regs) = (0xd :: u32)"
      by simp_all
    show ?thesis
      by (rule run_hw.cpuid_switched [OF l(1) hw(2) l(2-4)]) (use True in \<open>auto simp: cpuid_view_def\<close>)
  next
    case False
    then have "(ucast (rax ?regs) :: u32) \<noteq> 0xd" using leaf by simp
    from cpuid_result_run [OF this, of hw v m] obtain res where "cpuid_result hw ?regs (v, m) = (Ok res, (v, m))"
      "cpuid_view leaf (rcx ?regs) (hw_cpuid hw leaf (ucast (rcx ?regs)) m) res"
      unfolding leaf by blast
    with False hw(2) show ?thesis by (intro exI [of _ res] exI [of _ m] exI [of _ "xstate v"]) simp
  qed
  then obtain res mq x m1 where r: "cpuid_result hw ?regs (v, m) = (Ok res, (v\<lparr>xstate := x\<rparr>, m1))" "current m1"
      "cpuid_view leaf (rcx ?regs) (hw_cpuid hw leaf (ucast (rcx ?regs)) mq) res"
      "\<And>g. hw_vmread hw g m1 = hw_vmread hw g m" "xregs hw m1 = xregs hw m"
      "if leaf = 0xd
       then xregs hw mq = xregs_loaded (xstate v) (guest_xcr0 (xstate v)) (guest_xss (xstate v)) (xregs hw m) \<and>
         x = host_saved (xregs hw m) (xstate v)
       else mq = m \<and> x = xstate v \<and> m1 = m"
    by (elim exE conjE) (rule that, assumption+, erule spec)
  obtain m' where m': "advance_rip hw 2 m1 = (Ok (), m')" "current m'"
    "wrote hw [(VmcsGuestNW_number VmcsGuestNW.RIP, ip + 2)] m1 m'"
    using vmcs_current.advance_rip_ok [OF hw(1) r(2), of ip 2] r(4) ip by auto
  have "hw_vmread hw g m' = (if g = VmcsGuestNW_number VmcsGuestNW.RIP then Inr (ip + 2) else hw_vmread hw g m)" if "full_field g" for g
    using wrote_read [OF m'(3) that] r(4) [of g] by (auto simp del: field_numbers)
  moreover have "xregs hw m' = xregs hw m" using host_view_xregs [OF wrote_host [OF m'(3)]] r(5) by simp
  moreover have "handle_cpuid hw (v, m) = (Ok (), (v\<lparr>xstate := x, guest_regs := ?regs\<lparr>rax := ucast (eax res),
      rbx := ucast (ebx res), rcx := ucast (ecx res), rdx := ucast (edx res)\<rparr>\<rparr>, m'))"
    using r(1) m'(1) by (simp add: handle_cpuid_def prog_simps)
  ultimately show ?thesis
    using r(3,6) m'(2,3) by (intro exI [of _ res] exI [of _ mq] exI [of _ x] exI [of _ m']) (auto split: if_splits)
qed

theorem handle_cpuid_spec_witness:
  "(\<exists>v m'. handle_cpuid ref_hw
       (ref_vcpu\<lparr>guest_regs := GeneralRegisters_default\<lparr>rax := 1\<rparr>\<rparr>, ref_machine) = (Ok (), (v, m')) \<and>
     \<not> bit (rcx (guest_regs v)) 5 \<and> bit (rcx (guest_regs v)) 31) \<and>
   (\<exists>v m'. handle_cpuid ref_hw
       (run_vcpu\<lparr>guest_regs := GeneralRegisters_default\<lparr>rax := 0xd\<rparr>\<rparr>, ref_machine) = (Ok (), (v, m')) \<and>
     host_xcr0 (xstate v) = 7 \<and> ref_xcr0_read m' = Some 7)"
proof -
  have cur: "(\<lambda>m. m_cur m \<noteq> None) ref_machine" by (simp add: ref_machine_def)
  have ip: "hw_vmread ref_hw (VmcsGuestNW_number VmcsGuestNW.RIP) ref_machine = Inr 0" "unat (0 :: u64) + 2 < 2 ^ 64"
    by (simp_all add: ref_machine_def ref_vmread_def)
  note spec = handle_cpuid_spec [OF ref_current.vmcs_current_axioms cur ip, where xcr0_ok = "\<lambda>_. True" and xss_ok = "\<lambda>_. True"]
  let ?v = "ref_vcpu\<lparr>guest_regs := GeneralRegisters_default\<lparr>rax := 1\<rparr>\<rparr>"
  let ?w = "run_vcpu\<lparr>guest_regs := GeneralRegisters_default\<lparr>rax := 0xd\<rparr>\<rparr>"
  have leaf1: "1 = (ucast (rax (guest_regs ?v)) :: u32)" "(1 :: u32) = 0xd \<longrightarrow> P" for P by simp_all
  obtain res mq x m' where r: "handle_cpuid ref_hw (?v, ref_machine) =
      (Ok (), (?v\<lparr>xstate := x, guest_regs := (guest_regs ?v)\<lparr>rax := ucast (eax res), rbx := ucast (ebx res),
         rcx := ucast (ecx res), rdx := ucast (edx res)\<rparr>\<rparr>, m'))"
    "cpuid_view 1 (rcx (guest_regs ?v)) (hw_cpuid ref_hw 1 (ucast (rcx (guest_regs ?v))) mq) res"
    using spec [OF leaf1] by (elim exE conjE) (rule that)
  have "\<not> bit (ecx res) 5" "bit (ecx res) 31" using r(2) by (simp_all add: cpuid_view_def)
  with r(1) have one: "\<exists>v m'. handle_cpuid ref_hw (?v, ref_machine) = (Ok (), (v, m')) \<and>
      \<not> bit (rcx (guest_regs v)) 5 \<and> bit (rcx (guest_regs v)) 31"
    by (auto simp: bit_ucast_iff)
  have x: "xstate_accessible ref_hw run_xstate ref_machine" "xregs ref_hw ref_machine = (Some 7, Some 0xffffffff00000000)"
    by (simp_all add: xstate_accessible_def run_xstate_def ref_machine_def ref_xcr0_read_def xregs_def bit_numeral_rec)
  have legal: "xvalues_legal ref_hw (\<lambda>_. True) (\<lambda>_. True) run_xstate (guest_xcr0 run_xstate) (guest_xss run_xstate)"
    by (simp add: run_xstate_def xvalues_legal_def)
  obtain v' m'' where q: "handle_cpuid ref_hw (?w, ref_machine) = (Ok (), (v', m''))" "xregs ref_hw m'' = xregs ref_hw ref_machine"
    "xstate v' = host_saved (xregs ref_hw ref_machine) run_xstate"
    using spec [of "0xd" ?w] ref_run.run_hw_axioms x(1) legal by (auto simp: run_vcpu_sel)
  have "host_xcr0 (xstate v') = 7" "ref_xcr0_read m'' = Some 7"
    using q(2,3) x(2) by (simp_all add: host_saved_def run_xstate_def xregs_def)
  with one q(1) show ?thesis by blast
qed

section \<open>A run as a whole\<close>

text \<open>\<open>run\<close> continues from there with the entry.\<close>

lemma bind_return_left: "bind (return x) k = k x"
  by (rule ext) (simp add: bind_def return_def)

lemma run_split:
  fixes dev :: "('l, 'm) dev"
  shows "run hw dev = bind (before_entry hw) (\<lambda>instr. bind (vm_enter hw instr) (\<lambda>_. bind (load_host_xstate hw) (\<lambda>_.
     bind (on_hw (unwrap (exit_info hw))) (after_exit hw dev))))"
proof -
  have "(if launched v then vm_enter hw VMRESUME_INSTR
         else block [modify_self (launched_update (\<lambda>_. True)),
           write_host_rsp hw, vm_enter hw VMLAUNCH_INSTR]) =
       bind (if launched v then return VMRESUME_INSTR
         else bind (modify_self (launched_update (\<lambda>_. True))) (\<lambda>_.
           bind (write_host_rsp hw) (\<lambda>_.
           return VMLAUNCH_INSTR))) (vm_enter hw)" for v :: "'l VmxVcpu"
    by (simp add: bind_assoc bind_return_left bind_return_right)
  note split = this
  show ?thesis
    unfolding run_def inner_run_def before_entry_def split by (simp only: bind_assoc after_exit_run)
qed

text \<open>
  C7. A run reaches its exit: on a processor with a current VMCS and legal extended-state values, nothing that \<open>run\<close>
  does before the entry can fail, and it enters with the guest's registers and the guest's XCR0 and IA32_XSS, by
  VMRESUME exactly when the vCPU was launched. When the guest then exits for a reason the code knows, \<open>run\<close> goes on to the
  handling of this exit with the guest's registers stored and the host's extended state restored, and an
  exit that the vCPU does not handle itself is what \<open>run\<close> reports.
\<close>

theorem run_reaches_exit:
  assumes hw: "run_hw hw current xcr0_ok xss_ok" and cur: "current m" and acc: "xstate_accessible hw (xstate v) m"
    and legal: "xvalues_legal hw xcr0_ok xss_ok (xstate v) (guest_xcr0 (xstate v)) (guest_xss (xstate v))"
  shows "\<exists>v2 m2. before_entry hw (v, m) = (Ok (if launched v then VMRESUME_INSTR else VMLAUNCH_INSTR), (v2, m2)) \<and>
    current m2 \<and> guest_regs v2 = guest_regs v \<and>
    xregs hw m2 = xregs_loaded (xstate v) (guest_xcr0 (xstate v)) (guest_xss (xstate v)) (xregs hw m) \<and>
    (\<forall>g m3. hw_vm_entry hw (if launched v then VMRESUME_INSTR else VMLAUNCH_INSTR) (guest_regs v) m2 = (Inr g, m3) \<and>
        current m3 \<and> known_exit hw m3 \<and> xstate_accessible hw (xstate v) m3 \<longrightarrow>
      (\<exists>info v' m'. current m' \<and> exit_info hw m' = (Ok info, m') \<and> (\<forall>f. hw_vmread hw f m' = hw_vmread hw f m3) \<and>
        launched v' \<and> guest_regs v' = g \<and>
        (xsave_available (xstate v) \<longrightarrow> fst (xregs hw m') = fst (xregs hw m)) \<and>
        (xsave_available (xstate v) \<and> xsaves_available (xstate v) \<longrightarrow> snd (xregs hw m') = snd (xregs hw m)) \<and>
        run hw dev (v, m) = after_exit hw dev info (v', m') \<and>
        (\<not> builtin_exit v' info \<longrightarrow> run hw dev (v, m) = run_exit hw dev info (v', m'))))"
    (is "\<exists>v2 m2. ?A v2 m2 \<and> ?B m2 \<and> ?C v2 \<and> ?D m2 \<and> (\<forall>g m3. ?E m2 g m3 \<and> ?F m3 \<and> ?G m3 \<and> ?H m3 \<longrightarrow> ?after g m3)")
proof -
  obtain v2 m2 where m2: "before_entry hw (v, m) = (Ok (if launched v then VMRESUME_INSTR else VMLAUNCH_INSTR), (v2, m2))"
    "current m2" "launched v2" "guest_regs v2 = guest_regs v" "xstate v2 = host_saved (xregs hw m) (xstate v)"
    "xregs hw m2 = xregs_loaded (xstate v) (guest_xcr0 (xstate v)) (guest_xss (xstate v)) (xregs hw m)"
    by (rule run_hw.before_entry_live [OF assms]) (rule that)
  have "?after g m3" if e: "?E m2 g m3" and m3: "?F m3" "?G m3" "?H m3" for g m3
  proof -
    let ?v3 = "v2\<lparr>host_stack_top := hw_saved_rsp hw m2, guest_regs := g\<rparr>"
    have enter: "vm_enter hw (if launched v then VMRESUME_INSTR else VMLAUNCH_INSTR) (v2, m2) = (Ok (), (?v3, m3))"
      using e m2(4) by (simp add: vm_enter_def Let_def)
    obtain info y m' where m': "load_host_xstate hw (?v3, m3) = (Ok (), (?v3\<lparr>xstate := y\<rparr>, m'))" "current m'"
      "exit_info hw m' = (Ok info, m')" "\<And>f. hw_vmread hw f m' = hw_vmread hw f m3"
      "xsave_available (xstate v) \<longrightarrow> fst (xregs hw m') = fst (xregs hw m)"
      "xsave_available (xstate v) \<and> xsaves_available (xstate v) \<longrightarrow> snd (xregs hw m') = snd (xregs hw m)"
      by (rule run_hw.return_live [OF hw m3 acc, of ?v3]) (simp add: m2(5), rule that)
    have run: "run hw dev (v, m) = after_exit hw dev info (?v3\<lparr>xstate := y\<rparr>, m')"
      by (simp add: run_split bind_def m2(1) enter m'(1,3) on_hw_pair unwrap_def)
    then have "\<not> builtin_exit (?v3\<lparr>xstate := y\<rparr>) info \<longrightarrow>
        run hw dev (v, m) = run_exit hw dev info (?v3\<lparr>xstate := y\<rparr>, m')"
      using not_builtin [of "?v3\<lparr>xstate := y\<rparr>" info hw dev m'] by (simp add: after_exit_def bind_def)
    with run m' m2(3) show ?thesis by (intro exI [of _ info] exI [of _ "?v3\<lparr>xstate := y\<rparr>"] exI [of _ m']) simp
  qed
  with m2 show ?thesis by (intro exI [of _ v2] exI [of _ m2] conjI allI impI; (elim conjE)?) blast+
qed

text \<open>The entry of the halting guest on the reference machine.\<close>

lemma halting_before_entry:
  obtains v2 m2 m3 where "before_entry ref_hw (run_vcpu, halting) = (Ok VMLAUNCH_INSTR, (v2, m2))"
    "\<And>regs. ref_vm_entry VMLAUNCH_INSTR regs m2 = (Inr GeneralRegisters_default, m3)" "m_cur m3 \<noteq> None"
    "known_exit ref_hw m3" "xstate_accessible ref_hw run_xstate m3"
proof -
  let ?s = "0xffffffff00000000 :: u64"
  have m: "ref_xcr0_read halting = Some 7" "m_msr halting 0xda0 = Some ?s" "m_cur halting = Some 0x2000"
    "m_guest halting = [(GeneralRegisters_default, [(0x4402, 12)])]" "m_launched halting = (\<lambda>_. False)"
    "bit (m_cr4 halting) 18" "m_vmx_on halting"
    by (simp_all add: halting_def ref_machine_def ref_xcr0_read_def bit_numeral_rec)
  define v1 where "v1 = run_vcpu\<lparr>xstate := run_xstate\<lparr>host_xcr0 := 7, host_xss := ?s\<rparr>\<rparr>"
  define m1 where "m1 = halting\<lparr>m_xcr0 := Some 3, m_msr := (m_msr halting)(0xda0 \<mapsto> 0x100)\<rparr>"
  define m2 where "m2 = m1\<lparr>m_vmcs := (m_vmcs m1)(0x2000 := (m_vmcs m1 0x2000)(0x6c14 := 0x9080))\<rparr>"
  define m3 where "m3 = m2\<lparr>m_guest := [], m_launched := (m_launched m2)(0x2000 := True),
    m_vmcs := (m_vmcs m2)(0x2000 := (m_vmcs m2 0x2000)(0x4402 := 12))\<rparr>"
  have guest: "load_guest_xstate ref_hw (run_vcpu, halting) = (Ok (), (v1, m1))"
    using ref_load_guest [of run_vcpu halting 7 ?s] m by (simp add: run_vcpu_sel run_xstate_def v1_def m1_def)
  have rsp: "write_host_rsp ref_hw (v1\<lparr>launched := True\<rparr>, m1) = (Ok (), (v1\<lparr>launched := True\<rparr>, m2))"
    using ref_write_rsp [of m1 "0x2000"] m(3) by (simp add: m1_def m2_def)
  have "\<not> launched v1" by (simp add: v1_def run_vcpu_sel)
  then have "before_entry ref_hw (run_vcpu, halting) = (Ok VMLAUNCH_INSTR, (v1\<lparr>launched := True\<rparr>, m2))"
    by (simp add: before_entry_def bind_def self_def gets_def modify_self_run return_def no_events [OF run_vcpu_sel(1)]
        guest rsp)
  moreover have "ref_vm_entry VMLAUNCH_INSTR regs m2 = (Inr GeneralRegisters_default, m3)" for regs
    using m by (simp add: ref_vm_entry_def ref_entry_ok_def bit_numeral_rec m3_def m2_def m1_def)
  moreover have "known_exit ref_hw m3"
    unfolding known_exit_def using m(3)
    by (intro exI [of _ 12] exI [of _ HLT]) (simp add: m3_def m2_def m1_def ref_vmread_def)
  ultimately show thesis
    using m by (intro that [of "v1\<lparr>launched := True\<rparr>" m2 m3])
      (simp_all add: m3_def m2_def m1_def xstate_accessible_def ref_xcr0_read_def)
qed

theorem run_reaches_exit_witness:
  "\<exists>info v' m'. guest_regs v' = GeneralRegisters_default \<and> launched v' \<and> exit_info ref_hw m' = (Ok info, m') \<and>
     run ref_hw ref_dev (run_vcpu, halting) = after_exit ref_hw ref_dev info (v', m') \<and>
     hw_xcr0_read ref_hw m' = hw_xcr0_read ref_hw halting"
proof -
  have cur: "(\<lambda>m. m_cur m \<noteq> None) halting" and acc: "xstate_accessible ref_hw (xstate run_vcpu) halting"
    and x: "xsave_available (xstate run_vcpu)" "\<not> launched run_vcpu" "xstate run_vcpu = run_xstate"
    by (simp_all add: halting_def ref_machine_def run_vcpu_sel run_xstate_def xstate_accessible_def ref_xcr0_read_def
        bit_numeral_rec)
  have legal: "xvalues_legal ref_hw (\<lambda>_. True) (\<lambda>_. True) (xstate run_vcpu) (guest_xcr0 (xstate run_vcpu))
      (guest_xss (xstate run_vcpu))"
    by (simp add: run_vcpu_sel run_xstate_def xvalues_legal_def)
  obtain v2 m2 m3 where pre: "before_entry ref_hw (run_vcpu, halting) = (Ok VMLAUNCH_INSTR, (v2, m2))"
    and entry: "\<And>regs. ref_vm_entry VMLAUNCH_INSTR regs m2 = (Inr GeneralRegisters_default, m3)" "m_cur m3 \<noteq> None"
      "known_exit ref_hw m3" "xstate_accessible ref_hw run_xstate m3"
    by (rule halting_before_entry) (rule that)
  from run_reaches_exit [OF ref_run.run_hw_axioms cur acc legal, where dev = ref_dev] pre x
  have "\<exists>info v' m'. exit_info ref_hw m' = (Ok info, m') \<and> launched v' \<and> guest_regs v' = GeneralRegisters_default \<and>
      fst (xregs ref_hw m') = fst (xregs ref_hw halting) \<and>
      run ref_hw ref_dev (run_vcpu, halting) = after_exit ref_hw ref_dev info (v', m')"
    using entry by (elim exE conjE) (simp, blast)
  then show ?thesis by (elim exE conjE) (intro exI conjI, (assumption | simp add: xregs_def)+)
qed

end
