(* ===== verification/VcpuBoot.thy ===== *)
theory VcpuBoot
  imports VcpuApi VcpuSetup VcpuLive
begin

text \<open>
  A vCPU from its creation to the first entry of its guest: \<open>new\<close>, \<open>set_entry\<close>, \<open>set_ept_root\<close>, \<open>setup\<close>, \<open>bind\<close> and \<open>run\<close>
  of the interface \<open>AxArchVCpu\<close> (\<open>src/vmx/vcpu.rs\<close>), one after the other. The locale \<open>boot_hw\<close> joins what set-up and run need of the
  processor; the laws that are new are that the data of a VMCS survive its release (VMCLEAR writes them to the region, from which
  VMPTRLD loads them again) and that VMWRITE does not move a vCPU in memory.
\<close>

locale boot_hw = vmcs_bind hw current eptp_ok vmx_on region + run_hw hw current xcr0_ok xss_ok
  for hw :: "'m hw" and current eptp_ok vmx_on region xcr0_ok xss_ok +
  assumes reload: "current m \<Longrightarrow> hw_vmclear hw region m = (Inr (), m1) \<Longrightarrow> hw_vmptrld hw region m1 = (Inr (), m2) \<Longrightarrow>
    hw_vmread hw f m2 = hw_vmread hw f m"
    and vmwrite_stays: "hw_vmwrite hw f x m = (Inr (), m1) \<Longrightarrow> hw_host_stack_top_addr hw fr m1 = hw_host_stack_top_addr hw fr m"

interpretation ref_boot: boot_hw ref_hw "\<lambda>m. m_cur m = Some 0x10000 \<and> m_vmx_on m" ref_eptp_ok m_vmx_on "0x10000" "\<lambda>_. True" "\<lambda>_. True"
proof -
  let ?c = "\<lambda>m. m_cur m = Some 0x10000 \<and> m_vmx_on m"
  have bind: "vmcs_bind ref_hw ?c ref_eptp_ok m_vmx_on 0x10000" by (rule ref_bind_at) simp
  have run: "run_hw ref_hw ?c (\<lambda>_. True) (\<lambda>_. True)"
    using ept_hw.axioms(1) [OF vmcs_bind.axioms(1) [OF bind]] ref_xstate_live.xstate_live_axioms
    by (rule run_hw.intro)
      (unfold_locales, auto simp: ref_xcr0_write_def ref_wrmsr_def ref_vmread_def split: if_splits option.splits)
  show "boot_hw ref_hw ?c ref_eptp_ok m_vmx_on 0x10000 (\<lambda>_. True) (\<lambda>_. True)"
    using bind run
    by (rule boot_hw.intro)
      (unfold_locales, auto simp: ref_vmclear_def ref_vmptrld_def ref_vmread_def split: if_splits)
qed

section \<open>The steps\<close>

text \<open>What the caller does before the first \<open>run\<close>.\<close>

definition prepare :: "'m hw \<Rightarrow> u64 \<Rightarrow> u64 \<Rightarrow> ('l, 'm, unit) vprog" where
  "prepare hw entry_addr root =
     block [set_entry entry_addr, set_ept_root root, AxArchVCpu_setup hw, AxArchVCpu_bind hw]"

lemma XState_new_inv:
  assumes "XState_new hw m = (Ok x, m')"
  shows "m' = m" "xstate_accessible hw x m" "guest_xcr0 x = (if xsave_available x then the (hw_xcr0_read hw m) else 0)"
    "guest_xss x = (if xsaves_available x then the (hw_rdmsr hw (Msr_number Msr.IA32_XSS) m) else 0)"
    "xsaves_available x \<Longrightarrow> xsave_available x"
  using assms
  by (auto simp: XState_new_def xcr0_read_def Msr_read_def bind_def gets_def return_def xstate_accessible_def
      simp del: Msr_number.simps split: if_splits option.splits)

text \<open>A new vCPU.\<close>

lemma VmxVcpu_new_fresh:
  assumes "VmxVcpu_new hw dev vm_id vcpu_id m0 = (Ok v, m)"
  shows "guest_regs v = GeneralRegisters_default" "\<not> launched v" "pending_events v = []" "XState_new hw m = (Ok (xstate v), m)"
proof -
  obtain rid region io msr l x m1 where v: "v = \<lparr>guest_regs = GeneralRegisters_default, host_stack_top = 0, launched = False,
      entry = None, ept_root = None, vmcs = region, io_bitmap = io, msr_bitmap = msr,
      pending_events = [], vlapic = l, xstate = x\<rparr>" "XState_new hw m1 = (Ok x, m)"
    using assms unfolding VmxVcpu_new_def bind_Ok_iff return_def by (elim exE conjE) (auto intro: that)
  then show "guest_regs v = GeneralRegisters_default" "\<not> launched v" "pending_events v = []" "XState_new hw m = (Ok (xstate v), m)"
    using XState_new_inv(1) [OF v(2)] by simp_all
qed

context run_hw
begin

text \<open>Without pending events, what precedes the first entry writes the host's stack pointer and no other field.\<close>

lemma first_before_entry:
  fixes v :: "'l VmxVcpu"
  assumes cur: "current m" and acc: "xstate_accessible hw (xstate v) m"
    and legal: "xvalues_legal hw xcr0_ok xss_ok (xstate v) (guest_xcr0 (xstate v)) (guest_xss (xstate v))"
    and v: "pending_events v = []" "\<not> launched v"
  obtains v2 m1 m2 where "before_entry hw (v, m) = (Ok VMLAUNCH_INSTR, (v2, m2))" "current m2" "launched v2"
    "guest_regs v2 = guest_regs v" "io_bitmap v2 = io_bitmap v" "msr_bitmap v2 = msr_bitmap v"
    "xregs hw m2 = xregs_loaded (xstate v) (guest_xcr0 (xstate v)) (guest_xss (xstate v)) (xregs hw m)"
    "\<And>f. hw_vmread hw f m1 = hw_vmread hw f m"
    "wrote hw [(VmcsHostNW_number VmcsHostNW.RSP, hw_host_stack_top_addr hw (region_frame (vmcs v2)) m1)] m1 m2"
    "hw_vmwrite hw (VmcsHostNW_number VmcsHostNW.RSP) (hw_host_stack_top_addr hw (region_frame (vmcs v2)) m1) m1 = (Inr (), m2)"
proof -
  let ?x = "xstate v" and ?v1 = "v\<lparr>xstate := host_saved (xregs hw m) (xstate v)\<rparr>"
  obtain m1 where m1: "switch_to_guest hw (?x, m) = (Ok (), (host_saved (xregs hw m) ?x, m1))"
    "xregs hw m1 = xregs_loaded ?x (guest_xcr0 ?x) (guest_xss ?x) (xregs hw m)"
    using switch_to_guest_run [OF acc legal] by (elim exE conjE) (rule that)
  have load: "load_guest_xstate hw (v, m) = (Ok (), (?v1, m1))"
    using m1(1) by (simp add: load_guest_xstate_def on_part_simps)
  have vmcs: "current m1" "\<And>f. hw_vmread hw f m1 = hw_vmread hw f m" using switch_vmcs [OF m1(1)] cur by blast+
  let ?v2 = "?v1\<lparr>launched := True\<rparr>"
  obtain m2 where m2: "write_host_rsp hw (?v2, m1) = (Ok (), (?v2, m2))" "current m2"
    "wrote hw [(VmcsHostNW_number VmcsHostNW.RSP, hw_host_stack_top_addr hw (region_frame (vmcs ?v2)) m1)] m1 m2"
    "hw_vmwrite hw (VmcsHostNW_number VmcsHostNW.RSP) (hw_host_stack_top_addr hw (region_frame (vmcs ?v2)) m1) m1 = (Inr (), m2)"
    using vmcs(1) by (rule host_rsp_live)
  show thesis
  proof (rule that [of "?v1\<lparr>launched := True\<rparr>" m2 m1])
    show "before_entry hw (v, m) = (Ok VMLAUNCH_INSTR, (?v1\<lparr>launched := True\<rparr>, m2))"
      using v by (simp add: before_entry_def bind_def self_def gets_def modify_self_run return_def no_events load m2(1))
    show "xregs hw m2 = xregs_loaded ?x (guest_xcr0 ?x) (guest_xss ?x) (xregs hw m)"
      using m1(2) host_view_xregs [OF wrote_host [OF m2(3)]] by simp
  qed (rule m2(3) m2(4) | use m2(2) vmcs in simp)+
qed

end

text \<open>The VMCS at the first entry, as the list of the fields written.\<close>

definition entry_area ::
  "'m hw \<Rightarrow> 'm \<Rightarrow> (Msr \<Rightarrow> u64) \<Rightarrow> u64 \<Rightarrow> u64 \<Rightarrow> u64 \<Rightarrow> u64 \<Rightarrow> 'l VmxVcpu \<Rightarrow> (u32 \<times> u64) list" where
  "entry_area hw m msr tr_base entry_addr root rsp_addr v =
     vmcs_area hw m msr tr_base entry_addr root v @
     host_area hw m (msr Msr.IA32_PAT) (msr Msr.IA32_EFER) (msr IA32_FS_BASE) (msr IA32_GS_BASE) tr_base @
     [(VmcsHostNW_number VmcsHostNW.RSP, rsp_addr)]"

lemma wrote_reads:
  assumes "wrote hw ws m m'" "\<And>f. hw_vmread hw f m'' = hw_vmread hw f m'" "host_view hw m'' = host_view hw m'"
  shows "wrote hw ws m m''"
  using assms by (simp add: wrote_def)

context boot_hw
begin

lemma prepare_run:
  fixes v :: "'l VmxVcpu"
  assumes m: "vmx_on m" and v: "VmxRegion_phys_addr (vmcs v) = Ok region" "wf_io (io_bitmap v)" "wf_msr (msr_bitmap v)"
    and msrs: "\<And>r. r \<in> set setup_msrs \<Longrightarrow> hw_rdmsr hw (Msr_number r) m = Some (msr r)"
    and caps: "control_caps_ok hw m msr" and root: "eptp_ok (EPTPointer_from_table_phys root)"
    and tr: "\<And>m1. host_view hw m1 = host_view hw m \<Longrightarrow>
      get_tr_base hw (hw_segment hw SEG_TR m) (hw_sgdt hw m) m1 = (Ok tr_base, m1)"
  obtains io ms m0 m' where
    "prepare hw entry_addr root (v, m) =
       (Ok (), (v\<lparr>entry := Some entry_addr, ept_root := Some root, io_bitmap := io, msr_bitmap := ms\<rparr>, m'))"
    "current m'" "host_view hw m' = host_view hw m"
    "wrote hw (vmcs_area hw m msr tr_base entry_addr root (v\<lparr>io_bitmap := io, msr_bitmap := ms\<rparr>) @
       host_area hw m (msr Msr.IA32_PAT) (msr Msr.IA32_EFER) (msr IA32_FS_BASE) (msr IA32_GS_BASE) tr_base) m0 m'"
proof -
  let ?host = "host_area hw m (msr Msr.IA32_PAT) (msr Msr.IA32_EFER) (msr IA32_FS_BASE) (msr IA32_GS_BASE) tr_base"
  have host: "writes hw current m (setup_vmcs_host hw) ?host"
    by (rule area_writes [OF msrs caps root tr])
  let ?v1 = "v\<lparr>entry := Some entry_addr, ept_root := Some root\<rparr>"
  have v1: "VmxRegion_phys_addr (vmcs ?v1) = Ok region" "wf_io (io_bitmap ?v1)" "wf_msr (msr_bitmap ?v1)"
    using v by simp_all
  obtain io ms m0 m1 m2 where set: "setup_vmcs hw entry_addr root (?v1, m) =
      (Ok (), (?v1\<lparr>io_bitmap := io, msr_bitmap := ms\<rparr>, m2))" and m1: "current m1"
    and area: "wrote hw (vmcs_area hw m msr tr_base entry_addr root (?v1\<lparr>io_bitmap := io, msr_bitmap := ms\<rparr>)) m0 m1"
    and m2: "hw_vmclear hw region m1 = (Inr (), m2)" "vmx_on m2" "host_view hw m2 = host_view hw m"
    by (rule exE [OF setup_area [OF m v1 msrs caps root tr]]) (assumption, assumption, elim exE conjE, rule that)
  let ?v2 = "?v1\<lparr>io_bitmap := io, msr_bitmap := ms\<rparr>"
  have "VmxRegion_phys_addr (vmcs ?v2) = Ok region" using v(1) by simp
  with m2(2,3) obtain m3 m' where b: "hw_vmptrld hw region m2 = (Inr (), m3)"
    "bind_to_current_processor hw (?v2, m2) = (Ok (), (?v2, m'))" "current m3" "current m'" "wrote hw ?host m3 m'"
    "host_view hw m' = host_view hw m"
    using host by (rule bind_run)
  have "host_view hw m3 = host_view hw m1"
    using vmptrld_ok [OF m2(2)] vmclear_ok [OF current_on [OF m1]] m2(1) b(1) by auto
  with area have "wrote hw (vmcs_area hw m msr tr_base entry_addr root ?v2) m0 m3"
    by (intro wrote_reads [OF area]) (rule reload [OF m1 m2(1) b(1)])
  from wrote_append [OF this b(5)]
  have area': "wrote hw (vmcs_area hw m msr tr_base entry_addr root (v\<lparr>io_bitmap := io, msr_bitmap := ms\<rparr>) @ ?host) m0 m'"
    by (simp add: vmcs_area_def bitmap_area_def)
  have "prepare hw entry_addr root (v, m) = (Ok (), (?v2, m'))"
    by (simp add: prepare_def set_entry_def set_ept_root_def AxArchVCpu_setup_def AxArchVCpu_bind_def bind_def
        modify_self_run self_def gets_def return_def set b(2))
  then show thesis using b(4,6) area' by (rule that)
qed

end

lemma new_xregs:
  assumes "XState_new hw m = (Ok x, m)"
  shows "xregs_loaded x (guest_xcr0 x) (guest_xss x) (xregs hw m) = xregs hw m"
  using XState_new_inv [OF assms] by (auto simp: xregs_loaded_def xregs_def xstate_accessible_def)

text \<open>The fields that decide where the guest starts, what it sees of memory, and where the host continues after an exit.\<close>

definition entry_points :: "'m hw \<Rightarrow> u64 \<Rightarrow> u64 \<Rightarrow> u64 \<Rightarrow> 'l VmxVcpu \<Rightarrow> (u32 \<times> u64) list" where
  "entry_points hw entry_addr root rsp_addr v =
     [(VmcsGuestNW_number VmcsGuestNW.RIP, entry_addr), (VmcsControl64_number EPTP, EPTPointer_from_table_phys root),
      (VmcsControl64_number IO_BITMAP_A_ADDR, fst (IOBitmap_phys_addr (io_bitmap v))),
      (VmcsControl64_number IO_BITMAP_B_ADDR, snd (IOBitmap_phys_addr (io_bitmap v))),
      (VmcsControl64_number MSR_BITMAPS_ADDR, MsrBitmap_phys_addr (msr_bitmap v)),
      (VmcsHostNW_number VmcsHostNW.RIP, hw_vmx_exit_addr hw), (VmcsHostNW_number VmcsHostNW.RSP, rsp_addr)]"

lemma map_of_rev_append:
  "map_of (rev (xs @ ys)) f = (case map_of (rev ys) f of None \<Rightarrow> map_of (rev xs) f | Some x \<Rightarrow> Some x)"
  by (simp add: map_add_def)

lemma host_fields:
  "map_of (rev (host_area hw m pat efer fs gs tr)) (VmcsGuestNW_number VmcsGuestNW.RIP) = None"
  "map_of (rev (host_area hw m pat efer fs gs tr)) (VmcsControl64_number EPTP) = None"
  "map_of (rev (host_area hw m pat efer fs gs tr)) (VmcsControl64_number IO_BITMAP_A_ADDR) = None"
  "map_of (rev (host_area hw m pat efer fs gs tr)) (VmcsControl64_number IO_BITMAP_B_ADDR) = None"
  "map_of (rev (host_area hw m pat efer fs gs tr)) (VmcsControl64_number MSR_BITMAPS_ADDR) = None"
  "map_of (rev (host_area hw m pat efer fs gs tr)) (VmcsHostNW_number VmcsHostNW.RIP) = Some (hw_vmx_exit_addr hw)"
  by (simp_all add: host_area_def)

lemma control_fields:
  "map_of (rev (control_area hw m msr root)) (VmcsGuestNW_number VmcsGuestNW.RIP) = None"
  "map_of (rev (control_area hw m msr root)) (VmcsControl64_number EPTP) = Some (EPTPointer_from_table_phys root)"
  by (simp_all add: control_area_def)

lemma guest_rip_field: "map_of (rev (guest_reset entry_addr pat)) (VmcsGuestNW_number VmcsGuestNW.RIP) = Some entry_addr"
  by (simp add: guest_reset_def segment_reset_def)

lemma bitmap_fields:
  "map_of (rev (bitmap_area v)) (VmcsGuestNW_number VmcsGuestNW.RIP) = None"
  "map_of (rev (bitmap_area v)) (VmcsControl64_number EPTP) = None"
  "map_of (rev (bitmap_area v)) (VmcsControl64_number IO_BITMAP_A_ADDR) = Some (fst (IOBitmap_phys_addr (io_bitmap v)))"
  "map_of (rev (bitmap_area v)) (VmcsControl64_number IO_BITMAP_B_ADDR) = Some (snd (IOBitmap_phys_addr (io_bitmap v)))"
  "map_of (rev (bitmap_area v)) (VmcsControl64_number MSR_BITMAPS_ADDR) = Some (MsrBitmap_phys_addr (msr_bitmap v))"
  by (simp_all add: bitmap_area_def IOBitmap_phys_addr_def MsrBitmap_phys_addr_def)

lemma rsp_field:
  "map_of (rev [(VmcsHostNW_number VmcsHostNW.RSP, x)]) f = (if f = VmcsHostNW_number VmcsHostNW.RSP then Some x else None)"
  by simp

lemma entry_points_written:
  "list_all (\<lambda>(f, x). map_of (rev (entry_area hw m msr tr_base entry_addr root rsp_addr v)) f = Some x)
     (entry_points hw entry_addr root rsp_addr v)"
  unfolding entry_points_def entry_area_def vmcs_area_def list.pred_inject prod.case map_of_rev_append host_fields control_fields
    guest_rip_field bitmap_fields rsp_field
  by simp

context boot_hw
begin

lemma entry_run:
  fixes v :: "'l VmxVcpu"
  assumes m: "vmx_on m" and v: "VmxRegion_phys_addr (vmcs v) = Ok region" "wf_io (io_bitmap v)" "wf_msr (msr_bitmap v)"
    and fresh: "pending_events v = []" "\<not> launched v" and x: "XState_new hw m = (Ok (xstate v), m)"
    and msrs: "\<And>r. r \<in> set setup_msrs \<Longrightarrow> hw_rdmsr hw (Msr_number r) m = Some (msr r)"
    and caps: "control_caps_ok hw m msr" and root: "eptp_ok (EPTPointer_from_table_phys root)"
    and tr: "\<And>m1. host_view hw m1 = host_view hw m \<Longrightarrow>
      get_tr_base hw (hw_segment hw SEG_TR m) (hw_sgdt hw m) m1 = (Ok tr_base, m1)"
  obtains v1 m1 v2 m2 where "prepare hw entry_addr root (v, m) = (Ok (), (v1, m1))"
    "before_entry hw (v1, m1) = (Ok VMLAUNCH_INSTR, (v2, m2))" "current m2" "launched v2" "guest_regs v2 = guest_regs v"
    "xregs hw m2 = xregs hw m"
    "\<And>f y. full_field f \<Longrightarrow> map_of (rev (entry_area hw m msr tr_base entry_addr root (hw_host_stack_top_addr hw (region_frame (vmcs v2)) m2) v2)) f = Some y \<Longrightarrow>
       hw_vmread hw f m2 = Inr y"
proof -
  let ?host = "host_area hw m (msr Msr.IA32_PAT) (msr Msr.IA32_EFER) (msr IA32_FS_BASE) (msr IA32_GS_BASE) tr_base"
  obtain io ms m0 m1 where prep: "prepare hw entry_addr root (v, m) =
      (Ok (), (v\<lparr>entry := Some entry_addr, ept_root := Some root, io_bitmap := io, msr_bitmap := ms\<rparr>, m1))"
    and m1: "current m1" "host_view hw m1 = host_view hw m"
    and area: "wrote hw (vmcs_area hw m msr tr_base entry_addr root (v\<lparr>io_bitmap := io, msr_bitmap := ms\<rparr>) @ ?host) m0 m1"
    by (rule prepare_run [OF m v msrs caps root tr]) (assumption, assumption, rule that)
  let ?v1 = "v\<lparr>entry := Some entry_addr, ept_root := Some root, io_bitmap := io, msr_bitmap := ms\<rparr>"
  note same = host_view_xregs [OF m1(2)]
  have acc: "xstate_accessible hw (xstate ?v1) m1"
    using XState_new_inv(2) [OF x] accessible_xregs [OF same] by simp
  have legal: "xvalues_legal hw xcr0_ok xss_ok (xstate ?v1) (guest_xcr0 (xstate ?v1)) (guest_xss (xstate ?v1))"
    using xregs_legal [OF XState_new_inv(2) [OF x]] XState_new_inv(3-5) [OF x]
    by (auto simp: xvalues_legal_def xregs_def)
  have fresh1: "pending_events ?v1 = []" "\<not> launched ?v1" using fresh by simp_all
  obtain v2 m1' m2 where e: "before_entry hw (?v1, m1) = (Ok VMLAUNCH_INSTR, (v2, m2))" "current m2" "launched v2"
    "guest_regs v2 = guest_regs ?v1" "io_bitmap v2 = io_bitmap ?v1" "msr_bitmap v2 = msr_bitmap ?v1"
    "xregs hw m2 = xregs_loaded (xstate ?v1) (guest_xcr0 (xstate ?v1)) (guest_xss (xstate ?v1)) (xregs hw m1)"
    "\<And>f. hw_vmread hw f m1' = hw_vmread hw f m1"
    "wrote hw [(VmcsHostNW_number VmcsHostNW.RSP, hw_host_stack_top_addr hw (region_frame (vmcs v2)) m1')] m1' m2"
    "hw_vmwrite hw (VmcsHostNW_number VmcsHostNW.RSP) (hw_host_stack_top_addr hw (region_frame (vmcs v2)) m1') m1' = (Inr (), m2)"
    by (rule first_before_entry [OF m1(1) acc legal fresh1]) (rule that)
  note rsp = e(9) [folded vmwrite_stays [OF e(10)]]
  have "hw_vmread hw f m2 = Inr y" if f: "full_field f"
    and y: "map_of (rev (entry_area hw m msr tr_base entry_addr root (hw_host_stack_top_addr hw (region_frame (vmcs v2)) m2) v2)) f = Some y" for f y
  proof -
    have "vmcs_area hw m msr tr_base entry_addr root v2 = vmcs_area hw m msr tr_base entry_addr root (v\<lparr>io_bitmap := io, msr_bitmap := ms\<rparr>)"
      by (simp add: vmcs_area_def bitmap_area_def e(5,6))
    with y have "map_of (rev ((vmcs_area hw m msr tr_base entry_addr root (v\<lparr>io_bitmap := io, msr_bitmap := ms\<rparr>) @ ?host) @
        [(VmcsHostNW_number VmcsHostNW.RSP, hw_host_stack_top_addr hw (region_frame (vmcs v2)) m2)])) f = Some y"
      by (simp only: entry_area_def append_assoc)
    then show ?thesis
      using wrote_read [OF area f] wrote_read [OF rsp f] e(8) [of f]
      unfolding map_of_rev_append [of "_ @ _" "[_]"] by (auto split: option.splits)
  qed
  moreover have "xregs hw m2 = xregs hw m" using e(7) new_xregs [OF x] same by simp
  ultimately show thesis using e(4) by (intro that [OF prep e(1-3)]) simp_all
qed

end

text \<open>
  C8. The first entry of a new vCPU: created in VMX operation, on a processor whose MSRs are readable and whose capabilities
  admit the controls, a vCPU that is given its entry point and an EPT root whose pointer the processor accepts, set up and bound (\<open>prepare\<close>) without an error goes on,
  in its first \<open>run\<close>, to VMLAUNCH. At this point its own VMCS is current and holds every field as it was programmed, among them the entry
  point as guest RIP, the EPT pointer, the addresses of the vCPU's own bitmaps, and the exit handler and the address at which
  the vCPU has its saved stack pointer as RIP and RSP of the host; the guest's registers are zero and XCR0 and IA32_XSS are those of the host.
\<close>

theorem first_entry:
  assumes hw: "boot_hw hw current eptp_ok vmx_on p xcr0_ok xss_ok" "frame_hw hw owned ok" "ok m0"
    and new: "AxArchVCpu_new hw dev vm_id vcpu_id () m0 = (Ok v, m)" "VmxRegion_phys_addr (vmcs v) = Ok p" "vmx_on m"
    and msrs: "\<And>r. r \<in> set setup_msrs \<Longrightarrow> hw_rdmsr hw (Msr_number r) m = Some (msr r)"
    and caps: "control_caps_ok hw m msr" and root: "eptp_ok (EPTPointer_from_table_phys root)"
    and tr: "\<And>m1. host_view hw m1 = host_view hw m \<Longrightarrow>
      get_tr_base hw (hw_segment hw SEG_TR m) (hw_sgdt hw m) m1 = (Ok tr_base, m1)"
  shows "\<exists>v1 m1 v2 m2. prepare hw entry_addr root (v, m) = (Ok (), (v1, m1)) \<and>
    run hw dev (v1, m1) = bind (vm_enter hw VMLAUNCH_INSTR) (\<lambda>_. bind (load_host_xstate hw) (\<lambda>_.
      bind (on_hw (unwrap (exit_info hw))) (after_exit hw dev))) (v2, m2) \<and>
    current m2 \<and> launched v2 \<and> guest_regs v2 = GeneralRegisters_default \<and> xregs hw m2 = xregs hw m \<and>
    (\<forall>f x. full_field f \<and> map_of (rev (entry_area hw m msr tr_base entry_addr root (hw_host_stack_top_addr hw (region_frame (vmcs v2)) m2) v2)) f = Some x \<longrightarrow>
       hw_vmread hw f m2 = Inr x) \<and>
    list_all (\<lambda>(f, x). hw_vmread hw f m2 = Inr x) (entry_points hw entry_addr root (hw_host_stack_top_addr hw (region_frame (vmcs v2)) m2) v2)"
proof -
  note new' = new(1) [unfolded AxArchVCpu_new_def]
  note fresh = VmxVcpu_new_fresh [OF new'] and frames = VmxVcpu_new_frames [OF hw(2,3) new']
  have wf: "wf_io (io_bitmap v)" "wf_msr (msr_bitmap v)"
    using frames by (simp_all add: same_memory_def same_io_def same_msr_def)
  obtain v1 m1 v2 m2 where r: "prepare hw entry_addr root (v, m) = (Ok (), (v1, m1))"
    "before_entry hw (v1, m1) = (Ok VMLAUNCH_INSTR, (v2, m2))" "current m2" "launched v2" "guest_regs v2 = guest_regs v"
    "xregs hw m2 = xregs hw m"
    "\<And>f y. full_field f \<Longrightarrow> map_of (rev (entry_area hw m msr tr_base entry_addr root (hw_host_stack_top_addr hw (region_frame (vmcs v2)) m2) v2)) f = Some y \<Longrightarrow>
       hw_vmread hw f m2 = Inr y"
    by (rule boot_hw.entry_run [OF hw(1) new(3,2) wf fresh(3,2,4) msrs caps root tr]) (assumption, assumption, rule that)
  have "list_all (\<lambda>(f, x). full_field f) (entry_points hw entry_addr root (hw_host_stack_top_addr hw (region_frame (vmcs v2)) m2) v2)"
    by (simp add: entry_points_def)
  then have "list_all (\<lambda>(f, x). hw_vmread hw f m2 = Inr x) (entry_points hw entry_addr root (hw_host_stack_top_addr hw (region_frame (vmcs v2)) m2) v2)"
    using entry_points_written [of hw m msr tr_base entry_addr root _ v2] r(7) unfolding list_all_iff by blast
  then show ?thesis
    using r by (intro exI [of _ v1] exI [of _ m1] exI [of _ v2] exI [of _ m2]) (simp add: run_split fresh(1) bind_def)
qed

text \<open>The first vCPU of the reference machine.\<close>

lemma ref_first_vcpu:
  obtains v :: "(usize \<Rightarrow> usize) VmxVcpu" where
    "AxArchVCpu_new ref_hw ref_dev 0 0 () ref_machine = (Ok v, ref_machine\<lparr>m_frames := [0x14000]\<rparr>)"
    "VmxRegion_phys_addr (vmcs v) = Ok 0x10000"
proof -
  have frames: "ref_machine = ref_machine\<lparr>m_frames := 0x10000 # 0x11000 # 0x12000 # 0x13000 # [0x14000]\<rparr>"
    by (simp add: ref_machine_def)
  then obtain v :: "(usize \<Rightarrow> usize) VmxVcpu" where
    new: "VmxVcpu_new ref_hw ref_dev 0 0 ref_machine = (Ok v, ref_machine\<lparr>m_frames := [0x14000]\<rparr>)"
    using ref_new by metis
  then have "VmxRegion_phys_addr (vmcs v) = Ok 0x10000"
    by (rule VmxVcpu_newE)
      (auto dest!: VmxRegion_new_frame simp: ref_alloc_def ref_machine_def VmxVcpu.make_def)
  with new show thesis by (intro that) (simp_all add: AxArchVCpu_new_def)
qed

lemma ref_setup_frames:
  defines "msr \<equiv> \<lambda>r. the (m_msr ref_machine (Msr_number r))"
  shows "hw_rdmsr ref_hw (Msr_number r) (ref_machine\<lparr>m_frames := fs\<rparr>) = Some (msr r)"
    and "control_caps_ok ref_hw (ref_machine\<lparr>m_frames := fs\<rparr>) msr"
    and "get_tr_base ref_hw (hw_segment ref_hw SEG_TR (ref_machine\<lparr>m_frames := fs\<rparr>))
      (hw_sgdt ref_hw (ref_machine\<lparr>m_frames := fs\<rparr>)) m1 = (Ok 0x6700000000, m1)"
  using ref_setup(1) [of r] ref_setup(2) ref_setup(3) [of m1] unfolding msr_def
  by (simp_all add: control_caps_ok_def secondary_controls_def Let_def)

theorem first_entry_witness:
  "\<exists>(v :: (usize \<Rightarrow> usize) VmxVcpu) m v1 m1 v2 m2. AxArchVCpu_new ref_hw ref_dev 0 0 () ref_machine = (Ok v, m) \<and>
     prepare ref_hw 0x8000 0x7000 (v, m) = (Ok (), (v1, m1)) \<and>
     run ref_hw ref_dev (v1, m1) = bind (vm_enter ref_hw VMLAUNCH_INSTR) (\<lambda>_. bind (load_host_xstate ref_hw) (\<lambda>_.
       bind (on_hw (unwrap (exit_info ref_hw))) (after_exit ref_hw ref_dev))) (v2, m2) \<and>
     m_cur m2 = Some 0x10000 \<and> hw_vmread ref_hw (VmcsGuestNW_number VmcsGuestNW.RIP) m2 = Inr 0x8000"
proof -
  let ?m = "ref_machine\<lparr>m_frames := [0x14000]\<rparr>"
  obtain v :: "(usize \<Rightarrow> usize) VmxVcpu" where new: "AxArchVCpu_new ref_hw ref_dev 0 0 () ref_machine = (Ok v, ?m)"
    and v: "VmxRegion_phys_addr (vmcs v) = Ok 0x10000"
    by (rule ref_first_vcpu)
  have on: "m_vmx_on ?m" by (simp add: ref_machine_def)
  obtain v1 m1 m2 and v2 :: "(usize \<Rightarrow> usize) VmxVcpu" where "prepare ref_hw 0x8000 0x7000 (v, ?m) = (Ok (), (v1, m1))"
      "run ref_hw ref_dev (v1, m1) = bind (vm_enter ref_hw VMLAUNCH_INSTR) (\<lambda>_. bind (load_host_xstate ref_hw) (\<lambda>_.
         bind (on_hw (unwrap (exit_info ref_hw))) (after_exit ref_hw ref_dev))) (v2, m2)"
    and cur: "m_cur m2 = Some 0x10000" "m_vmx_on m2"
    and fields: "list_all (\<lambda>(f, x). hw_vmread ref_hw f m2 = Inr x)
      (entry_points ref_hw 0x8000 0x7000 (hw_host_stack_top_addr ref_hw (region_frame (vmcs v2)) m2) v2)"
    using first_entry [OF ref_boot.boot_hw_axioms ref_frames.frame_hw_axioms ref_ok_machine new v on
        ref_setup_frames(1,2) ref_eptp_from_table [of "0x7000"] ref_setup_frames(3), of "0x8000"]
    by (elim exE conjE) (rule that)
  moreover have "hw_vmread ref_hw (VmcsGuestNW_number VmcsGuestNW.RIP) m2 = Inr 0x8000"
    using fields unfolding entry_points_def by simp
  ultimately show ?thesis using new cur(1) by (intro exI conjI)
qed

end
