(* ===== verification/PerCpu.thy ===== *)
theory PerCpu
  imports VcpuRun Invariants
begin

text \<open>
  VMX operation of a logical processor (\<open>VmxPerCpuState\<close> in \<open>src/vmx/percpu.rs\<close>): turning VMX on and off.
  What the code relies on (CR4 keeps what is written to it, VMXON and VMXOFF enter and leave VMX
  operation) is the locale \<open>vmx_cpu\<close>.
\<close>

section \<open>Data and operations\<close>

record VmxPerCpuState =
  vmcs_revision_id :: u32
  vmx_region :: VmxRegion

definition VmxPerCpuState_new :: "usize \<Rightarrow> ('m, VmxPerCpuState) prog" where
  "VmxPerCpuState_new cpu_id = return \<lparr>vmcs_revision_id = 0, vmx_region = VmxRegion_uninit\<rparr>"

definition is_enabled :: "'m hw \<Rightarrow> 'm \<Rightarrow> bool" where
  "is_enabled hw m \<longleftrightarrow> hw_cr4_read hw m AND CR4_VMXE = CR4_VMXE"

text \<open>The part of \<open>hardware_enable\<close> that unlocks VMXON in IA32_FEATURE_CONTROL.\<close>

definition enable_vmxon :: "'m hw \<Rightarrow> ('m, unit) prog" where
  "enable_vmxon hw =
     bind (FeatureControl_read hw) (\<lambda>ctrl.
       let locked = contains ctrl FEATURE_CONTROL_LOCKED;
           vmxon_outside = contains ctrl VMXON_ENABLED_OUTSIDE_SMX
       in if \<not> locked then
            FeatureControl_write hw (ctrl OR FEATURE_CONTROL_LOCKED OR VMXON_ENABLED_OUTSIDE_SMX)
          else if \<not> vmxon_outside then raise Unsupported
          else return ())"

text \<open>
  \<open>cr_is_valid!\<close>. In \<open>!fixed0 | value != 0\<close> the comparison binds weaker than the disjunction.
\<close>

definition cr_is_valid :: "'m hw \<Rightarrow> u64 \<Rightarrow> Msr \<Rightarrow> Msr \<Rightarrow> ('m, bool) prog" where
  "cr_is_valid hw val fixed0_msr fixed1_msr =
     bind (Msr_read hw fixed0_msr) (\<lambda>fixed0.
     bind (Msr_read hw fixed1_msr) (\<lambda>fixed1.
     return ((NOT fixed0) OR val \<noteq> 0 \<and> fixed1 OR (NOT val) \<noteq> 0)))"

definition check_control_registers :: "'m hw \<Rightarrow> ('m, unit) prog" where
  "check_control_registers hw =
     bind (gets (hw_cr0_read hw)) (\<lambda>cr0.
     bind (cr_is_valid hw cr0 IA32_VMX_CR0_FIXED0 IA32_VMX_CR0_FIXED1) (\<lambda>valid0.
       if \<not> valid0 then raise BadState
       else
         bind (gets (hw_cr4_read hw)) (\<lambda>cr4.
         bind (cr_is_valid hw cr4 IA32_VMX_CR4_FIXED0 IA32_VMX_CR4_FIXED1) (\<lambda>valid4.
           if \<not> valid4 then raise BadState else return ()))))"

definition check_vmx_basic :: "'m hw \<Rightarrow> ('m, VmxBasic) prog" where
  "check_vmx_basic hw =
     bind (VmxBasic_read hw) (\<lambda>vmx_basic.
       if unat (region_size vmx_basic) \<noteq> PAGE_SIZE then raise Unsupported
       else if mem_type vmx_basic \<noteq> VMX_MEMORY_TYPE_WRITE_BACK then raise Unsupported
       else if is_32bit_address vmx_basic then raise Unsupported
       else if \<not> io_exit_info_flag vmx_basic then raise Unsupported
       else if \<not> vmx_flex_controls vmx_basic then raise Unsupported
       else return vmx_basic)"

text \<open>\<open>map_err\<close> of a VMX instruction to \<open>BadState\<close>; an exception of the instruction is not an error the code could map.\<close>

fun not_done :: "VmFail \<Rightarrow> 'a res" where
  "not_done VmFault = Fault"
| "not_done _ = Err BadState"

definition or_bad_state :: "('m \<Rightarrow> (VmFail + 'a) \<times> 'm) \<Rightarrow> ('m, 'a) prog" where
  "or_bad_state instr m =
     (case instr m of (Inr x, m') \<Rightarrow> (Ok x, m') | (Inl e, m') \<Rightarrow> (not_done e, m'))"

definition hardware_enable :: "'m hw \<Rightarrow> (VmxPerCpuState \<times> 'm, unit) prog" where
  "hardware_enable hw =
     bind (on_hw (gets (has_hardware_support hw))) (\<lambda>supported.
       if \<not> supported then raise Unsupported
       else
         bind (on_hw (gets (is_enabled hw))) (\<lambda>enabled.
           if enabled then raise ResourceBusy
           else
             bind (on_hw (block [enable_xsave hw, enable_vmxon hw, check_control_registers hw])) (\<lambda>_.
             bind (on_hw (check_vmx_basic hw)) (\<lambda>vmx_basic.
             bind (modify_self (vmcs_revision_id_update (\<lambda>_. revision_id vmx_basic))) (\<lambda>_.
             bind (on_hw (VmxRegion_new hw (revision_id vmx_basic) False)) (\<lambda>region.
             bind (modify_self (vmx_region_update (\<lambda>_. region))) (\<lambda>_.
             bind (on_hw (modify (\<lambda>m. hw_cr4_write hw (hw_cr4_read hw m OR CR4_VMXE) m))) (\<lambda>_.
             bind (lift (VmxRegion_phys_addr region)) (\<lambda>paddr.
             on_hw (or_bad_state (hw_vmxon hw paddr)))))))))))"

definition hardware_disable :: "'m hw \<Rightarrow> (VmxPerCpuState \<times> 'm, unit) prog" where
  "hardware_disable hw =
     bind (on_hw (gets (is_enabled hw))) (\<lambda>enabled.
       if \<not> enabled then raise BadState
       else block
         [on_hw (or_bad_state (hw_vmxoff hw)),
          on_hw (modify (\<lambda>m. hw_cr4_write hw (hw_cr4_read hw m AND NOT CR4_VMXE) m)),
          modify_self (vmx_region_update (\<lambda>_. VmxRegion_uninit))])"

section \<open>Control-register checks\<close>

lemma cr_valid_run:
  assumes "hw_rdmsr hw (Msr_number r0) m = Some fixed0" "hw_rdmsr hw (Msr_number r1) m = Some fixed1"
    and "val \<noteq> 0" "val \<noteq> - 1"
  shows "cr_is_valid hw val r0 r1 m = (Ok True, m)"
proof -
  have "(NOT fixed0) OR val \<noteq> 0" using assms(3) by (simp add: or_eq_0_iff)
  moreover have "fixed1 OR (NOT val) \<noteq> 0"
    using assms(4) by (metis bit.double_compl bit.compl_zero or_eq_0_iff)
  ultimately show ?thesis
    using assms(1,2) by (simp add: cr_is_valid_def prog_simps del: Msr_number.simps)
qed

text \<open>
  The check of CR0 and CR4 against the fixed bits of VMX operation accepts every value other than zero
  and all ones, whatever the fixed bits are, so a control register that lacks a required bit or has a
  forbidden one is not rejected.
\<close>

theorem cr_is_valid_vacuous:
  assumes "hw_rdmsr hw (Msr_number r0) m = Some fixed0" "hw_rdmsr hw (Msr_number r1) m = Some fixed1"
    and "val \<noteq> 0" "val \<noteq> - 1"
  shows "cr_is_valid hw val r0 r1 m = (Ok True, m)"
  using assms by (rule cr_valid_run)

theorem cr_is_valid_vacuous_witness:
  "cr_is_valid ref_hw 1 IA32_VMX_CR0_FIXED0 IA32_VMX_CR0_FIXED1 ref_machine = (Ok True, ref_machine) \<and>
   (0x80000021 :: u64) AND NOT 1 \<noteq> 0"
proof -
  have "hw_rdmsr ref_hw (Msr_number IA32_VMX_CR0_FIXED0) ref_machine = Some 0x80000021"
    "hw_rdmsr ref_hw (Msr_number IA32_VMX_CR0_FIXED1) ref_machine = Some 0xffffffff"
    by (simp_all add: ref_machine_def)
  from cr_is_valid_vacuous [OF this, of 1] show ?thesis by simp
qed

section \<open>What VMX operation relies on\<close>

text \<open>
  \<open>vmx_on\<close>: the processor is in VMX operation. CR4 holds the flags written to it; only VMXON and VMXOFF
  change \<open>vmx_on\<close>, and VMX operation is never left by a CR4 write that keeps VMXE; MSR writes and the
  allocation of a frame touch neither.
\<close>

locale vmx_cpu =
  fixes hw :: "'m hw" and vmx_on :: "'m \<Rightarrow> bool" and cr4_all :: u64
  assumes cr4_flags: "hw_cr4_read hw m AND NOT cr4_all = 0"
    and cr4_all: "bit cr4_all 13" "bit cr4_all 18"
    and cr4_write_read: "v AND NOT cr4_all = 0 \<Longrightarrow> hw_cr4_read hw (hw_cr4_write hw v m) = v"
    and cr4_write_vmx: "(vmx_on m \<Longrightarrow> bit v 13) \<Longrightarrow> vmx_on (hw_cr4_write hw v m) = vmx_on m"
    and wrmsr_vmx: "hw_wrmsr hw r v m = Some m' \<Longrightarrow>
      hw_cr4_read hw m' = hw_cr4_read hw m \<and> vmx_on m' = vmx_on m"
    and alloc_vmx: "hw_alloc_zero hw m = (x, m') \<Longrightarrow>
      hw_cr4_read hw m' = hw_cr4_read hw m \<and> vmx_on m' = vmx_on m"
    and vmxon_cr4: "hw_vmxon hw p m = (y, m') \<Longrightarrow> hw_cr4_read hw m' = hw_cr4_read hw m"
    and vmxon_on: "hw_vmxon hw p m = (Inr (), m') \<Longrightarrow> vmx_on m'"
    and vmxon_fail: "hw_vmxon hw p m = (Inl e, m') \<Longrightarrow> vmx_on m' = vmx_on m"
    and vmxoff_cr4: "hw_vmxoff hw m = (y, m') \<Longrightarrow> hw_cr4_read hw m' = hw_cr4_read hw m"
    and vmxoff_off: "hw_vmxoff hw m = (Inr (), m') \<Longrightarrow> \<not> vmx_on m'"
    and vmxoff_fail: "hw_vmxoff hw m = (Inl e, m') \<Longrightarrow> vmx_on m' = vmx_on m"

interpretation ref_vmx: vmx_cpu ref_hw m_vmx_on "- 1"
  by unfold_locales
    (auto simp: ref_wrmsr_def ref_alloc_def ref_vmxon_def ref_vmxoff_def split: option.splits list.splits if_splits)

text \<open>VMX operation is only entered with VMXE set and with a region to execute VMXON on.\<close>

definition percpu_inv :: "'m hw \<Rightarrow> ('m \<Rightarrow> bool) \<Rightarrow> VmxPerCpuState \<times> 'm \<Rightarrow> bool" where
  "percpu_inv hw vmx_on s \<longleftrightarrow>
     (vmx_on (snd s) \<longrightarrow> is_enabled hw (snd s) \<and> region_frame (vmx_region (fst s)) \<noteq> None)"

context vmx_cpu
begin

lemma cr4_set: "hw_cr4_read hw (hw_cr4_write hw (hw_cr4_read hw m OR CR4_VMXE) m) = hw_cr4_read hw m OR CR4_VMXE"
  "hw_cr4_read hw (hw_cr4_write hw (hw_cr4_read hw m OR CR4_OSXSAVE) m) = hw_cr4_read hw m OR CR4_OSXSAVE"
  "hw_cr4_read hw (hw_cr4_write hw (hw_cr4_read hw m AND NOT CR4_VMXE) m) = hw_cr4_read hw m AND NOT CR4_VMXE"
proof -
  have bit18: "bit (0x40000 :: u64) n \<longleftrightarrow> n = 18" for n
    using bit_push_bit_iff [of 18 "1 :: u64" n] by (auto simp: bit_1_iff)
  have all: "bit (hw_cr4_read hw m) n \<Longrightarrow> bit cr4_all n" for n
  proof -
    assume b: "bit (hw_cr4_read hw m) n"
    have "\<not> bit (hw_cr4_read hw m AND NOT cr4_all) n" using cr4_flags [of m] by simp
    with b show "bit cr4_all n" by (auto simp: bit_simps dest: bit_imp_le_length)
  qed
  have sub: "v AND NOT cr4_all = 0" if "\<And>n. bit v n \<Longrightarrow> bit cr4_all n" for v :: u64
    by (rule bit_word_eqI) (use that in \<open>auto simp: bit_simps\<close>)
  show "hw_cr4_read hw (hw_cr4_write hw (hw_cr4_read hw m OR CR4_VMXE) m) = hw_cr4_read hw m OR CR4_VMXE"
    "hw_cr4_read hw (hw_cr4_write hw (hw_cr4_read hw m OR CR4_OSXSAVE) m) = hw_cr4_read hw m OR CR4_OSXSAVE"
    "hw_cr4_read hw (hw_cr4_write hw (hw_cr4_read hw m AND NOT CR4_VMXE) m) = hw_cr4_read hw m AND NOT CR4_VMXE"
    by (rule cr4_write_read, rule sub,
        unfold bit_or_iff bit_and_iff bit_not_iff bit_single bit18, use all cr4_all in blast)+
qed

text \<open>Nothing before the last step of \<open>hardware_enable\<close> enters VMX operation.\<close>

abbreviation (input) off :: "VmxPerCpuState \<times> 'm \<Rightarrow> bool" where
  "off s \<equiv> \<not> vmx_on (snd s)"

lemma keeps_off_cr4: "keeps (\<lambda>m. \<not> vmx_on m) (modify (\<lambda>m. hw_cr4_write hw (f m) m))"
  using cr4_write_vmx by (simp add: keeps_def modify_def) blast

lemma keeps_off_prepare:
  "keeps (\<lambda>m. \<not> vmx_on m) (block [enable_xsave hw, enable_vmxon hw, check_control_registers hw])"
  "keeps (\<lambda>m. \<not> vmx_on m) (check_vmx_basic hw)"
  "keeps (\<lambda>m. \<not> vmx_on m) (VmxRegion_new hw rid b)"
proof -
  have wr: "keeps (\<lambda>m. \<not> vmx_on m) (Msr_write hw r v)" for r v
    using wrmsr_vmx by (auto simp: keeps_def Msr_write_def split: option.split)
  have al: "keeps (\<lambda>m. \<not> vmx_on m) (hw_alloc_zero hw)"
    unfolding keeps_def using alloc_vmx by (metis surj_pair snd_conv)
  note rules = keeps_bind keeps_basic keeps_if keeps_gets keeps_Msr_read keeps_off_cr4 wr al
  have "keeps (\<lambda>m. \<not> vmx_on m) (enable_xsave hw)" "keeps (\<lambda>m. \<not> vmx_on m) (enable_vmxon hw)"
    "keeps (\<lambda>m. \<not> vmx_on m) (check_control_registers hw)"
    unfolding enable_xsave_def enable_vmxon_def FeatureControl_read_msr FeatureControl_write_msr
      check_control_registers_def cr_is_valid_def Let_def
    by (intro rules)+
  then show "keeps (\<lambda>m. \<not> vmx_on m) (block [enable_xsave hw, enable_vmxon hw, check_control_registers hw])"
    by (intro keeps_block) auto
  show "keeps (\<lambda>m. \<not> vmx_on m) (check_vmx_basic hw)"
    unfolding check_vmx_basic_def VmxBasic_read_msr by (intro rules)
  show "keeps (\<lambda>m. \<not> vmx_on m) (VmxRegion_new hw rid b)"
    unfolding VmxRegion_new_def by (intro rules)
qed

lemma last_step:
  "leads off
    (bind (modify_self (vmx_region_update (\<lambda>_. region))) (\<lambda>_.
     bind (on_hw (modify (\<lambda>m. hw_cr4_write hw (hw_cr4_read hw m OR CR4_VMXE) m))) (\<lambda>_.
     bind (lift (VmxRegion_phys_addr region)) (\<lambda>paddr.
     on_hw (or_bad_state (hw_vmxon hw paddr)))))) (percpu_inv hw vmx_on)"
  unfolding leads_def
proof (intro allI impI)
  fix st :: "VmxPerCpuState \<times> 'm"
  assume off: "off st"
  obtain s m where st: "st = (s, m)" by (cases st)
  let ?m = "hw_cr4_write hw (hw_cr4_read hw m OR CR4_VMXE) m"
  have m: "\<not> vmx_on ?m" "hw_cr4_read hw ?m = hw_cr4_read hw m OR CR4_VMXE"
    using off cr4_write_vmx [of m] cr4_set(1) by (auto simp: st)
  show "percpu_inv hw vmx_on (snd (bind (modify_self (vmx_region_update (\<lambda>_. region))) (\<lambda>_.
     bind (on_hw (modify (\<lambda>m. hw_cr4_write hw (hw_cr4_read hw m OR CR4_VMXE) m))) (\<lambda>_.
     bind (lift (VmxRegion_phys_addr region)) (\<lambda>paddr.
     on_hw (or_bad_state (hw_vmxon hw paddr))))) st))"
  proof (cases "region_frame region")
    case None
    then show ?thesis
      using m(1) by (simp add: st VmxRegion_phys_addr_def prog_simps percpu_inv_def)
  next
    case (Some fr)
    obtain y m' where on: "hw_vmxon hw (start_paddr fr) ?m = (y, m')" by (metis surj_pair)
    have "is_enabled hw m'"
      using vmxon_cr4 [OF on] m(2) by (simp add: is_enabled_def and.assoc bit.conj_disj_distrib2)
    moreover have "\<not> vmx_on m'" if "y = Inl e" for e using vmxon_fail on m(1) that by blast
    ultimately show ?thesis
      using Some on by (cases y) (simp_all add: st VmxRegion_phys_addr_def prog_simps or_bad_state_def percpu_inv_def)
  qed
qed

lemma hardware_enable_inv: "keeps (percpu_inv hw vmx_on) (hardware_enable hw)"
  unfolding keeps_def
proof (intro allI impI)
  fix st :: "VmxPerCpuState \<times> 'm"
  assume inv: "percpu_inv hw vmx_on st"
  have imp: "percpu_inv hw vmx_on s" if "off s" for s using that by (simp add: percpu_inv_def)
  have rest: "leads off
     (bind (on_hw (block [enable_xsave hw, enable_vmxon hw, check_control_registers hw])) (\<lambda>_.
      bind (on_hw (check_vmx_basic hw)) (\<lambda>vmx_basic.
      bind (modify_self (vmcs_revision_id_update (\<lambda>_. revision_id vmx_basic))) (\<lambda>_.
      bind (on_hw (VmxRegion_new hw (revision_id vmx_basic) False)) (\<lambda>region.
      bind (modify_self (vmx_region_update (\<lambda>_. region))) (\<lambda>_.
      bind (on_hw (modify (\<lambda>m. hw_cr4_write hw (hw_cr4_read hw m OR CR4_VMXE) m))) (\<lambda>_.
      bind (lift (VmxRegion_phys_addr region)) (\<lambda>paddr.
      on_hw (or_bad_state (hw_vmxon hw paddr))))))))))  (percpu_inv hw vmx_on)"
    by (intro leads_bind [where R = off] leads_keeps keeps_on_hw keeps_off_prepare last_step imp)
      (auto simp: keeps_def modify_self_def modify_def)
  show "percpu_inv hw vmx_on (snd (hardware_enable hw st))"
  proof (cases "has_hardware_support hw (snd st) \<and> \<not> is_enabled hw (snd st)")
    case True
    then have "off st" using inv by (auto simp: percpu_inv_def)
    with rest True show ?thesis
      by (cases st) (simp add: leads_def hardware_enable_def on_hw_pair gets_def bind_def)
  next
    case False
    with inv show ?thesis
      by (cases st) (auto simp: hardware_enable_def on_hw_pair gets_def bind_def prog_defs)
  qed
qed

lemma hardware_disable_inv: "keeps (percpu_inv hw vmx_on) (hardware_disable hw)"
  unfolding keeps_def
proof (intro allI impI)
  fix st :: "VmxPerCpuState \<times> 'm"
  assume inv: "percpu_inv hw vmx_on st"
  obtain s m where st: "st = (s, m)" by (cases st)
  obtain y m' where off: "hw_vmxoff hw m = (y, m')" by (metis surj_pair)
  show "percpu_inv hw vmx_on (snd (hardware_disable hw st))"
  proof (cases y)
    case (Inl e)
    then have "vmx_on m' = vmx_on m" "is_enabled hw m' = is_enabled hw m"
      using off vmxoff_fail vmxoff_cr4 by (auto simp: is_enabled_def)
    then show ?thesis
      using inv off Inl
      by (cases e) (auto simp: st hardware_disable_def prog_simps or_bad_state_def percpu_inv_def)
  next
    case (Inr u)
    then have "\<not> vmx_on m'" using off vmxoff_off by simp
    then have "\<not> vmx_on (hw_cr4_write hw v m')" for v using cr4_write_vmx by blast
    then show ?thesis
      using inv off Inr
      by (auto simp: st hardware_disable_def prog_simps or_bad_state_def percpu_inv_def)
  qed
qed

end

section \<open>Reachable states\<close>

text \<open>
  A processor starts outside VMX operation; its state changes by \<open>hardware_enable\<close> and \<open>hardware_disable\<close>,
  with any outcome, and by other code that leaves VMX operation and VMXE alone.
\<close>

inductive percpu_reach :: "'m hw \<Rightarrow> ('m \<Rightarrow> bool) \<Rightarrow> VmxPerCpuState \<times> 'm \<Rightarrow> bool" for hw vmx_on where
  start: "\<not> vmx_on m \<Longrightarrow> VmxPerCpuState_new cpu_id m = (Ok s, m') \<Longrightarrow> percpu_reach hw vmx_on (s, m')"
| enable: "percpu_reach hw vmx_on st \<Longrightarrow> hardware_enable hw st = (r, st') \<Longrightarrow> percpu_reach hw vmx_on st'"
| disable: "percpu_reach hw vmx_on st \<Longrightarrow> hardware_disable hw st = (r, st') \<Longrightarrow> percpu_reach hw vmx_on st'"
| other: "percpu_reach hw vmx_on (s, m) \<Longrightarrow> vmx_on m' = vmx_on m \<Longrightarrow>
    is_enabled hw m' = is_enabled hw m \<Longrightarrow> percpu_reach hw vmx_on (s, m')"

text \<open>
  C13. In every state a processor can reach by turning VMX on and off, whether or not the calls succeed, VMX
  operation implies that \<open>is_enabled\<close> reports it and that the processor holds a VMXON region. So the region
  in use is never released, and \<open>hardware_enable\<close> never executes VMXON a second time.
\<close>

theorem percpu_invariant:
  assumes "vmx_cpu hw vmx_on cr4_all" "percpu_reach hw vmx_on (s, m)" "vmx_on m"
  shows "is_enabled hw m \<and> region_frame (vmx_region s) \<noteq> None \<and>
    (has_hardware_support hw m \<longrightarrow> hardware_enable hw (s, m) = (Err ResourceBusy, (s, m)))"
proof -
  have "percpu_inv hw vmx_on st" if "percpu_reach hw vmx_on st" for st
    using that
  proof induction
    case (start m cpu_id s m')
    then show ?case by (simp add: VmxPerCpuState_new_def return_def percpu_inv_def)
  next
    case (enable st r st')
    show ?case by (rule keepsD [OF vmx_cpu.hardware_enable_inv [OF assms(1)] enable.IH enable.hyps(2)])
  next
    case (disable st r st')
    show ?case by (rule keepsD [OF vmx_cpu.hardware_disable_inv [OF assms(1)] disable.IH disable.hyps(2)])
  next
    case (other s m m')
    then show ?case by (simp add: percpu_inv_def)
  qed
  from this [OF assms(2)] assms(3) show ?thesis
    by (auto simp: percpu_inv_def hardware_enable_def prog_simps)
qed

section \<open>Turning VMX on\<close>

text \<open>
  What a successful \<open>hardware_enable\<close> needs beyond \<open>vmx_cpu\<close>: writes to CR4 and to IA32_FEATURE_CONTROL
  change no other register, an unlocked IA32_FEATURE_CONTROL accepts a write, and while \<open>has_mem\<close> holds the
  allocator has a zeroed frame.
\<close>

locale vmx_cpu_live = vmx_cpu hw vmx_on cr4_all for hw :: "'m hw" and vmx_on cr4_all +
  fixes has_mem :: "'m \<Rightarrow> bool"
  assumes cr4_write_other: "hw_rdmsr hw r (hw_cr4_write hw v m) = hw_rdmsr hw r m"
      "hw_cr0_read hw (hw_cr4_write hw v m) = hw_cr0_read hw m" "has_mem (hw_cr4_write hw v m) = has_mem m"
    and feature_control_writable: "hw_rdmsr hw (Msr_number IA32_FEATURE_CONTROL) m = Some fc \<Longrightarrow>
      \<not> bit fc 0 \<Longrightarrow> \<exists>m'. hw_wrmsr hw (Msr_number IA32_FEATURE_CONTROL) v m = Some m'"
    and feature_control_other: "hw_wrmsr hw (Msr_number IA32_FEATURE_CONTROL) v m = Some m' \<Longrightarrow>
      (r \<noteq> Msr_number IA32_FEATURE_CONTROL \<longrightarrow> hw_rdmsr hw r m' = hw_rdmsr hw r m) \<and>
      hw_cr0_read hw m' = hw_cr0_read hw m \<and> has_mem m' = has_mem m"
    and mem_alloc: "has_mem m \<Longrightarrow>
      \<exists>fr m'. hw_alloc_zero hw m = (Ok fr, m') \<and> frame_bytes fr = replicate 4096 0 \<and>
        start_paddr fr AND 0xfff = 0"

interpretation ref_vmx_live: vmx_cpu_live ref_hw m_vmx_on "- 1"
  "\<lambda>m. m_frames m \<noteq> [] \<and> (\<forall>a \<in> set (m_frames m). a AND 0xfff = 0)"
  by unfold_locales
    (auto simp: ref_wrmsr_def ref_alloc_def split: option.splits list.splits)

text \<open>The capabilities \<open>hardware_enable\<close> accepts, as bits of IA32_VMX_BASIC and IA32_FEATURE_CONTROL.\<close>

definition vmx_basic_ok :: "u64 \<Rightarrow> bool" where
  "vmx_basic_ok b \<longleftrightarrow>
     get_bits b 32 45 = 0x1000 \<and> get_bits b 50 54 = 6 \<and> \<not> bit b 48 \<and> bit b 54 \<and> bit b 55"

definition vmx_ready :: "'m hw \<Rightarrow> 'm \<Rightarrow> bool" where
  "vmx_ready hw m \<longleftrightarrow>
     has_hardware_support hw m \<and> \<not> is_enabled hw m \<and>
     (\<exists>fc. hw_rdmsr hw (Msr_number IA32_FEATURE_CONTROL) m = Some fc \<and> (bit fc 0 \<longrightarrow> bit fc 2)) \<and>
     (\<forall>r \<in> {IA32_VMX_CR0_FIXED0, IA32_VMX_CR0_FIXED1, IA32_VMX_CR4_FIXED0, IA32_VMX_CR4_FIXED1}.
        \<exists>v. hw_rdmsr hw (Msr_number r) m = Some v) \<and>
     hw_cr0_read hw m \<noteq> 0 \<and> hw_cr0_read hw m \<noteq> - 1 \<and> hw_cr4_read hw m \<noteq> 0"

lemma contains_single:
  assumes "k < 64"
  shows "contains w (push_bit k 1) \<longleftrightarrow> bit w k"
proof -
  have one: "bit (push_bit k 1 :: u64) n \<longleftrightarrow> n = k" for n
    using assms by (auto simp: bit_push_bit_iff bit_1_iff simp del: push_bit_of_1)
  show ?thesis
    unfolding contains_def
    by (metis (mono_tags) bit_and_iff bit_word_eqI one)
qed

lemma and_single_iff: "(w :: u64) AND 0x2000 = 0x2000 \<longleftrightarrow> bit w 13"
  using contains_single [of 13 w] by (simp add: contains_def)

lemma feature_flags:
  "contains (fc AND FeatureControlFlags_all) FEATURE_CONTROL_LOCKED \<longleftrightarrow> bit fc 0"
  "contains (fc AND FeatureControlFlags_all) VMXON_ENABLED_OUTSIDE_SMX \<longleftrightarrow> bit fc 2"
proof -
  have all: "FeatureControlFlags_all = 7"
    by (simp add: FeatureControlFlags_all_def FEATURE_CONTROL_LOCKED_def VMXON_ENABLED_INSIDE_SMX_def
        VMXON_ENABLED_OUTSIDE_SMX_def)
  show "contains (fc AND FeatureControlFlags_all) FEATURE_CONTROL_LOCKED \<longleftrightarrow> bit fc 0"
    "contains (fc AND FeatureControlFlags_all) VMXON_ENABLED_OUTSIDE_SMX \<longleftrightarrow> bit fc 2"
    unfolding FEATURE_CONTROL_LOCKED_def VMXON_ENABLED_OUTSIDE_SMX_def all
    by (simp_all add: contains_single bit_and_iff bit_numeral_rec del: push_bit_of_1 push_bit_0_id)
qed

context vmx_cpu_live
begin

text \<open>The preparation leaves the processor ready: only CR4.OSXSAVE and IA32_FEATURE_CONTROL change.\<close>

lemma enable_xsave_run:
  "\<exists>m'. enable_xsave hw m = (Ok (), m') \<and> (hw_cr4_read hw m' = hw_cr4_read hw m \<or>
      hw_cr4_read hw m' = hw_cr4_read hw m OR CR4_OSXSAVE) \<and>
    (\<forall>r. hw_rdmsr hw r m' = hw_rdmsr hw r m) \<and> hw_cr0_read hw m' = hw_cr0_read hw m \<and> has_mem m' = has_mem m"
  using cr4_set(2) cr4_write_other by (auto simp: enable_xsave_def prog_simps)

lemma enable_vmxon_run:
  assumes "hw_rdmsr hw (Msr_number IA32_FEATURE_CONTROL) m = Some fc" "bit fc 0 \<longrightarrow> bit fc 2"
  shows "\<exists>m'. enable_vmxon hw m = (Ok (), m') \<and> hw_cr4_read hw m' = hw_cr4_read hw m \<and>
    (\<forall>r. r \<noteq> IA32_FEATURE_CONTROL \<longrightarrow> hw_rdmsr hw (Msr_number r) m' = hw_rdmsr hw (Msr_number r) m) \<and>
    hw_cr0_read hw m' = hw_cr0_read hw m \<and> has_mem m' = has_mem m"
proof (cases "bit fc 0")
  case True
  with assms show ?thesis
    by (simp add: enable_vmxon_def FeatureControl_read_msr prog_simps feature_flags del: Msr_number.simps)
next
  case False
  let ?v = "(fc AND NOT FeatureControlFlags_all) OR
    ((fc AND FeatureControlFlags_all) OR FEATURE_CONTROL_LOCKED OR VMXON_ENABLED_OUTSIDE_SMX)"
  obtain m' where w: "hw_wrmsr hw (Msr_number IA32_FEATURE_CONTROL) ?v m = Some m'"
    using feature_control_writable [OF assms(1) False] by blast
  have "enable_vmxon hw m = (Ok (), m')"
    using assms(1) False w
    by (simp add: enable_vmxon_def FeatureControl_read_msr FeatureControl_write_msr Let_def prog_simps
        feature_flags del: Msr_number.simps)
  then show ?thesis
    using feature_control_other [OF w] wrmsr_vmx [OF w] by (simp del: Msr_number.simps)
qed

lemma check_control_registers_run:
  assumes "\<forall>r \<in> {IA32_VMX_CR0_FIXED0, IA32_VMX_CR0_FIXED1, IA32_VMX_CR4_FIXED0, IA32_VMX_CR4_FIXED1}.
      \<exists>v. hw_rdmsr hw (Msr_number r) m = Some v"
    and "hw_cr0_read hw m \<noteq> 0" "hw_cr0_read hw m \<noteq> - 1" "hw_cr4_read hw m \<noteq> 0" "hw_cr4_read hw m \<noteq> - 1"
  shows "check_control_registers hw m = (Ok (), m)"
proof -
  have "cr_is_valid hw (hw_cr0_read hw m) IA32_VMX_CR0_FIXED0 IA32_VMX_CR0_FIXED1 m = (Ok True, m)"
    "cr_is_valid hw (hw_cr4_read hw m) IA32_VMX_CR4_FIXED0 IA32_VMX_CR4_FIXED1 m = (Ok True, m)"
    using assms by (auto intro: cr_valid_run simp del: Msr_number.simps)
  then show ?thesis by (simp add: check_control_registers_def bind_simps(1) return_def)
qed

lemma prepare_run:
  assumes ready: "vmx_ready hw m"
  shows "\<exists>m'. block [enable_xsave hw, enable_vmxon hw, check_control_registers hw] m = (Ok (), m') \<and>
    (\<forall>r. r \<noteq> IA32_FEATURE_CONTROL \<longrightarrow> hw_rdmsr hw (Msr_number r) m' = hw_rdmsr hw (Msr_number r) m) \<and>
    has_mem m' = has_mem m"
proof -
  obtain m1 where m1: "enable_xsave hw m = (Ok (), m1)"
    "hw_cr4_read hw m1 = hw_cr4_read hw m \<or> hw_cr4_read hw m1 = hw_cr4_read hw m OR CR4_OSXSAVE"
    "\<forall>r. hw_rdmsr hw r m1 = hw_rdmsr hw r m" "hw_cr0_read hw m1 = hw_cr0_read hw m" "has_mem m1 = has_mem m"
    using enable_xsave_run [of m] by (elim exE conjE) (rule that)
  obtain fc where "hw_rdmsr hw (Msr_number IA32_FEATURE_CONTROL) m1 = Some fc" "bit fc 0 \<longrightarrow> bit fc 2"
    using ready m1(3) by (auto simp: vmx_ready_def simp del: Msr_number.simps)
  from enable_vmxon_run [OF this] obtain m2 where m2: "enable_vmxon hw m1 = (Ok (), m2)"
    "hw_cr4_read hw m2 = hw_cr4_read hw m1"
    "\<forall>r. r \<noteq> IA32_FEATURE_CONTROL \<longrightarrow> hw_rdmsr hw (Msr_number r) m2 = hw_rdmsr hw (Msr_number r) m1"
    "hw_cr0_read hw m2 = hw_cr0_read hw m1" "has_mem m2 = has_mem m1"
    by (elim exE conjE) (rule that)
  have cr4: "hw_cr4_read hw m2 \<noteq> 0" "hw_cr4_read hw m2 \<noteq> - 1"
  proof -
    show "hw_cr4_read hw m2 \<noteq> 0" using ready m1(2) m2(2) by (auto simp: vmx_ready_def or_eq_0_iff)
    have "\<not> bit (hw_cr4_read hw m) 13"
      using ready by (simp add: vmx_ready_def is_enabled_def and_single_iff)
    then have "\<not> bit (hw_cr4_read hw m2) 13"
      using m1(2) m2(2) by (auto simp: bit_or_iff bit_numeral_rec)
    then show "hw_cr4_read hw m2 \<noteq> - 1" by auto
  qed
  have "check_control_registers hw m2 = (Ok (), m2)"
    by (rule check_control_registers_run)
      (use ready m1 m2 cr4 in \<open>simp_all add: vmx_ready_def del: Msr_number.simps\<close>)
  with m1 m2 show ?thesis by (auto simp: bind_simps(1) return_def simp del: Msr_number.simps)
qed

lemma check_vmx_basic_run:
  assumes "hw_rdmsr hw (Msr_number IA32_VMX_BASIC) m = Some b" "vmx_basic_ok b"
  shows "\<exists>basic. check_vmx_basic hw m = (Ok basic, m) \<and> revision_id basic = ucast (get_bits b 0 31)"
  using assms
  by (simp add: check_vmx_basic_def VmxBasic_read_msr prog_simps vmx_basic_ok_def get_bit_def
      VMX_MEMORY_TYPE_WRITE_BACK_def del: Msr_number.simps)

lemma enable_run:
  assumes ready: "vmx_ready hw m" "has_mem m" "hw_rdmsr hw (Msr_number IA32_VMX_BASIC) m = Some b" "vmx_basic_ok b"
    and off: "\<not> vmx_on m"
  shows "\<exists>a s' m'. hardware_enable hw (s, m) = on_hw (or_bad_state (hw_vmxon hw a)) (s', m') \<and>
    VmxRegion_phys_addr (vmx_region s') = Ok a \<and> a AND 0xfff = 0 \<and>
    vmcs_revision_id s' = ucast (get_bits b 0 31) \<and> is_enabled hw m' \<and> \<not> vmx_on m'"
proof -
  obtain m1 where m1: "block [enable_xsave hw, enable_vmxon hw, check_control_registers hw] m = (Ok (), m1)"
    "hw_rdmsr hw (Msr_number IA32_VMX_BASIC) m1 = Some b" "has_mem m1"
    using prepare_run [OF ready(1)] ready(2,3) by (auto simp del: Msr_number.simps block.simps)
  obtain basic where basic: "check_vmx_basic hw m1 = (Ok basic, m1)" "revision_id basic = ucast (get_bits b 0 31)"
    using check_vmx_basic_run [OF m1(2) ready(4)] by blast
  obtain fr m2 where fr: "hw_alloc_zero hw m1 = (Ok fr, m2)" "frame_bytes fr = replicate 4096 0"
    and aligned: "start_paddr fr AND 0xfff = 0"
    using mem_alloc [OF m1(3)] by blast
  have "\<not> bit (revision_id basic) 31" by (simp add: basic(2) wbits bit_simps)
  then obtain region where region: "VmxRegion_new hw (revision_id basic) False m1 = (Ok region, m2)"
    "VmxRegion_phys_addr region = Ok (start_paddr fr)"
    using VmxRegion_new_run [OF fr, of "revision_id basic" False] by (simp add: VmxRegion_phys_addr_def)
  let ?m = "hw_cr4_write hw (hw_cr4_read hw m2 OR CR4_VMXE) m2"
  let ?s = "s\<lparr>vmcs_revision_id := revision_id basic, vmx_region := region\<rparr>"
  have run: "hardware_enable hw (s, m) = on_hw (or_bad_state (hw_vmxon hw (start_paddr fr))) (?s, ?m)"
  proof -
    have "has_hardware_support hw m" "\<not> is_enabled hw m" using ready(1) by (simp_all add: vmx_ready_def)
    moreover have "on_hw (block [enable_xsave hw, enable_vmxon hw, check_control_registers hw]) (s, m) =
        (Ok (), (s, m1))" "on_hw (check_vmx_basic hw) (s, m1) = (Ok basic, (s, m1))"
      by (rule on_hw_simps, rule m1(1), rule on_hw_simps, rule basic(1))
    moreover have "on_hw (VmxRegion_new hw (revision_id basic) False) (t, m1) = (Ok region, (t, m2))"
      for t :: VmxPerCpuState
      by (rule on_hw_simps, rule region(1))
    ultimately show ?thesis
      using region(2)
      by (simp add: hardware_enable_def bind_def on_hw_pair [of "gets _"] on_hw_pair [of "modify _"] gets_def
          lift_def modify_def modify_self_def del: block.simps)
  qed
  have "is_enabled hw ?m"
    using cr4_set(1) [of m2] by (simp add: is_enabled_def and.assoc bit.conj_disj_distrib2)
  moreover have "\<not> vmx_on ?m"
  proof -
    have "\<not> vmx_on m1" by (rule keepsD [OF keeps_off_prepare(1) off m1(1)])
    then have "\<not> vmx_on m2" using alloc_vmx [OF fr(1)] by simp
    then show ?thesis using cr4_write_vmx by blast
  qed
  ultimately show ?thesis
    using run region(2) basic(2) aligned
    by (intro exI [of _ "start_paddr fr"] exI [of _ ?s] exI [of _ ?m]) simp
qed

end

text \<open>
  C15. Turning VMX on, on a processor that is ready for it: the per-CPU state takes the revision identifier of
  IA32_VMX_BASIC and a VMXON region, VMXE is set, and VMXON is executed on that region. When VMXON succeeds the
  call succeeds and the processor is in VMX operation. When VMXON fails the call reports \<open>BadState\<close> (an exception of VMXON ends it
  with that exception) and leaves VMXE set outside VMX operation, so that every later call reports \<open>ResourceBusy\<close>.
\<close>

theorem hardware_enable_spec:
  assumes live: "vmx_cpu_live hw vmx_on cr4_all has_mem"
    and ready: "vmx_ready hw m" "has_mem m" "hw_rdmsr hw (Msr_number IA32_VMX_BASIC) m = Some b" "vmx_basic_ok b"
    and off: "\<not> vmx_on m"
  shows "\<exists>a s' m1. VmxRegion_phys_addr (vmx_region s') = Ok a \<and> a AND 0xfff = 0 \<and>
    vmcs_revision_id s' = ucast (get_bits b 0 31) \<and> is_enabled hw m1 \<and> \<not> vmx_on m1 \<and>
    (\<forall>m'. hw_vmxon hw a m1 = (Inr (), m') \<longrightarrow>
       hardware_enable hw (s, m) = (Ok (), (s', m')) \<and> vmx_on m' \<and> is_enabled hw m') \<and>
    (\<forall>e m'. hw_vmxon hw a m1 = (Inl e, m') \<longrightarrow>
       hardware_enable hw (s, m) = (if e = VmFault then Fault else Err BadState, (s', m')) \<and> \<not> vmx_on m' \<and> is_enabled hw m' \<and>
       (has_hardware_support hw m' \<longrightarrow> hardware_enable hw (s', m') = (Err ResourceBusy, (s', m'))))"
proof -
  have cpu: "vmx_cpu hw vmx_on cr4_all" using live by (simp add: vmx_cpu_live_def)
  obtain a s' m1 where run: "hardware_enable hw (s, m) = on_hw (or_bad_state (hw_vmxon hw a)) (s', m1)"
    "VmxRegion_phys_addr (vmx_region s') = Ok a" "a AND 0xfff = 0"
    "vmcs_revision_id s' = ucast (get_bits b 0 31)" "is_enabled hw m1" "\<not> vmx_on m1"
    using vmx_cpu_live.enable_run [OF live ready off, of s] by (elim exE conjE) (rule that)
  have enabled: "is_enabled hw m'" if "hw_vmxon hw a m1 = (y, m')" for y m'
    using vmx_cpu.vmxon_cr4 [OF cpu that] run(5) by (simp add: is_enabled_def)
  show ?thesis
  proof (intro exI [of _ a] exI [of _ s'] exI [of _ m1] conjI allI impI run(2-6))
    fix m' assume on: "hw_vmxon hw a m1 = (Inr (), m')"
    show "hardware_enable hw (s, m) = (Ok (), (s', m'))" "vmx_on m'" "is_enabled hw m'"
      using on run(1) enabled vmx_cpu.vmxon_on [OF cpu on] by (simp_all add: on_hw_pair or_bad_state_def)
  next
    fix e m' assume on: "hw_vmxon hw a m1 = (Inl e, m')"
    show "hardware_enable hw (s, m) = (if e = VmFault then Fault else Err BadState, (s', m'))" "\<not> vmx_on m'" "is_enabled hw m'"
      using on run enabled vmx_cpu.vmxon_fail [OF cpu on] by (cases e; simp add: on_hw_pair or_bad_state_def)+
    then show "hardware_enable hw (s', m') = (Err ResourceBusy, (s', m'))" if "has_hardware_support hw m'"
      using that by (simp add: hardware_enable_def prog_simps)
  qed
qed

text \<open>A processor before VMX is turned on: IA32_FEATURE_CONTROL is unlocked, VMXE is clear.\<close>

definition cold_machine :: refm where
  "cold_machine = ref_machine\<lparr>m_vmx_on := False, m_cur := None, m_cr4 := 0x40020,
     m_msr := (m_msr ref_machine)(Msr_number IA32_FEATURE_CONTROL \<mapsto> 0)\<rparr>"

lemma cold_machine_ready:
  "vmx_ready ref_hw cold_machine"
  "m_frames cold_machine \<noteq> [] \<and> (\<forall>a \<in> set (m_frames cold_machine). a AND 0xfff = 0)"
  "\<not> m_vmx_on cold_machine"
  "hw_rdmsr ref_hw (Msr_number IA32_VMX_BASIC) cold_machine = Some 0xd8100000000001"
  "vmx_basic_ok 0xd8100000000001"
  by (simp_all add: vmx_ready_def cold_machine_def ref_machine_def is_enabled_def has_hardware_support_def
      vmx_basic_ok_def get_bits_def mask_eq_exp_minus_1 bit_numeral_rec)

theorem hardware_enable_spec_witness:
  "\<exists>s' m'. hardware_enable ref_hw (\<lparr>vmcs_revision_id = 0, vmx_region = VmxRegion_uninit\<rparr>, cold_machine) =
     (Ok (), (s', m')) \<and> m_vmx_on m' \<and> is_enabled ref_hw m' \<and> vmcs_revision_id s' = 1"
proof -
  let ?s = "\<lparr>vmcs_revision_id = 0, vmx_region = VmxRegion_uninit\<rparr>"
  obtain a s' m1 where r: "a AND 0xfff = 0" "vmcs_revision_id s' = ucast (get_bits (0xd8100000000001 :: u64) 0 31)"
    "is_enabled ref_hw m1" "\<not> m_vmx_on m1"
    "\<forall>m'. hw_vmxon ref_hw a m1 = (Inr (), m') \<longrightarrow>
       hardware_enable ref_hw (?s, cold_machine) = (Ok (), (s', m')) \<and> m_vmx_on m' \<and> is_enabled ref_hw m'"
    using hardware_enable_spec [OF ref_vmx_live.vmx_cpu_live_axioms cold_machine_ready(1,2,4,5,3), of ?s]
    by (elim exE conjE) (rule that)
  have "bit (m_cr4 m1) 13" using r(3) by (simp add: is_enabled_def and_single_iff)
  then have "hw_vmxon ref_hw a m1 = (Inr (), m1\<lparr>m_vmx_on := True\<rparr>)"
    using r(1,4) by (simp add: ref_vmxon_def)
  moreover have "vmcs_revision_id s' = 1" using r(2) by (simp add: get_bits_def mask_eq_exp_minus_1)
  ultimately show ?thesis using r(5) by blast
qed

lemma cold_machine_enabled:
  "\<exists>s' m'. hardware_enable ref_hw (\<lparr>vmcs_revision_id = 0, vmx_region = VmxRegion_uninit\<rparr>, cold_machine) =
     (Ok (), (s', m')) \<and> m_vmx_on m'"
proof -
  obtain a s' m1 where r: "hardware_enable ref_hw
      (\<lparr>vmcs_revision_id = 0, vmx_region = VmxRegion_uninit\<rparr>, cold_machine) =
      on_hw (or_bad_state (hw_vmxon ref_hw a)) (s', m1)"
    "a AND 0xfff = 0" "is_enabled ref_hw m1" "\<not> m_vmx_on m1"
    using ref_vmx_live.enable_run [OF cold_machine_ready(1,2,4,5,3),
        of "\<lparr>vmcs_revision_id = 0, vmx_region = VmxRegion_uninit\<rparr>"]
    by (elim exE conjE) (rule that)
  then show ?thesis
    by (simp add: on_hw_pair or_bad_state_def ref_vmxon_def is_enabled_def and_single_iff)
qed

theorem percpu_invariant_witness:
  "\<exists>s m. percpu_reach ref_hw m_vmx_on (s, m) \<and> m_vmx_on m \<and> is_enabled ref_hw m \<and>
     region_frame (vmx_region s) \<noteq> None"
proof -
  obtain s' m' where on: "hardware_enable ref_hw
      (\<lparr>vmcs_revision_id = 0, vmx_region = VmxRegion_uninit\<rparr>, cold_machine) = (Ok (), (s', m'))" "m_vmx_on m'"
    using cold_machine_enabled by blast
  have "percpu_reach ref_hw m_vmx_on (\<lparr>vmcs_revision_id = 0, vmx_region = VmxRegion_uninit\<rparr>, cold_machine)"
    by (rule percpu_reach.start [where cpu_id = 0 and m = cold_machine])
      (simp_all add: cold_machine_ready(3) VmxPerCpuState_new_def return_def)
  from percpu_reach.enable [OF this on(1)] have reach: "percpu_reach ref_hw m_vmx_on (s', m')" .
  from percpu_invariant [OF ref_vmx.vmx_cpu_axioms reach on(2)] reach on(2) show ?thesis by blast
qed

section \<open>Refusals and turning VMX off\<close>

text \<open>
  C34. The refusals of \<open>hardware_enable\<close>: without VMX it reports \<open>Unsupported\<close>, with VMXE already set
  \<open>ResourceBusy\<close>, and neither the per-CPU state nor the processor changes; when the firmware has locked
  IA32_FEATURE_CONTROL without VMXON it reports \<open>Unsupported\<close>, and the only trace is CR4.OSXSAVE.
\<close>

theorem hardware_enable_refusals:
  assumes "vmx_cpu_live hw vmx_on cr4_all has_mem"
  shows "(\<not> has_hardware_support hw m \<longrightarrow> hardware_enable hw (s, m) = (Err Unsupported, (s, m))) \<and>
    (has_hardware_support hw m \<and> is_enabled hw m \<longrightarrow>
       hardware_enable hw (s, m) = (Err ResourceBusy, (s, m))) \<and>
    (has_hardware_support hw m \<and> \<not> is_enabled hw m \<and>
       hw_rdmsr hw (Msr_number IA32_FEATURE_CONTROL) m = Some fc \<and> bit fc 0 \<and> \<not> bit fc 2 \<longrightarrow>
       (\<exists>m'. hardware_enable hw (s, m) = (Err Unsupported, (s, m')) \<and>
          hw_cr4_read hw m' \<in> {hw_cr4_read hw m, hw_cr4_read hw m OR 0x40000} \<and>
          (\<forall>r. hw_rdmsr hw r m' = hw_rdmsr hw r m)))"
proof (intro conjI impI)
  assume "\<not> has_hardware_support hw m"
  then show "hardware_enable hw (s, m) = (Err Unsupported, (s, m))"
    by (simp add: hardware_enable_def prog_simps)
next
  assume "has_hardware_support hw m \<and> is_enabled hw m"
  then show "hardware_enable hw (s, m) = (Err ResourceBusy, (s, m))"
    by (simp add: hardware_enable_def prog_simps)
next
  assume a: "has_hardware_support hw m \<and> \<not> is_enabled hw m \<and>
       hw_rdmsr hw (Msr_number IA32_FEATURE_CONTROL) m = Some fc \<and> bit fc 0 \<and> \<not> bit fc 2"
  obtain m1 where m1: "enable_xsave hw m = (Ok (), m1)"
    "hw_cr4_read hw m1 = hw_cr4_read hw m \<or> hw_cr4_read hw m1 = hw_cr4_read hw m OR CR4_OSXSAVE"
    "\<forall>r. hw_rdmsr hw r m1 = hw_rdmsr hw r m"
    using vmx_cpu_live.enable_xsave_run [OF assms, of m] by (elim exE conjE) (rule that)
  have "enable_vmxon hw m1 = (Err Unsupported, m1)"
    using a m1(3)
    by (simp add: enable_vmxon_def FeatureControl_read_msr prog_simps feature_flags del: Msr_number.simps)
  then have "on_hw (block [enable_xsave hw, enable_vmxon hw, check_control_registers hw]) (s, m) =
      (Err Unsupported, (s, m1))"
    using m1(1) by (simp add: on_hw_pair bind_simps)
  then have "hardware_enable hw (s, m) = (Err Unsupported, (s, m1))"
    using a by (simp add: hardware_enable_def bind_def on_hw_pair [of "gets _"] gets_def del: block.simps)
  with m1(2,3) show "\<exists>m'. hardware_enable hw (s, m) = (Err Unsupported, (s, m')) \<and>
      hw_cr4_read hw m' \<in> {hw_cr4_read hw m, hw_cr4_read hw m OR 0x40000} \<and>
      (\<forall>r. hw_rdmsr hw r m' = hw_rdmsr hw r m)" by auto
qed

theorem hardware_enable_refusals_witness:
  "hardware_enable ref_hw (\<lparr>vmcs_revision_id = 0, vmx_region = VmxRegion_uninit\<rparr>, ref_machine) =
     (Err ResourceBusy, (\<lparr>vmcs_revision_id = 0, vmx_region = VmxRegion_uninit\<rparr>, ref_machine))"
proof -
  have "has_hardware_support ref_hw ref_machine \<and> is_enabled ref_hw ref_machine"
    by (simp add: has_hardware_support_def is_enabled_def ref_machine_def)
  then show ?thesis
    using hardware_enable_refusals [OF ref_vmx_live.vmx_cpu_live_axioms] by blast
qed

text \<open>
  C35. Turning VMX off: when VMX is not enabled the call reports \<open>BadState\<close> and changes nothing; when VMXOFF
  fails it reports \<open>BadState\<close> (an exception of VMXOFF ends it with that exception) and keeps the region and VMXE; otherwise it succeeds, the processor has left VMX
  operation, VMXE is clear with every other CR4 flag as before, and the region is released.
\<close>

theorem hardware_disable_spec:
  assumes cpu: "vmx_cpu hw vmx_on cr4_all"
  shows "if \<not> is_enabled hw m then hardware_disable hw (s, m) = (Err BadState, (s, m))
    else case hw_vmxoff hw m of
      (Inl e, m') \<Rightarrow> hardware_disable hw (s, m) = (if e = VmFault then Fault else Err BadState, (s, m')) \<and> is_enabled hw m' \<and> vmx_on m' = vmx_on m
    | (Inr _, m1) \<Rightarrow> (\<exists>m'. hardware_disable hw (s, m) = (Ok (), (s\<lparr>vmx_region := VmxRegion_uninit\<rparr>, m')) \<and>
        \<not> vmx_on m' \<and> \<not> is_enabled hw m' \<and>
        (\<forall>n. n \<noteq> 13 \<longrightarrow> bit (hw_cr4_read hw m') n = bit (hw_cr4_read hw m) n))"
proof (cases "is_enabled hw m")
  case False
  then show ?thesis by (simp add: hardware_disable_def prog_simps)
next
  case True
  obtain y m1 where off: "hw_vmxoff hw m = (y, m1)" by (metis surj_pair)
  note cr4 = vmx_cpu.vmxoff_cr4 [OF cpu off]
  show ?thesis
  proof (cases y)
    case (Inl e)
    then show ?thesis
      using True off cr4 vmx_cpu.vmxoff_fail [OF cpu, of m e m1]
      by (cases e) (simp_all add: hardware_disable_def prog_simps or_bad_state_def is_enabled_def)
  next
    case (Inr u)
    let ?m = "hw_cr4_write hw (hw_cr4_read hw m1 AND NOT CR4_VMXE) m1"
    have read: "hw_cr4_read hw ?m = hw_cr4_read hw m AND NOT CR4_VMXE"
      using vmx_cpu.cr4_set(3) [OF cpu, of m1] cr4 by simp
    have bits: "bit (hw_cr4_read hw ?m) n \<longleftrightarrow> n \<noteq> 13 \<and> bit (hw_cr4_read hw m) n" for n
      unfolding read bit_and_iff bit_not_iff bit_single by (auto dest: bit_imp_le_length)
    have "\<not> vmx_on m1" using vmx_cpu.vmxoff_off [OF cpu, of m m1] off Inr by simp
    then have "\<not> vmx_on ?m" using vmx_cpu.cr4_write_vmx [OF cpu] by blast
    moreover have "\<not> is_enabled hw ?m" unfolding is_enabled_def and_single_iff bits by simp
    moreover have "hardware_disable hw (s, m) = (Ok (), (s\<lparr>vmx_region := VmxRegion_uninit\<rparr>, ?m))"
      using True off Inr by (simp add: hardware_disable_def prog_simps or_bad_state_def)
    ultimately show ?thesis using True off Inr bits by auto
  qed
qed

theorem hardware_disable_spec_witness:
  "\<exists>m'. hardware_disable ref_hw (\<lparr>vmcs_revision_id = 1, vmx_region = VmxRegion_uninit\<rparr>, ref_machine) =
     (Ok (), (\<lparr>vmcs_revision_id = 1, vmx_region = VmxRegion_uninit\<rparr>, m')) \<and> \<not> m_vmx_on m'"
proof -
  have en: "is_enabled ref_hw ref_machine" by (simp add: is_enabled_def ref_machine_def)
  have "hw_vmxoff ref_hw ref_machine = (Inr (), ref_machine\<lparr>m_vmx_on := False, m_cur := None\<rparr>)"
    by (simp add: ref_vmxoff_def ref_machine_def)
  with en hardware_disable_spec [OF ref_vmx.vmx_cpu_axioms, of ref_machine
      "\<lparr>vmcs_revision_id = 1, vmx_region = VmxRegion_uninit\<rparr>"]
  show ?thesis by auto
qed

end
