(* ===== verification/Vmm.thy ===== *)
theory Vmm
  imports RefRun PerCpu
begin

text \<open>
  Several vCPUs on one processor: the per-CPU state and any number of vCPUs share a machine, and their operations
  interleave in any order. What keeps them apart is the allocator, which never hands out a frame twice, and the
  current-VMCS pointer, through which alone VMCS data are written.
\<close>

section \<open>What the processor promises\<close>

text \<open>
  \<open>data a\<close> are the contents of the VMCS at \<open>a\<close>, \<open>cur\<close> is the current VMCS. Only VMWRITE and VM entry change VMCS data,
  and only those of the current VMCS; VMPTRLD selects it. Nothing but an allocation changes the frames in use.
\<close>

locale vmm_hw = frame_hw hw owned ok for hw :: "'m hw" and owned ok +
  fixes dev :: "('l, 'm) dev" and cur :: "'m \<Rightarrow> u64 option" and data :: "u64 \<Rightarrow> 'm \<Rightarrow> u32 \<Rightarrow> u64"
  assumes vmwrite: "hw_vmwrite hw f x m = (r, m') \<Longrightarrow> owned m' = owned m \<and> ok m' = ok m \<and> cur m' = cur m \<and>
      (cur m \<noteq> Some a \<longrightarrow> data a m' = data a m)"
    and entry: "hw_vm_entry hw instr regs m = (g, m') \<Longrightarrow> owned m' = owned m \<and> ok m' = ok m \<and> cur m' = cur m \<and>
      (cur m \<noteq> Some a \<longrightarrow> data a m' = data a m)"
    and invept: "hw_invept hw t d m = Some m' \<Longrightarrow> owned m' = owned m \<and> ok m' = ok m \<and> cur m' = cur m \<and> data a m' = data a m"
    and wrmsr: "hw_wrmsr hw n x m = Some m' \<Longrightarrow> owned m' = owned m \<and> ok m' = ok m \<and> cur m' = cur m \<and> data a m' = data a m"
    and xsetbv: "hw_xcr0_write hw x m = Some m' \<Longrightarrow> owned m' = owned m \<and> ok m' = ok m \<and> cur m' = cur m \<and> data a m' = data a m"
    and vmptrld: "hw_vmptrld hw p m = (r, m') \<Longrightarrow> owned m' = owned m \<and> ok m' = ok m \<and> data a m' = data a m \<and>
      cur m' = (if r = Inr () then Some p else cur m)"
    and vmclear: "hw_vmclear hw p m = (r, m') \<Longrightarrow> owned m' = owned m \<and> ok m' = ok m \<and> data a m' = data a m"
    and cr4_write: "owned (hw_cr4_write hw x m) = owned m \<and> ok (hw_cr4_write hw x m) = ok m \<and>
      data a (hw_cr4_write hw x m) = data a m"
    and vmxon: "hw_vmxon hw p m = (r, m') \<Longrightarrow> owned m' = owned m \<and> ok m' = ok m \<and> data a m' = data a m"
    and vmxoff: "hw_vmxoff hw m = (r, m') \<Longrightarrow> owned m' = owned m \<and> ok m' = ok m \<and> data a m' = data a m"
    and alloc: "hw_alloc_zero hw m = (res0, m') \<Longrightarrow> owned m \<subseteq> owned m' \<and>
      (a \<in> owned m \<longrightarrow> data a m' = data a m)"
    and vlapic_new: "vlapic_new dev i j m = (res1, m') \<Longrightarrow> owned m' = owned m \<and> ok m' = ok m \<and> data a m' = data a m"
    and vlapic_read: "vlapic_read dev off w (l, m) = (res2, (l', m')) \<Longrightarrow>
      owned m' = owned m \<and> ok m' = ok m \<and> cur m' = cur m \<and> data a m' = data a m"
    and vlapic_write: "vlapic_write dev off w y (l, m) = (res3, (l', m')) \<Longrightarrow>
      owned m' = owned m \<and> ok m' = ok m \<and> cur m' = cur m \<and> data a m' = data a m"

interpretation ref_vmm: vmm_hw ref_hw "\<lambda>m. - set (m_frames m)"
  "\<lambda>m. distinct (m_frames m) \<and> (\<forall>a \<in> set (m_frames m). a AND 0xfff = 0)" ref_dev m_cur "\<lambda>a m. m_vmcs m a"
  by unfold_locales
    (auto simp: ref_vmwrite_def ref_vm_entry_def ref_wrmsr_def ref_xcr0_write_def ref_vmptrld_def ref_vmclear_def
      ref_invept_def Let_def ref_vmxon_def ref_vmxoff_def ref_alloc_def ref_dev_def bind_def prog_defs
      split: option.splits if_splits list.splits)

section \<open>One operation\<close>

text \<open>
  What an operation of the vCPU whose VMCS is at \<open>p\<close> leaves alone: the frames in use \<open>fs\<close> and the data \<open>D\<close> of every other
  VMCS; \<open>bound\<close> when the VMCS is current as well.
\<close>

definition ours :: "('m \<Rightarrow> u64 set) \<Rightarrow> ('m \<Rightarrow> bool) \<Rightarrow> (u64 \<Rightarrow> 'm \<Rightarrow> u32 \<Rightarrow> u64) \<Rightarrow>
    u64 \<Rightarrow> u64 set \<Rightarrow> (u64 \<Rightarrow> u32 \<Rightarrow> u64) \<Rightarrow> 'm \<Rightarrow> bool" where
  "ours owned ok data p fs D m \<longleftrightarrow> ok m \<and> owned m = fs \<and> (\<forall>a. a \<noteq> p \<longrightarrow> data a m = D a)"

definition bound :: "('m \<Rightarrow> u64 set) \<Rightarrow> ('m \<Rightarrow> bool) \<Rightarrow> (u64 \<Rightarrow> 'm \<Rightarrow> u32 \<Rightarrow> u64) \<Rightarrow> ('m \<Rightarrow> u64 option) \<Rightarrow>
    u64 \<Rightarrow> u64 set \<Rightarrow> (u64 \<Rightarrow> u32 \<Rightarrow> u64) \<Rightarrow> 'm \<Rightarrow> bool" where
  "bound owned ok data cur p fs D m \<longleftrightarrow> ours owned ok data p fs D m \<and> cur m = Some p"

abbreviation (input) region_at :: "u64 \<Rightarrow> 'l VmxVcpu \<Rightarrow> bool" where
  "region_at p \<equiv> \<lambda>v. VmxRegion_phys_addr (vmcs v) = Ok p"

text \<open>The operations that access the current VMCS.\<close>

fun needs_current :: "vcpu_op \<Rightarrow> bool" where
  "needs_current RunOp = True"
| "needs_current InnerRunOp = True"
| "needs_current (SetInterruptWindow _) = True"
| "needs_current (SetStackPointer _) = True"
| "needs_current (AdvanceRip _) = True"
| "needs_current _ = False"

sublocale vmm_hw \<subseteq> b: quiet_hw hw "bound owned ok data cur p fs D" for p fs D
  by unfold_locales (use vmwrite invept wrmsr xsetbv in \<open>auto simp: bound_def ours_def\<close>)

sublocale vmm_hw \<subseteq> bv: vcpu_quiet hw "bound owned ok data cur p fs D" dev "region_at p" for p fs D
  by unfold_locales (use vlapic_read vlapic_write in \<open>auto simp: bound_def ours_def\<close>)

context vmm_hw
begin

abbreviation (input) our :: "u64 \<Rightarrow> u64 set \<Rightarrow> (u64 \<Rightarrow> u32 \<Rightarrow> u64) \<Rightarrow> 'l VmxVcpu \<times> 'm \<Rightarrow> bool" where
  "our p fs D \<equiv> both (region_at p) (ours owned ok data p fs D)"

abbreviation (input) current :: "u64 \<Rightarrow> u64 set \<Rightarrow> (u64 \<Rightarrow> u32 \<Rightarrow> u64) \<Rightarrow> 'l VmxVcpu \<times> 'm \<Rightarrow> bool" where
  "current p fs D \<equiv> both (region_at p) (bound owned ok data cur p fs D)"

lemma current_our: "current p fs D s \<Longrightarrow> our p fs D s"
  by (auto simp: both_def bound_def)

lemma bound_entry:
  "bound owned ok data cur p fs D m \<Longrightarrow> hw_vm_entry hw instr regs m = (g, m') \<Longrightarrow> bound owned ok data cur p fs D m'"
  using entry [of instr regs m g m'] by (simp add: bound_def ours_def)

lemma vm_enter_current: "ends (current p fs D) (vm_enter hw instr) (current p fs D)"
  unfolding ends_def by (auto dest!: vm_enter_returns dest: bound_entry)

lemma entry_current: "ends (\<lambda>s. current p fs D s \<and> fst s = v) (entry_step hw v) (current p fs D)"
proof -
  have "ends (current p fs D) (entry_step hw v) (current p fs D)"
    unfolding entry_step_def block.simps
    by (intro ends_if vm_enter_current ends_seq)
      (intro ends_keeps keeps_both_modify b.keeps_both_host_rsp keeps_basic; simp)+
  then show ?thesis by (rule ends_weaken) simp
qed

lemma inner_run_current: "ends (current p fs D) (inner_run hw dev) (current p fs D)"
  unfolding inner_run_split
proof (rule ends_seq)
  show "ends (current p fs D) (unwrap (inject_pending_events hw)) (current p fs D)"
    by (intro ends_keeps keeps_unwrap bv.keeps_inject)
  have load: "keeps (current p fs D) (load_guest_xstate hw)" "keeps (current p fs D) (load_host_xstate hw)"
    by (intro b.keeps_both_xstate; simp)+
  have cpuid: "keeps (current p fs D) (cpuid_result hw regs)" for regs
    unfolding cpuid_result_def Let_def by (intro both_rules machine_rules load)
  show "ends (current p fs D) (enter_and_handle hw dev) (current p fs D)"
  proof (rule enter_and_handle_ends [OF ends_keeps [OF load(1)] entry_current ends_keeps [OF load(2)]])
    show "keeps (current p fs D) (on_hw (unwrap (exit_info hw)))"
      by (intro keeps_both_hw keeps_unwrap b.keeps_small)
  qed (rule bv.builtin_ends, rule ends_keeps, rule cpuid)
qed

lemma run_current: "ends (current p fs D) (run hw dev) (current p fs D)"
  unfolding run_def
  by (rule ends_seq [OF inner_run_current]) (intro ends_keeps keeps_option bv.keeps_handlers keeps_basic)

lemma vmclear_our: "keeps (ours owned ok data p fs D) (map_err_ax hw (hw_vmclear hw q))"
  by (rule keeps_map_err_ax) (use vmclear in \<open>auto simp: ours_def\<close>)

lemma unbind_our: "ends (our p fs D) (unbind_from_current_processor hw) (our p fs D)"
  unfolding unbind_from_current_processor_def
  by (intro ends_keeps keeps_self keeps_bind keeps_basic keeps_both_hw vmclear_our)


lemma vmptrld_our:
  assumes "our p fs D (v, m)" "on_hw (map_err_ax hw (hw_vmptrld hw p)) (v, m) = (r, s')"
  shows "(r = Ok () \<longrightarrow> current p fs D s') \<and> our p fs D s'"
proof -
  obtain i m1 where i: "hw_vmptrld hw p m = (i, m1)" by (metis surj_pair)
  have "map_err_ax hw (hw_vmptrld hw p) m = (r, m1)" "s' = (v, m1)"
    using assms(2) i
    by (auto simp: on_hw_pair map_err_ax_def split: prod.splits sum.splits dest: arg_cong [where f = snd])
  moreover have "r = Ok () \<longleftrightarrow> i = Inr ()"
    using calculation(1) i map_err_ax_Ok_iff [of hw "hw_vmptrld hw p" m "()" m1]
    by (cases i) (auto simp: map_err_ax_def)
  ultimately show ?thesis using assms(1) vmptrld [OF i] by (auto simp: bound_def ours_def)
qed

lemma bind_steps:
  "VmxRegion_phys_addr (vmcs v) = Ok p \<Longrightarrow> bind_to_current_processor hw (v, m) =
     bind (on_hw (map_err_ax hw (hw_vmptrld hw p))) (\<lambda>_. on_hw (setup_vmcs_host hw)) (v, m)"
  by (simp add: bind_to_current_processor_def self_def gets_def bind_def lift_def bind_return_right)

lemma bind_our:
  assumes "our p fs D s" "bind_to_current_processor hw s = (r, s')" "returns r"
  shows "(r = Ok () \<longrightarrow> current p fs D s') \<and> our p fs D s'"
proof -
  obtain v m where s: "s = (v, m)" by (metis surj_pair)
  with assms(1) have v: "VmxRegion_phys_addr (vmcs v) = Ok p" by simp
  have keep: "keeps (current p fs D) (on_hw (setup_vmcs_host hw))"
    by (intro keeps_both_hw b.keeps_setup_host)
  have "bind (on_hw (map_err_ax hw (hw_vmptrld hw p))) (\<lambda>_. on_hw (setup_vmcs_host hw)) (v, m) = (r, s')"
    using assms(2) by (simp add: s bind_steps [OF v])
  then show ?thesis
  proof (cases rule: bind_cases)
    case (1 x s1)
    then have "current p fs D s1" using vmptrld_our [OF assms(1) [unfolded s] 1(1)] by simp
    then have "current p fs D s'" by (rule keepsD [OF keep _ 1(2)])
    then show ?thesis using current_our by blast
  next
    case (2 e)
    then show ?thesis using vmptrld_our [OF assms(1) [unfolded s] 2(1)] by simp
  qed (use assms(3) in blast)
qed

lemma setup_our: "ends (our p fs D) (setup_vmcs hw e r) (our p fs D)"
proof -
  have clear: "ends (our p fs D) (on_hw (map_err_ax hw (hw_vmclear hw q))) (our p fs D)" for q
    by (intro ends_keeps keeps_both_hw vmclear_our)
  have rest: "ends (current p fs D) (bind q k) (our p fs D)"
    if "keeps (current p fs D) q" "\<And>x. ends (current p fs D) (k x) (our p fs D)"
    for q :: "('l, 'm, unit) vprog" and k :: "unit \<Rightarrow> ('l, 'm, unit) vprog"
    using that by (intro ends_bind [OF ends_keeps]) (auto dest: current_our)
  have tail: "ends (current p fs D) (unbind_from_current_processor hw) (our p fs D)"
    by (rule ends_weaken [OF unbind_our current_our])
  have "ends (our p fs D) (block [on_hw (map_err_ax hw (hw_vmclear hw q)), bind_to_current_processor hw,
      setup_msr_bitmap, on_hw (setup_vmcs_guest hw e), setup_vmcs_control hw r True,
      unbind_from_current_processor hw]) (our p fs D)" for q
    unfolding block.simps
  proof (rule ends_seq [OF clear], rule ends_bind_cases [where R = "\<lambda>_. current p fs D"])
    show "ends (current p fs D) (bind setup_msr_bitmap (\<lambda>_. bind (on_hw (setup_vmcs_guest hw e)) (\<lambda>_.
        bind (setup_vmcs_control hw r True) (\<lambda>_. bind (unbind_from_current_processor hw) (\<lambda>_. return ())))))
        (our p fs D)"
      by (intro rest bv.keeps_setters bv.keeps_setup_control keeps_both_hw b.keeps_setup_guest
          ends_bind [OF tail] ends_keeps keeps_basic)
  next
    fix s x s'
    assume "our p fs D s" "bind_to_current_processor hw s = (Ok x, s')"
    then show "current p fs D s'" using bind_our [of p fs D s "Ok x" s'] by (simp add: returns_def)
  next
    fix s e s'
    assume "our p fs D s" "bind_to_current_processor hw s = (Err e, s')"
    then show "our p fs D s'" using bind_our [of p fs D s "Err e" s'] by (simp add: returns_def)
  qed
  then show ?thesis
    unfolding setup_vmcs_def by (intro ends_seq ends_keeps [OF keeps_basic(4)]) (simp add: ends_keeps self_def keeps_gets)
qed

lemma keeps_other:
  "keeps (our p fs D) (set_entry e)" "keeps (our p fs D) (set_ept_root root)" "keeps (our p fs D) (set_gpr i x)"
  "keeps (our p fs D) (set_return_value x)" "keeps (our p fs D) (inject_interrupt x)"
  "keeps (our p fs D) (queue_event vec c)" "keeps (our p fs D) (set_io_intercept_of_range hw base n b)"
  "keeps (our p fs D) (set_msr_intercept_of_range msr b)" "keeps (our p fs D) (modify_self (guest_regs_update f))"
  unfolding set_entry_def set_ept_root_def set_gpr_def set_return_value_def inject_interrupt_def queue_event_def
    set_io_intercept_of_range_def set_msr_intercept_of_range_def
  by (intro both_rules machine_rules; simp)+

lemma exec_our:
  assumes s: "our p fs D (v, m)" "needs_current op \<Longrightarrow> cur m = Some p"
    and run: "exec hw dev op (v, m) = (r, (v', m'))" "returns r"
  shows "our p fs D (v', m')"
proof (cases "needs_current op")
  case True
  have small: "ends (current p fs D) (on_hw (set_interrupt_window hw b)) (current p fs D)"
    "ends (current p fs D) (on_hw (set_stack_pointer hw x)) (current p fs D)"
    "ends (current p fs D) (on_hw (advance_rip hw n)) (current p fs D)" for b x n
    by (intro ends_keeps keeps_both_hw b.keeps_small)+
  have "ends (current p fs D) (exec hw dev op) (current p fs D)"
    using True ends_discard [OF run_current [of p fs D]] ends_discard [OF inner_run_current [of p fs D]] small
    by (cases op) simp_all
  note step = endsD [OF this _ run]
  have "current p fs D (v', m')" by (rule step) (use s True in \<open>simp add: bound_def\<close>)
  then show ?thesis by (rule current_our)
next
  case False
  show ?thesis
  proof (cases "is_setup op")
    case True
    from exec_setup_cases [OF True, of hw dev v m] show ?thesis
    proof (elim disjE exE)
      fix e q
      assume "exec hw dev op (v, m) = setup_vmcs hw e q (v, m)"
      then have "setup_vmcs hw e q (v, m) = (r, (v', m'))" using run(1) by simp
      with s(1) show ?thesis by (rule endsD [OF setup_our _ _ run(2)])
    qed (use run in \<open>simp add: returns_def\<close>)
  next
    case no_setup: False
    have unbind: "ends (our p fs D) (AxArchVCpu_unbind hw) (our p fs D)"
      unfolding AxArchVCpu_unbind_def
      by (rule ends_seq [OF ends_keeps unbind_our]) (rule keeps_both_modify, simp)
    have "ends (our p fs D) (bind_to_current_processor hw) (our p fs D)"
      unfolding ends_def using bind_our by blast
    then have "ends (our p fs D) (exec hw dev op) (our p fs D)"
      using False no_setup unbind
      by (cases op) (simp_all add: AxArchVCpu_bind_def ends_keeps keeps_other)
    from endsD [OF this s(1) run] show ?thesis .
  qed
qed


section \<open>Turning VMX on and off, and creating a vCPU\<close>

text \<open>From \<open>m\<close> on, frames in use stay in use, with the VMCS data they hold.\<close>

definition grows :: "'m \<Rightarrow> 'm \<Rightarrow> bool" where
  "grows m m' \<longleftrightarrow> ok m' \<and> owned m \<subseteq> owned m' \<and> (\<forall>a \<in> owned m. data a m' = data a m)"

lemma grows_trans: "grows m m1 \<Longrightarrow> grows m1 m2 \<Longrightarrow> grows m m2"
  by (auto simp: grows_def)

lemma grows_refl: "ok m \<Longrightarrow> grows m m"
  by (simp add: grows_def)

lemma grows_same:
  "grows m m1 \<Longrightarrow> owned m2 = owned m1 \<Longrightarrow> ok m2 = ok m1 \<Longrightarrow> (\<And>a. data a m2 = data a m1) \<Longrightarrow> grows m m2"
  by (simp add: grows_def)

lemma grows_alloc: "grows m m1 \<Longrightarrow> hw_alloc_zero hw m1 = (r, m2) \<Longrightarrow> grows m m2"
proof -
  assume g: "grows m m1" and a: "hw_alloc_zero hw m1 = (r, m2)"
  obtain x where "frame_addr hw m1 = (x, m2)" using a by (cases r) (auto simp: frame_addr_def)
  then have "ok m2" using alloc_ok g by (auto simp: grows_def)
  then show ?thesis using g alloc [OF a] by (auto simp: grows_def)
qed

lemma keeps_alloc: "keeps (grows m) (hw_alloc_zero hw)"
  unfolding keeps_def by (metis grows_alloc prod.collapse)

text \<open>Programs that allocate nothing keep any property of the frames in use and of the VMCS data.\<close>

definition silent :: "('m \<Rightarrow> bool) \<Rightarrow> bool" where
  "silent J \<longleftrightarrow> (\<forall>m m'. J m \<and> owned m' = owned m \<and> ok m' = ok m \<and> (\<forall>a. data a m' = data a m) \<longrightarrow> J m')"

lemma silentD:
  "silent J \<Longrightarrow> J m \<Longrightarrow> (\<And>a. owned m' = owned m \<and> ok m' = ok m \<and> data a m' = data a m) \<Longrightarrow> J m'"
  unfolding silent_def by blast

lemma keeps_cpu_hw:
  assumes "silent J"
  shows "keeps J (Msr_write hw n x)" "keeps J (modify (\<lambda>m. hw_cr4_write hw (g m) m))"
    "keeps J (or_bad_state (hw_vmxon hw p))" "keeps J (or_bad_state (hw_vmxoff hw))"
    "keeps J (vlapic_new dev i j)" "keeps J (map_err_ax hw (hw_vmclear hw p))"
proof -
  show "keeps J (Msr_write hw n x)"
    unfolding keeps_def Msr_write_def using silentD [OF assms] wrmsr by (auto split: option.split)
  show "keeps J (modify (\<lambda>m. hw_cr4_write hw (g m) m))"
    unfolding keeps_def modify_def using silentD [OF assms] cr4_write by auto
  show "keeps J (or_bad_state (hw_vmxon hw p))" "keeps J (or_bad_state (hw_vmxoff hw))"
    unfolding keeps_def or_bad_state_def using silentD [OF assms] vmxon vmxoff
    by (auto split: prod.split sum.split)
  show "keeps J (vlapic_new dev i j)"
    unfolding keeps_def using silentD [OF assms] vlapic_new by (metis prod.collapse)
  show "keeps J (map_err_ax hw (hw_vmclear hw p))"
    by (rule keeps_map_err_ax) (use silentD [OF assms] vmclear in blast)
qed

lemma grows_frames: "silent (grows m)" "silent (\<lambda>m1. grows m m1 \<and> a \<in> owned m1)"
  by (auto simp: silent_def grows_def)


lemma enable_parts:
  assumes "silent J"
  shows "keeps J (enable_xsave hw)" "keeps J (enable_vmxon hw)" "keeps J (check_control_registers hw)"
    "keeps J (check_vmx_basic hw)"
  unfolding enable_xsave_def enable_vmxon_def FeatureControl_read_msr FeatureControl_write_msr
    check_control_registers_def cr_is_valid_def check_vmx_basic_def VmxBasic_read_msr Let_def
  by (intro machine_rules keeps_cpu_hw assms)+

text \<open>The region of the per-CPU state is the old one, or a frame that was not in use.\<close>

definition region_fresh :: "VmxRegion \<Rightarrow> 'm \<Rightarrow> VmxPerCpuState \<times> 'm \<Rightarrow> bool" where
  "region_fresh R m s \<longleftrightarrow> grows m (snd s) \<and>
     (vmx_region (fst s) = R \<or>
      (\<exists>a. VmxRegion_phys_addr (vmx_region (fst s)) = Ok a \<and> a \<notin> owned m \<and> a \<in> owned (snd s)))"

lemma new_region_fresh:
  assumes "grows m m1" "VmxRegion_new hw rid b m1 = (Ok region, m2)"
  shows "\<exists>a. VmxRegion_phys_addr region = Ok a \<and> a \<notin> owned m \<and> grows m m2 \<and> a \<in> owned m2 \<and> a AND 0xfff = 0"
proof -
  obtain fr where fr: "hw_alloc_zero hw m1 = (Ok fr, m2)" "VmxRegion_phys_addr region = Ok (start_paddr fr)"
    using VmxRegion_new_frame [OF assms(2)] by blast
  have "ok m1" "owned m \<subseteq> owned m1" using assms(1) by (simp_all add: grows_def)
  with alloc_zero [OF _ fr(1)] have "start_paddr fr \<notin> owned m" "start_paddr fr \<in> owned m2" "start_paddr fr AND 0xfff = 0"
    by auto
  then show ?thesis using fr(2) grows_alloc [OF assms(1) fr(1)] by blast
qed

lemma region_tail:
  assumes "VmxRegion_phys_addr region = Ok a" "a \<notin> owned m"
  shows "ends (\<lambda>s. grows m (snd s) \<and> a \<in> owned (snd s))
    (bind (modify_self (vmx_region_update (\<lambda>_. region))) (\<lambda>_.
     bind (on_hw (modify (\<lambda>m. hw_cr4_write hw (g m) m))) (\<lambda>_.
     bind (lift (VmxRegion_phys_addr region)) (\<lambda>paddr. on_hw (or_bad_state (hw_vmxon hw paddr)))))) (region_fresh R m)"
proof -
  let ?F = "both (\<lambda>c. vmx_region c = region) (\<lambda>m1. grows m m1 \<and> a \<in> owned m1) :: VmxPerCpuState \<times> 'm \<Rightarrow> bool"
  have "region_fresh R m s" if "?F s" for s using that assms by (auto simp: region_fresh_def both_def)
  moreover have "ends ?F (bind (on_hw (modify (\<lambda>m. hw_cr4_write hw (g m) m))) (\<lambda>_.
      bind (lift (VmxRegion_phys_addr region)) (\<lambda>paddr. on_hw (or_bad_state (hw_vmxon hw paddr))))) ?F"
    by (intro ends_keeps keeps_bind keeps_basic keeps_both_hw keeps_cpu_hw grows_frames)
  ultimately have rest: "ends ?F (bind (on_hw (modify (\<lambda>m. hw_cr4_write hw (g m) m))) (\<lambda>_.
      bind (lift (VmxRegion_phys_addr region)) (\<lambda>paddr. on_hw (or_bad_state (hw_vmxon hw paddr)))))
      (region_fresh R m)"
    by (rule ends_strengthen [rotated])
  have "ends (\<lambda>s. grows m (snd s) \<and> a \<in> owned (snd s)) (modify_self (vmx_region_update (\<lambda>_. region))) ?F"
    by (auto simp: ends_def modify_self_def modify_def)
  then show ?thesis using rest by (rule ends_bind_ok) (rule no_err_basic)
qed

lemma hardware_enable_region: "ends (both (\<lambda>c. vmx_region c = R) (grows m)) (hardware_enable hw) (region_fresh R m)"
proof -
  let ?P = "both (\<lambda>c. vmx_region c = R) (grows m) :: VmxPerCpuState \<times> 'm \<Rightarrow> bool"
  have weak: "region_fresh R m s" if "?P s" for s using that by (simp add: region_fresh_def both_def)
  have stop: "ends ?P (raise e) (region_fresh R m)" for e
    by (rule ends_strengthen [OF ends_keeps [OF keeps_basic(2)] weak])
  have query: "ends ?P (on_hw (gets f)) ?P" for f :: "'m \<Rightarrow> bool"
    by (intro ends_keeps keeps_both_hw keeps_gets)
  have checks: "ends ?P (on_hw (block [enable_xsave hw, enable_vmxon hw, check_control_registers hw])) ?P"
    "ends ?P (on_hw (check_vmx_basic hw)) ?P" "ends ?P (modify_self (vmcs_revision_id_update f)) ?P" for f
    by (intro ends_keeps keeps_both_hw keeps_Cons keeps_Nil enable_parts grows_frames keeps_both_modify; simp)+
  have region: "ends ?P (bind (on_hw (VmxRegion_new hw rid b)) (\<lambda>region.
      bind (modify_self (vmx_region_update (\<lambda>_. region))) (\<lambda>_.
      bind (on_hw (modify (\<lambda>m. hw_cr4_write hw (g m) m))) (\<lambda>_.
      bind (lift (VmxRegion_phys_addr region)) (\<lambda>paddr. on_hw (or_bad_state (hw_vmxon hw paddr)))))))
      (region_fresh R m)" for rid b g
  proof (rule ends_bind_cases [where R = "\<lambda>region s. \<exists>a. VmxRegion_phys_addr region = Ok a \<and> a \<notin> owned m \<and>
      grows m (snd s) \<and> a \<in> owned (snd s)"])
    fix s x s'
    assume "?P s" "on_hw (VmxRegion_new hw rid b) s = (Ok x, s')"
    then show "\<exists>a. VmxRegion_phys_addr x = Ok a \<and> a \<notin> owned m \<and> grows m (snd s') \<and> a \<in> owned (snd s')"
      using new_region_fresh [of m "snd s" rid b x "snd s'"]
      by (auto simp: both_def on_hw_def zoom_def split: prod.splits)
  next
    fix s e s'
    assume P: "?P s" and run: "on_hw (VmxRegion_new hw rid b) s = (Err e, s')"
    have "keeps (grows m) (VmxRegion_new hw rid b)"
      unfolding VmxRegion_new_def by (intro machine_rules keeps_alloc)
    then show "region_fresh R m s'" using keepsD [OF keeps_both_hw P run] weak by blast
  next
    fix x
    show "ends (\<lambda>s. \<exists>a. VmxRegion_phys_addr x = Ok a \<and> a \<notin> owned m \<and> grows m (snd s) \<and> a \<in> owned (snd s))
        (bind (modify_self (vmx_region_update (\<lambda>_. x))) (\<lambda>_.
         bind (on_hw (modify (\<lambda>m. hw_cr4_write hw (g m) m))) (\<lambda>_.
         bind (lift (VmxRegion_phys_addr x)) (\<lambda>paddr. on_hw (or_bad_state (hw_vmxon hw paddr)))))) (region_fresh R m)"
      unfolding ends_def using endsD [OF region_tail] by blast
  qed
  show ?thesis
    unfolding hardware_enable_def
    by (rule ends_bind [OF query], rule ends_if [OF stop], rule ends_bind [OF query], rule ends_if [OF stop],
        rule ends_bind [OF checks(1)], rule ends_bind [OF checks(2)], rule ends_bind [OF checks(3)], rule region)
      (rule weak, assumption)+
qed

lemma hardware_disable_region:
  "keeps (both (\<lambda>c. vmx_region c = R \<or> vmx_region c = VmxRegion_uninit) (grows m)) (hardware_disable hw)"
  unfolding hardware_disable_def
  by (intro keeps_bind keeps_if keeps_basic keeps_Cons keeps_Nil keeps_both_hw keeps_gets keeps_cpu_hw
      grows_frames keeps_both_modify; simp)

lemma enable_fresh:
  "ok m \<Longrightarrow> hardware_enable hw (c, m) = (r, (c', m')) \<Longrightarrow> returns r \<Longrightarrow> region_fresh (vmx_region c) m (c', m')"
  by (rule endsD [OF hardware_enable_region]) (simp_all add: grows_refl)

lemma disable_fresh:
  "ok m \<Longrightarrow> hardware_disable hw (c, m) = (r, (c', m')) \<Longrightarrow>
     both (\<lambda>x. vmx_region x = vmx_region c \<or> vmx_region x = VmxRegion_uninit) (grows m) (c', m')"
  by (rule keepsD [OF hardware_disable_region]) (simp_all add: grows_refl)

lemma VmxVcpu_new_grows: "keeps (grows m) (VmxVcpu_new hw dev i j)"
  unfolding VmxVcpu_new_def read_vmcs_revision_id_def VmxBasic_read_msr VmxRegion_new_def
    IOBitmap_passthrough_all_def MsrBitmap_passthrough_all_def XState_new_def Let_def
  by (intro machine_rules keeps_alloc keeps_cpu_hw grows_frames)

lemma VmxVcpu_new_owned:
  assumes "ok m" and new: "VmxVcpu_new hw dev i j m = (Ok v, m')"
  shows "set (vcpu_frames v) \<subseteq> owned m'"
proof -
  obtain rid m0 region m1 io m2 msr m3 l m4 x m5 where
    "read_vmcs_revision_id hw m = (Ok rid, m0)" and region: "VmxRegion_new hw rid False m0 = (Ok region, m1)" and
    io: "IOBitmap_passthrough_all hw m1 = (Ok io, m2)" and
    msr: "MsrBitmap_passthrough_all hw m2 = (Ok msr, m3)" and
    l: "vlapic_new dev i j m3 = (Ok l, m4)" and x: "XState_new hw m4 = (Ok x, m5)" and
    v: "(Ok \<lparr>guest_regs = GeneralRegisters_default, host_stack_top = 0, launched = False,
        entry = None, ept_root = None, vmcs = region, io_bitmap = io, msr_bitmap = msr,
        pending_events = [], vlapic = l, xstate = x\<rparr>, m5) = (Ok v, m')"
    using new unfolding VmxVcpu_new_def bind_Ok_iff return_def
    by (elim exE conjE) (rule that)
  have "m0 = m" using \<open>read_vmcs_revision_id hw m = (Ok rid, m0)\<close> by (rule read_vmcs_revision_id_state)
  obtain f where f: "hw_alloc_zero hw m = (Ok f, m1)" "VmxRegion_phys_addr region = Ok (start_paddr f)"
    using VmxRegion_new_frame [OF region] \<open>m0 = m\<close> by blast
  obtain a b m12 where ab: "hw_alloc_zero hw m1 = (Ok a, m12)" "hw_alloc_zero hw m12 = (Ok b, m2)"
    "io = \<lparr>io_bitmap_a_frame = a, io_bitmap_b_frame = b\<rparr>"
    using io by (auto simp: IOBitmap_passthrough_all_def prog_elims prog_defs)
  obtain g where g: "hw_alloc_zero hw m2 = (Ok g, m3)" "msr = \<lparr>msr_frame = g\<rparr>"
    using msr by (auto simp: MsrBitmap_passthrough_all_def prog_elims prog_defs)
  note s1 = alloc_zero [OF assms(1) f(1)]
  note s2 = alloc_zero [OF s1(1) ab(1)]
  note s3 = alloc_zero [OF s2(1) ab(2)]
  note s4 = alloc_zero [OF s3(1) g(1)]
  have "keeps (grows m3) (XState_new hw)"
    unfolding XState_new_def by (intro machine_rules)
  note keep = keepsD [OF this]
  have "grows m3 m4" by (rule keepsD [OF keeps_cpu_hw(5) [OF grows_frames(1)] grows_refl [OF s4(1)] l])
  then have "grows m3 m'" using keep [OF _ x] v by simp
  then have "owned m3 \<subseteq> owned m'" by (simp add: grows_def)
  moreover have "vcpu_frames v = [start_paddr f, start_paddr a, start_paddr b, start_paddr g]"
    using v by (auto simp: vcpu_frames_def f(2) ab(3) g(2) IOBitmap_phys_addr_def MsrBitmap_phys_addr_def)
  ultimately show ?thesis using s1(3) s2(3) s3(3) s4(3) by auto
qed

end

section \<open>The system\<close>

record ('l, 'm) vmm =
  vmm_cpu :: VmxPerCpuState
  vmm_vcpus :: "'l VmxVcpu list"
  vmm_machine :: 'm

definition region_frames :: "VmxPerCpuState \<Rightarrow> u64 list" where
  "region_frames c = (case VmxRegion_phys_addr (vmx_region c) of Ok a \<Rightarrow> [a] | _ \<Rightarrow> [])"

definition vmm_frames :: "('l, 'm) vmm \<Rightarrow> u64 list" where
  "vmm_frames s = region_frames (vmm_cpu s) @ concat (map vcpu_frames (vmm_vcpus s))"

text \<open>The address of the VMCS of a vCPU.\<close>

abbreviation (input) vmcs_addr :: "'l VmxVcpu \<Rightarrow> u64" where
  "vmcs_addr v \<equiv> hd (vcpu_frames v)"

text \<open>
  A step: VMX is turned on or off, a vCPU is created, used or dropped, or other code runs. The vCPU operations that
  access the current VMCS are called while the VMCS of that vCPU is current. Other code may allocate and release
  frames, but it releases none that is still referred to and leaves the VMCS data alone.
\<close>

inductive vmm_step ::
  "'m hw \<Rightarrow> ('l, 'm) dev \<Rightarrow> ('m \<Rightarrow> u64 set) \<Rightarrow> ('m \<Rightarrow> bool) \<Rightarrow> ('m \<Rightarrow> u64 option) \<Rightarrow> (u64 \<Rightarrow> 'm \<Rightarrow> u32 \<Rightarrow> u64) \<Rightarrow>
   ('l, 'm) vmm \<Rightarrow> ('l, 'm) vmm \<Rightarrow> bool"
  for hw dev owned ok cur data where
  enable: "hardware_enable hw (c, m) = (r, (c', m')) \<Longrightarrow> returns r \<Longrightarrow>
    vmm_step hw dev owned ok cur data \<lparr>vmm_cpu = c, vmm_vcpus = vs, vmm_machine = m\<rparr>
      \<lparr>vmm_cpu = c', vmm_vcpus = vs, vmm_machine = m'\<rparr>"
| disable: "hardware_disable hw (c, m) = (r, (c', m')) \<Longrightarrow> returns r \<Longrightarrow>
    vmm_step hw dev owned ok cur data \<lparr>vmm_cpu = c, vmm_vcpus = vs, vmm_machine = m\<rparr>
      \<lparr>vmm_cpu = c', vmm_vcpus = vs, vmm_machine = m'\<rparr>"
| create: "VmxVcpu_new hw dev vm_id vcpu_id m = (Ok v, m') \<Longrightarrow>
    vmm_step hw dev owned ok cur data \<lparr>vmm_cpu = c, vmm_vcpus = vs, vmm_machine = m\<rparr>
      \<lparr>vmm_cpu = c, vmm_vcpus = vs @ [v], vmm_machine = m'\<rparr>"
| create_failed: "VmxVcpu_new hw dev vm_id vcpu_id m = (Err e, m') \<Longrightarrow>
    vmm_step hw dev owned ok cur data \<lparr>vmm_cpu = c, vmm_vcpus = vs, vmm_machine = m\<rparr>
      \<lparr>vmm_cpu = c, vmm_vcpus = vs, vmm_machine = m'\<rparr>"
| op: "i < length vs \<Longrightarrow> exec hw dev op (vs ! i, m) = (r, (v', m')) \<Longrightarrow> returns r \<Longrightarrow>
    (needs_current op \<longrightarrow> cur m = Some (vmcs_addr (vs ! i))) \<Longrightarrow>
    vmm_step hw dev owned ok cur data \<lparr>vmm_cpu = c, vmm_vcpus = vs, vmm_machine = m\<rparr>
      \<lparr>vmm_cpu = c, vmm_vcpus = vs[i := v'], vmm_machine = m'\<rparr>"
| dropped: "i < length vs \<Longrightarrow> VmxVcpu_drop hw (vs ! i, m) = (r, (v', m')) \<Longrightarrow> returns r \<Longrightarrow>
    vmm_step hw dev owned ok cur data \<lparr>vmm_cpu = c, vmm_vcpus = vs, vmm_machine = m\<rparr>
      \<lparr>vmm_cpu = c, vmm_vcpus = take i vs @ drop (Suc i) vs, vmm_machine = m'\<rparr>"
| elsewhere: "ok m' \<Longrightarrow> set (vmm_frames \<lparr>vmm_cpu = c, vmm_vcpus = vs, vmm_machine = m\<rparr>) \<subseteq> owned m' \<Longrightarrow>
    (\<forall>v \<in> set vs. data (vmcs_addr v) m' = data (vmcs_addr v) m) \<Longrightarrow>
    vmm_step hw dev owned ok cur data \<lparr>vmm_cpu = c, vmm_vcpus = vs, vmm_machine = m\<rparr>
      \<lparr>vmm_cpu = c, vmm_vcpus = vs, vmm_machine = m'\<rparr>"

text \<open>A processor starts with a new per-CPU state and without vCPUs.\<close>

inductive vmm_reach ::
  "'m hw \<Rightarrow> ('l, 'm) dev \<Rightarrow> ('m \<Rightarrow> u64 set) \<Rightarrow> ('m \<Rightarrow> bool) \<Rightarrow> ('m \<Rightarrow> u64 option) \<Rightarrow> (u64 \<Rightarrow> 'm \<Rightarrow> u32 \<Rightarrow> u64) \<Rightarrow>
   ('l, 'm) vmm \<Rightarrow> bool"
  for hw dev owned ok cur data where
  start: "ok m \<Longrightarrow> VmxPerCpuState_new cpu_id m = (Ok c, m) \<Longrightarrow>
    vmm_reach hw dev owned ok cur data \<lparr>vmm_cpu = c, vmm_vcpus = [], vmm_machine = m\<rparr>"
| step: "vmm_reach hw dev owned ok cur data s \<Longrightarrow> vmm_step hw dev owned ok cur data s s' \<Longrightarrow>
    vmm_reach hw dev owned ok cur data s'"

inductive_cases vmm_stepE: "vmm_step hw dev owned ok cur data s s'"

section \<open>Isolation\<close>

text \<open>
  \<open>changed_at (Some i)\<close>: only vCPU \<open>i\<close> has changed, or it is gone; \<open>changed_at None\<close>: no vCPU has changed, at most new ones
  have been added at the end.
\<close>

definition changed_at :: "nat option \<Rightarrow> ('l, 'm) vmm \<Rightarrow> ('l, 'm) vmm \<Rightarrow> bool" where
  "changed_at k s s' \<longleftrightarrow>
     (case k of
        None \<Rightarrow> \<exists>ws. vmm_vcpus s' = vmm_vcpus s @ ws
      | Some i \<Rightarrow> i < length (vmm_vcpus s) \<and> vmm_cpu s' = vmm_cpu s \<and>
          (\<exists>v. vmm_vcpus s' = (vmm_vcpus s)[i := v] \<or> vmm_vcpus s' = take i (vmm_vcpus s) @ drop (Suc i) (vmm_vcpus s)))"

definition vmm_inv :: "('m \<Rightarrow> u64 set) \<Rightarrow> ('m \<Rightarrow> bool) \<Rightarrow> ('l, 'm) vmm \<Rightarrow> bool" where
  "vmm_inv owned ok s \<longleftrightarrow> ok (vmm_machine s) \<and> distinct (vmm_frames s) \<and> set (vmm_frames s) \<subseteq> owned (vmm_machine s) \<and>
     (\<forall>v \<in> set (vmm_vcpus s). VmxRegion_phys_addr (vmcs v) = Ok (vmcs_addr v) \<and> same_memory v v)"

lemma vcpu_frames_same: "same_memory v0 v \<Longrightarrow> vcpu_frames v = vcpu_frames v0"
  by (simp add: same_memory_def same_io_def same_msr_def vcpu_frames_def)

lemma vmcs_addr_Ok: "VmxRegion_phys_addr (vmcs v) = Ok a \<Longrightarrow> vmcs_addr v = a"
  by (simp add: vcpu_frames_def)

lemma vmcs_addr_frame: "vmcs_addr v \<in> set (vcpu_frames v)"
  by (simp add: vcpu_frames_def)

lemma concat_frames_update:
  "i < length vs \<Longrightarrow> vcpu_frames v = vcpu_frames (vs ! i) \<Longrightarrow> map vcpu_frames (vs[i := v]) = map vcpu_frames vs"
  by (simp add: map_update list_update_same_conv)

lemma same_memory_refl: "same_memory v0 v \<Longrightarrow> same_memory v v"
  by (simp add: same_memory_def same_io_def same_msr_def)

lemma distinct_other_vmcs:
  assumes "distinct (concat (map vcpu_frames vs))" "i < length vs" "j < length vs" "i \<noteq> j"
  shows "vmcs_addr (vs ! i) \<noteq> vmcs_addr (vs ! j)"
proof -
  have "removeAll [] (map vcpu_frames vs) = map vcpu_frames vs"
    by (intro removeAll_id) (auto simp: vcpu_frames_def)
  then have "distinct (map vcpu_frames vs)" using assms(1) by (simp add: distinct_concat_iff)
  then have "vcpu_frames (vs ! i) \<noteq> vcpu_frames (vs ! j)"
    using assms(2-4) nth_eq_iff_index_eq [of "map vcpu_frames vs" i j] by simp
  with assms have "set (vcpu_frames (vs ! i)) \<inter> set (vcpu_frames (vs ! j)) = {}"
    by (auto simp: distinct_concat_iff)
  then show ?thesis using vmcs_addr_frame [of "vs ! i"] vmcs_addr_frame [of "vs ! j"] by auto
qed

context vmm_hw
begin

lemma inv_exec:
  assumes inv: "vmm_inv owned ok \<lparr>vmm_cpu = c, vmm_vcpus = vs, vmm_machine = m\<rparr>" and i: "i < length vs"
    and run: "exec hw dev op (vs ! i, m) = (r, (v', m'))" "returns r"
    and guard: "needs_current op \<longrightarrow> cur m = Some (vmcs_addr (vs ! i))"
  shows "vmm_inv owned ok \<lparr>vmm_cpu = c, vmm_vcpus = vs[i := v'], vmm_machine = m'\<rparr>"
    and "a \<noteq> vmcs_addr (vs ! i) \<Longrightarrow> data a m' = data a m"
proof -
  let ?v = "vs ! i" and ?p = "vmcs_addr (vs ! i)"
  have v: "VmxRegion_phys_addr (vmcs ?v) = Ok ?p" "same_memory ?v ?v" and "ok m"
    using inv i by (auto simp: vmm_inv_def)
  have "our ?p (owned m) (\<lambda>a. data a m) (?v, m)" using v \<open>ok m\<close> by (simp add: ours_def)
  then have ours: "our ?p (owned m) (\<lambda>a. data a m) (v', m')"
    by (rule exec_our [OF _ _ run]) (use guard in simp)
  then show "a \<noteq> ?p \<Longrightarrow> data a m' = data a m" by (simp add: ours_def)
  have mem: "same_memory ?v v'" by (rule preservesD [OF memory_exec v(2) run(1)])
  then have frames: "vcpu_frames v' = vcpu_frames ?v" "same_memory v' v'"
    by (rule vcpu_frames_same, rule same_memory_refl)
  with ours inv i show "vmm_inv owned ok \<lparr>vmm_cpu = c, vmm_vcpus = vs[i := v'], vmm_machine = m'\<rparr>"
    by (auto simp: vmm_inv_def vmm_frames_def concat_frames_update ours_def dest!: set_update_subset_insert [THEN subsetD])
qed

lemma inv_grows:
  assumes inv: "vmm_inv owned ok \<lparr>vmm_cpu = c, vmm_vcpus = vs, vmm_machine = m\<rparr>" and "grows m m'"
    and c': "region_frames c' = region_frames c \<or> region_frames c' = [] \<or>
      (\<exists>a. region_frames c' = [a] \<and> a \<notin> owned m \<and> a \<in> owned m')"
  shows "vmm_inv owned ok \<lparr>vmm_cpu = c', vmm_vcpus = vs, vmm_machine = m'\<rparr>"
  using assms by (auto simp: vmm_inv_def vmm_frames_def grows_def)

lemma inv_create:
  assumes inv: "vmm_inv owned ok \<lparr>vmm_cpu = c, vmm_vcpus = vs, vmm_machine = m\<rparr>"
    and new: "VmxVcpu_new hw dev vm_id vcpu_id m = (Ok v, m')"
  shows "vmm_inv owned ok \<lparr>vmm_cpu = c, vmm_vcpus = vs @ [v], vmm_machine = m'\<rparr>"
proof -
  have "ok m" using inv by (simp add: vmm_inv_def)
  note fresh = VmxVcpu_new_frames [OF frame_hw_axioms \<open>ok m\<close> new] and own = VmxVcpu_new_owned [OF \<open>ok m\<close> new]
  have "grows m m'" by (rule keepsD [OF VmxVcpu_new_grows grows_refl [OF \<open>ok m\<close>] new])
  then have m': "ok m'" "owned m \<subseteq> owned m'" by (simp_all add: grows_def)
  let ?old = "\<lparr>vmm_cpu = c, vmm_vcpus = vs, vmm_machine = m\<rparr>"
  have frames: "vmm_frames \<lparr>vmm_cpu = c, vmm_vcpus = vs @ [v], vmm_machine = m'\<rparr> = vmm_frames ?old @ vcpu_frames v"
    by (simp add: vmm_frames_def)
  have old: "distinct (vmm_frames ?old)" "set (vmm_frames ?old) \<subseteq> owned m" using inv by (simp_all add: vmm_inv_def)
  then have "set (vmm_frames ?old) \<inter> set (vcpu_frames v) = {}" using fresh by blast
  moreover obtain a where "VmxRegion_phys_addr (vmcs v) = Ok a" using fresh by blast
  then have "VmxRegion_phys_addr (vmcs v) = Ok (vmcs_addr v)" by (simp add: vmcs_addr_Ok)
  ultimately show ?thesis
    using inv fresh own m' old unfolding vmm_inv_def frames by auto
qed

lemma inv_drop:
  assumes inv: "vmm_inv owned ok \<lparr>vmm_cpu = c, vmm_vcpus = vs, vmm_machine = m\<rparr>" and i: "i < length vs"
    and run: "VmxVcpu_drop hw (vs ! i, m) = (r, (v', m'))"
  shows "vmm_inv owned ok \<lparr>vmm_cpu = c, vmm_vcpus = take i vs @ drop (Suc i) vs, vmm_machine = m'\<rparr>"
    and "data a m' = data a m"
proof -
  have "\<exists>p x. hw_vmclear hw p m = (x, m') \<or> m' = m"
    using run by (auto simp: VmxVcpu_drop_def bind_def self_def gets_def lift_def on_hw_pair
        split: res.splits prod.splits sum.splits)
  then have m': "owned m' = owned m" "ok m' = ok m" "data a m' = data a m" for a
    using vmclear by auto
  then show "data a m' = data a m" by simp
  have vs: "vs = take i vs @ vs ! i # drop (Suc i) vs" using i by (rule id_take_nth_drop)
  have "concat (map vcpu_frames vs) = concat (map vcpu_frames (take i vs)) @ vcpu_frames (vs ! i) @
      concat (map vcpu_frames (drop (Suc i) vs))"
    by (subst vs) simp
  then show "vmm_inv owned ok \<lparr>vmm_cpu = c, vmm_vcpus = take i vs @ drop (Suc i) vs, vmm_machine = m'\<rparr>"
    using inv m' by (auto simp: vmm_inv_def vmm_frames_def dest: in_set_takeD in_set_dropD)
qed

lemma inv_step: "vmm_step hw dev owned ok cur data s s' \<Longrightarrow> vmm_inv owned ok s \<Longrightarrow> vmm_inv owned ok s'"
proof (induction rule: vmm_step.induct)
  case (enable c m r c' m' vs)
  have "region_fresh (vmx_region c) m (c', m')"
    using enable.prems by (intro enable_fresh [OF _ enable.hyps]) (simp add: vmm_inv_def)
  then show ?case
    by (intro inv_grows [OF enable.prems]) (auto simp: region_fresh_def region_frames_def)
next
  case (disable c m r c' m' vs)
  have "both (\<lambda>x. vmx_region x = vmx_region c \<or> vmx_region x = VmxRegion_uninit) (grows m) (c', m')"
    using disable.prems by (intro disable_fresh [OF _ disable.hyps(1)]) (simp add: vmm_inv_def)
  then show ?case
    by (intro inv_grows [OF disable.prems])
      (auto simp: region_frames_def VmxRegion_phys_addr_def VmxRegion_uninit_def)
next
  case (create vm_id vcpu_id m v m' c vs)
  then show ?case by (intro inv_create)
next
  case (create_failed vm_id vcpu_id m e m' c vs)
  have "grows m m'"
    by (rule keepsD [OF VmxVcpu_new_grows _ create_failed.hyps])
      (use create_failed.prems in \<open>simp add: vmm_inv_def grows_refl\<close>)
  then show ?case by (rule inv_grows [OF create_failed.prems]) simp
next
  case (op i vs op m r v' m' c)
  then show ?case by (intro inv_exec(1))
next
  case (dropped i vs m r v' m' c)
  then show ?case by (intro inv_drop(1))
next
  case (elsewhere m' c vs m)
  then show ?case by (simp add: vmm_inv_def vmm_frames_def)
qed


text \<open>A step other than an operation or a drop leaves all vCPUs alone.\<close>

lemma grows_respects:
  assumes "vmm_inv owned ok \<lparr>vmm_cpu = c, vmm_vcpus = vs, vmm_machine = m\<rparr>" "grows m m'" "v \<in> set vs"
  shows "data (vmcs_addr v) m' = data (vmcs_addr v) m"
proof -
  have "vmcs_addr v \<in> owned m"
    using assms(1,3) vmcs_addr_frame [of v] by (auto simp: vmm_inv_def vmm_frames_def)
  then show ?thesis using assms(2) by (simp add: grows_def)
qed

definition spares :: "nat option \<Rightarrow> ('l, 'm) vmm \<Rightarrow> ('l, 'm) vmm \<Rightarrow> bool" where
  "spares k s s' \<longleftrightarrow> changed_at k s s' \<and> (\<forall>j < length (vmm_vcpus s). Some j \<noteq> k \<longrightarrow>
     data (vmcs_addr (vmm_vcpus s ! j)) (vmm_machine s') = data (vmcs_addr (vmm_vcpus s ! j)) (vmm_machine s))"

lemma step_respects:
  "vmm_step hw dev owned ok cur data s s' \<Longrightarrow> vmm_inv owned ok s \<Longrightarrow> \<exists>k. spares k s s'"
proof (induction rule: vmm_step.induct)
  case (enable c m r c' m' vs)
  have "region_fresh (vmx_region c) m (c', m')"
    using enable.prems by (intro enable_fresh [OF _ enable.hyps]) (simp add: vmm_inv_def)
  then have "grows m m'" by (simp add: region_fresh_def)
  then show ?case using grows_respects [OF enable.prems] by (intro exI [of _ None]) (simp add: spares_def changed_at_def)
next
  case (disable c m r c' m' vs)
  have "grows m m'"
    using disable.prems disable_fresh [OF _ disable.hyps(1)] by (simp add: vmm_inv_def)
  then show ?case using grows_respects [OF disable.prems] by (intro exI [of _ None]) (simp add: spares_def changed_at_def)
next
  case (create vm_id vcpu_id m v m' c vs)
  have "grows m m'"
    by (rule keepsD [OF VmxVcpu_new_grows _ create.hyps]) (use create.prems in \<open>simp add: vmm_inv_def grows_refl\<close>)
  then show ?case using grows_respects [OF create.prems] by (intro exI [of _ None]) (simp add: spares_def changed_at_def)
next
  case (create_failed vm_id vcpu_id m e m' c vs)
  have "grows m m'"
    by (rule keepsD [OF VmxVcpu_new_grows _ create_failed.hyps])
      (use create_failed.prems in \<open>simp add: vmm_inv_def grows_refl\<close>)
  then show ?case using grows_respects [OF create_failed.prems] by (intro exI [of _ None]) (simp add: spares_def changed_at_def)
next
  case (op i vs op m r v' m' c)
  have "distinct (concat (map vcpu_frames vs))" using op.prems by (simp add: vmm_inv_def vmm_frames_def)
  then have "vmcs_addr (vs ! j) \<noteq> vmcs_addr (vs ! i)" if "j < length vs" "j \<noteq> i" for j
    using distinct_other_vmcs that op.hyps(1) by blast
  then have "spares (Some i) \<lparr>vmm_cpu = c, vmm_vcpus = vs, vmm_machine = m\<rparr>
      \<lparr>vmm_cpu = c, vmm_vcpus = vs[i := v'], vmm_machine = m'\<rparr>"
    using inv_exec(2) [OF op.prems op.hyps] op.hyps(1) by (auto simp: spares_def changed_at_def)
  then show ?case by blast
next
  case (dropped i vs m r v' m' c)
  have "spares (Some i) \<lparr>vmm_cpu = c, vmm_vcpus = vs, vmm_machine = m\<rparr>
      \<lparr>vmm_cpu = c, vmm_vcpus = take i vs @ drop (Suc i) vs, vmm_machine = m'\<rparr>"
    using inv_drop(2) [OF dropped.prems dropped.hyps(1,2)] dropped.hyps(1) by (simp add: spares_def changed_at_def)
  then show ?case by blast
next
  case (elsewhere m' c vs m)
  then show ?case by (intro exI [of _ None]) (simp add: spares_def changed_at_def)
qed

lemma reach_inv: "vmm_reach hw dev owned ok cur data s \<Longrightarrow> vmm_inv owned ok s"
proof (induction rule: vmm_reach.induct)
  case (start m cpu_id c)
  then show ?case
    by (auto simp: vmm_inv_def vmm_frames_def region_frames_def VmxPerCpuState_new_def return_def
        VmxRegion_uninit_def VmxRegion_phys_addr_def)
next
  case (step s s')
  then show ?case by (blast intro: inv_step)
qed

end

section \<open>Two vCPUs on the reference machine\<close>

abbreviation (input) ref_owned :: "refm \<Rightarrow> u64 set" where
  "ref_owned \<equiv> \<lambda>m. - set (m_frames m)"

abbreviation (input) ref_data :: "u64 \<Rightarrow> refm \<Rightarrow> u32 \<Rightarrow> u64" where
  "ref_data \<equiv> \<lambda>a m. m_vmcs m a"

abbreviation (input) ref_reach :: "(usize \<Rightarrow> usize, refm) vmm \<Rightarrow> bool" where
  "ref_reach \<equiv> vmm_reach ref_hw ref_dev ref_owned ref_ok m_cur ref_data"

abbreviation (input) two_cpu :: VmxPerCpuState where
  "two_cpu \<equiv> \<lparr>vmcs_revision_id = 0, vmx_region = VmxRegion_uninit\<rparr>"

lemma two_vcpus:
  obtains v w where "ref_reach \<lparr>vmm_cpu = two_cpu, vmm_vcpus = [v, w], vmm_machine = ref_machine\<lparr>m_frames := []\<rparr>\<rparr>"
proof -
  let ?m = "\<lambda>fs. ref_machine\<lparr>m_frames := fs\<rparr>" and ?gs = "[0x14000, 0x15000, 0x16000, 0x17000]"
  let ?fs = "0x10000 # 0x11000 # 0x12000 # 0x13000 # ?gs"
  have start: "ref_reach \<lparr>vmm_cpu = two_cpu, vmm_vcpus = [], vmm_machine = ?m ?fs\<rparr>"
    by (rule vmm_reach.start) (simp, simp add: VmxPerCpuState_new_def return_def)
  obtain v where v: "VmxVcpu_new ref_hw ref_dev 0 0 (?m ?fs) = (Ok v, ?m ?gs)" by (rule exE [OF ref_new])
  obtain w where w: "VmxVcpu_new ref_hw ref_dev 0 1 (?m ?gs) = (Ok w, ?m [])" by (rule exE [OF ref_new])
  have "ref_reach \<lparr>vmm_cpu = two_cpu, vmm_vcpus = [] @ [v], vmm_machine = ?m ?gs\<rparr>"
    by (rule vmm_reach.step [OF start vmm_step.create [OF v]])
  then have "ref_reach \<lparr>vmm_cpu = two_cpu, vmm_vcpus = ([] @ [v]) @ [w], vmm_machine = ?m []\<rparr>"
    by (rule vmm_reach.step [OF _ vmm_step.create [OF w]])
  then show thesis unfolding append.simps by (rule that)
qed

text \<open>
  C5. The memory of several vCPUs: through every interleaving of enabling and disabling VMX with the creation, use and
  dropping of vCPUs, the VMXON region, the VMCS regions and the bitmaps of all live vCPUs are different frames, all
  of them allocated; every vCPU has an initialised VMCS region and whole bitmap pages.
\<close>

theorem vmm_frames_disjoint:
  assumes "vmm_hw hw owned ok dev cur data" "vmm_reach hw dev owned ok cur data s"
  shows "distinct (vmm_frames s) \<and> set (vmm_frames s) \<subseteq> owned (vmm_machine s) \<and>
    (\<forall>v \<in> set (vmm_vcpus s). VmxRegion_phys_addr (vmcs v) = Ok (hd (vcpu_frames v)) \<and>
       wf_io (io_bitmap v) \<and> wf_msr (msr_bitmap v))"
  using vmm_hw.reach_inv [OF assms]
  by (auto simp: vmm_inv_def same_memory_def same_io_def same_msr_def)

theorem vmm_frames_disjoint_witness:
  "\<exists>v w. ref_reach \<lparr>vmm_cpu = two_cpu, vmm_vcpus = [v, w], vmm_machine = ref_machine\<lparr>m_frames := []\<rparr>\<rparr> \<and>
     distinct (vcpu_frames v @ vcpu_frames w)"
proof -
  obtain v w where r: "ref_reach \<lparr>vmm_cpu = two_cpu, vmm_vcpus = [v, w], vmm_machine = ref_machine\<lparr>m_frames := []\<rparr>\<rparr>"
    by (rule two_vcpus)
  with vmm_frames_disjoint [OF ref_vmm.vmm_hw_axioms r] show ?thesis
    by (intro exI [of _ v] exI [of _ w]) (simp add: vmm_frames_def)
qed

text \<open>
  C6. Isolation of vCPUs on one processor: every step concerns at most one vCPU. All others are still there, unchanged
  and in their places, and the contents of their VMCS are what they were, although all of them are accessed through
  one current-VMCS pointer; and a step of a vCPU leaves the per-CPU state alone.
\<close>

theorem vmm_isolation:
  assumes "vmm_hw hw owned ok dev cur data" "vmm_reach hw dev owned ok cur data s"
    "vmm_step hw dev owned ok cur data s s'"
  shows "\<exists>k. changed_at k s s' \<and> (\<forall>j < length (vmm_vcpus s). Some j \<noteq> k \<longrightarrow>
    data (hd (vcpu_frames (vmm_vcpus s ! j))) (vmm_machine s') =
    data (hd (vcpu_frames (vmm_vcpus s ! j))) (vmm_machine s))"
  using vmm_hw.step_respects [OF assms(1,3) vmm_hw.reach_inv [OF assms(1,2)]]
  unfolding vmm_hw.spares_def [OF assms(1)] .

theorem vmm_isolation_witness:
  "\<exists>v w v' s s' k. ref_reach s \<and> vmm_vcpus s = [v, w] \<and> vmm_step ref_hw ref_dev ref_owned ref_ok m_cur ref_data s s' \<and>
     vmm_vcpus s' = [v', w] \<and> pending_events v' \<noteq> pending_events v \<and> changed_at k s s' \<and> k \<noteq> None \<and> k \<noteq> Some 1"
proof -
  let ?m = "ref_machine\<lparr>m_frames := []\<rparr>"
  obtain v w where r: "ref_reach \<lparr>vmm_cpu = two_cpu, vmm_vcpus = [v, w], vmm_machine = ?m\<rparr>" (is "ref_reach ?s")
    by (rule two_vcpus)
  let ?v = "v\<lparr>pending_events := pending_events v @ [(0x20, None)]\<rparr>"
  have differ: "?v \<noteq> v"
  proof
    assume "?v = v"
    from arg_cong [OF this, of pending_events] show False by simp
  qed
  have "exec ref_hw ref_dev (QueueEvent 0x20 None) ([v, w] ! 0, ?m) = (Ok (), (?v, ?m))"
    by (simp add: queue_event_def modify_self_run)
  note run = vmm_step.op [OF _ this]
  have st: "vmm_step ref_hw ref_dev ref_owned ref_ok m_cur ref_data ?s
      \<lparr>vmm_cpu = two_cpu, vmm_vcpus = [v, w][0 := ?v], vmm_machine = ?m\<rparr>" (is "vmm_step _ _ _ _ _ _ _ ?s'")
    by (rule run) (simp_all add: returns_def)
  obtain k where k: "changed_at k ?s ?s'"
    using vmm_isolation [OF ref_vmm.vmm_hw_axioms r st] by (elim exE conjE) (rule that)
  have "k \<noteq> None" "k \<noteq> Some 1"
    using k differ by (cases k; auto simp: changed_at_def)+
  with r st k show ?thesis
    by (intro exI [of _ v] exI [of _ w] exI [of _ ?v] exI [of _ ?s] exI [of _ ?s'] exI [of _ k] conjI) simp_all
qed

end
