(* ===== verification/PerCpuModes.thy ===== *)
theory PerCpuModes
  imports PerCpu VcpuFrames
begin

text \<open>
  An abstract view of \<open>VmxPerCpuState\<close> (\<open>src/vmx/percpu.rs\<close>): a processor is outside VMX operation, in it, or has VMXE
  set without being in VMX operation. \<open>hardware_enable\<close> and \<open>hardware_disable\<close> refine a small automaton on these modes.
\<close>

section \<open>The automaton\<close>

datatype vmx_mode = Off | On | Failed

datatype percpu_op = Enable | Disable

text \<open>\<open>mode_step s op r s'\<close>: the call \<open>op\<close> takes the processor from \<open>s\<close> to \<open>s'\<close> with the result \<open>r\<close>.\<close>

inductive mode_step :: "vmx_mode \<Rightarrow> percpu_op \<Rightarrow> unit res \<Rightarrow> vmx_mode \<Rightarrow> bool" where
  enabled: "mode_step Off Enable (Ok ()) On"
| refused: "r \<noteq> Ok () \<Longrightarrow> mode_step Off Enable r Off"
| vmxon_failed: "r \<in> {Err BadState, Fault} \<Longrightarrow> mode_step Off Enable r Failed"
| busy: "s \<noteq> Off \<Longrightarrow> e \<in> {Unsupported, ResourceBusy} \<Longrightarrow> mode_step s Enable (Err e) s"
| disabled: "mode_step On Disable (Ok ()) Off"
| not_disabled: "s \<noteq> Failed \<Longrightarrow> mode_step s Disable (Err BadState) s"
| vmxoff_outside: "mode_step Failed Disable Fault Failed"

inductive_cases failedE: "mode_step Failed op r s"

inductive mode_steps :: "vmx_mode \<Rightarrow> (percpu_op \<times> unit res) list \<Rightarrow> vmx_mode \<Rightarrow> bool" where
  Nil: "mode_steps s [] s"
| Cons: "mode_step s op r s1 \<Longrightarrow> mode_steps s1 tr s' \<Longrightarrow> mode_steps s ((op, r) # tr) s'"

text \<open>Once VMXON has failed, \<open>Enable\<close> is refused for ever and \<open>Disable\<close> ends in an exception.\<close>

fun hopeless :: "percpu_op \<times> unit res \<Rightarrow> bool" where
  "hopeless (Enable, r) \<longleftrightarrow> r = Err Unsupported \<or> r = Err ResourceBusy"
| "hopeless (Disable, r) \<longleftrightarrow> r = Fault"

lemma failed_step: "mode_step Failed op r s \<Longrightarrow> s = Failed \<and> hopeless (op, r)"
  by (erule failedE) auto

lemma failed_steps: "mode_steps s tr s' \<Longrightarrow> s = Failed \<Longrightarrow> s' = Failed \<and> list_all hopeless tr"
  by (induction rule: mode_steps.induct) (auto dest: failed_step)

section \<open>The calls on the machine\<close>

fun percpu_call :: "'m hw \<Rightarrow> percpu_op \<Rightarrow> (VmxPerCpuState \<times> 'm, unit) prog" where
  "percpu_call hw Enable = hardware_enable hw"
| "percpu_call hw Disable = hardware_disable hw"

text \<open>A sequence of calls, up to the first one that panics or faults.\<close>

fun percpu_calls :: "'m hw \<Rightarrow> percpu_op list \<Rightarrow> VmxPerCpuState \<times> 'm \<Rightarrow>
    (percpu_op \<times> unit res) list \<times> VmxPerCpuState \<times> 'm" where
  "percpu_calls hw [] st = ([], st)"
| "percpu_calls hw (op # ops) st =
     (case percpu_call hw op st of (r, st1) \<Rightarrow>
      if returns r then (case percpu_calls hw ops st1 of (tr, st') \<Rightarrow> ((op, r) # tr, st'))
      else ([(op, r)], st1))"

definition mode_of :: "'m hw \<Rightarrow> ('m \<Rightarrow> bool) \<Rightarrow> VmxPerCpuState \<times> 'm \<Rightarrow> vmx_mode" where
  "mode_of hw vmx_on st = (if vmx_on (snd st) then On else if is_enabled hw (snd st) then Failed else Off)"

text \<open>VMXOFF raises \<open>#UD\<close> outside VMX operation, and no exception inside (the code runs at privilege level 0).\<close>

locale vmx_cpu_strict = vmx_cpu hw vmx_on cr4_all for hw :: "'m hw" and vmx_on cr4_all +
  assumes vmxoff_outside: "\<not> vmx_on m \<Longrightarrow> hw_vmxoff hw m = (Inl VmFault, m)"
    and vmxoff_inside: "vmx_on m \<Longrightarrow> fst (hw_vmxoff hw m) \<noteq> Inl VmFault"

interpretation ref_strict: vmx_cpu_strict ref_hw m_vmx_on "- 1"
  by unfold_locales (auto simp: ref_vmxoff_def split: if_splits)

lemma keeps_bind_cases:
  assumes "keeps J p" "J s" "bind p k s = (r, s')"
  obtains (stopped) "\<forall>x. r \<noteq> Ok x" "J s'" | (went_on) x s1 where "p s = (Ok x, s1)" "J s1" "k x s1 = (r, s')"
proof (cases "p s")
  case (Pair q s1)
  then have "J s1" using assms(1,2) unfolding keeps_def by (metis snd_conv)
  with Pair assms(3) show thesis by (cases q) (auto simp: bind_def intro: that)
qed

context vmx_cpu
begin

abbreviation (input) cold :: "'m \<Rightarrow> bool" where
  "cold m \<equiv> \<not> vmx_on m \<and> \<not> is_enabled hw m"

text \<open>The parts of \<open>hardware_enable\<close>, from the last one on.\<close>

abbreviation (input) turn_on :: "VmxRegion \<Rightarrow> (VmxPerCpuState \<times> 'm, unit) prog" where
  "turn_on region \<equiv>
     bind (modify_self (vmx_region_update (\<lambda>_. region))) (\<lambda>_.
     bind (on_hw (modify (\<lambda>m. hw_cr4_write hw (hw_cr4_read hw m OR CR4_VMXE) m))) (\<lambda>_.
     bind (lift (VmxRegion_phys_addr region)) (\<lambda>paddr.
     on_hw (or_bad_state (hw_vmxon hw paddr)))))"

abbreviation (input) with_region :: "u32 \<Rightarrow> (VmxPerCpuState \<times> 'm, unit) prog" where
  "with_region rid \<equiv> bind (on_hw (VmxRegion_new hw rid False)) (\<lambda>region. turn_on region)"

abbreviation (input) checked :: "(VmxPerCpuState \<times> 'm, unit) prog" where
  "checked \<equiv>
     bind (on_hw (check_vmx_basic hw)) (\<lambda>vmx_basic.
     bind (modify_self (vmcs_revision_id_update (\<lambda>_. revision_id vmx_basic))) (\<lambda>_.
     with_region (revision_id vmx_basic)))"

lemma enabled_bit: "is_enabled hw m \<longleftrightarrow> bit (hw_cr4_read hw m) 13"
  by (simp add: is_enabled_def and_single_iff)

lemma keeps_cold:
  "keeps cold (block [enable_xsave hw, enable_vmxon hw, check_control_registers hw])"
  "keeps cold (check_vmx_basic hw)" "keeps cold (VmxRegion_new hw rid b)"
proof -
  have wr: "keeps cold (Msr_write hw r v)" for r v
    using wrmsr_vmx by (auto simp: keeps_def Msr_write_def is_enabled_def split: option.split)
  have al: "keeps cold (hw_alloc_zero hw)"
    unfolding keeps_def is_enabled_def using alloc_vmx by (metis surj_pair snd_conv)
  have cr4: "keeps cold (modify (\<lambda>m. hw_cr4_write hw (hw_cr4_read hw m OR CR4_OSXSAVE) m))"
    using cr4_write_vmx cr4_set(2) by (auto simp: keeps_def modify_def enabled_bit bit_or_iff bit_numeral_rec)
  note rules = keeps_bind keeps_basic keeps_if keeps_gets keeps_Msr_read cr4 wr al
  have "keeps cold (enable_xsave hw)" "keeps cold (enable_vmxon hw)" "keeps cold (check_control_registers hw)"
    unfolding enable_xsave_def enable_vmxon_def FeatureControl_read_msr FeatureControl_write_msr
      check_control_registers_def cr_is_valid_def Let_def
    by (intro rules)+
  then show "keeps cold (block [enable_xsave hw, enable_vmxon hw, check_control_registers hw])"
    by (intro keeps_block) auto
  show "keeps cold (check_vmx_basic hw)" unfolding check_vmx_basic_def VmxBasic_read_msr by (intro rules)
  show "keeps cold (VmxRegion_new hw rid b)" unfolding VmxRegion_new_def by (intro rules)
qed

text \<open>The last steps of \<open>hardware_enable\<close>: VMXE is set, and VMXON decides the result.\<close>

lemma vmxon_outcome:
  assumes "cold (snd st)" "region_frame region \<noteq> None"
    and "(turn_on region) st = (r, st')"
  shows "mode_step Off Enable r (mode_of hw vmx_on st')"
proof -
  obtain s m where st: "st = (s, m)" by (cases st)
  obtain fr where fr: "region_frame region = Some fr" using assms(2) by blast
  let ?m = "hw_cr4_write hw (hw_cr4_read hw m OR CR4_VMXE) m"
  obtain y m' where on: "hw_vmxon hw (start_paddr fr) ?m = (y, m')" by (metis surj_pair)
  have off: "\<not> vmx_on ?m" using assms(1) cr4_write_vmx by (auto simp: st)
  have "is_enabled hw m'"
    using vmxon_cr4 [OF on] cr4_set(1) by (simp add: is_enabled_def and.assoc bit.conj_disj_distrib2)
  moreover have "r = (case y of Inr _ \<Rightarrow> Ok () | Inl e \<Rightarrow> not_done e)" "st' = (s\<lparr>vmx_region := region\<rparr>, m')"
    using assms(3) on fr
    by (cases y; simp add: st VmxRegion_phys_addr_def prog_simps or_bad_state_def)+
  moreover have "not_done e \<in> {Err BadState, Fault :: unit res}" for e by (cases e) simp_all
  ultimately show ?thesis
    using on off vmxon_on vmxon_fail
    by (cases y) (auto simp: mode_of_def intro: mode_step.enabled mode_step.vmxon_failed)
qed

lemma region_new_frame: "VmxRegion_new hw rid b m = (Ok region, m') \<Longrightarrow> region_frame region \<noteq> None"
  by (auto simp: VmxRegion_new_def bind_def return_def lift_def split: prod.splits res.splits)

lemma cold_off: "cold (snd st) \<Longrightarrow> mode_of hw vmx_on st = Off"
  by (simp add: mode_of_def)

lemma stopped_off: "\<forall>x. r \<noteq> Ok x \<Longrightarrow> cold (snd st) \<Longrightarrow> mode_step Off Enable r (mode_of hw vmx_on st)"
  using cold_off by (auto intro: mode_step.refused)

lemma region_outcome:
  assumes cold: "cold (snd st)"
    and "with_region rid st = (r, st')"
  shows "mode_step Off Enable r (mode_of hw vmx_on st')"
proof (rule keeps_bind_cases [OF keeps_on_hw [OF keeps_cold(3)] assms])
  fix region s4
  assume new: "on_hw (VmxRegion_new hw rid False) st = (Ok region, s4)" and "cold (snd s4)"
    and run: "turn_on region s4 = (r, st')"
  have "region_frame region \<noteq> None"
    using new region_new_frame by (cases st; cases s4) (auto simp: on_hw_pair split: prod.splits)
  with \<open>cold (snd s4)\<close> show ?thesis using run by (rule vmxon_outcome)
qed (rule stopped_off)

lemma prepared_outcome:
  assumes "cold (snd st)"
    and "checked st = (r, st')"
  shows "mode_step Off Enable r (mode_of hw vmx_on st')"
proof (rule keeps_bind_cases [OF keeps_on_hw [OF keeps_cold(2)] assms])
  fix basic s2
  assume "cold (snd s2)" and "bind (modify_self (vmcs_revision_id_update (\<lambda>_. revision_id basic))) (\<lambda>_.
      with_region (revision_id basic)) s2 = (r, st')"
  then show ?thesis
    by (cases s2) (simp only: bind_modify_self, rule region_outcome, simp_all)
qed (rule stopped_off)

lemma enable_cold:
  assumes cold: "cold m" and run: "hardware_enable hw (s, m) = (r, st')"
  shows "mode_step Off Enable r (mode_of hw vmx_on st')"
proof (cases "has_hardware_support hw m")
  case False
  then have "r = Err Unsupported" "st' = (s, m)"
    using run by (simp_all add: hardware_enable_def on_hw_pair gets_def bind_def raise_def)
  then show ?thesis using cold by (auto simp: mode_of_def intro: mode_step.refused)
next
  case True
  have "(bind (on_hw (block [enable_xsave hw, enable_vmxon hw, check_control_registers hw])) (\<lambda>_.
      checked)) (s, m) = (r, st')" (is "bind ?prep (\<lambda>_. ?rest) _ = _")
    using run True cold by (simp add: hardware_enable_def on_hw_pair [of "gets _"] gets_def bind_def del: block.simps)
  note run' = this
  show ?thesis
    by (rule keeps_bind_cases [OF keeps_on_hw [OF keeps_cold(1)] _ run'])
      (use cold in simp, rule stopped_off, assumption+, rule prepared_outcome)
qed

lemma enable_busy:
  assumes "is_enabled hw m" "hardware_enable hw (s, m) = (r, st')"
  shows "(r = Err Unsupported \<or> r = Err ResourceBusy) \<and> st' = (s, m)"
  using assms by (auto simp: hardware_enable_def on_hw_pair gets_def bind_def raise_def split: if_splits)

lemma enable_refines:
  assumes "percpu_inv hw vmx_on st" "hardware_enable hw st = (r, st')"
  shows "mode_step (mode_of hw vmx_on st) Enable r (mode_of hw vmx_on st')"
proof (cases "is_enabled hw (snd st)")
  case True
  then have "mode_of hw vmx_on st \<noteq> Off" by (simp add: mode_of_def)
  then show ?thesis
    using enable_busy [of "snd st" "fst st" r st'] True assms(2) by (auto intro: mode_step.busy)
next
  case False
  then have "cold (snd st)" using assms(1) by (auto simp: percpu_inv_def)
  then show ?thesis using enable_cold [of "snd st" "fst st" r st'] assms(2) cold_off by simp
qed

end

context vmx_cpu_strict
begin

lemma disable_refines:
  assumes "hardware_disable hw (s, m) = (r, st')"
  shows "mode_step (mode_of hw vmx_on (s, m)) Disable r (mode_of hw vmx_on st')"
proof (cases "is_enabled hw m")
  case False
  then have "r = Err BadState" "st' = (s, m)" "mode_of hw vmx_on (s, m) \<noteq> Failed"
    using assms by (auto simp: hardware_disable_def on_hw_pair gets_def bind_def raise_def mode_of_def)
  then show ?thesis by (auto intro: mode_step.not_disabled)
next
  case True
  obtain y m1 where off: "hw_vmxoff hw m = (y, m1)" by (metis surj_pair)
  show ?thesis
  proof (cases y)
    case (Inl e)
    then have "r = not_done e" "st' = (s, m1)"
      using assms True off by (cases e; simp add: hardware_disable_def prog_simps or_bad_state_def)+
    moreover have "mode_of hw vmx_on (s, m1) = mode_of hw vmx_on (s, m)"
      using off Inl vmxoff_fail vmxoff_cr4 by (simp add: mode_of_def is_enabled_def)
    moreover have "not_done e = (if vmx_on m then Err BadState else Fault :: unit res)"
      using off Inl vmxoff_outside [of m] vmxoff_inside [of m] by (cases e) auto
    ultimately show ?thesis
      using True by (auto simp: mode_of_def intro: mode_step.not_disabled mode_step.vmxoff_outside)
  next
    case (Inr u)
    let ?m = "hw_cr4_write hw (hw_cr4_read hw m1 AND NOT CR4_VMXE) m1"
    have "r = Ok ()" "snd st' = ?m"
      using assms True off Inr
      by (auto simp: hardware_disable_def prog_simps or_bad_state_def modify_self_def modify_def)
    moreover have "\<not> vmx_on m1" using off Inr vmxoff_off by simp
    then have "\<not> vmx_on ?m" using cr4_write_vmx [of m1] by blast
    moreover have "\<not> is_enabled hw ?m"
      using cr4_set(3) by (simp add: enabled_bit bit_and_iff bit_not_iff bit_numeral_rec)
    moreover have "vmx_on m" using off Inr vmxoff_outside [of m] by auto
    ultimately show ?thesis by (simp add: mode_of_def mode_step.disabled)
  qed
qed

lemma calls_refine:
  "percpu_inv hw vmx_on st \<Longrightarrow> percpu_calls hw ops st = (tr, st') \<Longrightarrow>
    mode_steps (mode_of hw vmx_on st) tr (mode_of hw vmx_on st') \<and> percpu_inv hw vmx_on st'"
proof (induction ops arbitrary: st tr)
  case Nil
  then show ?case by (auto intro: mode_steps.Nil)
next
  case (Cons op ops)
  obtain r st1 where call: "percpu_call hw op st = (r, st1)" by (metis surj_pair)
  have "mode_step (mode_of hw vmx_on st) op r (mode_of hw vmx_on st1) \<and> percpu_inv hw vmx_on st1"
  proof (cases op)
    case Enable
    then have run: "hardware_enable hw st = (r, st1)" using call by simp
    show ?thesis
      unfolding Enable by (intro conjI enable_refines [OF Cons.prems(1) run] keepsD [OF hardware_enable_inv Cons.prems(1) run])
  next
    case Disable
    then have run: "hardware_disable hw st = (r, st1)" using call by simp
    then show ?thesis
      unfolding Disable using disable_refines [of "fst st" "snd st" r st1]
      by (intro conjI keepsD [OF hardware_disable_inv Cons.prems(1) run]) simp
  qed
  note step = this
  show ?case
  proof (cases "returns r")
    case True
    then obtain tr1 where rest: "percpu_calls hw ops st1 = (tr1, st')" "tr = (op, r) # tr1"
      using Cons.prems(2) call by (auto split: prod.splits)
    then show ?thesis using step Cons.IH [of st1 tr1] by (auto intro: mode_steps.Cons)
  next
    case False
    then have "tr = [(op, r)]" "st' = st1" using Cons.prems(2) call by auto
    then show ?thesis using step by (auto intro: mode_steps.intros)
  qed
qed

end

text \<open>
  C14. The per-CPU state refines a three-state automaton: any sequence of calls of \<open>hardware_enable\<close> and
  \<open>hardware_disable\<close> on a new state, with the results it returns, is a run of the automaton. In particular, once VMXON
  has failed the interface offers no way back: every later \<open>hardware_enable\<close> is refused (\<open>ResourceBusy\<close>, or \<open>Unsupported\<close> on a
  processor that no longer reports VMX), and a \<open>hardware_disable\<close> executes VMXOFF outside VMX operation, which faults.
\<close>

theorem percpu_refines:
  assumes cpu: "vmx_cpu_strict hw vmx_on cr4_all" and start: "\<not> vmx_on m" "VmxPerCpuState_new cpu_id m = (Ok s, m)"
    and calls: "percpu_calls hw ops (s, m) = (tr, st')"
  shows "mode_steps (mode_of hw vmx_on (s, m)) tr (mode_of hw vmx_on st') \<and>
    (mode_of hw vmx_on st' = Failed \<longrightarrow>
       (\<forall>ops' tr' st''. percpu_calls hw ops' st' = (tr', st'') \<longrightarrow>
          mode_of hw vmx_on st'' = Failed \<and>
          list_all (\<lambda>(op, r). case op of Enable \<Rightarrow> r = Err Unsupported \<or> r = Err ResourceBusy | Disable \<Rightarrow> r = Fault) tr'))"
proof -
  have "percpu_inv hw vmx_on (s, m)" using start(1) by (simp add: percpu_inv_def)
  note run = vmx_cpu_strict.calls_refine [OF cpu this calls]
  have hopeless: "hopeless = (\<lambda>(op, r). case op of
      Enable \<Rightarrow> r = Err Unsupported \<or> r = Err ResourceBusy | Disable \<Rightarrow> r = Fault)"
    by (auto simp: fun_eq_iff split: percpu_op.split)
  have "mode_of hw vmx_on st'' = Failed \<and> list_all hopeless tr'"
    if "mode_of hw vmx_on st' = Failed" "percpu_calls hw ops' st' = (tr', st'')" for ops' tr' st''
    using failed_steps vmx_cpu_strict.calls_refine [OF cpu conjunct2 [OF run] that(2)] that(1) by blast
  with run show ?thesis unfolding hopeless by blast
qed

text \<open>A processor on which VMXON always fails.\<close>

definition broken_hw :: "refm hw" where
  "broken_hw = ref_hw\<lparr>hw_vmxon := (\<lambda>_ m. (Inl VmFailInvalid, m))\<rparr>"

lemma broken_hw_sel [simp]:
  "hw_vmxon broken_hw = (\<lambda>_ m. (Inl VmFailInvalid, m))" "hw_vmxoff broken_hw = ref_vmxoff"
  "hw_rdmsr broken_hw = (\<lambda>r m. m_msr m r)" "hw_wrmsr broken_hw = ref_wrmsr" "hw_cr4_read broken_hw = m_cr4"
  "hw_cr0_read broken_hw = m_cr0" "hw_cr4_write broken_hw = (\<lambda>v m. m\<lparr>m_cr4 := v\<rparr>)"
  "hw_alloc_zero broken_hw = ref_alloc 0" "hw_has_vmx broken_hw = (\<lambda>_. Some True)"
  by (simp_all add: broken_hw_def)

interpretation broken_live: vmx_cpu_live broken_hw m_vmx_on "- 1"
  "\<lambda>m. m_frames m \<noteq> [] \<and> (\<forall>a \<in> set (m_frames m). a AND 0xfff = 0)"
  by unfold_locales
    (auto simp: ref_wrmsr_def ref_alloc_def ref_vmxoff_def split: option.splits list.splits if_splits)

interpretation broken: vmx_cpu_strict broken_hw m_vmx_on "- 1"
  by unfold_locales (auto simp: ref_vmxoff_def split: if_splits)

theorem percpu_refines_witness:
  "\<exists>st'. percpu_calls broken_hw [Enable] (\<lparr>vmcs_revision_id = 0, vmx_region = VmxRegion_uninit\<rparr>, cold_machine) =
       ([(Enable, Err BadState)], st') \<and>
     mode_of broken_hw m_vmx_on st' = Failed \<and>
     (\<exists>st''. percpu_calls broken_hw [Disable, Enable] st' = ([(Disable, Fault)], st'') \<and>
        mode_of broken_hw m_vmx_on st'' = Failed)"
proof -
  let ?s = "\<lparr>vmcs_revision_id = 0, vmx_region = VmxRegion_uninit\<rparr>"
  have ready: "vmx_ready broken_hw cold_machine"
    "hw_rdmsr broken_hw (Msr_number IA32_VMX_BASIC) cold_machine = Some 0xd8100000000001"
    using cold_machine_ready(1,4) by (simp_all add: vmx_ready_def is_enabled_def has_hardware_support_def)
  obtain a s' m1 where r: "hardware_enable broken_hw (?s, cold_machine) =
      on_hw (or_bad_state (hw_vmxon broken_hw a)) (s', m1)" "is_enabled broken_hw m1" "\<not> m_vmx_on m1"
    using broken_live.enable_run [OF ready(1) cold_machine_ready(2) ready(2) cold_machine_ready(5,3), of ?s]
    by (elim exE conjE) (rule that)
  then have run: "percpu_calls broken_hw [Enable] (?s, cold_machine) = ([(Enable, Err BadState)], (s', m1))"
    by (simp add: on_hw_pair or_bad_state_def returns_def)
  have new: "VmxPerCpuState_new 0 cold_machine = (Ok ?s, cold_machine)" by (simp add: VmxPerCpuState_new_def return_def)
  have failed: "mode_of broken_hw m_vmx_on (s', m1) = Failed" using r(2,3) by (simp add: mode_of_def)
  obtain q st1 where call: "percpu_call broken_hw Disable (s', m1) = (q, st1)" by (metis surj_pair)
  have one: "percpu_calls broken_hw [Disable] (s', m1) = ([(Disable, q)], st1)" by (simp add: call[simplified])
  then have f: "mode_of broken_hw m_vmx_on st1 = Failed \<and> q = Fault"
    using percpu_refines [OF broken.vmx_cpu_strict_axioms cold_machine_ready(3) new run] failed by fastforce
  then have "percpu_calls broken_hw [Disable, Enable] (s', m1) = ([(Disable, Fault)], st1)"
    using call by (simp add: returns_def)
  with run failed f show ?thesis by (intro exI [of _ "(s', m1)"]) auto
qed

end
