(* ===== verification/ErrorPath.thy ===== *)
theory ErrorPath
  imports Vmcs
begin

text \<open>
  The error path of the VMX instructions: \<open>as_axerr\<close> (\<open>src/vmx/mod.rs\<close>) asks \<open>instruction_error\<close> (\<open>src/vmx/vmcs.rs\<close>) for
  the message, whose VMREAD goes through \<open>as_axerr\<close> again when it fails. Here the recursion is the one of the
  source, with non-termination as \<open>None\<close>. The message is an argument of \<open>ax_err_type!\<close>, which evaluates it only when the log level
  asks for it (\<open>err_messages\<close>). An exception (\<open>VmFault\<close>) is not converted. The rest of the development uses \<open>as_axerr\<close>, its value in closed form.
\<close>

partial_function (option) as_axerr_rec :: "'m hw \<Rightarrow> 'm \<Rightarrow> VmFail \<Rightarrow> AxError res option" where
  "as_axerr_rec hw m err =
     (case err of
        VmFailValid \<Rightarrow>
          if \<not> err_messages hw then Some (Ok BadState)
          else (case hw_vmread hw (VmcsReadOnly32_number VM_INSTRUCTION_ERROR) m of
             Inr code \<Rightarrow> Some (Ok BadState)
           | Inl e \<Rightarrow> Option.bind (as_axerr_rec hw m e) (\<lambda>r. Some (case r of Ok _ \<Rightarrow> Panic ''unwrap'' | _ \<Rightarrow> r)))
      | VmFailInvalid \<Rightarrow> Some (Ok BadState)
      | VmFault \<Rightarrow> Some Fault)"

declare as_axerr_rec.simps [code]

lemma as_axerr_rec_diverges:
  assumes "hw_vmread hw (VmcsReadOnly32_number VM_INSTRUCTION_ERROR) m = Inl VmFailValid" "err_messages hw"
  shows "as_axerr_rec hw m VmFailValid = None"
proof (rule ccontr)
  assume "as_axerr_rec hw m VmFailValid \<noteq> None"
  then obtain r where "as_axerr_rec hw m VmFailValid = Some r" by blast
  moreover have "e \<noteq> VmFailValid \<or> h \<noteq> hw \<or> n \<noteq> m" if "as_axerr_rec h n e = Some r" for h n e r
  proof (rule as_axerr_rec.raw_induct [where P = "\<lambda>h n e r. e \<noteq> VmFailValid \<or> h \<noteq> hw \<or> n \<noteq> m", OF _ that])
    fix f h n e and r :: "AxError res"
    assume "\<And>h n e r. f h n e = Some r \<Longrightarrow> e \<noteq> VmFailValid \<or> h \<noteq> hw \<or> n \<noteq> m"
      "(case e of
          VmFailValid \<Rightarrow>
            if \<not> err_messages h then Some (Ok BadState)
            else (case hw_vmread h (VmcsReadOnly32_number VM_INSTRUCTION_ERROR) n of
               Inl e \<Rightarrow> Option.bind (f h n e) (\<lambda>r. Some (case r of Ok _ \<Rightarrow> Panic ''unwrap'' | _ \<Rightarrow> r))
             | Inr code \<Rightarrow> Some (Ok BadState))
        | VmFailInvalid \<Rightarrow> Some (Ok BadState)
        | VmFault \<Rightarrow> Some Fault) = Some r"
    then show "e \<noteq> VmFailValid \<or> h \<noteq> hw \<or> n \<noteq> m"
      using assms by (cases "f hw m VmFailValid") (auto simp del: field_numbers)
  qed
  ultimately show False by blast
qed

lemma as_axerr_rec_value:
  "as_axerr_rec hw m VmFailInvalid = Some (Ok BadState)"
  "as_axerr_rec hw m VmFault = Some Fault"
  "\<not> err_messages hw \<Longrightarrow> as_axerr_rec hw m VmFailValid = Some (Ok BadState)"
  "hw_vmread hw (VmcsReadOnly32_number VM_INSTRUCTION_ERROR) m = Inr code \<Longrightarrow>
    as_axerr_rec hw m VmFailValid = Some (Ok BadState)"
  "err_messages hw \<Longrightarrow> hw_vmread hw (VmcsReadOnly32_number VM_INSTRUCTION_ERROR) m = Inl VmFailInvalid \<Longrightarrow>
    as_axerr_rec hw m VmFailValid = Some (Panic ''unwrap'')"
  "err_messages hw \<Longrightarrow> hw_vmread hw (VmcsReadOnly32_number VM_INSTRUCTION_ERROR) m = Inl VmFault \<Longrightarrow>
    as_axerr_rec hw m VmFailValid = Some Fault"
proof -
  show base: "as_axerr_rec hw m VmFailInvalid = Some (Ok BadState)" "as_axerr_rec hw m VmFault = Some Fault"
    by (simp_all add: as_axerr_rec.simps)
  show "\<not> err_messages hw \<Longrightarrow> as_axerr_rec hw m VmFailValid = Some (Ok BadState)"
    by (subst as_axerr_rec.simps) simp
  show "hw_vmread hw (VmcsReadOnly32_number VM_INSTRUCTION_ERROR) m = Inr code \<Longrightarrow>
    as_axerr_rec hw m VmFailValid = Some (Ok BadState)"
    by (subst as_axerr_rec.simps) (simp del: field_numbers)
  show "err_messages hw \<Longrightarrow> hw_vmread hw (VmcsReadOnly32_number VM_INSTRUCTION_ERROR) m = Inl VmFailInvalid \<Longrightarrow>
    as_axerr_rec hw m VmFailValid = Some (Panic ''unwrap'')"
    "err_messages hw \<Longrightarrow> hw_vmread hw (VmcsReadOnly32_number VM_INSTRUCTION_ERROR) m = Inl VmFault \<Longrightarrow>
    as_axerr_rec hw m VmFailValid = Some Fault"
    by (subst as_axerr_rec.simps, simp add: base del: field_numbers)+
qed

text \<open>
  C26. Termination of the error path: the conversion of a failed VMX instruction ends, unless messages are evaluated and the
  instruction and the read of its error number both fail with a valid VMCS, when it recurs for ever. The closed form
  \<open>as_axerr\<close> is the value of the recursion, with the unbounded recursion as a stack overflow. While a VMCS is current, every
  failure is reported as \<open>BadState\<close>, without a panic.
\<close>

theorem as_axerr_terminates:
  "((\<exists>r. as_axerr_rec hw m err = Some r) \<longleftrightarrow>
      err \<noteq> VmFailValid \<or> \<not> err_messages hw \<or>
      hw_vmread hw (VmcsReadOnly32_number VM_INSTRUCTION_ERROR) m \<noteq> Inl VmFailValid) \<and>
   as_axerr hw err m =
     (case as_axerr_rec hw m err of
        None \<Rightarrow> Panic ''stack overflow''
      | Some (Ok e) \<Rightarrow> Err e | Some (Err e) \<Rightarrow> Err e | Some (Panic msg) \<Rightarrow> Panic msg | Some Fault \<Rightarrow> Fault, m) \<and>
   (vmcs_current hw current \<and> current m \<and> err \<noteq> VmFault \<longrightarrow> as_axerr_rec hw m err = Some (Ok BadState))"
proof -
  let ?n = "VmcsReadOnly32_number VM_INSTRUCTION_ERROR"
  have n: "VM_INSTRUCTION_ERROR_FIELD = ?n" by simp
  have read: "\<exists>v. hw_vmread hw ?n m = Inr v" if "vmcs_current hw current \<and> current m"
    using that by (intro vmcs_current.current_read [where current = current]) (auto simp del: field_numbers)
  show ?thesis
  proof (cases err)
    case VmFailValid
    show ?thesis
    proof (cases "err_messages hw")
      case True
      show ?thesis
      proof (cases "hw_vmread hw ?n m")
        case (Inl e)
        then have "\<not> (vmcs_current hw current \<and> current m)" using read by auto
        then show ?thesis
          using VmFailValid Inl True as_axerr_rec_diverges [of hw m] as_axerr_rec_value(5,6) [of hw m]
          by (cases e) (simp_all add: as_axerr_def n del: field_numbers)
      qed (simp add: VmFailValid as_axerr_def n as_axerr_rec_value(4) del: field_numbers)
    qed (simp add: VmFailValid as_axerr_def as_axerr_rec_value(3))
  qed (simp_all add: as_axerr_def as_axerr_rec_value(1,2))
qed

theorem as_axerr_terminates_witness:
  "as_axerr_rec ref_hw ref_machine VmFailValid = Some (Ok BadState) \<and>
   (\<exists>r. as_axerr_rec ref_hw (ref_machine\<lparr>m_cur := None\<rparr>) VmFailValid = Some r)"
proof
  have "m_cur ref_machine \<noteq> None" by (simp add: ref_machine_def)
  then show "as_axerr_rec ref_hw ref_machine VmFailValid = Some (Ok BadState)"
    using as_axerr_terminates [of ref_hw ref_machine VmFailValid "\<lambda>m. m_cur m \<noteq> None"]
      ref_current.vmcs_current_axioms by blast
  show "\<exists>r. as_axerr_rec ref_hw (ref_machine\<lparr>m_cur := None\<rparr>) VmFailValid = Some r"
    using as_axerr_terminates [of ref_hw "ref_machine\<lparr>m_cur := None\<rparr>" VmFailValid "\<lambda>_. True"]
    by (auto simp: ref_vmread_def)
qed

end
