(* ===== verification/MockMm.thy ===== *)
theory MockMm
  imports Frames
begin

text \<open>
  The memory manager of the tests (\<open>MockMmHal\<close> in \<open>src/test_utils.rs\<close>): sixteen frames at physical addresses
  0x1000 to 0x10fff, a bit mask of the allocated ones, and the translation between physical addresses and
  the addresses of the pool. The lock around the state is not modelled: every operation holds it throughout.
  The allocator is an instance of \<open>page_source\<close>, the contract the memory of a vCPU relies on.
\<close>

section \<open>State and operations\<close>

record MockMmHalState =
  memory_pool :: "u8 list list"
  alloc_mask :: u16
  reset_counter :: usize

definition MockMmHalState_new :: MockMmHalState where
  "MockMmHalState_new =
     \<lparr>memory_pool = replicate 16 (replicate 4096 0), alloc_mask = 0, reset_counter = 0\<rparr>"

text \<open>The loop over the frames: the first one whose bit is clear.\<close>

primrec alloc_loop :: "nat list \<Rightarrow> MockMmHalState \<Rightarrow> u64 option \<times> MockMmHalState" where
  "alloc_loop [] st = (None, st)"
| "alloc_loop (i # is) st =
     (if alloc_mask st AND push_bit i 1 = 0
      then (Some (0x1000 + of_nat i * 4096), st\<lparr>alloc_mask := alloc_mask st OR push_bit i 1\<rparr>)
      else alloc_loop is st)"

definition alloc_frame :: "MockMmHalState \<Rightarrow> u64 option \<times> MockMmHalState" where
  "alloc_frame = alloc_loop [0 ..< 16]"

definition alloc_contiguous_frames :: "usize \<Rightarrow> usize \<Rightarrow> (MockMmHalState, u64 option) prog" where
  "alloc_contiguous_frames num_frames frame_align_pow2 = panic ''not implemented''"

definition is_frame :: "u64 \<Rightarrow> bool" where
  "is_frame addr \<longleftrightarrow> 0x1000 \<le> addr \<and> addr < 0x1000 + 16 * 4096 \<and> (addr - 0x1000) mod 4096 = 0"

definition dealloc_frame :: "u64 \<Rightarrow> MockMmHalState \<Rightarrow> MockMmHalState" where
  "dealloc_frame addr st =
     (if is_frame addr then
        let page_index = unat ((addr - 0x1000) div 4096)
        in st\<lparr>alloc_mask := alloc_mask st AND NOT (push_bit page_index 1)\<rparr>
      else st)"

definition dealloc_contiguous_frames :: "u64 \<Rightarrow> usize \<Rightarrow> (MockMmHalState, unit) prog" where
  "dealloc_contiguous_frames first_addr num_frames = panic ''not implemented''"

text \<open>\<open>pool\<close> is the address of \<open>memory_pool\<close>.\<close>

definition phys_to_virt :: "u64 \<Rightarrow> u64 \<Rightarrow> u64" where
  "phys_to_virt pool addr =
     (if 0x1000 \<le> addr \<and> addr < 0x1000 + 16 * 4096 then
        let page_index = (addr - 0x1000) div 4096;
            offset = (addr - 0x1000) mod 4096
        in (pool + page_index * 4096) + offset
      else addr)"

definition virt_to_phys :: "u64 \<Rightarrow> u64 \<Rightarrow> u64" where
  "virt_to_phys pool vaddr =
     (let pool_end = pool + 16 * 4096 in
      if pool \<le> vaddr \<and> vaddr < pool_end then 0x1000 + (vaddr - pool) else vaddr)"

definition reset :: "bool \<Rightarrow> (MockMmHalState, unit) prog" where
  "reset oc st =
     (let st' = st\<lparr>memory_pool := replicate 16 (replicate 4096 0), alloc_mask := 0\<rparr> in
      bind (lift (add_usize oc (reset_counter st') 1)) (\<lambda>c. modify (reset_counter_update (\<lambda>_. c))) st')"

definition allocated_count :: "MockMmHalState \<Rightarrow> nat" where
  "allocated_count st = length (filter (bit (alloc_mask st)) [0 ..< 16])"

definition is_allocated :: "u64 \<Rightarrow> MockMmHalState \<Rightarrow> bool" where
  "is_allocated addr st \<longleftrightarrow>
     (if is_frame addr then
        let page_index = unat ((addr - 0x1000) div 4096)
        in alloc_mask st AND push_bit page_index 1 \<noteq> 0
      else False)"

definition reset_count :: "MockMmHalState \<Rightarrow> usize" where
  "reset_count st = reset_counter st"

section \<open>Frames and bits\<close>

definition frame_of :: "nat \<Rightarrow> u64" where
  "frame_of i = 0x1000 + of_nat i * 4096"

lemma and_push_bit_1: "w AND push_bit i 1 \<noteq> 0 \<longleftrightarrow> bit w i" for w :: "'a::len word"
  by (metis and_exp_eq_0_iff_not_bit push_bit_of_1)

lemma frame_of_index:
  assumes "i < 16"
  shows "is_frame (frame_of i)" "unat ((frame_of i - 0x1000) div 4096) = i" "frame_of i AND 0xfff = 0"
proof -
  have n: "unat (of_nat i * 4096 :: u64) = i * 4096"
    using assms by (simp add: unat_word_ariths unat_of_nat)
  have u: "unat (frame_of i) = 0x1000 + i * 4096"
    using assms n by (simp add: frame_of_def unat_word_ariths)
  have d: "frame_of i - 0x1000 = of_nat i * 4096" by (simp add: frame_of_def)
  show "unat ((frame_of i - 0x1000) div 4096) = i"
    unfolding d by (simp add: unat_div n)
  show "is_frame (frame_of i)"
    using assms u unfolding is_frame_def d
    by (simp add: word_le_nat_alt word_less_nat_alt word_unat_eq_iff unat_mod n)
  have "frame_of i AND 0xfff = take_bit 12 (frame_of i)" by (simp add: take_bit_eq_mask mask_eq_exp_minus_1)
  moreover have "unat (take_bit 12 (frame_of i)) = 0"
    by (simp add: unsigned_take_bit_eq u take_bit_nat_def)
  ultimately show "frame_of i AND 0xfff = 0" by (simp add: unat_eq_0)
qed

lemma frame_of_unat: "i < 16 \<Longrightarrow> unat (frame_of i) = 0x1000 + i * 4096"
  by (simp add: frame_of_def unat_word_ariths unat_of_nat)

lemma is_frame_frame_of:
  assumes "is_frame a"
  shows "\<exists>i < 16. a = frame_of i"
proof -
  have u: "unat (a - 0x1000) = unat a - 0x1000" "0x1000 \<le> unat a" "unat a < 0x11000" "4096 dvd unat (a - 0x1000)"
    using assms
    by (auto simp: is_frame_def unat_sub_if' word_le_nat_alt word_less_nat_alt word_unat_eq_iff unat_mod
        dvd_eq_mod_eq_0 split: if_splits)
  let ?i = "unat (a - 0x1000) div 4096"
  have "?i < 16" using u by simp
  moreover have "unat a = 0x1000 + ?i * 4096" using u by (simp add: dvd_div_mult_self)
  then have "a = frame_of ?i"
    using frame_of_unat [OF \<open>?i < 16\<close>] by (simp add: word_unat_eq_iff)
  ultimately show ?thesis by blast
qed

lemma is_allocated_frame_of: "i < 16 \<Longrightarrow> is_allocated (frame_of i) st \<longleftrightarrow> bit (alloc_mask st) i"
  by (simp add: is_allocated_def frame_of_index and_push_bit_1 del: push_bit_of_1)

text \<open>The frames in use.\<close>

definition frames_in_use :: "MockMmHalState \<Rightarrow> u64 set" where
  "frames_in_use st = {a. is_allocated a st}"

lemma frames_in_use_eq: "frames_in_use st = frame_of ` {i. i < 16 \<and> bit (alloc_mask st) i}"
proof (intro set_eqI iffI)
  fix a assume "a \<in> frames_in_use st"
  then have a: "is_allocated a st" by (simp add: frames_in_use_def)
  then obtain i where "i < 16" "a = frame_of i"
    using is_frame_frame_of by (auto simp: is_allocated_def split: if_splits)
  with a show "a \<in> frame_of ` {i. i < 16 \<and> bit (alloc_mask st) i}" by (simp add: is_allocated_frame_of)
qed (auto simp: frames_in_use_def is_allocated_frame_of)

lemma frame_of_inj: "inj_on frame_of {..<16}"
  by (rule inj_on_inverseI [of _ "\<lambda>a. unat ((a - 0x1000) div 4096)"]) (simp add: frame_of_index)

lemma alloc_loop_result:
  "alloc_loop xs st =
     (case find (\<lambda>i. \<not> bit (alloc_mask st) i) xs of
        None \<Rightarrow> (None, st)
      | Some i \<Rightarrow> (Some (frame_of i), st\<lparr>alloc_mask := alloc_mask st OR push_bit i 1\<rparr>))"
  using and_push_bit_1 [of "alloc_mask st"]
  by (induction xs) (auto simp: frame_of_def simp del: push_bit_of_1)

lemma alloc_frame_cases:
  obtains (full) "alloc_frame st = (None, st)" "\<forall>i < 16. bit (alloc_mask st) i"
  | (found) i where "i < 16" "\<not> bit (alloc_mask st) i" "\<forall>j < i. bit (alloc_mask st) j"
      "alloc_frame st = (Some (frame_of i), st\<lparr>alloc_mask := alloc_mask st OR push_bit i 1\<rparr>)"
proof (cases "find (\<lambda>i. \<not> bit (alloc_mask st) i) [0 ..< 16]")
  case None
  then have "\<forall>i < 16. bit (alloc_mask st) i"
    by (auto simp: find_None_iff simp del: upt_rec_numeral)
  with None show ?thesis by (intro full) (simp_all add: alloc_frame_def alloc_loop_result)
next
  case (Some i)
  then obtain k where "k < 16" "i = k" "\<not> bit (alloc_mask st) i" "\<forall>j < k. bit (alloc_mask st) j"
    by (auto simp: find_Some_iff simp del: upt_rec_numeral)
  with Some show ?thesis
    by (intro found [of i]) (simp_all add: alloc_frame_def alloc_loop_result)
qed

lemma set_alloc_bit:
  "i < 16 \<Longrightarrow> frames_in_use (st\<lparr>alloc_mask := alloc_mask st OR push_bit i 1\<rparr>) = insert (frame_of i) (frames_in_use st)"
  by (auto simp: frames_in_use_eq bit_or_iff bit_push_bit_iff bit_1_iff simp del: push_bit_of_1)

interpretation mock_frames: page_source alloc_frame frames_in_use "\<lambda>_. True"
proof unfold_locales
  fix st st' :: MockMmHalState and a
  assume alloc: "alloc_frame st = (Some a, st')"
  obtain i where i: "i < 16" "\<not> bit (alloc_mask st) i" "a = frame_of i"
    "st' = st\<lparr>alloc_mask := alloc_mask st OR push_bit i 1\<rparr>"
    using alloc by (rule_tac alloc_frame_cases [of st]) auto
  show "a \<notin> frames_in_use st" using i by (simp add: frames_in_use_def is_allocated_frame_of)
  show "frames_in_use st' = insert a (frames_in_use st)" using i set_alloc_bit by simp
  show "a AND 0xfff = 0" using i frame_of_index by simp
qed simp

lemma allocated_count_card: "allocated_count st = card (frames_in_use st)"
proof -
  have "card (frames_in_use st) = card {i. i < 16 \<and> bit (alloc_mask st) i}"
    unfolding frames_in_use_eq by (rule card_image) (rule inj_on_subset [OF frame_of_inj], auto)
  moreover have "{i. i < 16 \<and> bit (alloc_mask st) i} = set (filter (bit (alloc_mask st)) [0 ..< 16])"
    by (auto simp del: upt_rec_numeral)
  ultimately show ?thesis
    by (metis allocated_count_def distinct_card distinct_filter distinct_upt)
qed

lemma frames_in_use_bound: "frames_in_use st \<subseteq> frame_of ` {..<16}" "finite (frames_in_use st)"
  by (auto simp: frames_in_use_eq)

lemma dealloc_frames: "frames_in_use (dealloc_frame a st) = frames_in_use st - {a}"
proof (cases "is_frame a")
  case True
  then obtain i where i: "i < 16" "a = frame_of i" using is_frame_frame_of by blast
  have "frames_in_use (dealloc_frame a st) =
      frame_of ` {j. j < 16 \<and> bit (alloc_mask st) j \<and> j \<noteq> i}"
    using i
    by (auto simp: frames_in_use_eq dealloc_frame_def frame_of_index bit_and_iff bit_not_iff
        bit_push_bit_iff bit_1_iff simp del: push_bit_of_1)
  also have "\<dots> = frames_in_use st - {a}"
    using i inj_onD [OF frame_of_inj] by (auto simp: frames_in_use_eq)
  finally show ?thesis .
next
  case False
  then have "a \<notin> frames_in_use st" by (simp add: frames_in_use_def is_allocated_def)
  with False show ?thesis by (simp add: dealloc_frame_def)
qed

section \<open>The allocator refines a set of frames\<close>

text \<open>
  C39. The test allocator behaves as a set of at most sixteen frames. \<open>alloc_frame\<close> fails exactly when
  sixteen frames are in use, and then changes nothing; otherwise it adds one page-aligned frame that was not
  in use, without touching memory contents. \<open>dealloc_frame\<close> removes exactly its argument, and nothing when the
  address is no frame; \<open>reset\<close> empties the set; \<open>allocated_count\<close> is its size.
\<close>

theorem mock_allocator_refines:
  "(case alloc_frame st of
      (None, st') \<Rightarrow> st' = st \<and> allocated_count st = 16
    | (Some a, st') \<Rightarrow> a \<notin> frames_in_use st \<and> a AND 0xfff = 0 \<and>
        frames_in_use st' = insert a (frames_in_use st) \<and> memory_pool st' = memory_pool st \<and>
        allocated_count st' = allocated_count st + 1 \<and> allocated_count st' \<le> 16) \<and>
   frames_in_use (dealloc_frame a st) = frames_in_use st - {a} \<and>
   frames_in_use (snd (reset oc st)) = {} \<and> frames_in_use MockMmHalState_new = {} \<and>
   allocated_count st = card (frames_in_use st)"
proof (intro conjI)
  have inj: "card (frame_of ` {..<16}) = 16" using card_image [OF frame_of_inj] by simp
  show "case alloc_frame st of
      (None, st') \<Rightarrow> st' = st \<and> allocated_count st = 16
    | (Some a, st') \<Rightarrow> a \<notin> frames_in_use st \<and> a AND 0xfff = 0 \<and>
        frames_in_use st' = insert a (frames_in_use st) \<and> memory_pool st' = memory_pool st \<and>
        allocated_count st' = allocated_count st + 1 \<and> allocated_count st' \<le> 16"
  proof (cases rule: alloc_frame_cases [of st])
    case full
    then have "frames_in_use st = frame_of ` {..<16}" by (auto simp: frames_in_use_eq)
    with full inj show ?thesis by (simp add: allocated_count_card)
  next
    case (found i)
    then have a: "alloc_frame st = (Some (frame_of i), st\<lparr>alloc_mask := alloc_mask st OR push_bit i 1\<rparr>)"
      by simp
    note laws = mock_frames.alloc_fresh [OF TrueI a] mock_frames.alloc_owned [OF TrueI a]
      mock_frames.alloc_aligned [OF TrueI a]
    have "card (frames_in_use (st\<lparr>alloc_mask := alloc_mask st OR push_bit i 1\<rparr>)) \<le> 16"
      using card_mono [OF _ frames_in_use_bound(1)] inj by (metis finite_imageI finite_lessThan)
    with a laws show ?thesis
      by (simp add: allocated_count_card frames_in_use_bound(2) del: push_bit_of_1)
  qed
  show "frames_in_use (dealloc_frame a st) = frames_in_use st - {a}" by (rule dealloc_frames)
  show "frames_in_use (snd (reset oc st)) = {}"
    by (auto simp: frames_in_use_eq reset_def Let_def bind_def lift_def modify_def split: res.split)
  show "frames_in_use MockMmHalState_new = {}" by (simp add: frames_in_use_eq MockMmHalState_new_def)
  show "allocated_count st = card (frames_in_use st)" by (rule allocated_count_card)
qed

text \<open>
  Address translation in the test memory manager: for a pool that does not wrap around the address space,
  every physical address of the sixteen frames is mapped into the pool and back to itself, different
  addresses to different ones, and every address of the pool is mapped to one of the frames and back.
\<close>

theorem mock_translation_roundtrip:
  assumes pool: "unat pool + 0x10000 < 2 ^ 64"
  shows "(0x1000 \<le> paddr \<and> paddr < 0x11000 \<longrightarrow>
      pool \<le> phys_to_virt pool paddr \<and> phys_to_virt pool paddr < pool + 0x10000 \<and>
      virt_to_phys pool (phys_to_virt pool paddr) = paddr) \<and>
    (pool \<le> vaddr \<and> vaddr < pool + 0x10000 \<longrightarrow>
      0x1000 \<le> virt_to_phys pool vaddr \<and> virt_to_phys pool vaddr < 0x11000 \<and>
      phys_to_virt pool (virt_to_phys pool vaddr) = vaddr)"
proof -
  have flat: "phys_to_virt pool p = (if 0x1000 \<le> p \<and> p < 0x11000 then pool + (p - 0x1000) else p)" for p
  proof -
    have "(pool + (p - 0x1000) div 4096 * 4096) + (p - 0x1000) mod 4096 = pool + (p - 0x1000)"
      using div_mult_mod_eq [of "p - 0x1000" 4096] by (simp add: add.assoc)
    then show ?thesis by (simp add: phys_to_virt_def Let_def)
  qed
  have unflat: "virt_to_phys pool v = (if pool \<le> v \<and> v < pool + 0x10000 then 0x1000 + (v - pool) else v)" for v
    by (simp add: virt_to_phys_def)
  have "unat (pool + 0x10000) = unat pool + 0x10000"
    using pool by (simp add: unat_word_ariths)
  then show ?thesis
    using pool unfolding flat unflat
    by (auto simp: word_le_nat_alt word_less_nat_alt unat_word_ariths unat_sub_if' split: if_splits)
qed

theorem mock_translation_roundtrip_witness:
  "virt_to_phys 0x7f0000 (phys_to_virt 0x7f0000 0x3010) = 0x3010 \<and> phys_to_virt 0x7f0000 0x3010 < 0x800000"
  using mock_translation_roundtrip [of "0x7f0000" "0x3010" "0x7f0000"] by simp

end
