(* ===== verification/UnitTests.thy ===== *)
theory UnitTests
  imports VcpuRun PerCpu MockMm
begin

text \<open>
  The unit tests of the crate (the \<open>#[cfg(test)]\<close> modules), as programs on the state of the test memory manager. They
  are run against the model: what the authors of the code expect of it holds of the definitions. Tests
  that only format or measure a value, or only check an external crate, are left out.
\<close>

section \<open>Assertions\<close>

text \<open>\<open>assert!\<close>, \<open>assert_eq!\<close> and \<open>assert_ne!\<close> panic when the condition is false.\<close>

definition assert_that :: "bool \<Rightarrow> ('s, unit) prog" where
  "assert_that b = (if b then return () else panic ''assertion failed'')"

definition assert_all :: "bool list \<Rightarrow> ('s, unit) prog" where
  "assert_all bs = block (map assert_that bs)"

text \<open>A call whose \<open>Result\<close> is kept as a value: only a panic or a fault ends the test.\<close>

definition as_result :: "('s, 'a) prog \<Rightarrow> ('s, 'a res) prog" where
  "as_result p s =
     (case p s of (Panic msg, s') \<Rightarrow> (Panic msg, s') | (Fault, s') \<Rightarrow> (Fault, s') | (r, s') \<Rightarrow> (Ok r, s'))"

definition is_ok :: "'a res \<Rightarrow> bool" where
  "is_ok r = (case r of Ok _ \<Rightarrow> True | _ \<Rightarrow> False)"

text \<open>A test whose state is a local variable.\<close>

definition locally :: "'t \<Rightarrow> ('t, unit) prog \<Rightarrow> ('s, unit) prog" where
  "locally init p s = (fst (p init), s)"

definition contains :: "u64 \<Rightarrow> u64 \<Rightarrow> bool" where
  "contains flags f \<longleftrightarrow> flags AND f = f"

lemma assert_that_simps [simp]: "assert_that True = return ()" "assert_that False = panic ''assertion failed''"
  by (simp_all add: assert_that_def)

lemma assert_all_run: "list_all id bs \<Longrightarrow> assert_all bs s = (Ok (), s)"
  by (induction bs) (simp_all add: assert_all_def bind_def return_def)

section \<open>\<open>src/regs/accessors.rs\<close>\<close>

text \<open>The macro \<open>test_rw_on_reg\<close>: one test for each register; \<open>high\<close> when it has a second-byte sub-register.\<close>

definition test_read_write_on_reg :: "u8 \<Rightarrow> Gpr \<Rightarrow> bool \<Rightarrow> (GeneralRegisters, unit) prog" where
  "test_read_write_on_reg pos reg high = block
     [modify (reg_field_update reg (\<lambda>_. 0xfedcba9876543210)),
      bind (gets (\<lambda>regs. get_reg_of_index regs pos)) (\<lambda>x. bind (lift x) (\<lambda>x. assert_that (x = 0xfedcba9876543210))),
      bind (gets (\<lambda>regs. set_reg_of_index regs pos 0x123456789abcdef0)) (\<lambda>x. bind (lift x) (\<lambda>regs. modify (\<lambda>_. regs))),
      bind (gets (reg_field reg)) (\<lambda>x. assert_that (x = 0x123456789abcdef0)),
      if high then block
        [modify (set_reg8h reg 0x12),
         bind (gets (reg_field reg)) (\<lambda>x. assert_that (x = 0x123456789abc12f0)),
         modify (set_reg8h reg 0xde)]
      else return (),
      modify (set_reg8 reg 0x34),
      bind (gets (reg_field reg)) (\<lambda>x. assert_that (x = 0x123456789abcde34)),
      modify (set_reg16 reg 0x5678),
      bind (gets (reg_field reg)) (\<lambda>x. assert_that (x = 0x123456789abc5678)),
      modify (set_reg32 reg 0x9abcdef0),
      bind (gets (reg_field reg)) (\<lambda>x. assert_that (x = 0x9abcdef0))]"

definition test_rw_on_reg :: "('s, unit) prog list" where
  "test_rw_on_reg = map (\<lambda>(pos, reg, high). locally GeneralRegisters_default (test_read_write_on_reg pos reg high))
     [(0, RAX, True), (1, RCX, True), (2, RDX, True), (3, RBX, True), (5, RBP, False), (6, RSI, False),
      (7, RDI, False), (8, R8, False), (9, R9, False), (10, R10, False), (11, R11, False), (12, R12, False),
      (13, R13, False), (14, R14, False), (15, R15, False)]"

section \<open>\<open>src/msr.rs\<close>\<close>

definition test_msr_enum_values :: "('s, unit) prog" where
  "test_msr_enum_values = assert_all
     [Msr_number Msr.IA32_FEATURE_CONTROL = 0x3a, Msr_number Msr.IA32_PAT = 0x277,
      Msr_number Msr.IA32_VMX_BASIC = 0x480, Msr_number Msr.IA32_EFER = 0xc0000080,
      Msr_number Msr.IA32_LSTAR = 0xc0000082]"

definition test_msr_copy_clone :: "('s, unit) prog" where
  "test_msr_copy_clone =
     (let msr1 = Msr.IA32_EFER; msr2 = msr1; msr3 = msr1
      in assert_all [Msr_number msr1 = Msr_number msr2, Msr_number msr1 = Msr_number msr3])"

definition test_vmx_msr_ranges :: "('s, unit) prog" where
  "test_vmx_msr_ranges = assert_all
     [Msr_number Msr.IA32_VMX_BASIC \<ge> 0x480, Msr_number Msr.IA32_VMX_TRUE_ENTRY_CTLS \<le> 0x490,
      Msr_number Msr.IA32_VMX_BASIC + 1 = Msr_number Msr.IA32_VMX_PINBASED_CTLS,
      Msr_number Msr.IA32_VMX_PINBASED_CTLS + 1 = Msr_number Msr.IA32_VMX_PROCBASED_CTLS]"

definition test_fs_gs_base_msr_values :: "('s, unit) prog" where
  "test_fs_gs_base_msr_values = assert_all
     [Msr_number Msr.IA32_FS_BASE = 0xc0000100, Msr_number Msr.IA32_GS_BASE = 0xc0000101,
      Msr_number Msr.IA32_KERNEL_GSBASE = 0xc0000102,
      Msr_number Msr.IA32_FS_BASE + 1 = Msr_number Msr.IA32_GS_BASE,
      Msr_number Msr.IA32_GS_BASE + 1 = Msr_number Msr.IA32_KERNEL_GSBASE]"

definition test_system_call_msr_values :: "('s, unit) prog" where
  "test_system_call_msr_values = assert_all
     [Msr_number Msr.IA32_STAR = 0xc0000081, Msr_number Msr.IA32_LSTAR = 0xc0000082,
      Msr_number Msr.IA32_CSTAR = 0xc0000083, Msr_number Msr.IA32_FMASK = 0xc0000084,
      Msr_number Msr.IA32_STAR + 1 = Msr_number Msr.IA32_LSTAR,
      Msr_number Msr.IA32_LSTAR + 1 = Msr_number Msr.IA32_CSTAR,
      Msr_number Msr.IA32_CSTAR + 1 = Msr_number Msr.IA32_FMASK]"

text \<open>The associated constant of the trait implementation \<open>TestMsr\<close>.\<close>

definition TestMsr_MSR :: Msr where
  "TestMsr_MSR = Msr.IA32_PAT"

definition test_msr_read_write_trait :: "('s, unit) prog" where
  "test_msr_read_write_trait = assert_that (Msr_number TestMsr_MSR = 0x277)"

definition test_msr_as_u32_conversion :: "('s, unit) prog" where
  "test_msr_as_u32_conversion = block (map (\<lambda>msr. let v = Msr_number msr in assert_all [v > 0, v < 0xffffffff])
     [Msr.IA32_FEATURE_CONTROL, Msr.IA32_VMX_BASIC, Msr.IA32_EFER, Msr.IA32_LSTAR])"

definition msr_tests :: "('s, unit) prog list" where
  "msr_tests = [test_msr_enum_values, test_msr_copy_clone, test_vmx_msr_ranges, test_fs_gs_base_msr_values,
     test_system_call_msr_values, test_msr_read_write_trait, test_msr_as_u32_conversion]"

section \<open>\<open>src/vmx/structs.rs\<close>\<close>

definition test_vmx_region_new :: "MockMmHalState hw \<Rightarrow> (MockMmHalState, unit) prog" where
  "test_vmx_region_new hw =
     bind (reset (overflow_checks hw)) (\<lambda>_.
     bind (as_result (VmxRegion_new hw 0x12345 False)) (\<lambda>region.
     bind (assert_that (is_ok region)) (\<lambda>_.
     bind (unwrap (lift region)) (\<lambda>region.
     bind (lift (VmxRegion_phys_addr region)) (\<lambda>addr.
     assert_all [addr \<noteq> 0, addr mod 0x1000 = 0])))))"

text \<open>
  \<open>other\<close> is what other tests do to the shared memory manager between the two allocations: the lock is held during
  single calls only, and tests run in parallel threads.
\<close>

definition test_vmx_region_new_with_shadow ::
  "MockMmHalState hw \<Rightarrow> (MockMmHalState, unit) prog \<Rightarrow> (MockMmHalState, unit) prog" where
  "test_vmx_region_new_with_shadow hw other =
     bind (reset (overflow_checks hw)) (\<lambda>_.
     bind (as_result (VmxRegion_new hw 0x12345 False)) (\<lambda>region_no_shadow.
     bind (assert_that (is_ok region_no_shadow)) (\<lambda>_.
     bind other (\<lambda>_.
     bind (as_result (VmxRegion_new hw 0x12345 True)) (\<lambda>region_with_shadow.
     bind (assert_that (is_ok region_with_shadow)) (\<lambda>_.
     bind (unwrap (lift region_no_shadow)) (\<lambda>region1.
     bind (unwrap (lift region_with_shadow)) (\<lambda>region2.
     bind (lift (VmxRegion_phys_addr region1)) (\<lambda>addr1.
     bind (lift (VmxRegion_phys_addr region2)) (\<lambda>addr2.
     assert_all [addr1 \<noteq> 0, addr2 \<noteq> 0, addr1 \<noteq> addr2, addr1 mod 0x1000 = 0, addr2 mod 0x1000 = 0]))))))))))"

definition test_io_bitmap_creation :: "MockMmHalState hw \<Rightarrow> (MockMmHalState, unit) prog" where
  "test_io_bitmap_creation hw =
     bind (reset (overflow_checks hw)) (\<lambda>_.
     bind (as_result (IOBitmap_passthrough_all hw)) (\<lambda>passthrough_bitmap.
     bind (assert_that (is_ok passthrough_bitmap)) (\<lambda>_.
     bind (as_result (IOBitmap_intercept_all hw)) (\<lambda>intercept_bitmap.
     bind (assert_that (is_ok intercept_bitmap)) (\<lambda>_.
     bind (unwrap (lift passthrough_bitmap)) (\<lambda>bitmap.
     let (addr_a, addr_b) = IOBitmap_phys_addr bitmap in
     assert_all [addr_a \<noteq> 0, addr_b \<noteq> 0, addr_a \<noteq> addr_b]))))))"

definition test_msr_bitmap_creation :: "MockMmHalState hw \<Rightarrow> (MockMmHalState, unit) prog" where
  "test_msr_bitmap_creation hw =
     bind (reset (overflow_checks hw)) (\<lambda>_.
     bind (as_result (MsrBitmap_passthrough_all hw)) (\<lambda>passthrough_bitmap.
     bind (assert_that (is_ok passthrough_bitmap)) (\<lambda>_.
     bind (as_result (MsrBitmap_intercept_all hw)) (\<lambda>intercept_bitmap.
     bind (assert_that (is_ok intercept_bitmap)) (\<lambda>_.
     bind (unwrap (lift passthrough_bitmap)) (\<lambda>bitmap.
     let addr = MsrBitmap_phys_addr bitmap in
     assert_all [addr \<noteq> 0, addr mod 0x1000 = 0]))))))"

definition EPT_MEM_TYPE_UC :: u64 where "EPT_MEM_TYPE_UC = push_bit 0 0"

definition test_ept_pointer_creation :: "('s, unit) prog" where
  "test_ept_pointer_creation =
     (let ept_ptr1 = EPTPointer_from_table_phys 0x1000; ept_ptr2 = EPTPointer_from_table_phys 0x2000
      in assert_that (ept_ptr1 \<noteq> ept_ptr2))"

definition test_ept_pointer_getters :: "('s, unit) prog" where
  "test_ept_pointer_getters =
     (let bits = EPTPointer_from_table_phys 0x3000;
          expected_flags = EPT_MEM_TYPE_WB OR EPT_WALK_LENGTH_4 OR EPT_ENABLE_ACCESSED_DIRTY
      in assert_all [bits \<noteq> 0, bits AND expected_flags = expected_flags])"

definition test_vmx_basic_constants :: "('s, unit) prog" where
  "test_vmx_basic_constants = assert_that (VMX_MEMORY_TYPE_WRITE_BACK = 6)"

definition test_feature_control_flags :: "('s, unit) prog" where
  "test_feature_control_flags =
     (let flags = FEATURE_CONTROL_LOCKED OR VMXON_ENABLED_OUTSIDE_SMX
      in assert_all [contains flags FEATURE_CONTROL_LOCKED, contains flags VMXON_ENABLED_OUTSIDE_SMX,
           \<not> contains flags VMXON_ENABLED_INSIDE_SMX])"

definition test_ept_pointer_flags :: "('s, unit) prog" where
  "test_ept_pointer_flags =
     (let combined = EPT_MEM_TYPE_WB OR EPT_WALK_LENGTH_4 OR EPT_ENABLE_ACCESSED_DIRTY
      in assert_all [EPT_MEM_TYPE_UC = 0, EPT_MEM_TYPE_WB = 6, EPT_WALK_LENGTH_4 = push_bit 3 3,
           contains combined EPT_MEM_TYPE_WB, contains combined EPT_WALK_LENGTH_4,
           contains combined EPT_ENABLE_ACCESSED_DIRTY])"

definition test_ept_pointer_from_table_phys :: "('s, unit) prog" where
  "test_ept_pointer_from_table_phys =
     (let ept_ptr = EPTPointer_from_table_phys 0x12345000; addr_part = ept_ptr AND NOT 0xfff
      in assert_all [contains ept_ptr EPT_MEM_TYPE_WB, contains ept_ptr EPT_WALK_LENGTH_4,
           contains ept_ptr EPT_ENABLE_ACCESSED_DIRTY, addr_part = 0x12345000])"

definition test_ept_pointer_from_unaligned_addr :: "('s, unit) prog" where
  "test_ept_pointer_from_unaligned_addr =
     (let ept_ptr = EPTPointer_from_table_phys 0x12345678; addr_part = ept_ptr AND NOT 0xfff
      in assert_that (addr_part = 0x12345000))"

definition structs_tests :: "('s, unit) prog list" where
  "structs_tests = [test_ept_pointer_creation, test_ept_pointer_getters, test_vmx_basic_constants,
     test_feature_control_flags, test_ept_pointer_flags, test_ept_pointer_from_table_phys,
     test_ept_pointer_from_unaligned_addr]"

definition allocating_tests :: "MockMmHalState hw \<Rightarrow> (MockMmHalState, unit) prog list" where
  "allocating_tests hw = [test_vmx_region_new hw, test_vmx_region_new_with_shadow hw (return ()),
     test_io_bitmap_creation hw, test_msr_bitmap_creation hw]"

section \<open>\<open>src/vmx/percpu.rs\<close>\<close>

definition test_vmx_per_cpu_state_new :: "bool \<Rightarrow> (MockMmHalState, unit) prog" where
  "test_vmx_per_cpu_state_new oc =
     bind (reset oc) (\<lambda>_.
     bind (as_result (VmxPerCpuState_new 0)) (\<lambda>result.
     bind (assert_that (is_ok result)) (\<lambda>_.
     bind (unwrap (lift result)) (\<lambda>state.
     assert_that (vmcs_revision_id state = 0)))))"

definition test_vmx_per_cpu_state_default_values :: "bool \<Rightarrow> (MockMmHalState, unit) prog" where
  "test_vmx_per_cpu_state_default_values oc =
     bind (reset oc) (\<lambda>_.
     bind (unwrap (VmxPerCpuState_new 0)) (\<lambda>state.
     assert_that (vmcs_revision_id state = 0)))"

primrec new_states :: "usize list \<Rightarrow> ('s, VmxPerCpuState list) prog" where
  "new_states [] = return []"
| "new_states (i # is) =
     bind (unwrap (VmxPerCpuState_new i)) (\<lambda>state. bind (new_states is) (\<lambda>states. return (state # states)))"

definition test_multiple_cpu_states_independence :: "bool \<Rightarrow> (MockMmHalState, unit) prog" where
  "test_multiple_cpu_states_independence oc =
     bind (reset oc) (\<lambda>_.
     bind (new_states [0, 1, 2, 3]) (\<lambda>states.
     let states = states[0 := (states ! 0)\<lparr>vmcs_revision_id := 0x12345678\<rparr>];
         states = states[1 := (states ! 1)\<lparr>vmcs_revision_id := 0x87654321\<rparr>]
     in assert_all
       [vmcs_revision_id (states ! 0) = 0x12345678, vmcs_revision_id (states ! 1) = 0x87654321,
        vmcs_revision_id (states ! 2) = 0, vmcs_revision_id (states ! 3) = 0]))"

definition percpu_tests :: "bool \<Rightarrow> (MockMmHalState, unit) prog list" where
  "percpu_tests oc = [test_vmx_per_cpu_state_new oc, test_vmx_per_cpu_state_default_values oc,
     test_multiple_cpu_states_independence oc]"

section \<open>\<open>src/vmx/vcpu.rs\<close>\<close>

definition test_vm_cpu_mode_enum :: "('s, unit) prog" where
  "test_vm_cpu_mode_enum = assert_all [Real \<noteq> Protected, Protected \<noteq> Compatibility, Compatibility \<noteq> Mode64]"

definition test_general_registers_operations :: "('s, unit) prog" where
  "test_general_registers_operations =
     (let regs = GeneralRegisters_default; regs' = regs\<lparr>rax := 0x1234567890abcdef, rbx := 0xfedcba0987654321\<rparr>
      in block
        [assert_all [rax regs = 0, rbx regs = 0, rax regs' = 0x1234567890abcdef, rbx regs' = 0xfedcba0987654321],
         bind (lift (set_reg_of_index regs' 0 0x1111111111111111)) (\<lambda>regs.
         bind (lift (get_reg_of_index regs 0)) (\<lambda>x.
         bind (assert_that (x = 0x1111111111111111)) (\<lambda>_.
         bind (lift (set_reg_of_index regs 1 0x2222222222222222)) (\<lambda>regs.
         bind (lift (get_reg_of_index regs 1)) (\<lambda>x.
         assert_that (x = 0x2222222222222222))))))])"

definition test_constants :: "('s, unit) prog" where
  "test_constants = assert_all
     [VMX_PREEMPTION_TIMER_SET_VALUE = 1000000, QEMU_EXIT_PORT = 0x604, QEMU_EXIT_MAGIC = 0x2000,
      MSR_IA32_EFER_LMA_BIT = push_bit 10 1, CR0_PE = push_bit 0 1]"

definition test_bit_operations :: "('s, unit) prog" where
  "test_bit_operations =
     bind (lift (set_bits_to (0 :: u64) 0 32 0x12345678)) (\<lambda>v.
     bind (lift (set_bits_to v 32 64 0xabcdef00)) (\<lambda>v.
     assert_all [get_bits v 0 32 = 0x12345678, get_bits v 32 64 = 0xabcdef00]))"

definition create_test_vcpu_regs :: GeneralRegisters where
  "create_test_vcpu_regs = GeneralRegisters_default\<lparr>rax := 0x1000, rbx := 0x2000, rcx := 0x3000, rdx := 0x4000\<rparr>"

definition test_general_registers_clone :: "('s, unit) prog" where
  "test_general_registers_clone =
     (let regs = create_test_vcpu_regs; cloned_regs = regs
      in assert_all [rax regs = rax cloned_regs, rbx regs = rbx cloned_regs, rcx regs = rcx cloned_regs,
           rdx regs = rdx cloned_regs])"

definition test_register_bit_operations :: "('s, unit) prog" where
  "test_register_bit_operations =
     (let regs = GeneralRegisters_default; regs = regs\<lparr>rcx := 0\<rparr> in
      bind (lift (set_bits_to (rcx regs) 0 32 0x12345678)) (\<lambda>x.
      let regs = regs\<lparr>rcx := x\<rparr> in
      bind (assert_that (get_bits (rcx regs) 0 32 = 0x12345678)) (\<lambda>_.
      let regs = regs\<lparr>rdx := 0xffffffffffffffff\<rparr> in
      bind (lift (set_bits_to (rdx regs) 32 64 0)) (\<lambda>x.
      let regs = regs\<lparr>rdx := x\<rparr> in
      assert_all [get_bits (rdx regs) 32 64 = 0, get_bits (rdx regs) 0 32 = 0xffffffff]))))"

definition test_page_walk_info_struct :: "('s, unit) prog" where
  "test_page_walk_info_struct =
     (let ptw_info = \<lparr>top_entry = 0x1000, level = 4, width = 9, is_user_mode_access = False, is_write_access = False,
        is_inst_fetch = False, pse = True, wp = True, nxe = True, is_smap_on = False, is_smep_on = False\<rparr>
      in assert_all [level ptw_info = 4, width ptw_info = 9, top_entry ptw_info = 0x1000])"

text \<open>
  The remaining tests of the file repeat the arithmetic of an operation on literals. \<open>vcpu_logic_tests_agree\<close> below relates the literals
  to the operations they stand for.
\<close>

definition test_edx_eax_operations :: "('s, unit) prog" where
  "test_edx_eax_operations =
     (let rax = 0x12345678 :: u64; rdx = 0xabcdef00 :: u64;
          combined = push_bit 32 (rdx AND 0xffffffff) OR (rax AND 0xffffffff);
          val = 0xfedcba0987654321 :: u64; new_rax = val AND 0xffffffff; new_rdx = drop_bit 32 val
      in assert_all [combined = 0xabcdef0012345678, new_rax = 0x87654321, new_rdx = 0xfedcba09])"

definition test_gla2gva_logic :: "bool \<Rightarrow> ('s, unit) prog" where
  "test_gla2gva_logic oc =
     (let guest_rip = 0x1000; seg_base_64bit = 0; seg_base_other = 0x10000
      in bind (lift (add_usize oc guest_rip seg_base_64bit)) (\<lambda>gva_64bit.
         bind (assert_that (gva_64bit = 0x1000)) (\<lambda>_.
         bind (lift (add_usize oc guest_rip seg_base_other)) (\<lambda>gva_other.
         assert_that (gva_other = 0x11000)))))"

definition test_interrupt_vector_validation :: "('s, unit) prog" where
  "test_interrupt_vector_validation =
     (let valid_exception = 6 :: int; valid_interrupt = 0x20 :: int; invalid_vector = 0 :: int
      in assert_all [valid_exception < 32, valid_interrupt \<ge> 32, invalid_vector = 0])"

definition test_cpuid_constants :: "('s, unit) prog" where
  "test_cpuid_constants =
     (let LEAF_FEATURE_INFO = 0x1 :: u32; LEAF_HYPERVISOR_INFO = 0x40000000 :: u32;
          FEATURE_VMX = push_bit 5 1 :: u32; FEATURE_HYPERVISOR = push_bit 31 1 :: u32
      in assert_all [LEAF_FEATURE_INFO = 1, LEAF_HYPERVISOR_INFO = 0x40000000, FEATURE_VMX = 32,
           FEATURE_HYPERVISOR = 0x80000000])"

definition test_cr_flags_operations :: "('s, unit) prog" where
  "test_cr_flags_operations =
     (let cr0_flags = CR0_PAGING OR CR0_PE; cr4_flags = CR4_VMXE OR CR4_PAGE_SIZE_EXTENSION
      in assert_all [contains cr0_flags CR0_PAGING, contains cr0_flags CR0_PE, \<not> contains cr0_flags CR0_CACHE_DISABLE,
           contains cr4_flags CR4_VMXE, contains cr4_flags CR4_PAGE_SIZE_EXTENSION])"

definition tr_test_entry :: u64 where
  "tr_test_entry = (0 OR push_bit 47 1) OR push_bit 16 (0x1000 AND 0xFFFFFF)"

definition test_get_tr_base_logic :: "('s, unit) prog" where
  "test_get_tr_base_logic =
     (let present = tr_test_entry AND push_bit 47 1 \<noteq> 0;
          base_low = drop_bit 16 tr_test_entry AND 0xFFFFFF;
          base_high = drop_bit 56 tr_test_entry AND 0xFF;
          base_addr = base_low OR push_bit 24 base_high
      in assert_all [present, base_addr = 0x1000])"

definition test_vmx_exit_reason_enum :: "('s, unit) prog" where
  "test_vmx_exit_reason_enum =
     (let test_reason = VmxExitReason.VMCALL
      in case test_reason of VmxExitReason.VMCALL \<Rightarrow> assert_that True | _ \<Rightarrow> assert_that False)"

definition vcpu_logic_tests :: "bool \<Rightarrow> ('s, unit) prog list" where
  "vcpu_logic_tests oc = [test_edx_eax_operations, test_gla2gva_logic oc, test_interrupt_vector_validation,
     test_cpuid_constants, test_cr_flags_operations, test_get_tr_base_logic, test_vmx_exit_reason_enum]"

definition vcpu_tests :: "('s, unit) prog list" where
  "vcpu_tests = [test_vm_cpu_mode_enum, test_general_registers_operations, test_constants, test_bit_operations,
     test_general_registers_clone, test_register_bit_operations, test_page_walk_info_struct]"

section \<open>\<open>src/test_utils.rs\<close>\<close>

definition unwrap_option :: "'a option \<Rightarrow> ('s, 'a) prog" where
  "unwrap_option r = (case r of Some x \<Rightarrow> return x | None \<Rightarrow> panic ''unwrap'')"

definition alloc_unwrapped :: "(MockMmHalState, u64) prog" where
  "alloc_unwrapped st = (let (r, st') = alloc_frame st in unwrap_option r st')"

definition test_mock_allocator :: "bool \<Rightarrow> (MockMmHalState, unit) prog" where
  "test_mock_allocator oc =
     bind (reset oc) (\<lambda>_.
     bind alloc_unwrapped (\<lambda>addr1. bind alloc_unwrapped (\<lambda>addr2. bind alloc_unwrapped (\<lambda>addr3.
     assert_all
       [addr1 \<noteq> addr2, addr2 \<noteq> addr3, addr1 \<noteq> addr3,
        addr1 mod 0x1000 = 0, addr2 mod 0x1000 = 0, addr3 mod 0x1000 = 0]))))"

definition unit_tests :: "MockMmHalState hw \<Rightarrow> (MockMmHalState, unit) prog list" where
  "unit_tests hw = test_rw_on_reg @ msr_tests @ structs_tests @ allocating_tests hw @
     percpu_tests (overflow_checks hw) @ vcpu_tests @ vcpu_logic_tests (overflow_checks hw) @
     [test_mock_allocator (overflow_checks hw)]"

section \<open>The tests without memory\<close>

definition passes :: "('s, unit) prog \<Rightarrow> 's \<Rightarrow> bool" where
  "passes t s \<longleftrightarrow> fst (t s) = Ok ()"

lemmas test_steps = passes_def bind_def return_def modify_def gets_def lift_def Let_def locally_def

lemma reg_index_gpr:
  "get_reg_of_index regs (index_of_gpr reg) = Ok (reg_field reg regs)"
  "set_reg_of_index regs (index_of_gpr reg) x = Ok (reg_field_update reg (\<lambda>_. x) regs)"
  by (cases reg; simp add: get_reg_of_index_def set_reg_of_index_def)+

lemma reg_field_fold:
  "reg_field reg (reg_field_update reg f regs) = f (reg_field reg regs)"
  by (cases reg) simp_all

lemma rw_passes: "passes (locally GeneralRegisters_default (test_read_write_on_reg (index_of_gpr reg) reg high)) s"
  by (simp add: test_steps test_read_write_on_reg_def reg_index_gpr reg_field_fold set_reg8h_def set_reg8_def
      set_reg16_def set_reg32_def reg_setter_def)

lemma test_rw_on_reg_pass: "\<forall>t \<in> set test_rw_on_reg. passes t s"
  using rw_passes [of RAX True s] rw_passes [of RCX True s] rw_passes [of RDX True s] rw_passes [of RBX True s]
    rw_passes [of RBP False s] rw_passes [of RSI False s] rw_passes [of RDI False s] rw_passes [of R8 False s]
    rw_passes [of R9 False s] rw_passes [of R10 False s] rw_passes [of R11 False s] rw_passes [of R12 False s]
    rw_passes [of R13 False s] rw_passes [of R14 False s] rw_passes [of R15 False s]
  by (simp add: test_rw_on_reg_def)

lemma passes_all: "list_all id bs \<Longrightarrow> passes (assert_all bs) s"
  by (simp add: passes_def assert_all_run)

lemma msr_tests_pass: "\<forall>t \<in> set msr_tests. passes t s"
  by (simp add: msr_tests_def test_msr_enum_values_def test_msr_copy_clone_def test_vmx_msr_ranges_def
      test_fs_gs_base_msr_values_def test_system_call_msr_values_def test_msr_read_write_trait_def TestMsr_MSR_def
      test_msr_as_u32_conversion_def passes_all) (simp add: test_steps assert_all_run)

lemma vcpu_logic_tests_pass: "\<forall>t \<in> set (vcpu_logic_tests oc). passes t s"
  by (simp add: vcpu_logic_tests_def test_edx_eax_operations_def test_gla2gva_logic_def
      test_interrupt_vector_validation_def test_cpuid_constants_def test_cr_flags_operations_def
      test_get_tr_base_logic_def test_vmx_exit_reason_enum_def tr_test_entry_def contains_def passes_all Let_def)
    (simp add: test_steps add_usize_def)

text \<open>
  The operations that the last tests imitate give the same values on the literals of the tests: the pair EDX:EAX, and the
  base of a descriptor table that holds the test's entry and an empty second half.
\<close>

lemma vcpu_logic_tests_agree:
  "read_edx_eax (GeneralRegisters_default\<lparr>rax := 0x12345678, rdx := 0xabcdef00\<rparr>) = 0xabcdef0012345678"
  "rax (write_edx_eax 0xfedcba0987654321 r) = 0x87654321" "rdx (write_edx_eax 0xfedcba0987654321 r) = 0xfedcba09"
  "hw_mem64 hw base m = tr_test_entry \<Longrightarrow> hw_mem64 hw (base + 8) m = 0 \<Longrightarrow> get_tr_base hw 0 (base, 15) m = (Ok 0x1000, m)"
  by (simp_all add: read_edx_eax_def write_edx_eax_def get_tr_base_def table_entry_def tr_test_entry_def get_bits_def
      mask_eq_exp_minus_1 prog_simps Let_def)

lemma structs_tests_pass: "\<forall>t \<in> set structs_tests. passes t s"
  by (simp add: structs_tests_def test_ept_pointer_creation_def test_ept_pointer_getters_def
      test_vmx_basic_constants_def test_feature_control_flags_def test_ept_pointer_flags_def
      test_ept_pointer_from_table_phys_def test_ept_pointer_from_unaligned_addr_def passes_all contains_def
      EPTPointer_from_table_phys_def EPT_MEM_TYPE_WB_def EPT_MEM_TYPE_UC_def EPT_WALK_LENGTH_4_def
      EPT_ENABLE_ACCESSED_DIRTY_def FEATURE_CONTROL_LOCKED_def VMXON_ENABLED_INSIDE_SMX_def
      VMXON_ENABLED_OUTSIDE_SMX_def VMX_MEMORY_TYPE_WRITE_BACK_def Let_def) (simp add: test_steps)

lemma vcpu_tests_pass: "\<forall>t \<in> set vcpu_tests. passes t s"
  by (simp add: vcpu_tests_def test_vm_cpu_mode_enum_def test_general_registers_operations_def test_constants_def
      test_bit_operations_def test_general_registers_clone_def test_register_bit_operations_def
      test_page_walk_info_struct_def passes_all)
    (simp add: test_steps assert_all_run set_bits_to_def get_bits_def mask_eq_exp_minus_1 set_reg_of_index_def
      get_reg_of_index_def GeneralRegisters_default_def)

section \<open>The tests with memory\<close>

text \<open>
  The frames of \<open>axaddrspace\<close> on the test memory manager: \<open>PhysFrame::alloc\<close> takes an address of \<open>alloc_frame\<close>, and
  \<open>alloc_zero\<close> clears the page as well, which changes the pool but not the allocation mask.
\<close>

locale mock_memory =
  fixes hw :: "MockMmHalState hw"
  assumes mock_alloc: "alloc_frame st = (Some a, st1) \<Longrightarrow>
      \<exists>fr st'. hw_alloc hw st = (Ok fr, st') \<and> start_paddr fr = a \<and> alloc_mask st' = alloc_mask st1"
    and mock_alloc_zero: "alloc_frame st = (Some a, st1) \<Longrightarrow>
      \<exists>st'. hw_alloc_zero hw st = (Ok \<lparr>start_paddr = a, frame_bytes = replicate 4096 0\<rparr>, st') \<and>
        alloc_mask st' = alloc_mask st1 \<and> reset_counter st' = reset_counter st1"
    and mock_full: "alloc_frame st = (None, st1) \<Longrightarrow> \<exists>e. hw_alloc_zero hw st = (Err e, st1)"

text \<open>After \<open>reset\<close>, allocations hand out the frames in order.\<close>

lemma alloc_next:
  assumes "alloc_mask st = mask n" "n < 16"
  shows "alloc_frame st = (Some (frame_of n), st\<lparr>alloc_mask := mask (Suc n)\<rparr>)"
proof (cases rule: alloc_frame_cases [of st])
  case full
  then show ?thesis using assms by (auto simp: bit_mask_iff)
next
  case (found i)
  then have "\<not> i < n" using assms by (simp add: bit_mask_iff)
  moreover have "\<not> n < i" using found(3) assms(1) by (auto simp: bit_mask_iff)
  ultimately have "i = n" by simp
  moreover have "mask n OR push_bit n 1 = (mask (Suc n) :: u16)"
    by (rule bit_eqI) (auto simp: bit_or_iff bit_mask_iff bit_push_bit_iff bit_1_iff simp del: push_bit_of_1)
  ultimately show ?thesis using found assms by simp
qed

lemma reset_run:
  assumes "unat (reset_counter st) + 1 < 2 ^ 64"
  shows "\<exists>st'. reset oc st = (Ok (), st') \<and> alloc_mask st' = mask 0 \<and> reset_counter st' = reset_counter st + 1"
  using assms by (simp add: reset_def Let_def bind_def lift_def modify_def add_usize_def)

lemma frame_of_facts:
  "n < 16 \<Longrightarrow> frame_of n \<noteq> 0" "n < 16 \<Longrightarrow> frame_of n mod 0x1000 = 0"
  "n < 16 \<Longrightarrow> k < 16 \<Longrightarrow> frame_of n = frame_of k \<longleftrightarrow> n = k"
  using inj_onD [OF frame_of_inj, of n k]
  by (auto simp: word_unat_eq_iff frame_of_unat unat_mod)

lemma percpu_tests_pass:
  assumes "unat (reset_counter st) + 1 < 2 ^ 64"
  shows "\<forall>t \<in> set (percpu_tests oc). passes t st"
proof -
  obtain st' where "reset oc st = (Ok (), st')" using reset_run [OF assms] by blast
  then show ?thesis
    by (simp add: percpu_tests_def test_vmx_per_cpu_state_new_def test_vmx_per_cpu_state_default_values_def
        test_multiple_cpu_states_independence_def test_steps assert_all_run as_result_def is_ok_def
        VmxPerCpuState_new_def unwrap_def)
qed

lemma test_mock_allocator_passes:
  assumes "unat (reset_counter st) + 1 < 2 ^ 64"
  shows "passes (test_mock_allocator oc) st"
proof -
  obtain st' where "reset oc st = (Ok (), st')" "alloc_mask st' = mask 0" using reset_run [OF assms] by blast
  moreover have "alloc_unwrapped st = (Ok (frame_of n), st\<lparr>alloc_mask := mask (Suc n)\<rparr>)"
    if "alloc_mask st = mask n" "n < 16" for st n
    using alloc_next [OF that] by (simp add: alloc_unwrapped_def unwrap_option_def return_def)
  ultimately show ?thesis
    by (simp add: test_mock_allocator_def test_steps assert_all_run frame_of_facts del: mask_0 mask_Suc_0)
qed

context mock_memory
begin

lemma zero_next:
  assumes "alloc_mask st = mask n" "n < 16"
  obtains st' where "hw_alloc_zero hw st = (Ok \<lparr>start_paddr = frame_of n, frame_bytes = replicate 4096 0\<rparr>, st')"
    "alloc_mask st' = mask (Suc n)" "reset_counter st' = reset_counter st"
  using mock_alloc_zero [OF alloc_next [OF assms]] by auto

lemma frame_next:
  assumes "alloc_mask st = mask n" "n < 16"
  obtains fr st' where "hw_alloc hw st = (Ok fr, st')" "alloc_mask st' = mask (Suc n)"
  using mock_alloc [OF alloc_next [OF assms]] by auto

lemma region_next:
  assumes "alloc_mask st = mask n" "n < 16" "\<not> bit rid 31"
  obtains r st' where "VmxRegion_new hw rid shadow st = (Ok r, st')" "VmxRegion_phys_addr r = Ok (frame_of n)"
    "alloc_mask st' = mask (Suc n)" "reset_counter st' = reset_counter st"
proof -
  obtain st' where st': "hw_alloc_zero hw st = (Ok \<lparr>start_paddr = frame_of n, frame_bytes = replicate 4096 0\<rparr>, st')"
    "alloc_mask st' = mask (Suc n)" "reset_counter st' = reset_counter st"
    using assms(1,2) by (rule zero_next)
  with assms(3) show thesis
    using VmxRegion_new_run [OF st'(1), where rid = rid and shadow = shadow] st'(2,3) that
    by (auto simp: VmxRegion_phys_addr_def)
qed

lemma region_tests_pass:
  assumes "unat (reset_counter st) + 1 < 2 ^ 64"
  shows "passes (test_vmx_region_new hw) st" "passes (test_vmx_region_new_with_shadow hw (return ())) st"
proof -
  obtain s0 where s0: "reset (overflow_checks hw) st = (Ok (), s0)" "alloc_mask s0 = mask 0"
    using reset_run [OF assms] by blast
  have rid: "\<not> bit (0x12345 :: u32) 31" by (simp add: bit_numeral_rec)
  obtain r1 s1 where s1: "VmxRegion_new hw 0x12345 False s0 = (Ok r1, s1)" "VmxRegion_phys_addr r1 = Ok (frame_of 0)"
    "alloc_mask s1 = mask (Suc 0)" "reset_counter s1 = reset_counter s0"
    by (rule region_next [OF s0(2) _ rid]) (simp, rule that)
  obtain r2 s2 where s2: "VmxRegion_new hw 0x12345 True s1 = (Ok r2, s2)"
    "VmxRegion_phys_addr r2 = Ok (frame_of (Suc 0))" "alloc_mask s2 = mask (Suc (Suc 0))" "reset_counter s2 = reset_counter s1"
    by (rule region_next [OF s1(3) _ rid]) (simp, rule that)
  show "passes (test_vmx_region_new hw) st"
    by (simp add: test_vmx_region_new_def test_steps s0(1) s1 as_result_def is_ok_def unwrap_def assert_all_run
        frame_of_facts)
  show "passes (test_vmx_region_new_with_shadow hw (return ())) st"
    by (simp add: test_vmx_region_new_with_shadow_def test_steps s0(1) s1 s2 as_result_def is_ok_def unwrap_def
        assert_all_run frame_of_facts)
qed

lemma bitmap_tests_pass:
  assumes "unat (reset_counter st) + 1 < 2 ^ 64"
  shows "passes (test_io_bitmap_creation hw) st" "passes (test_msr_bitmap_creation hw) st"
proof -
  obtain s0 where s0: "reset (overflow_checks hw) st = (Ok (), s0)" "alloc_mask s0 = mask 0"
    using reset_run [OF assms] by blast
  obtain s1 where s1: "hw_alloc_zero hw s0 = (Ok \<lparr>start_paddr = frame_of 0, frame_bytes = replicate 4096 0\<rparr>, s1)"
    "alloc_mask s1 = mask (Suc 0)" "reset_counter s1 = reset_counter s0"
    by (rule zero_next [OF s0(2)]) (simp, rule that)
  obtain s2 where s2: "hw_alloc_zero hw s1 = (Ok \<lparr>start_paddr = frame_of (Suc 0), frame_bytes = replicate 4096 0\<rparr>, s2)"
    "alloc_mask s2 = mask (Suc (Suc 0))" "reset_counter s2 = reset_counter s1"
    by (rule zero_next [OF s1(2)]) (simp, rule that)
  obtain f3 s3 where s3: "hw_alloc hw s2 = (Ok f3, s3)" "alloc_mask s3 = mask (Suc (Suc (Suc 0)))"
    by (rule frame_next [OF s2(2)]) (simp, rule that)
  obtain f4 s4 where s4: "hw_alloc hw s3 = (Ok f4, s4)" "alloc_mask s4 = mask (Suc (Suc (Suc (Suc 0))))"
    by (rule frame_next [OF s3(2)]) (simp, rule that)
  obtain f5 s5 where s5: "hw_alloc hw s1 = (Ok f5, s5)" "alloc_mask s5 = mask (Suc (Suc 0))"
    by (rule frame_next [OF s1(2)]) (simp, rule that)
  show "passes (test_io_bitmap_creation hw) st"
    by (simp add: test_io_bitmap_creation_def IOBitmap_passthrough_all_def IOBitmap_intercept_all_def
        IOBitmap_phys_addr_def test_steps s0(1) s1 s2 s3 s4 as_result_def is_ok_def unwrap_def assert_all_run frame_of_facts)
  show "passes (test_msr_bitmap_creation hw) st"
    by (simp add: test_msr_bitmap_creation_def MsrBitmap_passthrough_all_def MsrBitmap_intercept_all_def
        MsrBitmap_phys_addr_def test_steps s0(1) s1 s5 as_result_def is_ok_def unwrap_def assert_all_run frame_of_facts)
qed

lemma unit_tests_all:
  assumes n: "unat (reset_counter st) + 1 < 2 ^ 64"
  shows "\<forall>t \<in> set (unit_tests hw). passes t st"
  using region_tests_pass [OF n] bitmap_tests_pass [OF n] test_rw_on_reg_pass [of st] msr_tests_pass [of st]
    structs_tests_pass [of st] percpu_tests_pass [OF n] vcpu_tests_pass [of st]
    vcpu_logic_tests_pass [of "overflow_checks hw" st] test_mock_allocator_passes [OF n]
  unfolding unit_tests_def allocating_tests_def by auto

text \<open>The two regions of one test are the same frame when another test resets the allocator in between.\<close>

lemma shadow_test_interfered:
  assumes "unat (reset_counter st) + 2 < 2 ^ 64"
  shows "fst (test_vmx_region_new_with_shadow hw (reset (overflow_checks hw)) st) = Panic ''assertion failed''"
proof -
  have n: "unat (reset_counter st) + 1 < 2 ^ 64" using assms by simp
  obtain s0 where s0: "reset (overflow_checks hw) st = (Ok (), s0)" "alloc_mask s0 = mask 0"
    "reset_counter s0 = reset_counter st + 1"
    using reset_run [OF n] by blast
  have rid: "\<not> bit (0x12345 :: u32) 31" by (simp add: bit_numeral_rec)
  obtain r1 s1 where s1: "VmxRegion_new hw 0x12345 False s0 = (Ok r1, s1)" "VmxRegion_phys_addr r1 = Ok (frame_of 0)"
    "alloc_mask s1 = mask (Suc 0)" "reset_counter s1 = reset_counter s0"
    by (rule region_next [OF s0(2) _ rid]) (simp, rule that)
  have "unat (reset_counter s1) + 1 < 2 ^ 64" using assms s1(4) s0(3) by (simp add: unat_word_ariths)
  then obtain s2 where s2: "reset (overflow_checks hw) s1 = (Ok (), s2)" "alloc_mask s2 = mask 0"
    using reset_run by blast
  obtain r3 s3 where s3: "VmxRegion_new hw 0x12345 True s2 = (Ok r3, s3)" "VmxRegion_phys_addr r3 = Ok (frame_of 0)"
    "alloc_mask s3 = mask (Suc 0)" "reset_counter s3 = reset_counter s2"
    by (rule region_next [OF s2(2) _ rid]) (simp, rule that)
  show ?thesis
    by (simp add: test_vmx_region_new_with_shadow_def test_steps s0(1) s1 s2(1) s3 as_result_def is_ok_def unwrap_def
        assert_all_def panic_def frame_of_facts)
qed

end

lemma frames_of_mask: "alloc_mask st' = alloc_mask st \<Longrightarrow> frames_in_use st' = frames_in_use st"
  by (simp add: frames_in_use_eq)

context mock_memory
begin

lemma zero_frameD:
  assumes "hw_alloc_zero hw st = (Ok fr, st')"
  obtains st1 where "alloc_frame st = (Some (start_paddr fr), st1)" "alloc_mask st' = alloc_mask st1"
    "frame_bytes fr = replicate 4096 0"
proof (cases "alloc_frame st")
  case (Pair r st1)
  show thesis
  proof (cases r)
    case None
    then show thesis using mock_full [of st st1] Pair assms by auto
  next
    case (Some a)
    then show thesis using mock_alloc_zero [of st a st1] Pair assms by (intro that [of st1]) auto
  qed
qed

lemma mock_owned:
  assumes "frame_addr hw st = (Some a, st')"
  shows "a \<notin> frames_in_use st" "frames_in_use st' = insert a (frames_in_use st)" "a AND 0xfff = 0"
proof -
  obtain fr where fr: "hw_alloc_zero hw st = (Ok fr, st')" "a = start_paddr fr"
    using assms by (auto simp: frame_addr_def split: prod.splits res.splits)
  obtain st1 where st1: "alloc_frame st = (Some a, st1)" "alloc_mask st' = alloc_mask st1"
    by (rule zero_frameD [OF fr(1)]) (rule that, simp_all add: fr(2))
  show "a \<notin> frames_in_use st" by (rule mock_frames.alloc_fresh [OF TrueI st1(1)])
  show "frames_in_use st' = insert a (frames_in_use st)"
    using mock_frames.alloc_owned [OF TrueI st1(1)] frames_of_mask [OF st1(2)] by simp
  show "a AND 0xfff = 0" by (rule mock_frames.alloc_aligned [OF TrueI st1(1)])
qed

lemma mock_frame_hw: "frame_hw hw frames_in_use (\<lambda>_. True)"
proof unfold_locales
  fix st fr st'
  assume "hw_alloc_zero hw st = (Ok fr, st')"
  then show "frame_bytes fr = replicate 4096 0" by (rule zero_frameD)
qed (auto dest: mock_owned)

end

sublocale mock_memory \<subseteq> mem: frame_hw hw frames_in_use "\<lambda>_. True"
  by (rule mock_frame_hw)

section \<open>The frames of the tests\<close>

text \<open>A machine on the test memory manager: any \<open>hw\<close>, with its frames taken from \<open>alloc_frame\<close>.\<close>

definition pool_index :: "u64 \<Rightarrow> nat" where
  "pool_index a = unat ((a - 0x1000) div 4096)"

definition mock_PhysFrame_alloc :: "(MockMmHalState, PhysFrame) prog" where
  "mock_PhysFrame_alloc st =
     (case alloc_frame st of
        (None, st') \<Rightarrow> (Err NoMemory, st')
      | (Some a, st') \<Rightarrow> (Ok \<lparr>start_paddr = a, frame_bytes = memory_pool st' ! pool_index a\<rparr>, st'))"

definition mock_PhysFrame_alloc_zero :: "(MockMmHalState, PhysFrame) prog" where
  "mock_PhysFrame_alloc_zero st =
     (case alloc_frame st of
        (None, st') \<Rightarrow> (Err NoMemory, st')
      | (Some a, st') \<Rightarrow> (Ok \<lparr>start_paddr = a, frame_bytes = replicate 4096 0\<rparr>,
          st'\<lparr>memory_pool := (memory_pool st')[pool_index a := replicate 4096 0]\<rparr>))"

abbreviation (input) test_machine :: "MockMmHalState hw \<Rightarrow> MockMmHalState hw" where
  "test_machine hw \<equiv> hw\<lparr>hw_alloc := mock_PhysFrame_alloc, hw_alloc_zero := mock_PhysFrame_alloc_zero\<rparr>"

interpretation test_memory: mock_memory "test_machine hw" for hw
  by unfold_locales (auto simp: mock_PhysFrame_alloc_def mock_PhysFrame_alloc_zero_def)

text \<open>
  The tests above hold of the model: run on a machine whose frames come from the
  test memory manager, from any state of it whose reset counter is not at its maximum, each of them ends without
  a failed assertion.
\<close>

theorem unit_tests_pass:
  assumes "mock_memory hw" "unat (reset_counter st) + 1 < 2 ^ 64"
  shows "\<forall>t \<in> set (unit_tests hw). passes t st"
  using mock_memory.unit_tests_all [OF assms] .

theorem unit_tests_pass_witness:
  "\<forall>hw. list_all (\<lambda>t. passes t MockMmHalState_new) (unit_tests (test_machine hw))"
  using unit_tests_pass [OF test_memory.mock_memory_axioms] by (simp add: MockMmHalState_new_def list_all_iff)

text \<open>
  The tests are not independent of one another: all of them share one memory manager and reset it, and the lock
  protects single calls only. When another thread resets it between the two allocations of
  \<open>test_vmx_region_new_with_shadow\<close>, both regions get the same frame and the test fails.
\<close>

theorem parallel_reset_fails_test:
  assumes "mock_memory hw" "unat (reset_counter st) + 2 < 2 ^ 64"
  shows "\<not> passes (test_vmx_region_new_with_shadow hw (reset (overflow_checks hw))) st"
  using mock_memory.shadow_test_interfered [OF assms] by (simp add: passes_def)

theorem parallel_reset_fails_test_witness:
  "\<forall>hw. \<not> passes (test_vmx_region_new_with_shadow (test_machine hw) (reset (overflow_checks hw))) MockMmHalState_new"
  using parallel_reset_fails_test [OF test_memory.mock_memory_axioms] by (simp add: MockMmHalState_new_def)

end
