(* ===== verification/Spec2Isabelle.thy ===== *)
theory Spec2Isabelle
  imports VcpuLaunch VcpuHost VcpuBoot Vmm PerCpuModes ErrorPath UnitTests
begin

text \<open>
  Verification of x86_vcpu, the x86_64 virtual CPU of the ArceOS hypervisor on Intel VMX.

  \<^bold>\<open>The program.\<close> A \<open>VmxPerCpuState\<close> (\<open>src/vmx/percpu.rs\<close>) turns VMX operation of a logical processor on and off.
  A \<open>VmxVcpu\<close> (\<open>src/vmx/vcpu.rs\<close>) owns a VMCS region and the I/O and MSR bitmaps (\<open>src/vmx/structs.rs\<close>), the
  guest's general-purpose registers (\<open>src/regs\<close>), its extended state, a queue of pending events and an emulated
  local APIC. \<open>setup\<close> programs the VMCS through the field accessors of \<open>src/vmx/vmcs.rs\<close>, \<open>bind\<close> and
  \<open>unbind\<close> make it current on a processor and release it, and \<open>run\<close> injects an event, enters the guest through the
  assembly of \<open>vmx_launch\<close>, \<open>vmx_resume\<close> and \<open>vmx_exit\<close>, handles the exits the vCPU can handle itself and reports
  the others to its caller.

  \<^bold>\<open>How the code is modelled.\<close> A function is a program \<open>('s, 'a) prog\<close> (\<open>VcpuPrelude\<close>): from a state to
  a result (\<open>Ok\<close>, \<open>Err\<close> with an \<open>AxError\<close>, \<open>Panic\<close>, or \<open>Fault\<close> for an exception of the processor in host code) and
  the next state, so that every early return and panic of the source is a branch. Structs are records, enums are
  datatypes with their numbers, integers are words of their width; an addition that overflows panics or wraps
  with the flag \<open>overflow_checks\<close> of the build. Methods of an object run on the pair of the object and the
  machine (\<open>on_hw\<close>, \<open>on_field\<close>, \<open>on_part\<close>, \<open>modify_self\<close> in \<open>XState\<close>). All definitions are total and executable, and
  none uses fuel: the only loops of the source run over literal ranges or lists. The recursion of \<open>as_axerr\<close>
  that the source can fall into is the result \<open>Panic ''stack overflow''\<close>; \<open>ErrorPath\<close> has the recursion as it is written,
  as a partial function, and shows when it ends and that the closed form is its value. Whether the message of an error, and with it
  that read of the error number, is evaluated is up to the logging inside \<open>ax_err_type!\<close>: the parameter \<open>err_messages\<close>.

  A VMX instruction (\<open>VmFail\<close>) can fail with or without a valid VMCS, which the code sees as an error, or raise an exception (\<open>VmFault\<close>),
  which no code of the crate sees: the program ends as \<open>Fault\<close>. An entry of the guest returns through the assembly of \<open>vmx_exit\<close> with the guest's
  registers, also when it failed while guest state was loaded (\<open>FailEntry\<close> of \<open>run\<close>), or it fails at the instruction (\<open>vmx_entry_failed\<close>).
  The address of the field \<open>host_stack_top\<close>, which \<open>write_host_rsp\<close> writes to the VMCS, is a parameter of the object (told apart by its VMCS region) and the
  state of the machine, so that it may change when the structure moves between runs.

  Code outside the repository is a parameter. \<open>'m hw\<close> (\<open>Machine\<close>) collects what the crates \<open>x86\<close>, \<open>x86_64\<close>,
  \<open>raw-cpuid\<close> and the frame allocator of \<open>axaddrspace\<close> give the code; \<open>('l, 'm) dev\<close> (\<open>Vcpu\<close>) is the local APIC of
  \<open>x86_vlapic\<close> and the access widths of \<open>axaddrspace\<close>. Their documented behaviour is stated as the laws of locales,
  each interpreted on the reference machine and devices of \<open>RefMachine\<close> and \<open>Vcpu\<close>, on which the witnesses run:
  \<^item> \<open>vmcs_hw\<close>, \<open>vmcs_current\<close>: a written VMCS field is read back, the others and the host registers are unchanged;
    with a current VMCS every declared field is accessible (an idealisation: a processor without an optional feature lacks its fields);
  \<^item> \<open>ept_hw\<close>, \<open>vmcs_bind\<close>: INVEPT succeeds for an EPT pointer that the processor accepts, which is a hypothesis on the
    given root in each property of set-up; in VMX operation VMCLEAR and VMPTRLD succeed on the region of the vCPU;
  \<^item> \<open>xstate_hw\<close>, \<open>xstate_live\<close>: XCR0 and IA32_XSS. The crate \<open>x86_64\<close> reads XCR0 as the flags it declares (\<open>xcr0_read\<close>), and a host
    with an undeclared flag set would lose it at a switch: what is shown of XCR0 is about the declared flags;
  \<^item> \<open>vmx_cpu\<close>, \<open>vmx_cpu_live\<close>, \<open>vmx_cpu_strict\<close>: CR4, VMXON and VMXOFF, which outside VMX operation raises an exception;
  \<^item> \<open>frame_hw\<close>, an extension of \<open>page_source\<close>: the frames handed out; \<open>access_widths\<close>: the four widths;
  \<^item> \<open>launch_hw\<close>: the launch state of a VMCS and the instructions that change it; a VMLAUNCH whose entry fails while guest state is loaded
    returns like an exit, is reported as such by the exit reason, and leaves the VMCS clear;
  \<^item> \<open>xstate_isolated\<close>, \<open>run_hw\<close>: the extended state and the VMCS are independent of each other;
  \<^item> \<open>boot_hw\<close>, an extension of \<open>vmcs_bind\<close> and \<open>run_hw\<close>: a VMCS that is released and loaded again has the same contents,
    and writing a field moves no vCPU structure in memory;
  \<^item> \<open>vmm_hw\<close>, an extension of \<open>frame_hw\<close>: VMCS data change only through the current VMCS, frames only by allocation;
  \<^item> \<open>mock_memory\<close>: frames that come from the memory manager of the tests (gives \<open>frame_hw\<close>).

  The contracts between components of the crate are locales too, interpreted on the model: \<open>indexed_file\<close>,
  \<open>subreg\<close> and \<open>subreg_merge\<close> (registers by index and their parts), \<open>numeric_enum\<close> (numbered enums and \<open>try_from\<close>),
  \<open>field_enum\<close> (one VMCS field enum), \<open>intercept_map\<close> (both bitmaps), \<open>page_source\<close> (also the allocator of the tests)
  and \<open>vcpu_frame\<close> (an invariant of the vCPU that its operations do not touch). \<open>vmcs_quiet\<close>, \<open>msr_quiet\<close>, \<open>quiet_hw\<close> and
  \<open>vcpu_quiet\<close> (\<open>VcpuFrames\<close>) do the same for an invariant of the machine that VMCS accesses and devices keep; the laws above give
  them as sublocales, once for each invariant that is needed.

  \<^bold>\<open>The theories.\<close>
  \<^item> \<open>Registers\<close>: \<open>src/regs/accessors.rs\<close>, \<open>diff.rs\<close>, \<open>mod.rs\<close>. Access by index and by sub-register: what is written is
    read back, the rest of the file is kept, 32-bit writes clear the upper half; indices 4 and from 16 on panic.
    (\<open>reg8h\<close> is defined for every register; the source has it for RAX, RBX, RCX and RDX.)
  \<^item> \<open>WorldSwitch\<close>: the assembly, instruction by instruction, on registers and stack memory. The entry hands
    the guest its registers, and entry followed by exit returns to the caller with the host registers and stack
    restored and the guest registers stored: this refines the one-step entry \<open>vm_enter\<close> that the vCPU uses.
  \<^item> \<open>VmxDefinitions\<close>, \<open>Machine\<close>: \<open>src/vmx/definitions.rs\<close>, \<open>src/msr.rs\<close>, \<open>instructions.rs\<close> and \<open>mod.rs\<close> of \<open>src/vmx\<close>.
  \<^item> \<open>VmxStructs\<close>, \<open>Frames\<close>: \<open>src/vmx/structs.rs\<close>. The two bitmaps change the decision of the addressed port
    or MSR and no other; what a VMX region holds.
  \<^item> \<open>VmcsFields\<close>, \<open>Vmcs\<close>: \<open>src/vmx/vmcs.rs\<close>. The encodings of all fields, and which fields a program writes
    (\<open>wrote\<close>); controls against capability MSRs, event injection, the decoding of exit information.
  \<^item> \<open>XState\<close>: \<open>XState\<close> of \<open>vcpu.rs\<close>. Switching to the guest and back restores the host.
  \<^item> \<open>Invariants\<close>: \<open>keeps\<close>, \<open>preserves\<close> and \<open>leads\<close>, a small logic of invariants along the structure of a program.
  \<^item> \<open>Vcpu\<close>, \<open>VcpuSetup\<close>: creation, binding, set-up and accessors of \<open>VmxVcpu\<close>. The host, guest and control areas as
    lists of the fields written, and that set-up as a whole runs to its end.
  \<^item> \<open>VcpuRun\<close>, \<open>VcpuExits\<close>: event injection, the exit handlers, \<open>inner_run\<close> and \<open>run\<close>. Each handler on all branches,
    which exits reach the caller, and what is reported for each of them, port accesses included. \<open>VcpuApi\<close>: the accessors of exit information.
  \<^item> \<open>VcpuEvents\<close>: what one entry does with the queue, and that the queue is emptied in order.
  \<^item> \<open>VcpuLife\<close>: every operation of the interface as a step. In every sequence of steps, with any outcomes and on any
    machine, the vCPU keeps its memory, and events are neither lost, nor duplicated, nor reordered.
  \<^item> \<open>VcpuLaunch\<close>: the vCPU's launch flag agrees with the processor, except after a first entry that failed while guest state was
    loaded: then the flag is set, the VMCS is clear and no run returns before the vCPU is unbound. The caller has obligations that
    the code does not check: \<open>setup\<close> clears the VMCS but not the flag, \<open>unbind\<close> clears the flag before
    a VMCLEAR that may fail, and a run needs the vCPU's own VMCS to be current (also in \<open>Vmm\<close>).
  \<^item> \<open>VcpuFrames\<close>: which operations keep an invariant of the machine, and what holds when they return (\<open>ends\<close>);
    \<open>RefRun\<close>: a run on the reference machine.
  \<^item> \<open>VcpuHost\<close>: whatever the guest and the handlers do, XCR0 and IA32_XSS of the host survive every run.
  \<^item> \<open>VcpuLive\<close>: one run from beginning to end. Nothing before the entry fails, the guest is entered with its own
    state, and a known exit is handled with the host's state restored. The CPUID handler on every leaf, with leaf 0xd under the
    guest's extended state.
  \<^item> \<open>VcpuBoot\<close>: creation, entry point, EPT root, set-up, binding and the first run in sequence: the guest is launched with the
    VMCS as it was programmed.
  \<^item> \<open>Vmm\<close>: the per-CPU state and any number of vCPUs on one machine, in any interleaving. Their frames stay
    different, and a step changes one vCPU, the one at a single index, and its VMCS only.
  \<^item> \<open>ErrorPath\<close>: the mutual recursion of \<open>as_axerr\<close> and \<open>instruction_error\<close>.
  \<^item> \<open>PerCpu\<close>: \<open>src/vmx/percpu.rs\<close>. Turning VMX on and off, all refusals, and the invariant of reachable states.
    \<open>PerCpuModes\<close>: with the results it returns it refines an automaton with the states off, on and failed;
    in the last one, after a VMXON that failed, an enable is refused and a disable faults.
  \<^item> \<open>MockMm\<close>: \<open>src/test_utils.rs\<close>. The allocator of the tests refines a set of at most sixteen frames.
  \<^item> \<open>UnitTests\<close>: unit tests of the crate as programs (the ones left out are named below), and that these pass on the model when run one
    after the other; that one of them fails when another thread resets the shared memory manager in between.

  \<^bold>\<open>Not modelled.\<close> Log output and the optional tracing of the guest; the spin lock around the allocator of the tests; the
  release of frames when a structure is dropped (the frame type is external); the guest itself, which is part of the
  parameter \<open>hw_vm_entry\<close>; the external crates; module declarations, re-exports and derived instances; the unit
  tests that only format or measure a value or check an external crate. Of the interleaving of threads only
  the reset of the test memory manager is considered: a vCPU and a per-CPU state are owned by one thread.
\<close>

end
